(* ===== verification/Videre_Prelude.thy ===== *)
theory Videre_Prelude imports Main "HOL-Library.Word" "HOL-Library.Sublist"
begin

text \<open>
  What every theory of the development shares: the Rust types the crates use
  (machine integers, byte vectors, strings, \<^verbatim>\<open>Result\<close>), the parts of the Rust
  standard library the code calls (saturating and rounding arithmetic on \<^verbatim>\<open>u64\<close>,
  \<^verbatim>\<open>str::trim\<close>, \<^verbatim>\<open>str::to_ascii_lowercase\<close>, decimal \<^verbatim>\<open>Display\<close>), the two
  combinators that model the \<open>?\<close> operator, and the collections of facts the
  component theories declare their lemmas into.
\<close>

section \<open>Collections\<close>

named_theorems op_defs \<open>the definitions of a component's operations, unfolded together\<close>
named_theorems frame_simps \<open>which state an operation leaves alone\<close>
named_theorems inv_intros \<open>an operation keeps its component's invariant\<close>
named_theorems codec_laws \<open>encode and decode are inverse\<close>

section \<open>Rust types\<close>

type_synonym u8 = "8 word"
type_synonym u32 = "32 word"
type_synonym u64 = "64 word"
type_synonym bytes = "u8 list"

text \<open>
  A Rust \<^verbatim>\<open>String\<close> or \<^verbatim>\<open>&str\<close> is its UTF-8 bytes, and \<^typ>\<open>string\<close> is a list of
  byte-sized characters, so a Rust string is an Isabelle string byte for byte and
  \<^verbatim>\<open>len\<close>, \<^verbatim>\<open>starts_with\<close>, \<^verbatim>\<open>==\<close> and \<^verbatim>\<open>format!\<close> are \<^const>\<open>length\<close>,
  \<^const>\<open>prefix\<close>, equality and append.
\<close>

datatype ('a, 'e) result = Ok 'a | Err 'e

fun is_ok :: "('a, 'e) result \<Rightarrow> bool" where
  "is_ok (Ok _) = True"
| "is_ok (Err _) = False"

fun map_err :: "('e \<Rightarrow> 'f) \<Rightarrow> ('a, 'e) result \<Rightarrow> ('a, 'f) result" where
  "map_err f (Ok x) = Ok x"
| "map_err f (Err e) = Err (f e)"

fun map_ok :: "('a \<Rightarrow> 'b) \<Rightarrow> ('a, 'e) result \<Rightarrow> ('b, 'e) result" where
  "map_ok f (Ok x) = Ok (f x)"
| "map_ok f (Err e) = Err e"

text \<open>The \<open>?\<close> operator on a pure result, and on an operation that also changes a state.\<close>

fun and_then :: "('a, 'e) result \<Rightarrow> ('a \<Rightarrow> ('b, 'e) result) \<Rightarrow> ('b, 'e) result" where
  "and_then (Ok x) k = k x"
| "and_then (Err e) k = Err e"

definition try_bind ::
  "('s \<Rightarrow> ('a, 'e) result \<times> 's) \<Rightarrow> ('a \<Rightarrow> 's \<Rightarrow> ('b, 'e) result \<times> 's)
    \<Rightarrow> 's \<Rightarrow> ('b, 'e) result \<times> 's" where
  "try_bind m k s = (case m s of (Ok x, s') \<Rightarrow> k x s' | (Err e, s') \<Rightarrow> (Err e, s'))"

lemma is_ok_iff: "is_ok r \<longleftrightarrow> (\<exists>x. r = Ok x)"
  by (cases r) auto

lemma map_err_eq_Ok [simp]: "map_err f r = Ok x \<longleftrightarrow> r = Ok x"
  by (cases r) auto

lemma map_err_eq_Err: "map_err f r = Err e \<longleftrightarrow> (\<exists>e'. r = Err e' \<and> e = f e')"
  by (cases r) auto

lemma map_ok_eq_Ok: "map_ok f r = Ok y \<longleftrightarrow> (\<exists>x. r = Ok x \<and> y = f x)"
  by (cases r) auto

lemma map_ok_eq_Err [simp]: "map_ok f r = Err e \<longleftrightarrow> r = Err e"
  by (cases r) auto

lemma and_then_eq_Ok: "and_then r k = Ok y \<longleftrightarrow> (\<exists>x. r = Ok x \<and> k x = Ok y)"
  by (cases r) auto

lemma try_bind_Ok [simp]: "m s = (Ok x, s') \<Longrightarrow> try_bind m k s = k x s'"
  by (simp add: try_bind_def)

lemma try_bind_Err [simp]: "m s = (Err e, s') \<Longrightarrow> try_bind m k s = (Err e, s')"
  by (simp add: try_bind_def)

text \<open>
  Whatever relation between two states is reflexive along a first operation and its
  continuation holds along their composition: the rule by which frame conditions and
  invariants pass through a sequence of \<open>?\<close> steps.
\<close>

lemma try_bind_rule:
  assumes "\<And>e s'. m s = (Err e, s') \<Longrightarrow> P (Err e) s'"
    and "\<And>x s'. m s = (Ok x, s') \<Longrightarrow> P (fst (k x s')) (snd (k x s'))"
  shows "P (fst (try_bind m k s)) (snd (try_bind m k s))"
  using assms by (auto simp: try_bind_def split: prod.splits result.splits)

section \<open>Unsigned 64-bit arithmetic of the standard library\<close>

definition u64_saturating_add :: "u64 \<Rightarrow> u64 \<Rightarrow> u64" where
  "u64_saturating_add a b = (if unat a + unat b < 2 ^ 64 then a + b else - 1)"

definition u64_saturating_mul :: "u64 \<Rightarrow> u64 \<Rightarrow> u64" where
  "u64_saturating_mul a b = (if unat a * unat b < 2 ^ 64 then a * b else - 1)"

definition u64_div_ceil :: "u64 \<Rightarrow> u64 \<Rightarrow> u64" where
  "u64_div_ceil a b = (if a mod b = 0 then a div b else a div b + 1)"

lemma unat_u64_max: "unat (- 1 :: u64) = 2 ^ 64 - 1"
  by (simp add: unsigned_minus_1_eq_mask mask_eq_exp_minus_1)

lemma unat_u64_saturating_add:
  "unat (u64_saturating_add a b) = min (unat a + unat b) (2 ^ 64 - 1)"
  using unat_u64_max
  by (auto simp: u64_saturating_add_def unat_word_ariths min_def)

lemma unat_u64_saturating_mul:
  "unat (u64_saturating_mul a b) = min (unat a * unat b) (2 ^ 64 - 1)"
  using unat_u64_max
  by (auto simp: u64_saturating_mul_def unat_word_ariths min_def)

lemma unat_u64_lt: "unat (a :: u64) < 2 ^ 64"
  using unsigned_less [of a] by simp

text \<open>Rounding up by a divisor of at least two never wraps.\<close>

lemma unat_u64_div_ceil:
  assumes "2 \<le> unat b"
  shows "unat (u64_div_ceil a b) = (unat a + unat b - 1) div unat b"
proof -
  define q r where "q = unat a div unat b" and "r = unat a mod unat b"
  have a: "unat a = q * unat b + r" and r: "r < unat b"
    using assms by (simp_all add: q_def r_def)
  have "2 * q \<le> unat a"
    using a assms by (metis le_add1 mult.commute mult_le_mono1 order_trans)
  then have q: "Suc q < 2 ^ 64"
    using unat_u64_lt [of a] by simp
  have z: "a mod b = 0 \<longleftrightarrow> r = 0"
    by (metis r_def unat_eq_0 unat_mod_distrib)
  have "unat (a div b + 1) = Suc q"
    using q by (simp add: unat_word_ariths unat_div_distrib q_def)
  moreover have "unat (a div b) = q"
    by (simp add: unat_div_distrib q_def)
  moreover have "(unat a + unat b - 1) div unat b = (if r = 0 then q else Suc q)"
  proof (cases "r = 0")
    case True
    have "(q * unat b + (unat b - 1)) div unat b = q"
      using assms by (intro div_nat_eqI) (auto simp: algebra_simps)
    then show ?thesis using True a assms by simp
  next
    case False
    then have "(Suc q * unat b + (r - 1)) div unat b = Suc q"
      using r by (intro div_nat_eqI) (auto simp: algebra_simps)
    moreover have "unat a + unat b - 1 = Suc q * unat b + (r - 1)"
      using False a by simp
    ultimately show ?thesis using False by simp
  qed
  ultimately show ?thesis
    using z by (simp add: u64_div_ceil_def)
qed

section \<open>Vectors\<close>

text \<open>\<^verbatim>\<open>Iterator::position\<close> and \<^verbatim>\<open>Vec::remove\<close>.\<close>

fun position :: "('a \<Rightarrow> bool) \<Rightarrow> 'a list \<Rightarrow> nat option" where
  "position P [] = None"
| "position P (x # xs) = (if P x then Some 0 else map_option Suc (position P xs))"

definition remove_at :: "nat \<Rightarrow> 'a list \<Rightarrow> 'a list" where
  "remove_at i xs = take i xs @ drop (Suc i) xs"

lemma position_eq_None: "position P xs = None \<longleftrightarrow> (\<forall>x\<in>set xs. \<not> P x)"
  by (induction xs) auto

lemma position_SomeD: "position P xs = Some i \<Longrightarrow> i < length xs \<and> P (xs ! i)"
  by (induction xs arbitrary: i) (auto split: if_splits)

lemma remove_at_simps [simp]:
  "remove_at 0 (x # xs) = xs" "remove_at (Suc i) (x # xs) = x # remove_at i xs"
  by (simp_all add: remove_at_def)

lemma length_remove_at: "i < length xs \<Longrightarrow> length (remove_at i xs) = length xs - 1"
  by (simp add: remove_at_def)

lemma set_remove_at: "set (remove_at i xs) \<subseteq> set xs"
  by (auto simp: remove_at_def dest: in_set_takeD in_set_dropD)

lemma map_remove_at: "map f (remove_at i xs) = remove_at i (map f xs)"
  by (simp add: remove_at_def take_map drop_map)

lemma distinct_remove_at: "distinct xs \<Longrightarrow> distinct (remove_at i xs)"
  by (simp add: remove_at_def set_take_disj_set_drop_if_distinct)

lemma distinct_remove_at_notin:
  "distinct xs \<Longrightarrow> i < length xs \<Longrightarrow> xs ! i \<notin> set (remove_at i xs)"
  by (auto simp: remove_at_def in_set_conv_nth nth_eq_iff_index_eq)

section \<open>Strings\<close>

text \<open>
  The UTF-8 encodings of the characters \<^verbatim>\<open>char::is_whitespace\<close> accepts (Unicode
  \<^verbatim>\<open>White_Space\<close>): the ASCII ones, U+0085, U+00A0, U+1680, U+2000 to U+200A, U+2028,
  U+2029, U+202F, U+205F and U+3000. No encoding is a prefix or a suffix of another.
\<close>

definition byte_str :: "nat list \<Rightarrow> string" where
  "byte_str ns = map char_of ns"

definition whitespace :: "string list" where
  "whitespace = map byte_str
     ([[9], [10], [11], [12], [13], [32], [194, 133], [194, 160], [225, 154, 128]]
      @ map (\<lambda>n. [226, 128, n]) [128, 129, 130, 131, 132, 133, 134, 135, 136, 137, 138,
          168, 169, 175]
      @ [[226, 129, 159], [227, 128, 128]])"

text \<open>
  \<^verbatim>\<open>str::trim\<close> removes leading and trailing white space, so a string equals its trim
  exactly when it neither starts nor ends with a white-space character.
\<close>

definition starts_with_ws :: "string \<Rightarrow> bool" where
  "starts_with_ws s = list_ex (\<lambda>w. prefix w s) whitespace"

definition ends_with_ws :: "string \<Rightarrow> bool" where
  "ends_with_ws s = list_ex (\<lambda>w. suffix w s) whitespace"

fun strip_ws :: "nat \<Rightarrow> string list \<Rightarrow> string \<Rightarrow> string" where
  "strip_ws 0 ws s = s"
| "strip_ws (Suc n) ws s =
     (case find (\<lambda>w. prefix w s) ws of
        None \<Rightarrow> s
      | Some w \<Rightarrow> strip_ws n ws (drop (length w) s))"

definition str_trim_start :: "string \<Rightarrow> string" where
  "str_trim_start s = strip_ws (length s) whitespace s"

definition str_trim_end :: "string \<Rightarrow> string" where
  "str_trim_end s = rev (strip_ws (length s) (map rev whitespace) (rev s))"

definition str_trim :: "string \<Rightarrow> string" where
  "str_trim s = str_trim_end (str_trim_start s)"

definition ascii_lower :: "char \<Rightarrow> char" where
  "ascii_lower c =
     (let n = of_char c :: nat in if 65 \<le> n \<and> n \<le> 90 then char_of (n + 32) else c)"

definition to_ascii_lowercase :: "string \<Rightarrow> string" where
  "to_ascii_lowercase s = map ascii_lower s"

fun show_nat :: "nat \<Rightarrow> string" where
  "show_nat n = (if n < 10 then [char_of (48 + n)]
     else show_nat (n div 10) @ [char_of (48 + n mod 10)])"

declare show_nat.simps [simp del]

text \<open>\<^verbatim>\<open>str::contains\<close>.\<close>

fun str_contains :: "string \<Rightarrow> string \<Rightarrow> bool" where
  "str_contains p [] \<longleftrightarrow> p = []"
| "str_contains p (c # s) \<longleftrightarrow> prefix p (c # s) \<or> str_contains p s"

lemma length_strip_ws: "length (strip_ws n ws s) \<le> length s"
  by (induction n ws s rule: strip_ws.induct) (auto split: option.split intro: le_trans)

lemma whitespace_nonempty: "w \<in> set whitespace \<Longrightarrow> w \<noteq> []"
  by (auto simp: whitespace_def byte_str_def)

lemma strip_ws_fixpoint:
  assumes "\<And>w. w \<in> set ws \<Longrightarrow> w \<noteq> []"
  shows "strip_ws (length s) ws s = s \<longleftrightarrow> \<not> list_ex (\<lambda>w. prefix w s) ws"
proof (cases "find (\<lambda>w. prefix w s) ws")
  case None
  then have "\<not> list_ex (\<lambda>w. prefix w s) ws"
    by (auto simp: find_None_iff list_ex_iff)
  moreover have "strip_ws (length s) ws s = s"
    using None by (cases "length s") auto
  ultimately show ?thesis by simp
next
  case (Some w)
  then have w: "w \<in> set ws" "prefix w s"
    by (auto simp: find_Some_iff)
  then have nonempty: "w \<noteq> []" "s \<noteq> []" using assms by auto
  then obtain n where n: "length s = Suc n" by (cases s) auto
  have "length (strip_ws (length s) ws s) \<le> length (drop (length w) s)"
    using n Some length_strip_ws [of n ws "drop (length w) s"] by simp
  also have "\<dots> < length s" using nonempty by simp
  finally have "strip_ws (length s) ws s \<noteq> s" by auto
  then show ?thesis using w by (auto simp: list_ex_iff)
qed

lemma str_trim_start_fixpoint: "str_trim_start s = s \<longleftrightarrow> \<not> starts_with_ws s"
  unfolding str_trim_start_def starts_with_ws_def
  by (rule strip_ws_fixpoint) (rule whitespace_nonempty)

lemma str_trim_end_fixpoint: "str_trim_end s = s \<longleftrightarrow> \<not> ends_with_ws s"
proof -
  have "str_trim_end s = s \<longleftrightarrow> strip_ws (length (rev s)) (map rev whitespace) (rev s) = rev s"
    by (auto simp: str_trim_end_def) (metis rev_rev_ident)
  also have "\<dots> \<longleftrightarrow> \<not> list_ex (\<lambda>w. prefix w (rev s)) (map rev whitespace)"
    by (rule strip_ws_fixpoint) (auto dest: whitespace_nonempty)
  also have "\<dots> \<longleftrightarrow> \<not> ends_with_ws s"
    by (auto simp: ends_with_ws_def list_ex_iff suffix_to_prefix)
  finally show ?thesis .
qed

lemma length_str_trim_start: "length (str_trim_start s) \<le> length s"
  by (simp add: str_trim_start_def length_strip_ws)

lemma length_str_trim_end: "length (str_trim_end s) \<le> length s"
  using length_strip_ws [of "length s" "map rev whitespace" "rev s"]
  by (simp add: str_trim_end_def)

lemma strip_ws_suffix: "suffix (strip_ws n ws s) s"
  by (induction n ws s rule: strip_ws.induct)
    (auto split: option.split intro: suffix_drop suffix_order.trans)

lemma suffix_same_length: "suffix t s \<Longrightarrow> length t = length s \<Longrightarrow> t = s"
  by (auto simp: suffix_def)

lemma str_trim_length_eq: "length (str_trim s) = length s \<longleftrightarrow> str_trim s = s"
proof
  assume eq: "length (str_trim s) = length s"
  then have "length (str_trim_start s) = length s"
    using length_str_trim_end [of "str_trim_start s"] length_str_trim_start [of s]
    by (simp add: str_trim_def)
  then have start: "str_trim_start s = s"
    unfolding str_trim_start_def by (intro suffix_same_length strip_ws_suffix)
  moreover have "strip_ws (length s) (map rev whitespace) (rev s) = rev s"
    using eq start by (intro suffix_same_length strip_ws_suffix)
      (simp add: str_trim_def str_trim_end_def)
  ultimately show "str_trim s = s"
    by (simp add: str_trim_def str_trim_end_def)
qed simp

lemma str_trim_fixpoint: "str_trim s = s \<longleftrightarrow> \<not> starts_with_ws s \<and> \<not> ends_with_ws s"
proof
  assume eq: "str_trim s = s"
  then have "length (str_trim_start s) = length s"
    using length_str_trim_end [of "str_trim_start s"] length_str_trim_start [of s]
    by (simp add: str_trim_def)
  then have "str_trim_start s = s"
    unfolding str_trim_start_def by (intro suffix_same_length strip_ws_suffix)
  then show "\<not> starts_with_ws s \<and> \<not> ends_with_ws s"
    using eq str_trim_start_fixpoint [of s] str_trim_end_fixpoint [of s]
    by (simp add: str_trim_def)
next
  assume "\<not> starts_with_ws s \<and> \<not> ends_with_ws s"
  then show "str_trim s = s"
    using str_trim_start_fixpoint [of s] str_trim_end_fixpoint [of s]
    by (simp add: str_trim_def)
qed

end
