(* ===== verification/Wire_Types.thy ===== *)
theory Wire_Types imports Videre_Prelude
begin

text \<open>
  The intent ontology both faces of the platform speak: the WIT packages
  \<^verbatim>\<open>videre:value-flow\<close> and \<^verbatim>\<open>videre:types\<close> (\<^verbatim>\<open>wit/videre-value-flow/types.wit\<close>,
  \<^verbatim>\<open>wit/videre-types/types.wit\<close>), which the host binds in
  \<^verbatim>\<open>videre-host/src/bindings.rs\<close> and the SDK in \<^verbatim>\<open>videre-sdk/src/bindings.rs\<close>,
  and the operator-log rendering of a wire error.
\<close>

section \<open>Value flow\<close>

record Erc20 =
  token :: bytes

datatype Asset = Native | AErc20 Erc20

record AssetAmount =
  asset :: Asset
  amount :: bytes

section \<open>Intent ontology\<close>

datatype AuthScheme = Eip1271 | Eip712

record Settlement =
  chain :: u64

record IntentHeader =
  gives :: AssetAmount
  wants :: AssetAmount
  settlement :: Settlement
  authorisation :: AuthScheme

record UnsignedTx =
  tx_chain :: u64
  tx_to :: bytes
  tx_value :: bytes
  tx_data :: bytes

datatype SubmitOutcome = Accepted bytes | RequiresSigning UnsignedTx

datatype IntentStatus = Pending | Open | Fulfilled | Cancelled | Expired

record RateLimit =
  retry_after_ms :: "u64 option"

datatype VenueError =
    UnknownVenue
  | InvalidBody string
  | Unsupported
  | Denied string
  | RateLimited RateLimit
  | Unavailable string
  | Timeout
  | InvalidReceipt
  | ReceiptMismatch

record Quotation =
  q_gives :: AssetAmount
  q_wants :: AssetAmount
  q_fee :: AssetAmount
  q_valid_until_ms :: u64

section \<open>Operator log rendering\<close>

fun venue_error_message :: "VenueError \<Rightarrow> string" where
  "venue_error_message UnknownVenue = ''unknown venue''"
| "venue_error_message (InvalidBody detail) = ''invalid body: '' @ detail"
| "venue_error_message Unsupported = ''unsupported''"
| "venue_error_message (Denied detail) = ''denied: '' @ detail"
| "venue_error_message (RateLimited rate_limit) =
     (case retry_after_ms rate_limit of
        Some ms \<Rightarrow> ''rate limited, retry after '' @ show_nat (unat ms) @ '' ms''
      | None \<Rightarrow> ''rate limited'')"
| "venue_error_message (Unavailable detail) = ''unavailable: '' @ detail"
| "venue_error_message Timeout = ''timeout''"
| "venue_error_message InvalidReceipt = ''invalid receipt''"
| "venue_error_message ReceiptMismatch = ''receipt mismatch''"

end
