(* ===== verification/Policy.thy ===== *)
theory Policy imports Wire_Types
begin

text \<open>
  \<^verbatim>\<open>videre-host/src/policy.rs\<close>: the submission quota, the watch limit with its derived
  grace, and the shared liveness flag. Before them, the part of the process every host
  operation reads and writes outside its own struct: the monotonic clock behind
  \<^verbatim>\<open>Instant::now\<close>, the cells of the shared \<^verbatim>\<open>Arc\<close>s, and the state the adapters own.
\<close>

section \<open>Durations and instants\<close>

text \<open>
  A \<^verbatim>\<open>Duration\<close> is a \<^verbatim>\<open>u64\<close> of seconds and the nanoseconds of the fraction. An
  \<^verbatim>\<open>Instant\<close> is a number of nanoseconds since the clock's origin; its representable
  maximum depends on the platform and is a field of the world.
\<close>

record Duration =
  secs :: u64
  subsec_nanos :: u32

type_synonym instant = nat

definition duration_nanos :: "Duration \<Rightarrow> nat" where
  "duration_nanos d = unat (secs d) * 1000000000 + unat (subsec_nanos d)"

definition from_secs :: "u64 \<Rightarrow> Duration" where
  "from_secs s = \<lparr>secs = s, subsec_nanos = 0\<rparr>"

definition as_millis :: "Duration \<Rightarrow> nat" where
  "as_millis d = unat (secs d) * 1000 + unat (subsec_nanos d) div 1000000"

section \<open>The process\<close>

type_synonym live_ref = nat
type_synonym slot_ref = nat

text \<open>
  \<open>clock\<close> gives the successive readings of the monotonic clock and \<open>reads\<close> counts how
  many were taken; \<open>deaths\<close> holds the liveness cells by address; \<open>allocs\<close> is the next
  free address of an \<^verbatim>\<open>Arc\<close>; \<open>ext\<close> is what the adapters own: their own fields behind
  \<^verbatim>\<open>&mut self\<close> and whatever they reach outside the process.
\<close>

record 'x world =
  clock :: "nat \<Rightarrow> instant"
  reads :: nat
  instant_max :: instant
  deaths :: "live_ref \<Rightarrow> instant option"
  allocs :: nat
  ext :: 'x

definition instant_now :: "'x world \<Rightarrow> instant \<times> 'x world" where
  "instant_now w = (clock w (reads w), w\<lparr>reads := Suc (reads w)\<rparr>)"

definition instant_checked_add :: "'x world \<Rightarrow> instant \<Rightarrow> Duration \<Rightarrow> instant option" where
  "instant_checked_add w at d =
     (if at + duration_nanos d \<le> instant_max w then Some (at + duration_nanos d) else None)"

text \<open>\<^verbatim>\<open>Instant::duration_since\<close> saturates at zero, as subtraction of naturals does.\<close>

definition duration_since :: "instant \<Rightarrow> instant \<Rightarrow> nat" where
  "duration_since now earlier = now - earlier"

text \<open>
  What a step of the process may do to the world besides its own effect: the clock keeps
  its readings and only moves forward, the platform stays the same, addresses are not
  reused.
\<close>

definition world_le :: "'x world \<Rightarrow> 'x world \<Rightarrow> bool" where
  "world_le w w' \<longleftrightarrow> clock w' = clock w \<and> instant_max w' = instant_max w
     \<and> reads w \<le> reads w' \<and> allocs w \<le> allocs w'"

lemma world_le_refl [simp]: "world_le w w"
  by (simp add: world_le_def)

lemma world_le_trans [trans]: "world_le u v \<Longrightarrow> world_le v w \<Longrightarrow> world_le u w"
  by (auto simp: world_le_def)

lemma instant_now_simps [simp]:
  "fst (instant_now w) = clock w (reads w)"
  "snd (instant_now w) = w\<lparr>reads := Suc (reads w)\<rparr>"
  by (simp_all add: instant_now_def)

lemma world_le_instant_now [simp]: "world_le w (w\<lparr>reads := Suc (reads w)\<rparr>)"
  by (simp add: world_le_def)

section \<open>Policy constants and types\<close>

definition DEFAULT_QUOTA_MAX_CHARGES :: u32 where "DEFAULT_QUOTA_MAX_CHARGES = 256"
definition DEFAULT_QUOTA_WINDOW :: Duration where "DEFAULT_QUOTA_WINDOW = from_secs 60"
definition DEFAULT_WATCH_MAX_ENTRIES :: nat where "DEFAULT_WATCH_MAX_ENTRIES = 1024"
definition DEFAULT_WATCH_EXPIRY :: Duration where "DEFAULT_WATCH_EXPIRY = from_secs 86400"
definition WATCH_GRACE_MULTIPLIER :: u64 where "WATCH_GRACE_MULTIPLIER = 2"
definition WATCH_GRACE_MAX :: Duration where "WATCH_GRACE_MAX = from_secs 86400"

definition derive_grace :: "Duration \<Rightarrow> Duration" where
  "derive_grace expiry =
     (let scaled = u64_saturating_mul (secs expiry) WATCH_GRACE_MULTIPLIER;
          capped = (if scaled < secs WATCH_GRACE_MAX then scaled else secs WATCH_GRACE_MAX)
      in from_secs capped)"

record SubmitQuota =
  max_charges :: u32
  window :: Duration

definition SubmitQuota_new :: "u32 \<Rightarrow> Duration \<Rightarrow> SubmitQuota" where
  "SubmitQuota_new m w = \<lparr>max_charges = m, window = w\<rparr>"

definition SubmitQuota_default :: SubmitQuota where
  "SubmitQuota_default = SubmitQuota_new DEFAULT_QUOTA_MAX_CHARGES DEFAULT_QUOTA_WINDOW"

record WatchLimit =
  max_entries :: nat
  expiry :: Duration
  grace :: Duration

definition WatchLimit_with_grace :: "nat \<Rightarrow> Duration \<Rightarrow> Duration \<Rightarrow> WatchLimit" where
  "WatchLimit_with_grace m e g = \<lparr>max_entries = m, expiry = e, grace = g\<rparr>"

definition WatchLimit_new :: "nat \<Rightarrow> Duration \<Rightarrow> WatchLimit" where
  "WatchLimit_new m e = WatchLimit_with_grace m e (derive_grace e)"

definition WatchLimit_default :: WatchLimit where
  "WatchLimit_default = WatchLimit_new DEFAULT_WATCH_MAX_ENTRIES DEFAULT_WATCH_EXPIRY"

lemma derive_grace_secs:
  "unat (secs (derive_grace e)) = min (2 * unat (secs e)) 86400"
  by (auto simp: derive_grace_def Let_def from_secs_def WATCH_GRACE_MAX_def
      WATCH_GRACE_MULTIPLIER_def word_less_nat_alt unat_u64_saturating_mul)

lemma derive_grace_nanos [simp]: "subsec_nanos (derive_grace e) = 0"
  by (simp add: derive_grace_def Let_def from_secs_def)

section \<open>Liveness\<close>

text \<open>A flag is the address of its cell; a clone is the same address.\<close>

definition Liveness_new :: "'x world \<Rightarrow> live_ref \<times> 'x world" where
  "Liveness_new w =
     (allocs w, w\<lparr>allocs := Suc (allocs w), deaths := (deaths w)(allocs w := None)\<rparr>)"

definition is_alive :: "'x world \<Rightarrow> live_ref \<Rightarrow> bool" where
  "is_alive w l \<longleftrightarrow> deaths w l = None"

definition dead_since :: "'x world \<Rightarrow> live_ref \<Rightarrow> instant option" where
  "dead_since w l = deaths w l"

definition mark_dead :: "live_ref \<Rightarrow> 'x world \<Rightarrow> 'x world" where
  "mark_dead l w =
     (if deaths w l = None
      then let (now, w1) = instant_now w in w1\<lparr>deaths := (deaths w1)(l := Some now)\<rparr>
      else w)"

definition mark_alive :: "live_ref \<Rightarrow> 'x world \<Rightarrow> 'x world" where
  "mark_alive l w = w\<lparr>deaths := (deaths w)(l := None)\<rparr>"

lemma world_le_liveness [simp]:
  "world_le w (snd (Liveness_new w))" "world_le w (mark_dead l w)" "world_le w (mark_alive l w)"
  by (auto simp: world_le_def Liveness_new_def mark_dead_def mark_alive_def instant_now_def)

lemma is_alive_simps [simp]:
  "is_alive (w\<lparr>reads := n\<rparr>) l = is_alive w l"
  "is_alive (w\<lparr>allocs := n\<rparr>) l = is_alive w l"
  "is_alive (w\<lparr>ext := x\<rparr>) l = is_alive w l"
  "is_alive (mark_alive l' w) l = (l = l' \<or> is_alive w l)"
  "is_alive (mark_dead l' w) l = (l \<noteq> l' \<and> is_alive w l)"
  by (auto simp: is_alive_def mark_alive_def mark_dead_def instant_now_def)

lemma ext_liveness [simp]:
  "ext (mark_dead l w) = ext w" "ext (mark_alive l w) = ext w" "ext (snd (Liveness_new w)) = ext w"
  by (auto simp: mark_dead_def mark_alive_def Liveness_new_def instant_now_def)

text \<open>Marking a dead venue dead again keeps the first death instant.\<close>

lemma mark_dead_idem: "mark_dead l (mark_dead l w) = mark_dead l w"
  by (auto simp: mark_dead_def instant_now_def)

lemma dead_since_mark_dead:
  "dead_since (mark_dead l w) l =
     (case dead_since w l of Some t \<Rightarrow> Some t | None \<Rightarrow> Some (clock w (reads w)))"
  by (auto simp: mark_dead_def dead_since_def instant_now_def split: option.split)

end
