(* ===== verification/Status_Body.thy ===== *)
theory Status_Body imports Wire_Types
begin

text \<open>
  \<^verbatim>\<open>crates/videre-status-body/src/lib.rs\<close>: the versioned status body and the versioned
  envelope of an intent-status transition. The borsh serialisers the derives generate
  are third-party code, so they are arguments: \<open>ser\<close> stands for \<^verbatim>\<open>borsh::to_writer\<close>
  on the type (the bytes written, or the failure detail) and \<open>de\<close> for
  \<^verbatim>\<open>borsh::from_slice\<close> (the value, or the failure detail). The locale \<open>borsh_codec\<close>
  states what the code relies on: borsh reads back what it wrote, and what it reads
  back it would have written (the format is canonical, so trailing bytes are refused).
\<close>

section \<open>The borsh contract\<close>

type_synonym 'a ser = "'a \<Rightarrow> (bytes, string) result"
type_synonym 'a de = "bytes \<Rightarrow> ('a, string) result"

locale borsh_codec =
  fixes ser :: "'a ser" and de :: "'a de"
  assumes de_ser: "ser x = Ok bs \<Longrightarrow> de bs = Ok x"
    and ser_de: "de bs = Ok x \<Longrightarrow> ser x = Ok bs"
begin

lemma ser_inj: "ser x = Ok bs \<Longrightarrow> ser y = Ok bs \<Longrightarrow> x = y"
  using de_ser [of x bs] de_ser [of y bs] by simp

lemma de_inj: "de bs = Ok x \<Longrightarrow> de cs = Ok x \<Longrightarrow> bs = cs"
  using ser_de [of bs x] ser_de [of cs x] by simp

lemma de_iff_ser: "de bs = Ok x \<longleftrightarrow> ser x = Ok bs"
  using de_ser ser_de by blast

end

section \<open>Versions, errors and types\<close>

definition VERSION_V1 :: u8 where "VERSION_V1 = 1"

definition ENVELOPE_VERSION_V1 :: u8 where "ENVELOPE_VERSION_V1 = 1"

definition INTENT_STATUS_KIND :: string where "INTENT_STATUS_KIND = ''intent-status''"

record IntentStatusUpdate =
  upd_venue :: string
  upd_receipt :: bytes
  upd_status :: bytes

datatype EnvelopeError =
    EnvEmpty
  | EnvUnknownVersion u8
  | EnvMalformed u8 string

text \<open>
  The status body has its own lifecycle enum, distinct from the wire one; its order is
  the wire form.
\<close>

datatype Lifecycle = LPending | LOpen | LFulfilled | LCancelled | LExpired

record FailReason =
  code :: string
  detail :: string

record StatusBody =
  sb_status :: Lifecycle
  sb_proof :: "bytes option"
  sb_reason :: "FailReason option"

datatype EncodeError = EncodeError string

datatype DecodeError =
    DecEmpty
  | DecUnknownVersion u8
  | DecMalformed u8 string

section \<open>Encode and decode\<close>

definition IntentStatusUpdate_encode ::
  "IntentStatusUpdate ser \<Rightarrow> IntentStatusUpdate \<Rightarrow> (bytes, EncodeError) result" where
  "IntentStatusUpdate_encode ser u =
     (case ser u of
        Err err \<Rightarrow> Err (EncodeError err)
      | Ok payload \<Rightarrow> Ok (ENVELOPE_VERSION_V1 # payload))"

fun IntentStatusUpdate_decode ::
  "IntentStatusUpdate de \<Rightarrow> bytes \<Rightarrow> (IntentStatusUpdate, EnvelopeError) result" where
  "IntentStatusUpdate_decode de [] = Err EnvEmpty"
| "IntentStatusUpdate_decode de (version # payload) =
     (if version = ENVELOPE_VERSION_V1
      then map_err (EnvMalformed ENVELOPE_VERSION_V1) (de payload)
      else Err (EnvUnknownVersion version))"

definition StatusBody_encode ::
  "StatusBody ser \<Rightarrow> StatusBody \<Rightarrow> (bytes, EncodeError) result" where
  "StatusBody_encode ser b =
     (case ser b of
        Err err \<Rightarrow> Err (EncodeError err)
      | Ok payload \<Rightarrow> Ok (VERSION_V1 # payload))"

fun StatusBody_decode :: "StatusBody de \<Rightarrow> bytes \<Rightarrow> (StatusBody, DecodeError) result" where
  "StatusBody_decode de [] = Err DecEmpty"
| "StatusBody_decode de (version # payload) =
     (if version = VERSION_V1
      then map_err (DecMalformed VERSION_V1) (de payload)
      else Err (DecUnknownVersion version))"

lemma StatusBody_encode_eq_Ok:
  "StatusBody_encode ser b = Ok bs \<longleftrightarrow> (\<exists>p. ser b = Ok p \<and> bs = VERSION_V1 # p)"
  by (auto simp: StatusBody_encode_def split: result.splits)

lemma StatusBody_decode_eq_Ok:
  "StatusBody_decode de bs = Ok b \<longleftrightarrow> (\<exists>p. bs = VERSION_V1 # p \<and> de p = Ok b)"
  by (cases "(de, bs)" rule: StatusBody_decode.cases) auto

lemma IntentStatusUpdate_encode_eq_Ok:
  "IntentStatusUpdate_encode ser u = Ok bs \<longleftrightarrow>
     (\<exists>p. ser u = Ok p \<and> bs = ENVELOPE_VERSION_V1 # p)"
  by (auto simp: IntentStatusUpdate_encode_def split: result.splits)

lemma IntentStatusUpdate_decode_eq_Ok:
  "IntentStatusUpdate_decode de bs = Ok u \<longleftrightarrow>
     (\<exists>p. bs = ENVELOPE_VERSION_V1 # p \<and> de p = Ok u)"
  by (cases "(de, bs)" rule: IntentStatusUpdate_decode.cases) auto

section \<open>The contract carries over to the versioned form\<close>

text \<open>
  A versioned codec over a lawful payload codec is lawful again: the same locale, with
  the tagged encoder and decoder. The failure details differ in type, so they are
  forgotten by \<open>map_err (\<lambda>_. [])\<close>.
\<close>

lemma StatusBody_codec:
  assumes "borsh_codec ser de"
  shows "borsh_codec (\<lambda>b. map_err (\<lambda>_. []) (StatusBody_encode ser b))
           (\<lambda>bs. map_err (\<lambda>_. []) (StatusBody_decode de bs))"
  using borsh_codec.de_iff_ser [OF assms]
  by unfold_locales (auto simp: StatusBody_encode_eq_Ok StatusBody_decode_eq_Ok)

lemma IntentStatusUpdate_codec:
  assumes "borsh_codec ser de"
  shows "borsh_codec (\<lambda>u. map_err (\<lambda>_. []) (IntentStatusUpdate_encode ser u))
           (\<lambda>bs. map_err (\<lambda>_. []) (IntentStatusUpdate_decode de bs))"
  using borsh_codec.de_iff_ser [OF assms]
  by unfold_locales
    (auto simp: IntentStatusUpdate_encode_eq_Ok IntentStatusUpdate_decode_eq_Ok)

lemma StatusBody_encode_decode [codec_laws]:
  "borsh_codec ser de \<Longrightarrow> StatusBody_encode ser b = Ok bs \<Longrightarrow> StatusBody_decode de bs = Ok b"
  by (auto simp: StatusBody_encode_eq_Ok StatusBody_decode_eq_Ok borsh_codec.de_ser)

lemma IntentStatusUpdate_encode_decode [codec_laws]:
  "borsh_codec ser de \<Longrightarrow> IntentStatusUpdate_encode ser u = Ok bs
     \<Longrightarrow> IntentStatusUpdate_decode de bs = Ok u"
  by (auto simp: IntentStatusUpdate_encode_eq_Ok IntentStatusUpdate_decode_eq_Ok
      borsh_codec.de_ser)

lemma StatusBody_encode_nonempty: "StatusBody_encode ser b = Ok bs \<Longrightarrow> bs \<noteq> []"
  by (auto simp: StatusBody_encode_eq_Ok)

end
