(* ===== verification/Registry.thy ===== *)
theory Registry imports Policy Status_Body
begin

text \<open>
  \<^verbatim>\<open>videre-host/src/registry.rs\<close>: the venue registry. This theory holds the state and
  every operation, in the order of the source; the theories \<open>Registry_Frame\<close>,
  \<open>Registry_Run\<close>, \<open>Registry_Ledger\<close>, \<open>Registry_Watch\<close> and \<open>Registry_Poll\<close> hold what is
  proved of them, and \<open>Registry_Concurrent\<close> splits two of them into tasks.

  An operation takes the registry and returns its result with the registry after it. The
  mutexes of the struct are the fields themselves: each critical section of the source is
  one field update here. The operator-log warnings are not modelled. An \<^verbatim>\<open>await\<close> on an
  adapter is a call of the adapter's function on the world; a call made while another
  task holds the slot waits, so one operation's calls run in the order written.
\<close>

section \<open>Identifiers, guard and adapters\<close>

datatype VenueId = VenueId (as_str: string)

datatype InvalidVenueId = InvalidVenueId string

text \<open>
  \<^verbatim>\<open>VenueId::new\<close> delegates to the runtime's \<^verbatim>\<open>ModuleId::parse\<close>, which is the argument
  \<open>parse_module_id\<close>: the spelling it accepts, or why it refuses.
\<close>

definition VenueId_new ::
  "(string \<Rightarrow> (string, string) result) \<Rightarrow> string \<Rightarrow> (VenueId, InvalidVenueId) result" where
  "VenueId_new parse_module_id i =
     (case parse_module_id i of Ok m \<Rightarrow> Ok (VenueId m) | Err e \<Rightarrow> Err (InvalidVenueId e))"

record GuardContext =
  gc_caller :: string
  gc_venue :: VenueId
  gc_header :: IntentHeader

datatype GuardVerdict = Allow | Deny string

text \<open>The guard is shared and may keep state of its own, so it runs on the world.\<close>

type_synonym 'x EgressGuard = "GuardContext \<Rightarrow> 'x world \<Rightarrow> GuardVerdict \<times> 'x world"

definition unit_guard :: "'x EgressGuard" where
  "unit_guard ctx w = (Allow, w)"

type_synonym ('x, 'a) adapter_call = "'x world \<Rightarrow> ('a, VenueError) result \<times> 'x world"

record 'x VenueInvoker =
  inv_derive_header :: "bytes \<Rightarrow> ('x, IntentHeader) adapter_call"
  inv_quote :: "bytes \<Rightarrow> ('x, Quotation) adapter_call"
  inv_submit :: "bytes \<Rightarrow> ('x, SubmitOutcome) adapter_call"
  inv_status :: "bytes \<Rightarrow> ('x, IntentStatus) adapter_call"
  inv_cancel :: "bytes \<Rightarrow> ('x, unit) adapter_call"

text \<open>An \<^verbatim>\<open>Arc<AsyncMutex<dyn VenueInvoker>>\<close>: the address of the slot and the adapter in it.\<close>

record 'x AdapterSlot =
  slot_addr :: slot_ref
  invoker :: "'x VenueInvoker"

record 'x InstalledVenue =
  slot :: "'x AdapterSlot"
  liveness :: live_ref
  installed_versions :: "u32 set"

section \<open>Registry state\<close>

record WatchedIntent =
  w_venue :: VenueId
  w_receipt :: bytes
  w_last :: "IntentStatus option"
  w_expires_at :: "instant option"

definition is_terminal :: "IntentStatus \<Rightarrow> bool" where
  "is_terminal st = (case st of
     Fulfilled \<Rightarrow> True | Cancelled \<Rightarrow> True | Expired \<Rightarrow> True | Pending \<Rightarrow> False | Open \<Rightarrow> False)"

fun lower_status :: "IntentStatus \<Rightarrow> Lifecycle" where
  "lower_status Pending = LPending"
| "lower_status Open = LOpen"
| "lower_status Fulfilled = LFulfilled"
| "lower_status Cancelled = LCancelled"
| "lower_status Expired = LExpired"

definition status_body :: "IntentStatus \<Rightarrow> StatusBody" where
  "status_body st = \<lparr>sb_status = lower_status st, sb_proof = None, sb_reason = None\<rparr>"

record 'x VenueRegistry =
  adapters :: "VenueId \<Rightarrow> 'x InstalledVenue option"
  guard :: "'x EgressGuard"
  quota :: SubmitQuota
  per_caller :: "string \<Rightarrow> instant list option"
  watch_limit :: WatchLimit
  watched :: "WatchedIntent list"
  env :: "'x world"

definition NAMESPACE :: string where "NAMESPACE = ''videre''"

text \<open>Run something on the world: read the clock, call an adapter, consult the guard.\<close>

definition on_env :: "('x world \<Rightarrow> 'a \<times> 'x world) \<Rightarrow> 'x VenueRegistry \<Rightarrow> 'a \<times> 'x VenueRegistry" where
  "on_env m r = (let (x, w) = m (env r) in (x, r\<lparr>env := w\<rparr>))"

section \<open>Installing and resolving venues\<close>

datatype DuplicateVenue = DuplicateVenue VenueId

definition register ::
  "VenueId \<Rightarrow> live_ref \<Rightarrow> u32 set \<Rightarrow> 'x VenueInvoker \<Rightarrow> 'x VenueRegistry
    \<Rightarrow> (unit, DuplicateVenue) result \<times> 'x VenueRegistry" where
  "register venue live versions adp r =
     (if (case adapters r venue of None \<Rightarrow> False | Some v \<Rightarrow> is_alive (env r) (liveness v))
      then (Err (DuplicateVenue venue), r)
      else let addr = allocs (env r);
               installed = \<lparr>slot = \<lparr>slot_addr = addr, invoker = adp\<rparr>, liveness = live,
                            installed_versions = versions\<rparr>
           in (Ok (), r\<lparr>adapters := (adapters r)(venue \<mapsto> installed),
                        env := (env r)\<lparr>allocs := Suc addr\<rparr>\<rparr>))"

definition install_for_test ::
  "VenueId \<Rightarrow> live_ref \<Rightarrow> 'x VenueInvoker \<Rightarrow> 'x VenueRegistry
    \<Rightarrow> (unit, DuplicateVenue) result \<times> 'x VenueRegistry" where
  "install_for_test venue live adp = register venue live {} adp"

definition body_versions :: "'x VenueRegistry \<Rightarrow> VenueId \<Rightarrow> u32 set option" where
  "body_versions r venue = map_option installed_versions (adapters r venue)"

definition dead_venue_detail :: "VenueId \<Rightarrow> string" where
  "dead_venue_detail venue = ''venue '' @ as_str venue @ '' is dead pending restart''"

definition resolve :: "VenueId \<Rightarrow> 'x VenueRegistry \<Rightarrow> ('x AdapterSlot, VenueError) result" where
  "resolve venue r =
     (case adapters r venue of
        None \<Rightarrow> Err UnknownVenue
      | Some installed \<Rightarrow>
          if \<not> is_alive (env r) (liveness installed)
          then Err (Unavailable (dead_venue_detail venue))
          else Ok (slot installed))"

definition venue_count :: "'x VenueRegistry \<Rightarrow> nat" where
  "venue_count r = card (dom (adapters r))"

section \<open>The quota ledger\<close>

fun prune_before :: "instant \<Rightarrow> nat \<Rightarrow> instant list \<Rightarrow> instant list" where
  "prune_before now win [] = []"
| "prune_before now win (front # rest) =
     (if duration_since now front > win then prune_before now win rest else front # rest)"

definition prune :: "instant list \<Rightarrow> Duration \<Rightarrow> 'x world \<Rightarrow> instant list \<times> 'x world" where
  "prune history win w =
     (let (now, w1) = instant_now w in (prune_before now (duration_nanos win) history, w1))"

definition history_of :: "'x VenueRegistry \<Rightarrow> string \<Rightarrow> instant list" where
  "history_of r caller = (case per_caller r caller of None \<Rightarrow> [] | Some h \<Rightarrow> h)"

definition quota_admits :: "string \<Rightarrow> 'x VenueRegistry \<Rightarrow> bool \<times> 'x VenueRegistry" where
  "quota_admits caller r =
     (let (history, w) = prune (history_of r caller) (window (quota r)) (env r)
      in ((of_nat (length history) :: u32) < max_charges (quota r),
          r\<lparr>per_caller := (per_caller r)(caller \<mapsto> history), env := w\<rparr>))"

definition charge :: "string \<Rightarrow> 'x VenueRegistry \<Rightarrow> 'x VenueRegistry" where
  "charge caller r =
     (let (history, w1) = prune (history_of r caller) (window (quota r)) (env r);
          (now, w2) = instant_now w1
      in r\<lparr>per_caller := (per_caller r)(caller \<mapsto> history @ [now]), env := w2\<rparr>)"

definition window_ms :: "Duration \<Rightarrow> u64" where
  "window_ms win = (if as_millis win < 2 ^ 64 then of_nat (as_millis win) else - 1)"

definition rate_limited_by :: "SubmitQuota \<Rightarrow> VenueError" where
  "rate_limited_by q = RateLimited \<lparr>retry_after_ms = Some (window_ms (window q))\<rparr>"

section \<open>The watch list\<close>

definition expired_at :: "instant \<Rightarrow> WatchedIntent \<Rightarrow> bool" where
  "expired_at now w = (case w_expires_at w of None \<Rightarrow> False | Some at \<Rightarrow> \<not> now < at)"

definition prune_expired :: "'x VenueRegistry \<Rightarrow> nat \<times> 'x VenueRegistry" where
  "prune_expired r =
     (let (now, w) = instant_now (env r);
          kept = filter (\<lambda>e. \<not> expired_at now e) (watched r)
      in (length (watched r) - length kept, r\<lparr>watched := kept, env := w\<rparr>))"

definition watches :: "VenueId \<Rightarrow> bytes \<Rightarrow> WatchedIntent \<Rightarrow> bool" where
  "watches venue receipt w \<longleftrightarrow> w_venue w = venue \<and> w_receipt w = receipt"

text \<open>\<^verbatim>\<open>Instant::now().checked_add(grace)\<close>.\<close>

definition give_up_deadline :: "'x VenueRegistry \<Rightarrow> instant option \<times> 'x VenueRegistry" where
  "give_up_deadline r =
     (let (now, w) = instant_now (env r)
      in (instant_checked_add w now (grace (watch_limit r)), r\<lparr>env := w\<rparr>))"

definition watch :: "VenueId \<Rightarrow> bytes \<Rightarrow> 'x VenueRegistry \<Rightarrow> bool \<times> 'x VenueRegistry" where
  "watch venue receipt r =
     (let (evicted, r1) = prune_expired r in
      if list_ex (watches venue receipt) (watched r1) then (True, r1)
      else if length (watched r1) < max_entries (watch_limit r1) then
        (let (deadline, r2) = give_up_deadline r1 in
         (True, r2\<lparr>watched := watched r2 @
            [\<lparr>w_venue = venue, w_receipt = receipt, w_last = None, w_expires_at = deadline\<rparr>]\<rparr>))
      else (False, r1))"

definition watched_count :: "'x VenueRegistry \<Rightarrow> nat" where
  "watched_count r = length (watched r)"

section \<open>The keeper-facing calls\<close>

text \<open>
  What \<^verbatim>\<open>submit\<close> does once it holds the slot: derive the header, charge, run the advisory
  guard, submit, and put an accepted receipt under watch.
\<close>

definition submit_in_slot ::
  "'x VenueInvoker \<Rightarrow> string \<Rightarrow> VenueId \<Rightarrow> bytes \<Rightarrow> 'x VenueRegistry
    \<Rightarrow> (SubmitOutcome, VenueError) result \<times> 'x VenueRegistry" where
  "submit_in_slot adapter caller venue body r =
     (case on_env (inv_derive_header adapter body) r of
        (Err e, r1) \<Rightarrow>
          (Err e, (case e of InvalidBody _ \<Rightarrow> charge caller r1 | _ \<Rightarrow> r1))
      | (Ok header, r1) \<Rightarrow>
          (let ctx = \<lparr>gc_caller = caller, gc_venue = venue, gc_header = header\<rparr>;
               r2 = charge caller r1;
               (verdict, r3) = on_env (guard r2 ctx) r2
           in case on_env (inv_submit adapter body) r3 of
                (Err e, r4) \<Rightarrow> (Err e, r4)
              | (Ok outcome, r4) \<Rightarrow>
                  (Ok outcome,
                   (case outcome of
                      Accepted receipt \<Rightarrow> snd (watch venue receipt r4)
                    | RequiresSigning _ \<Rightarrow> r4))))"

definition submit ::
  "string \<Rightarrow> VenueId \<Rightarrow> bytes \<Rightarrow> 'x VenueRegistry
    \<Rightarrow> (SubmitOutcome, VenueError) result \<times> 'x VenueRegistry" where
  "submit caller venue body r =
     (case resolve venue r of
        Err e \<Rightarrow> (Err e, r)
      | Ok sl \<Rightarrow>
          (case quota_admits caller r of
             (False, r1) \<Rightarrow> (Err (rate_limited_by (quota r1)), r1)
           | (True, r1) \<Rightarrow> submit_in_slot (invoker sl) caller venue body r1))"

definition quote ::
  "string \<Rightarrow> VenueId \<Rightarrow> bytes \<Rightarrow> 'x VenueRegistry
    \<Rightarrow> (Quotation, VenueError) result \<times> 'x VenueRegistry" where
  "quote caller venue body r =
     (case resolve venue r of
        Err e \<Rightarrow> (Err e, r)
      | Ok sl \<Rightarrow>
          (case quota_admits caller r of
             (False, r1) \<Rightarrow> (Err (rate_limited_by (quota r1)), r1)
           | (True, r1) \<Rightarrow> on_env (inv_quote (invoker sl) body) (charge caller r1)))"

definition observe ::
  "VenueId \<Rightarrow> bytes \<Rightarrow> 'x VenueRegistry \<Rightarrow> (unit, VenueError) result \<times> 'x VenueRegistry" where
  "observe venue receipt r =
     (case resolve venue r of
        Err e \<Rightarrow> (Err e, r)
      | Ok _ \<Rightarrow>
          (case watch venue receipt r of
             (True, r1) \<Rightarrow> (Ok (), r1)
           | (False, r1) \<Rightarrow> (Err (Unavailable ''status watch set full''), r1)))"

definition status ::
  "VenueId \<Rightarrow> bytes \<Rightarrow> 'x VenueRegistry
    \<Rightarrow> (IntentStatus, VenueError) result \<times> 'x VenueRegistry" where
  "status venue receipt r =
     (case resolve venue r of
        Err e \<Rightarrow> (Err e, r)
      | Ok sl \<Rightarrow> on_env (inv_status (invoker sl) receipt) r)"

definition cancel ::
  "VenueId \<Rightarrow> bytes \<Rightarrow> 'x VenueRegistry \<Rightarrow> (unit, VenueError) result \<times> 'x VenueRegistry" where
  "cancel venue receipt r =
     (case resolve venue r of
        Err e \<Rightarrow> (Err e, r)
      | Ok sl \<Rightarrow> on_env (inv_cancel (invoker sl) receipt) r)"

section \<open>Status polling\<close>

definition record_polled_status ::
  "StatusBody ser \<Rightarrow> VenueId \<Rightarrow> bytes \<Rightarrow> IntentStatus \<Rightarrow> 'x VenueRegistry
    \<Rightarrow> IntentStatusUpdate option \<times> 'x VenueRegistry" where
  "record_polled_status ser venue receipt st r =
     (case position (watches venue receipt) (watched r) of
        None \<Rightarrow> (None, r)
      | Some pos \<Rightarrow>
          if w_last (watched r ! pos) = Some st then
            (let (deadline, r1) = give_up_deadline r in
             (None, r1\<lparr>watched := (watched r1)
                [pos := (watched r1 ! pos)\<lparr>w_expires_at := deadline\<rparr>]\<rparr>))
          else
            (case StatusBody_encode ser (status_body st) of
               Ok body \<Rightarrow>
                 (Some \<lparr>upd_venue = as_str venue, upd_receipt = receipt, upd_status = body\<rparr>,
                  if is_terminal st then r\<lparr>watched := remove_at pos (watched r)\<rparr>
                  else (let (deadline, r1) = give_up_deadline r in
                        r1\<lparr>watched := (watched r1)
                          [pos := (watched r1 ! pos)\<lparr>w_last := Some st,
                                                     w_expires_at := deadline\<rparr>]\<rparr>))
             | Err _ \<Rightarrow>
                 (let (deadline, r1) = give_up_deadline r in
                  (None, r1\<lparr>watched := (watched r1)
                     [pos := (watched r1 ! pos)\<lparr>w_expires_at := deadline\<rparr>]\<rparr>))))"

definition poll_one ::
  "StatusBody ser \<Rightarrow> VenueId \<Rightarrow> bytes \<Rightarrow> 'x VenueRegistry
    \<Rightarrow> IntentStatusUpdate list \<times> 'x VenueRegistry" where
  "poll_one ser venue receipt r =
     (case resolve venue r of
        Err _ \<Rightarrow> ([], r)
      | Ok sl \<Rightarrow>
          (case on_env (inv_status (invoker sl) receipt) r of
             (Ok st, r1) \<Rightarrow>
               (let (upd, r2) = record_polled_status ser venue receipt st r1
                in (case upd of Some u \<Rightarrow> [u] | None \<Rightarrow> [], r2))
           | (Err _, r1) \<Rightarrow> ([], r1)))"

fun poll_loop ::
  "StatusBody ser \<Rightarrow> (VenueId \<times> bytes) list \<Rightarrow> 'x VenueRegistry
    \<Rightarrow> IntentStatusUpdate list \<times> 'x VenueRegistry" where
  "poll_loop ser [] r = ([], r)"
| "poll_loop ser ((venue, receipt) # rest) r =
     (let (us, r1) = poll_one ser venue receipt r;
          (us', r2) = poll_loop ser rest r1
      in (us @ us', r2))"

definition poll_status_transitions ::
  "StatusBody ser \<Rightarrow> 'x VenueRegistry \<Rightarrow> IntentStatusUpdate list \<times> 'x VenueRegistry" where
  "poll_status_transitions ser r =
     (let (evicted, r1) = prune_expired r
      in poll_loop ser (map (\<lambda>w. (w_venue w, w_receipt w)) (watched r1)) r1)"

section \<open>The builder\<close>

record 'x VenueRegistryBuilder =
  b_guard :: "'x EgressGuard"
  b_quota :: SubmitQuota
  b_watch_limit :: WatchLimit

definition VenueRegistryBuilder_new :: "SubmitQuota \<Rightarrow> 'x VenueRegistryBuilder" where
  "VenueRegistryBuilder_new q =
     \<lparr>b_guard = unit_guard, b_quota = q, b_watch_limit = WatchLimit_default\<rparr>"

definition with_guard :: "'x EgressGuard \<Rightarrow> 'x VenueRegistryBuilder \<Rightarrow> 'x VenueRegistryBuilder" where
  "with_guard g b = b\<lparr>b_guard := g\<rparr>"

definition with_watch_limit ::
  "WatchLimit \<Rightarrow> 'x VenueRegistryBuilder \<Rightarrow> 'x VenueRegistryBuilder" where
  "with_watch_limit l b = b\<lparr>b_watch_limit := l\<rparr>"

definition build :: "'x VenueRegistryBuilder \<Rightarrow> 'x world \<Rightarrow> 'x VenueRegistry" where
  "build b w =
     (let q = SubmitQuota_new (max (max_charges (b_quota b)) 1) (window (b_quota b));
          l = WatchLimit_with_grace (max (max_entries (b_watch_limit b)) 1)
                (expiry (b_watch_limit b)) (grace (b_watch_limit b))
      in \<lparr>adapters = Map.empty, guard = b_guard b, quota = q, per_caller = Map.empty,
          watch_limit = l, watched = [], env = w\<rparr>)"

end
