(* ===== verification/Registry_Frame.thy ===== *)
theory Registry_Frame imports Registry
begin

text \<open>
  What each operation of the registry leaves alone, and how it moves the world. The
  configuration (adapters, guard, quota, watch limit) is fixed by every operation but
  \<open>register\<close>; the ledger moves only through \<open>quota_admits\<close> and \<open>charge\<close>; the watch list
  only through \<open>watch\<close>, \<open>prune_expired\<close> and \<open>record_polled_status\<close>. The locale
  \<open>venue_invoker\<close> is the contract of an adapter towards the process it runs in.
\<close>

section \<open>Configuration\<close>

definition config where
  "config r = (adapters r, guard r, quota r, watch_limit r)"

lemma config_fields:
  "config r = config r' \<Longrightarrow> adapters r = adapters r'"
  "config r = config r' \<Longrightarrow> guard r = guard r'"
  "config r = config r' \<Longrightarrow> quota r = quota r'"
  "config r = config r' \<Longrightarrow> watch_limit r = watch_limit r'"
  by (simp_all add: config_def)

lemma config_update [simp]:
  "config (r\<lparr>per_caller := l\<rparr>) = config r"
  "config (r\<lparr>watched := ws\<rparr>) = config r"
  "config (r\<lparr>env := w\<rparr>) = config r"
  by (simp_all add: config_def)

lemma on_env_simps [simp]:
  "fst (on_env m r) = fst (m (env r))"
  "env (snd (on_env m r)) = snd (m (env r))"
  "config (snd (on_env m r)) = config r"
  "per_caller (snd (on_env m r)) = per_caller r"
  "watched (snd (on_env m r)) = watched r"
  by (simp_all add: on_env_def split: prod.splits)

lemma on_env_eq: "on_env m r = (x, r') \<longleftrightarrow> x = fst (m (env r)) \<and> r' = r\<lparr>env := snd (m (env r))\<rparr>"
  by (auto simp: on_env_def split: prod.splits)

section \<open>The ledger operations\<close>

lemma prune_eq: "prune h win w =
    (prune_before (clock w (reads w)) (duration_nanos win) h, w\<lparr>reads := Suc (reads w)\<rparr>)"
  by (simp add: prune_def instant_now_def)

lemma quota_admits_eq:
  "quota_admits caller r =
     (let h = prune_before (clock (env r) (reads (env r))) (duration_nanos (window (quota r)))
                (history_of r caller)
      in ((of_nat (length h) :: u32) < max_charges (quota r),
          r\<lparr>per_caller := (per_caller r)(caller \<mapsto> h),
            env := (env r)\<lparr>reads := Suc (reads (env r))\<rparr>\<rparr>))"
  by (simp add: quota_admits_def prune_eq Let_def)

lemma charge_eq:
  "charge caller r =
     r\<lparr>per_caller := (per_caller r)(caller \<mapsto>
          prune_before (clock (env r) (reads (env r))) (duration_nanos (window (quota r)))
            (history_of r caller) @ [clock (env r) (Suc (reads (env r)))]),
       env := (env r)\<lparr>reads := Suc (Suc (reads (env r)))\<rparr>\<rparr>"
  by (simp add: charge_def prune_eq instant_now_def)

lemma ledger_frame [simp]:
  "config (snd (quota_admits caller r)) = config r"
  "config (charge caller r) = config r"
  "watched (snd (quota_admits caller r)) = watched r"
  "watched (charge caller r) = watched r"
  by (simp_all add: quota_admits_eq charge_eq Let_def)

lemma history_of_other [simp]:
  "c \<noteq> caller \<Longrightarrow> history_of (snd (quota_admits caller r)) c = history_of r c"
  "c \<noteq> caller \<Longrightarrow> history_of (charge caller r) c = history_of r c"
  by (simp_all add: quota_admits_eq charge_eq history_of_def Let_def)

lemma history_of_update [simp]:
  "history_of (r\<lparr>watched := ws\<rparr>) = history_of r"
  "history_of (r\<lparr>env := w\<rparr>) = history_of r"
  "history_of (snd (on_env m r)) = history_of r"
  by (simp_all add: history_of_def fun_eq_iff)

lemma history_of_per_caller: "per_caller r = per_caller r' \<Longrightarrow> history_of r = history_of r'"
  by (simp add: history_of_def fun_eq_iff)

section \<open>The watch operations\<close>

lemma prune_expired_eq:
  "snd (prune_expired r) =
     r\<lparr>watched := filter (\<lambda>e. \<not> expired_at (clock (env r) (reads (env r))) e) (watched r),
       env := (env r)\<lparr>reads := Suc (reads (env r))\<rparr>\<rparr>"
  by (simp add: prune_expired_def instant_now_def Let_def)

lemma give_up_deadline_simps [simp]:
  "config (snd (give_up_deadline r)) = config r"
  "per_caller (snd (give_up_deadline r)) = per_caller r"
  "watched (snd (give_up_deadline r)) = watched r"
  "env (snd (give_up_deadline r)) = (env r)\<lparr>reads := Suc (reads (env r))\<rparr>"
  by (simp_all add: give_up_deadline_def instant_now_def)

lemma fst_give_up_deadline:
  "fst (give_up_deadline r) =
     instant_checked_add (env r) (clock (env r) (reads (env r))) (grace (watch_limit r))"
  by (simp add: give_up_deadline_def instant_now_def instant_checked_add_def)

lemma prune_expired_frame [simp]:
  "config (snd (prune_expired r)) = config r"
  "per_caller (snd (prune_expired r)) = per_caller r"
  by (simp_all add: prune_expired_eq)

lemma watch_frame [simp]:
  "config (snd (watch venue receipt r)) = config r"
  "per_caller (snd (watch venue receipt r)) = per_caller r"
  by (simp_all add: watch_def case_prod_unfold Let_def)

lemma history_of_watch [simp]: "history_of (snd (watch venue receipt r)) = history_of r"
  by (rule history_of_per_caller) simp

lemma record_polled_status_frame [simp]:
  "config (snd (record_polled_status ser venue receipt st r)) = config r"
  "per_caller (snd (record_polled_status ser venue receipt st r)) = per_caller r"
  by (auto simp: record_polled_status_def case_prod_unfold Let_def
      split: option.splits result.splits)

section \<open>The calls\<close>

lemma submit_in_slot_frame [simp]:
  "config (snd (submit_in_slot adp caller venue body r)) = config r"
  "c \<noteq> caller \<Longrightarrow> history_of (snd (submit_in_slot adp caller venue body r)) c = history_of r c"
  by (auto simp: submit_in_slot_def case_prod_unfold Let_def
      split: result.splits VenueError.splits SubmitOutcome.splits)

lemma submit_frame [simp]:
  "config (snd (submit caller venue body r)) = config r"
  "c \<noteq> caller \<Longrightarrow> history_of (snd (submit caller venue body r)) c = history_of r c"
  by (auto simp: submit_def case_prod_unfold split: result.splits bool.splits)

lemma quote_frame [simp]:
  "config (snd (quote caller venue body r)) = config r"
  "watched (snd (quote caller venue body r)) = watched r"
  "c \<noteq> caller \<Longrightarrow> history_of (snd (quote caller venue body r)) c = history_of r c"
  by (auto simp: quote_def case_prod_unfold split: result.splits bool.splits)

lemma observe_frame [simp]:
  "config (snd (observe venue receipt r)) = config r"
  "per_caller (snd (observe venue receipt r)) = per_caller r"
  by (auto simp: observe_def case_prod_unfold split: result.splits bool.splits)

lemma status_cancel_frame [simp]:
  "config (snd (status venue receipt r)) = config r"
  "per_caller (snd (status venue receipt r)) = per_caller r"
  "watched (snd (status venue receipt r)) = watched r"
  "config (snd (cancel venue receipt r)) = config r"
  "per_caller (snd (cancel venue receipt r)) = per_caller r"
  "watched (snd (cancel venue receipt r)) = watched r"
  by (auto simp: status_def cancel_def split: result.splits)

lemma poll_one_frame [simp]:
  "config (snd (poll_one ser venue receipt r)) = config r"
  "per_caller (snd (poll_one ser venue receipt r)) = per_caller r"
  by (auto simp: poll_one_def case_prod_unfold Let_def split: result.splits)

lemma poll_loop_frame [simp]:
  "config (snd (poll_loop ser ps r)) = config r"
  "per_caller (snd (poll_loop ser ps r)) = per_caller r"
  by (induction ps arbitrary: r) (auto simp: case_prod_unfold Let_def)

lemma poll_frame [simp]:
  "config (snd (poll_status_transitions ser r)) = config r"
  "per_caller (snd (poll_status_transitions ser r)) = per_caller r"
  by (simp_all add: poll_status_transitions_def case_prod_unfold Let_def)

section \<open>Each field of the configuration\<close>

lemmas config_frame [simp] =
  config_fields [OF on_env_simps(3)]
  config_fields [OF ledger_frame(1)] config_fields [OF ledger_frame(2)]
  config_fields [OF give_up_deadline_simps(1)] config_fields [OF prune_expired_frame(1)]
  config_fields [OF watch_frame(1)] config_fields [OF record_polled_status_frame(1)]
  config_fields [OF submit_in_slot_frame(1)] config_fields [OF submit_frame(1)]
  config_fields [OF quote_frame(1)] config_fields [OF observe_frame(1)]
  config_fields [OF status_cancel_frame(1)] config_fields [OF status_cancel_frame(4)]
  config_fields [OF poll_one_frame(1)] config_fields [OF poll_loop_frame(1)]
  config_fields [OF poll_frame(1)]

end
