(* ===== verification/Registry_Run.thy ===== *)
theory Registry_Run imports Registry_Frame
begin

text \<open>
  Runs of the registry: the contract an adapter and a guard keep towards the process, the
  events a host drives the registry with, and the states a run of them reaches. An event
  is one call of the registry's interface, a venue being installed, or the rest of the
  process moving on: time passes, the supervisor marks a venue dead or alive, adapters
  change what they own.
\<close>

section \<open>The contract of adapters and guards\<close>

text \<open>A call may do anything to what the adapter owns; it cannot turn the clock back.\<close>

definition lawful_call :: "('x world \<Rightarrow> 'a \<times> 'x world) \<Rightarrow> bool" where
  "lawful_call m \<longleftrightarrow> (\<forall>w. world_le w (snd (m w)))"

locale venue_invoker =
  fixes adp :: "'x VenueInvoker"
  assumes lawful_derive_header: "lawful_call (inv_derive_header adp body)"
    and lawful_quote: "lawful_call (inv_quote adp body)"
    and lawful_submit: "lawful_call (inv_submit adp body)"
    and lawful_status: "lawful_call (inv_status adp receipt)"
    and lawful_cancel: "lawful_call (inv_cancel adp receipt)"

lemma lawful_callD: "lawful_call m \<Longrightarrow> world_le w (snd (m w))"
  by (simp add: lawful_call_def)

lemma lawful_call_on_env: "lawful_call m \<Longrightarrow> world_le (env r) (env (snd (on_env m r)))"
  by (simp add: lawful_callD)

lemma lawful_unit_guard: "lawful_call (unit_guard ctx)"
  by (simp add: lawful_call_def unit_guard_def)

locale lawful_registry =
  fixes r :: "'x VenueRegistry"
  assumes lawful_guard: "lawful_call (guard r ctx)"
    and lawful_adapter: "adapters r venue = Some i \<Longrightarrow> venue_invoker (invoker (slot i))"
begin

lemma resolve_lawful: "resolve venue r = Ok sl \<Longrightarrow> venue_invoker (invoker sl)"
  by (auto simp: resolve_def lawful_adapter split: option.splits if_splits)

end

definition lawful_config where
  "lawful_config = (\<lambda>(as, g, q, l). (\<forall>ctx. lawful_call (g ctx))
     \<and> (\<forall>venue i. as venue = Some i \<longrightarrow> venue_invoker (invoker (slot i))))"

lemma lawful_registry_config: "lawful_registry r \<longleftrightarrow> lawful_config (config r)"
  by (simp add: lawful_registry_def lawful_config_def config_def)

section \<open>How each operation moves the world\<close>

text \<open>The instant the next reading of the clock will give.\<close>

definition next_reading :: "'x world \<Rightarrow> instant" where
  "next_reading w = clock w (reads w)"

lemma next_reading_mono:
  assumes "world_le w w'" and "mono (clock w)"
  shows "next_reading w \<le> next_reading w'"
proof -
  have "clock w (reads w) \<le> clock w (reads w')"
    using assms by (intro monoD [of "clock w"]) (simp_all add: world_le_def)
  with assms show ?thesis by (simp add: next_reading_def world_le_def)
qed

lemma world_le_read: "world_le w w' \<Longrightarrow> world_le w (w'\<lparr>reads := Suc (reads w')\<rparr>)"
  by (simp add: world_le_def)

lemma charge_world [simp]: "world_le (env r) (env (charge caller r))"
  by (simp add: charge_eq world_le_def)

lemma quota_admits_world [simp]: "world_le (env r) (env (snd (quota_admits caller r)))"
  by (simp add: quota_admits_eq Let_def)

lemma prune_expired_world [simp]: "world_le (env r) (env (snd (prune_expired r)))"
  by (simp add: prune_expired_eq)

lemma watch_world [simp]: "world_le (env r) (env (snd (watch venue receipt r)))"
  using prune_expired_world [of r]
  by (auto simp: watch_def case_prod_unfold Let_def world_le_read)

lemma record_polled_status_world [simp]:
  "world_le (env r) (env (snd (record_polled_status ser venue receipt st r)))"
  by (auto simp: record_polled_status_def case_prod_unfold Let_def
      split: option.split result.split)

context lawful_registry
begin

lemma submit_in_slot_world:
  assumes "venue_invoker adp" and "config r1 = config r"
  shows "world_le (env r1) (env (snd (submit_in_slot adp caller venue body r1)))"
proof -
  have g: "guard (charge caller (snd (on_env (inv_derive_header adp body) r1))) = guard r"
    by (rule config_fields) (simp add: assms)
  note laws = venue_invoker.lawful_derive_header [OF assms(1), of body]
    venue_invoker.lawful_submit [OF assms(1), of body]
  define r2 where "r2 = charge caller (snd (on_env (inv_derive_header adp body) r1))"
  have r2: "world_le (env r1) (env r2)"
    unfolding r2_def using lawful_call_on_env [OF laws(1), of r1] charge_world world_le_trans
    by blast
  have d: "world_le (env r1) (env (snd (on_env (inv_derive_header adp body) r1)))"
    by (rule lawful_call_on_env [OF laws(1)])
  have s: "world_le (env r1) (env (snd (on_env (inv_submit adp body)
             (snd (on_env (guard r ctx) r2)))))" for ctx
    using lawful_call_on_env [OF lawful_guard [of ctx], of r2] lawful_call_on_env [OF laws(2)]
      r2 world_le_trans by blast
  have w: "world_le (env r1) (env (snd (watch venue receipt (snd (on_env (inv_submit adp body)
             (snd (on_env (guard r ctx) r2)))))))" for ctx receipt
    using s watch_world world_le_trans by blast
  show ?thesis
    using r2 d s w g
    by (auto simp: submit_in_slot_def case_prod_unfold Let_def r2_def [symmetric]
        simp del: on_env_simps split: result.split VenueError.split SubmitOutcome.split)
qed

lemma submit_world: "world_le (env r) (env (snd (submit caller venue body r)))"
proof -
  have "world_le (env r) (env (snd (submit_in_slot (invoker sl) caller venue body
          (snd (quota_admits caller r)))))" if "resolve venue r = Ok sl" for sl
    using submit_in_slot_world [OF resolve_lawful [OF that]] quota_admits_world world_le_trans
    by (metis ledger_frame(1))
  then show ?thesis
    by (auto simp: submit_def case_prod_unfold split: result.split bool.split)
qed

lemma quote_world: "world_le (env r) (env (snd (quote caller venue body r)))"
proof -
  have "world_le (env r) (env (snd (on_env (inv_quote (invoker sl) body)
          (charge caller (snd (quota_admits caller r))))))" if "resolve venue r = Ok sl" for sl
    using lawful_call_on_env [OF venue_invoker.lawful_quote [OF resolve_lawful [OF that]]]
      quota_admits_world charge_world world_le_trans by metis
  then show ?thesis
    by (auto simp: quote_def case_prod_unfold simp del: on_env_simps
        split: result.split bool.split)
qed

lemma observe_world: "world_le (env r) (env (snd (observe venue receipt r)))"
  using watch_world [of r venue receipt]
  by (auto simp: observe_def case_prod_unfold split: result.split bool.split)

lemma status_world: "world_le (env r) (env (snd (status venue receipt r)))"
  using lawful_call_on_env [OF venue_invoker.lawful_status [OF resolve_lawful]]
  by (auto simp: status_def simp del: on_env_simps split: result.split)

lemma cancel_world: "world_le (env r) (env (snd (cancel venue receipt r)))"
  using lawful_call_on_env [OF venue_invoker.lawful_cancel [OF resolve_lawful]]
  by (auto simp: cancel_def simp del: on_env_simps split: result.split)

lemma poll_one_world: "world_le (env r) (env (snd (poll_one ser venue receipt r)))"
proof -
  have st: "world_le (env r) (env (snd (on_env (inv_status (invoker sl) receipt) r)))"
    if "resolve venue r = Ok sl" for sl
    by (rule lawful_call_on_env [OF venue_invoker.lawful_status [OF resolve_lawful [OF that]]])
  then have "world_le (env r) (env (snd (record_polled_status ser venue receipt s
          (snd (on_env (inv_status (invoker sl) receipt) r)))))"
    if "resolve venue r = Ok sl" for sl s
    using that record_polled_status_world world_le_trans by blast
  with st show ?thesis
    by (auto simp: poll_one_def case_prod_unfold Let_def simp del: on_env_simps
        split: result.split)
qed

end

lemma poll_loop_world:
  "lawful_registry r \<Longrightarrow> world_le (env r) (env (snd (poll_loop ser ps r)))"
proof (induction ps arbitrary: r)
  case (Cons p ps)
  obtain venue receipt where p: "p = (venue, receipt)" by fastforce
  let ?r1 = "snd (poll_one ser venue receipt r)"
  have "lawful_registry ?r1"
    using Cons.prems by (simp add: lawful_registry_config)
  then have "world_le (env ?r1) (env (snd (poll_loop ser ps ?r1)))"
    by (rule Cons.IH)
  with lawful_registry.poll_one_world [OF Cons.prems]
  have "world_le (env r) (env (snd (poll_loop ser ps ?r1)))"
    by (rule world_le_trans)
  then show ?case
    by (simp add: p case_prod_unfold Let_def)
qed simp

lemma poll_world:
  assumes "lawful_registry r"
  shows "world_le (env r) (env (snd (poll_status_transitions ser r)))"
proof -
  have "lawful_registry (snd (prune_expired r))"
    using assms by (simp add: lawful_registry_config)
  then show ?thesis
    by (simp add: poll_status_transitions_def case_prod_unfold Let_def)
      (rule world_le_trans [OF prune_expired_world poll_loop_world])
qed

section \<open>Events and runs\<close>

datatype (discs_sels) 'x reg_event =
    ESubmit string VenueId bytes
  | EQuote string VenueId bytes
  | EObserve VenueId bytes
  | EStatus VenueId bytes
  | ECancel VenueId bytes
  | EPoll
  | ERegister VenueId live_ref "u32 set" "'x VenueInvoker"
  | EProcess "'x world"

fun apply_event :: "StatusBody ser \<Rightarrow> 'x reg_event \<Rightarrow> 'x VenueRegistry \<Rightarrow> 'x VenueRegistry" where
  "apply_event ser (ESubmit caller venue body) r = snd (submit caller venue body r)"
| "apply_event ser (EQuote caller venue body) r = snd (quote caller venue body r)"
| "apply_event ser (EObserve venue receipt) r = snd (observe venue receipt r)"
| "apply_event ser (EStatus venue receipt) r = snd (status venue receipt r)"
| "apply_event ser (ECancel venue receipt) r = snd (cancel venue receipt r)"
| "apply_event ser EPoll r = snd (poll_status_transitions ser r)"
| "apply_event ser (ERegister venue live versions adp) r = snd (register venue live versions adp r)"
| "apply_event ser (EProcess w) r = r\<lparr>env := w\<rparr>"

fun lawful_event :: "'x reg_event \<Rightarrow> 'x VenueRegistry \<Rightarrow> bool" where
  "lawful_event (ERegister venue live versions adp) r = venue_invoker adp"
| "lawful_event (EProcess w) r = world_le (env r) w"
| "lawful_event _ r = True"

lemma register_simps [simp]:
  "guard (snd (register venue live versions adp r)) = guard r"
  "quota (snd (register venue live versions adp r)) = quota r"
  "watch_limit (snd (register venue live versions adp r)) = watch_limit r"
  "per_caller (snd (register venue live versions adp r)) = per_caller r"
  "watched (snd (register venue live versions adp r)) = watched r"
  "world_le (env r) (env (snd (register venue live versions adp r)))"
  by (auto simp: register_def Let_def world_le_def)

lemma register_lawful:
  "lawful_registry r \<Longrightarrow> venue_invoker adp
    \<Longrightarrow> lawful_registry (snd (register venue live versions adp r))"
  by (auto simp: register_def Let_def lawful_registry_def)

lemma apply_event_config: "\<not> is_ERegister ev \<Longrightarrow> config (apply_event ser ev r) = config r"
  by (cases ev) simp_all

lemma apply_event_lawful:
  "lawful_registry r \<Longrightarrow> lawful_event ev r \<Longrightarrow> lawful_registry (apply_event ser ev r)"
  using apply_event_config [of ev ser r]
  by (cases "is_ERegister ev")
    (auto simp: lawful_registry_config [of r] lawful_registry_config [of "apply_event _ _ _"]
      is_ERegister_def intro!: register_lawful [unfolded lawful_registry_config])

lemma apply_event_world:
  "lawful_registry r \<Longrightarrow> lawful_event ev r \<Longrightarrow> world_le (env r) (env (apply_event ser ev r))"
  by (cases ev) (simp_all add: lawful_registry.submit_world lawful_registry.quote_world
      lawful_registry.observe_world lawful_registry.status_world lawful_registry.cancel_world
      poll_world)

lemma apply_event_policy [simp]:
  "guard (apply_event ser ev r) = guard r"
  "quota (apply_event ser ev r) = quota r"
  "watch_limit (apply_event ser ev r) = watch_limit r"
  using config_fields [OF apply_event_config [of ev ser r]]
  by (cases ev; simp)+

inductive reg_reach :: "StatusBody ser \<Rightarrow> 'x VenueRegistry \<Rightarrow> 'x VenueRegistry \<Rightarrow> bool"
  for ser r0 where
  start: "reg_reach ser r0 r0"
| event: "reg_reach ser r0 r \<Longrightarrow> lawful_event ev r \<Longrightarrow> reg_reach ser r0 (apply_event ser ev r)"

text \<open>
  The rule every registry invariant goes through: it holds at the start and each lawful
  event keeps it, in a registry whose adapters are lawful.
\<close>

lemma reg_reach_invariant [consumes 2, case_names start step]:
  assumes "reg_reach ser r0 r" and "lawful_registry r0"
    and "P r0"
    and "\<And>r ev. lawful_registry r \<Longrightarrow> P r \<Longrightarrow> lawful_event ev r \<Longrightarrow> P (apply_event ser ev r)"
  shows "P r"
proof -
  from assms(1) have "lawful_registry r \<and> P r"
  proof (induction rule: reg_reach.induct)
    case start
    then show ?case using assms(2,3) by simp
  next
    case (event r ev)
    then show ?case using assms(4) apply_event_lawful by blast
  qed
  then show ?thesis by simp
qed

lemma reg_reach_lawful: "reg_reach ser r0 r \<Longrightarrow> lawful_registry r0 \<Longrightarrow> lawful_registry r"
  by (induction rule: reg_reach.induct) (simp_all add: apply_event_lawful)

lemma reg_reach_world:
  assumes "reg_reach ser r0 r" and "lawful_registry r0"
  shows "world_le (env r0) (env r)"
  using assms(1,2)
proof (induction rule: reg_reach_invariant)
  case (step r ev)
  then show ?case using apply_event_world world_le_trans by blast
qed simp

section \<open>A fresh registry\<close>

lemma build_simps [simp]:
  "adapters (build b w) = Map.empty"
  "guard (build b w) = b_guard b"
  "per_caller (build b w) = Map.empty"
  "watched (build b w) = []"
  "env (build b w) = w"
  "max_charges (quota (build b w)) = max (max_charges (b_quota b)) 1"
  "window (quota (build b w)) = window (b_quota b)"
  "max_entries (watch_limit (build b w)) = max (max_entries (b_watch_limit b)) 1"
  "grace (watch_limit (build b w)) = grace (b_watch_limit b)"
  by (simp_all add: build_def Let_def SubmitQuota_new_def WatchLimit_with_grace_def)

lemma build_lawful: "(\<And>ctx. lawful_call (b_guard b ctx)) \<Longrightarrow> lawful_registry (build b w)"
  by (simp add: lawful_registry_def)

end
