(* ===== verification/Registry_Ledger.thy ===== *)
theory Registry_Ledger imports Registry_Run
begin

text \<open>
  The quota ledger against its specification. The registry keeps per caller only the
  charges it has not pruned yet; the specification keeps the log of every charge and
  counts the ones inside the window. \<open>tracks\<close> relates the two, pruning and charging
  simulate the specification, and a log that grows only when the count is below the
  allowance is bounded in every window, not only in the ones that end at a charge.
\<close>

section \<open>The sliding window\<close>

definition recent :: "instant \<Rightarrow> nat \<Rightarrow> instant list \<Rightarrow> instant list" where
  "recent now win log = filter (\<lambda>t. duration_since now t \<le> win) log"

definition tracks :: "nat \<Rightarrow> instant \<Rightarrow> instant list \<Rightarrow> instant list \<Rightarrow> bool" where
  "tracks win now log h \<longleftrightarrow>
     sorted log \<and> (\<forall>x\<in>set log. x \<le> now) \<and> (\<exists>t\<le>now. h = recent t win log)"

definition in_window :: "instant \<Rightarrow> nat \<Rightarrow> instant list \<Rightarrow> instant list" where
  "in_window t win log = filter (\<lambda>x. t \<le> x \<and> x \<le> t + win) log"

lemma prune_before_sorted: "sorted log \<Longrightarrow> prune_before now win log = recent now win log"
proof (induction log)
  case (Cons a log)
  then have "\<not> duration_since now a > win \<Longrightarrow> filter (\<lambda>t. duration_since now t \<le> win) log = log"
    by (intro filter_True) (auto simp: duration_since_def)
  with Cons show ?case by (auto simp: recent_def)
qed (simp add: recent_def)

lemma recent_recent: "t \<le> now \<Longrightarrow> recent now win (recent t win log) = recent now win log"
  by (auto simp: recent_def duration_since_def intro!: filter_cong)

lemma sorted_recent: "sorted log \<Longrightarrow> sorted (recent t win log)"
  by (simp add: recent_def sorted_wrt_filter)

lemma tracks_empty: "tracks win now [] []"
  by (auto simp: tracks_def recent_def)

lemma tracks_prune_eq:
  "tracks win now log h \<Longrightarrow> now \<le> now' \<Longrightarrow> prune_before now' win h = recent now' win log"
  by (auto simp: tracks_def prune_before_sorted sorted_recent recent_recent)

lemma tracks_later: "tracks win now log h \<Longrightarrow> now \<le> now' \<Longrightarrow> tracks win now' log h"
  by (auto simp: tracks_def intro: order_trans)

lemma tracks_prune:
  "tracks win now log h \<Longrightarrow> now \<le> n \<Longrightarrow> n \<le> now' \<Longrightarrow> tracks win now' log (prune_before n win h)"
  by (auto simp: tracks_prune_eq) (auto simp: tracks_def intro: order_trans)

lemma tracks_charge:
  assumes "tracks win now log h" and "now \<le> n" and "n \<le> t" and "t \<le> now'"
  shows "tracks win now' (log @ [t]) (prune_before n win h @ [t])"
proof -
  have "prune_before n win h @ [t] = recent n win (log @ [t])"
    using assms by (simp add: tracks_prune_eq) (simp add: recent_def duration_since_def)
  with assms show ?thesis
    by (auto simp: tracks_def sorted_append intro: order_trans exI [of _ n])
qed

lemma in_window_snoc:
  assumes "\<And>t. length (in_window t win log) \<le> m" and "length (recent n win log) < m"
    and "n \<le> now"
  shows "length (in_window t win (log @ [now])) \<le> m"
proof (cases "t \<le> now \<and> now \<le> t + win")
  case True
  then have "in_window t win log = filter (\<lambda>x. t \<le> x \<and> x \<le> t + win) (recent n win log)"
    using assms(3) by (auto simp: in_window_def recent_def duration_since_def intro!: filter_cong)
  then have "length (in_window t win log) \<le> length (recent n win log)"
    by simp
  with assms(2) show ?thesis by (simp add: in_window_def split: if_splits)
next
  case False
  with assms(1) [of t] show ?thesis by (auto simp: in_window_def)
qed

section \<open>What each call charges\<close>

definition submit_charges :: "string \<Rightarrow> VenueId \<Rightarrow> bytes \<Rightarrow> 'x VenueRegistry \<Rightarrow> bool" where
  "submit_charges caller venue body r =
     (case resolve venue r of
        Err _ \<Rightarrow> False
      | Ok sl \<Rightarrow> fst (quota_admits caller r) \<and>
          (case fst (on_env (inv_derive_header (invoker sl) body) (snd (quota_admits caller r))) of
             Ok _ \<Rightarrow> True | Err (InvalidBody _) \<Rightarrow> True | Err _ \<Rightarrow> False))"

definition quote_charges :: "string \<Rightarrow> VenueId \<Rightarrow> 'x VenueRegistry \<Rightarrow> bool" where
  "quote_charges caller venue r \<longleftrightarrow> is_ok (resolve venue r) \<and> fst (quota_admits caller r)"

fun event_charges :: "StatusBody ser \<Rightarrow> 'x reg_event \<Rightarrow> 'x VenueRegistry \<Rightarrow> (string \<times> instant) list" where
  "event_charges ser (ESubmit caller venue body) r =
     (if submit_charges caller venue body r
      then [(caller, last (history_of (apply_event ser (ESubmit caller venue body) r) caller))]
      else [])"
| "event_charges ser (EQuote caller venue body) r =
     (if quote_charges caller venue r
      then [(caller, last (history_of (apply_event ser (EQuote caller venue body) r) caller))]
      else [])"
| "event_charges ser _ r = []"

text \<open>A run with the log of every charge it made.\<close>

inductive reg_log ::
  "StatusBody ser \<Rightarrow> 'x VenueRegistry \<Rightarrow> (string \<times> instant) list \<Rightarrow> 'x VenueRegistry \<Rightarrow> bool"
  for ser r0 where
  start: "reg_log ser r0 [] r0"
| event: "reg_log ser r0 log r \<Longrightarrow> lawful_event ev r
    \<Longrightarrow> reg_log ser r0 (log @ event_charges ser ev r) (apply_event ser ev r)"

lemma reg_log_reach: "reg_log ser r0 log r \<Longrightarrow> reg_reach ser r0 r"
  by (induction rule: reg_log.induct) (auto intro: reg_reach.intros)

lemma reg_reach_log: "reg_reach ser r0 r \<Longrightarrow> \<exists>log. reg_log ser r0 log r"
  by (induction rule: reg_reach.induct) (auto intro: reg_log.intros)

text \<open>An accepted or signing outcome is always charged, and so is an undecodable body.\<close>

lemma submit_Ok_charges: "fst (submit caller venue body r) = Ok out \<Longrightarrow> submit_charges caller venue body r"
  by (auto simp: submit_def submit_charges_def submit_in_slot_def case_prod_unfold
      split: result.splits bool.splits)

abbreviation quota_nanos :: "'x VenueRegistry \<Rightarrow> nat" where
  "quota_nanos r \<equiv> duration_nanos (window (quota r))"

lemma fst_quota_admits:
  "fst (quota_admits caller r) \<longleftrightarrow>
     (of_nat (length (prune_before (next_reading (env r)) (quota_nanos r) (history_of r caller))) :: u32)
       < max_charges (quota r)"
  by (simp add: quota_admits_eq Let_def next_reading_def)

lemma history_of_quota_admits:
  "history_of (snd (quota_admits caller r)) caller =
     prune_before (next_reading (env r)) (quota_nanos r) (history_of r caller)"
  by (simp add: quota_admits_eq Let_def next_reading_def history_of_def)

lemma history_of_charge:
  "history_of (charge caller r) caller =
     prune_before (next_reading (env r)) (quota_nanos r) (history_of r caller)
       @ [clock (env r) (Suc (reads (env r)))]"
  by (simp add: charge_eq next_reading_def history_of_def)

lemma quote_uncharged:
  "\<not> quote_charges caller venue r \<Longrightarrow>
     history_of (snd (quote caller venue body r)) caller = history_of r caller
     \<or> history_of (snd (quote caller venue body r)) caller =
         history_of (snd (quota_admits caller r)) caller"
  by (auto simp: quote_def quote_charges_def case_prod_unfold split: result.splits bool.splits)

lemma submit_uncharged:
  "\<not> submit_charges caller venue body r \<Longrightarrow>
     history_of (snd (submit caller venue body r)) caller = history_of r caller
     \<or> history_of (snd (submit caller venue body r)) caller =
         history_of (snd (quota_admits caller r)) caller"
  by (auto simp: submit_def submit_charges_def submit_in_slot_def case_prod_unfold
      split: result.splits bool.splits VenueError.splits)

text \<open>
  The one place the ledger of a caller is appended to: the body of \<open>charge\<close>, at a state
  \<open>r1\<close> the call passed through.
\<close>

definition charged_via :: "string \<Rightarrow> 'x VenueRegistry \<Rightarrow> 'x VenueRegistry \<Rightarrow> 'x VenueRegistry \<Rightarrow> bool" where
  "charged_via caller r r1 r' \<longleftrightarrow>
     world_le (env (snd (quota_admits caller r))) (env r1)
     \<and> world_le (env (charge caller r1)) (env r')
     \<and> quota r1 = quota r
     \<and> history_of r1 caller = history_of (snd (quota_admits caller r)) caller
     \<and> history_of r' caller = history_of (charge caller r1) caller"

lemma world_le_on_env_trans:
  "world_le w (env r) \<Longrightarrow> lawful_call m \<Longrightarrow> world_le w (env (snd (on_env m r)))"
  using lawful_call_on_env world_le_trans by blast

context lawful_registry
begin

lemma quote_charged_via:
  assumes "quote_charges caller venue r"
  shows "charged_via caller r (snd (quota_admits caller r)) (snd (quote caller venue body r))"
proof -
  obtain sl where sl: "resolve venue r = Ok sl"
    using assms by (auto simp: quote_charges_def is_ok_iff)
  have q: "snd (quote caller venue body r) =
      snd (on_env (inv_quote (invoker sl) body) (charge caller (snd (quota_admits caller r))))"
    using assms sl by (simp add: quote_def quote_charges_def case_prod_unfold)
  have "lawful_call (inv_quote (invoker sl) body)"
    by (rule venue_invoker.lawful_quote [OF resolve_lawful [OF sl]])
  then show ?thesis
    using config_fields(3) [OF ledger_frame(1)]
    by (simp add: charged_via_def q world_le_on_env_trans del: on_env_simps(2))
qed

lemma submit_charged_via:
  assumes "submit_charges caller venue body r"
  shows "\<exists>r1. charged_via caller r r1 (snd (submit caller venue body r))"
proof -
  obtain sl where sl: "resolve venue r = Ok sl"
    using assms by (auto simp: submit_charges_def split: result.splits)
  let ?r0 = "snd (quota_admits caller r)"
  let ?d = "on_env (inv_derive_header (invoker sl) body) ?r0"
  have admits: "fst (quota_admits caller r)"
    using assms sl by (auto simp: submit_charges_def)
  have s: "snd (submit caller venue body r) =
      snd (submit_in_slot (invoker sl) caller venue body ?r0)"
    using admits sl by (simp add: submit_def case_prod_unfold)
  note laws = venue_invoker.lawful_derive_header [OF resolve_lawful [OF sl], of body]
    venue_invoker.lawful_submit [OF resolve_lawful [OF sl], of body]
  have gq: "guard (charge caller (snd ?d)) = guard r" "quota (snd ?d) = quota r"
    by (rule config_fields; simp)+
  have d: "world_le (env ?r0) (env (snd ?d))"
    by (rule lawful_call_on_env [OF laws(1)])
  have "charged_via caller r (snd ?d) (snd (submit_in_slot (invoker sl) caller venue body ?r0))"
  proof (cases "fst ?d")
    case (Ok header)
    define ctx where "ctx = \<lparr>gc_caller = caller, gc_venue = venue, gc_header = header\<rparr>"
    let ?r3 = "snd (on_env (guard r ctx) (charge caller (snd ?d)))"
    let ?s = "on_env (inv_submit (invoker sl) body) ?r3"
    have w: "world_le (env (charge caller (snd ?d))) (env (snd ?s))"
      by (intro world_le_on_env_trans laws lawful_guard world_le_refl)
    then have ww: "world_le (env (charge caller (snd ?d))) (env (snd (watch venue receipt (snd ?s))))"
      for receipt using watch_world world_le_trans by blast
    have "snd (submit_in_slot (invoker sl) caller venue body ?r0) =
        (case fst ?s of Ok (Accepted receipt) \<Rightarrow> snd (watch venue receipt (snd ?s)) | _ \<Rightarrow> snd ?s)"
      using Ok by (simp add: submit_in_slot_def case_prod_unfold Let_def gq ctx_def del: on_env_simps
          split: result.split SubmitOutcome.split)
    with d w ww gq show ?thesis
      by (auto simp: charged_via_def simp del: on_env_simps(1,2)
          split: result.split SubmitOutcome.split)
  next
    case (Err e)
    then have "\<exists>detail. e = InvalidBody detail"
      using assms sl by (auto simp: submit_charges_def split: VenueError.splits)
    then have "snd (submit_in_slot (invoker sl) caller venue body ?r0) = charge caller (snd ?d)"
      using Err by (auto simp: submit_in_slot_def case_prod_unfold simp del: on_env_simps)
    with d gq show ?thesis
      by (simp add: charged_via_def del: on_env_simps(1,2))
  qed
  then show ?thesis using s by auto
qed

end

section \<open>The ledger invariant\<close>

definition log_of :: "string \<Rightarrow> (string \<times> instant) list \<Rightarrow> instant list" where
  "log_of caller log = map snd (filter (\<lambda>e. fst e = caller) log)"

definition ledger_ok :: "(string \<times> instant) list \<Rightarrow> 'x VenueRegistry \<Rightarrow> bool" where
  "ledger_ok log r \<longleftrightarrow> (\<forall>c.
     tracks (quota_nanos r) (next_reading (env r)) (log_of c log) (history_of r c)
     \<and> length (history_of r c) \<le> unat (max_charges (quota r))
     \<and> (\<forall>t. length (in_window t (quota_nanos r) (log_of c log)) \<le> unat (max_charges (quota r))))"

lemma log_of_append [simp]: "log_of c (a @ b) = log_of c a @ log_of c b"
  by (simp add: log_of_def)

lemma log_of_simps [simp]:
  "log_of c [] = []" "log_of c [(c', t)] = (if c = c' then [t] else [])"
  by (auto simp: log_of_def)

lemma length_prune_before: "length (prune_before n win h) \<le> length h"
  by (induction h) auto

text \<open>Below \<open>2\<^sup>3\<^sup>2\<close> entries the truncating cast of the length loses nothing.\<close>

lemma admits_count:
  assumes "length h \<le> unat (m :: u32)"
  shows "(of_nat (length h) :: u32) < m \<longleftrightarrow> length h < unat m"
proof -
  have "length h < 2 ^ 32"
    using assms unsigned_less [of m, where ?'a = nat] by simp
  then show ?thesis
    by (simp add: word_less_nat_alt unat_of_nat)
qed

lemma ledger_unchanged:
  assumes "ledger_ok log r" and "world_le (env r) (env r')" and "mono (clock (env r))"
    and "quota r' = quota r"
    and "\<And>c. history_of r' c = history_of r c
        \<or> history_of r' c = prune_before (next_reading (env r)) (quota_nanos r) (history_of r c)"
  shows "ledger_ok log r'"
  unfolding ledger_ok_def assms(4)
proof (intro allI conjI)
  fix c t
  note nr = next_reading_mono [OF assms(2,3)]
  from assms(1) have tr: "tracks (quota_nanos r) (next_reading (env r)) (log_of c log) (history_of r c)"
    and len: "length (history_of r c) \<le> unat (max_charges (quota r))"
    by (simp_all add: ledger_ok_def)
  show "tracks (quota_nanos r) (next_reading (env r')) (log_of c log) (history_of r' c)"
    using assms(5) [of c] tracks_later [OF tr nr] tracks_prune [OF tr order_refl nr] by auto
  show "length (history_of r' c) \<le> unat (max_charges (quota r))"
    using assms(5) [of c] len length_prune_before [of "next_reading (env r)" "quota_nanos r" "history_of r c"]
    by (auto intro: order_trans)
  show "length (in_window t (quota_nanos r) (log_of c log)) \<le> unat (max_charges (quota r))"
    using assms(1) by (simp add: ledger_ok_def)
qed

lemma ledger_charged:
  assumes ok: "ledger_ok log r" and mono: "mono (clock (env r))"
    and admits: "fst (quota_admits caller r)" and via: "charged_via caller r r1 r'"
    and q: "quota r' = quota r"
    and others: "\<And>c. c \<noteq> caller \<Longrightarrow> history_of r' c = history_of r c"
  shows "ledger_ok (log @ [(caller, last (history_of r' caller))]) r'"
proof -
  let ?win = "quota_nanos r" and ?m = "unat (max_charges (quota r))"
  let ?n0 = "next_reading (env r)" and ?n1 = "next_reading (env r1)"
  let ?h0 = "prune_before ?n0 ?win (history_of r caller)"
  define t where "t = clock (env r1) (Suc (reads (env r1)))"
  have w01: "world_le (env r) (env r1)" and w1: "world_le (env r1) (env r')"
    using via world_le_trans [OF quota_admits_world [of r caller], of "env r1"]
      world_le_trans [OF charge_world [of r1 caller], of "env r'"]
    by (simp_all add: charged_via_def)
  then have w: "world_le (env r) (env r')" and ck: "clock (env r1) = clock (env r)"
    by (auto simp: world_le_def)
  have n01: "?n0 \<le> ?n1" by (rule next_reading_mono [OF w01 mono])
  have n1t: "?n1 \<le> t"
    unfolding t_def next_reading_def ck by (rule monoD [OF mono]) simp
  have tn: "t \<le> next_reading (env r')"
  proof -
    have c: "clock (env r') = clock (env r1)" and r: "Suc (Suc (reads (env r1))) \<le> reads (env r')"
      using via by (simp_all add: charged_via_def world_le_def charge_eq)
    show ?thesis
      unfolding t_def next_reading_def c ck by (rule monoD [OF mono]) (use r in simp)
  qed
  from ok have tr: "tracks ?win ?n0 (log_of caller log) (history_of r caller)"
    and len: "length (history_of r caller) \<le> ?m"
    by (simp_all add: ledger_ok_def)
  have h: "history_of r' caller = prune_before ?n1 ?win ?h0 @ [t]"
    using via by (simp add: charged_via_def history_of_charge history_of_quota_admits t_def)
  have h0: "length ?h0 < ?m"
    using admits admits_count [OF order_trans [OF length_prune_before len]]
    by (simp add: fst_quota_admits)
  have count: "length (recent ?n0 ?win (log_of caller log)) < ?m"
    using h0 by (simp add: tracks_prune_eq [OF tr])
  have tracks': "tracks ?win (next_reading (env r')) (log_of caller log @ [t]) (history_of r' caller)"
    unfolding h by (rule tracks_charge [OF tracks_prune [OF tr order_refl order_refl] n01 n1t tn])
  have bound: "length (in_window s ?win (log_of caller log @ [t])) \<le> ?m" for s
    using ok n01 n1t by (intro in_window_snoc [OF _ count]) (simp_all add: ledger_ok_def)
  have len': "length (history_of r' caller) \<le> ?m"
    using h0 length_prune_before [of ?n1 ?win ?h0] by (simp add: h)
  have "last (history_of r' caller) = t" by (simp add: h)
  then show ?thesis
    using ok tracks' bound len' others tracks_later [OF _ next_reading_mono [OF w mono]]
    by (auto simp: ledger_ok_def q)
qed

lemma event_uncharged:
  assumes "event_charges ser ev r = []"
  shows "history_of (apply_event ser ev r) c = history_of r c
     \<or> history_of (apply_event ser ev r) c =
         prune_before (next_reading (env r)) (quota_nanos r) (history_of r c)"
proof (cases ev)
  case (ESubmit caller venue body)
  with assms have "\<not> submit_charges caller venue body r" by (simp split: if_splits)
  from submit_uncharged [OF this] show ?thesis
    using ESubmit by (cases "c = caller") (auto simp: history_of_quota_admits)
next
  case (EQuote caller venue body)
  with assms have "\<not> quote_charges caller venue r" by (simp split: if_splits)
  from quote_uncharged [OF this, of body] show ?thesis
    using EQuote by (cases "c = caller") (auto simp: history_of_quota_admits)
qed (simp_all add: history_of_def)

lemma event_charged:
  assumes "lawful_registry r" and "event_charges ser ev r \<noteq> []"
  obtains caller r1 where
    "event_charges ser ev r = [(caller, last (history_of (apply_event ser ev r) caller))]"
    "fst (quota_admits caller r)" "charged_via caller r r1 (apply_event ser ev r)"
    "\<And>c. c \<noteq> caller \<Longrightarrow> history_of (apply_event ser ev r) c = history_of r c"
proof (cases ev)
  case (ESubmit caller venue body)
  with assms have c: "submit_charges caller venue body r" by (simp split: if_splits)
  then have "fst (quota_admits caller r)"
    by (auto simp: submit_charges_def split: result.splits)
  with c ESubmit that [of caller] lawful_registry.submit_charged_via [OF assms(1) c]
  show ?thesis by auto
next
  case (EQuote caller venue body)
  with assms have c: "quote_charges caller venue r" by (simp split: if_splits)
  then have "fst (quota_admits caller r)" by (simp add: quote_charges_def)
  with c EQuote that [of caller] lawful_registry.quote_charged_via [OF assms(1) c]
  show ?thesis by auto
qed (use assms in simp_all)

lemma event_ledger_ok:
  assumes "ledger_ok log r" and "lawful_registry r" and "lawful_event ev r"
    and mono: "mono (clock (env r))"
  shows "ledger_ok (log @ event_charges ser ev r) (apply_event ser ev r)"
proof (cases "event_charges ser ev r = []")
  case True
  with ledger_unchanged [OF assms(1) apply_event_world [OF assms(2,3)] mono
      apply_event_policy(2) event_uncharged [OF True]]
  show ?thesis by simp
next
  case False
  then show ?thesis
    by (rule event_charged [OF assms(2)])
      (simp add: ledger_charged [OF assms(1) mono])
qed

lemma run_ledger_ok:
  assumes "reg_log ser (build b w) log r" and "lawful_registry (build b w)" and "mono (clock w)"
  shows "ledger_ok log r"
  using assms(1)
proof (induction rule: reg_log.induct)
  case start
  then show ?case
    by (simp add: ledger_ok_def history_of_def tracks_empty in_window_def)
next
  case (event log r ev)
  note reach = reg_log_reach [OF event.hyps(1)]
  have "mono (clock (env r))"
    using assms(3) reg_reach_world [OF reach assms(2)] by (simp add: world_le_def)
  with event reg_reach_lawful [OF reach assms(2)] show ?case
    by (simp add: event_ledger_ok)
qed

lemma run_policy: "reg_log ser r0 log r \<Longrightarrow> quota r = quota r0 \<and> watch_limit r = watch_limit r0"
  by (induction rule: reg_log.induct) simp_all

end
