(* ===== verification/Registry_Watch.thy ===== *)
theory Registry_Watch imports Registry_Run
begin

text \<open>
  The status watch list: its invariant (within the cap, one entry per venue and receipt,
  no entry that has reported a terminal status), kept by every event of a run, and what a
  poll emits and leaves under watch.
\<close>

section \<open>Keys and the invariant\<close>

definition watch_key :: "WatchedIntent \<Rightarrow> VenueId \<times> bytes" where
  "watch_key e = (w_venue e, w_receipt e)"

lemma watches_key: "watches venue receipt e \<longleftrightarrow> watch_key e = (venue, receipt)"
  by (simp add: watches_def watch_key_def)

lemma watch_key_update [simp]:
  "watch_key (e\<lparr>w_last := l\<rparr>) = watch_key e" "watch_key (e\<lparr>w_expires_at := d\<rparr>) = watch_key e"
  by (simp_all add: watch_key_def)

lemma watch_key_new [simp]:
  "watch_key \<lparr>w_venue = v, w_receipt = rc, w_last = l, w_expires_at = d\<rparr> = (v, rc)"
  by (simp add: watch_key_def)

definition unsettled :: "WatchedIntent \<Rightarrow> bool" where
  "unsettled e = (case w_last e of Some st \<Rightarrow> \<not> is_terminal st | None \<Rightarrow> True)"

text \<open>
  An entry's give-up deadline is never further away than the grace from now: a watch dies
  within the grace of the last poll its venue answered.
\<close>

definition due_within :: "nat \<Rightarrow> instant \<Rightarrow> WatchedIntent \<Rightarrow> bool" where
  "due_within g now e = (case w_expires_at e of Some d \<Rightarrow> d \<le> now + g | None \<Rightarrow> True)"

definition watch_ok :: "'x VenueRegistry \<Rightarrow> bool" where
  "watch_ok r \<longleftrightarrow>
     length (watched r) \<le> max_entries (watch_limit r)
     \<and> distinct (map watch_key (watched r))
     \<and> (\<forall>e\<in>set (watched r). unsettled e)"

lemma watch_okD:
  "watch_ok r \<Longrightarrow> length (watched r) \<le> max_entries (watch_limit r)"
  "watch_ok r \<Longrightarrow> distinct (map watch_key (watched r))"
  "watch_ok r \<Longrightarrow> e \<in> set (watched r) \<Longrightarrow> unsettled e"
  by (auto simp: watch_ok_def)

text \<open>The list may shrink, keep its entries or have one replaced under the same key.\<close>

lemma watch_ok_filter:
  assumes "watch_ok r" and "watched r' = filter P (watched r)" and "watch_limit r' = watch_limit r"
  shows "watch_ok r'"
  using assms by (auto simp: watch_ok_def distinct_map_filter intro: order_trans [OF length_filter_le])

lemma watch_ok_same:
  "watch_ok r \<Longrightarrow> watched r' = watched r \<Longrightarrow> watch_limit r' = watch_limit r \<Longrightarrow> watch_ok r'"
  by (simp add: watch_ok_def)

lemma watch_ok_update:
  assumes "watch_ok r" and "watched r' = (watched r)[i := e]" and "i < length (watched r)"
    and "watch_limit r' = watch_limit r"
    and "watch_key e = watch_key (watched r ! i)" and "unsettled e"
  shows "watch_ok r'"
proof -
  have "map watch_key ((watched r)[i := e]) = map watch_key (watched r)"
    using assms(3,5) by (metis list_update_id map_update nth_map)
  then show ?thesis
    using assms set_update_subset_insert [of "watched r" i e] by (auto simp: watch_ok_def)
qed

lemma watch_ok_remove:
  assumes "watch_ok r" and "watched r' = remove_at i (watched r)" and "i < length (watched r)"
    and "watch_limit r' = watch_limit r"
  shows "watch_ok r'"
  using assms set_remove_at [of i "watched r"]
  by (auto simp: watch_ok_def length_remove_at map_remove_at distinct_remove_at)

lemma watch_ok_snoc:
  assumes "watch_ok r" and "watched r' = watched r @ [e]" and "watch_limit r' = watch_limit r"
    and "length (watched r) < max_entries (watch_limit r)"
    and "watch_key e \<notin> watch_key ` set (watched r)" and "unsettled e"
  shows "watch_ok r'"
  using assms by (auto simp: watch_ok_def)

section \<open>Every operation keeps it\<close>

lemma prune_expired_ok: "watch_ok r \<Longrightarrow> watch_ok (snd (prune_expired r))"
  by (rule watch_ok_filter) (simp_all add: prune_expired_eq)

lemma watch_ok_watch:
  assumes "watch_ok r"
  shows "watch_ok (snd (watch venue receipt r))"
proof -
  let ?r1 = "snd (prune_expired r)"
  have ok1: "watch_ok ?r1" by (rule prune_expired_ok [OF assms])
  have new: "watch_ok ((snd (give_up_deadline ?r1))\<lparr>watched := watched ?r1 @ [e]\<rparr>)"
    if "\<not> list_ex (watches venue receipt) (watched ?r1)" and "watch_key e = (venue, receipt)"
      and "length (watched ?r1) < max_entries (watch_limit ?r1)" and "w_last e = None" for e
    using that ok1
    by (intro watch_ok_snoc [OF ok1]) (auto simp: list_ex_iff watches_key unsettled_def)
  from ok1 new show ?thesis
    by (auto simp: watch_def case_prod_unfold Let_def)
qed

lemma watch_ok_record:
  assumes "watch_ok r"
  shows "watch_ok (snd (record_polled_status ser venue receipt st r))"
proof (cases "position (watches venue receipt) (watched r)")
  case None
  with assms show ?thesis by (simp add: record_polled_status_def)
next
  case (Some i)
  then have i: "i < length (watched r)" and u: "unsettled (watched r ! i)"
    using position_SomeD [OF Some] watch_okD(3) [OF assms] by auto
  let ?r1 = "snd (give_up_deadline r)"
  have upd: "watch_ok (?r1\<lparr>watched := (watched r)[i := e]\<rparr>)"
    if "watch_key e = watch_key (watched r ! i)" "unsettled e" for e
    using i that by (intro watch_ok_update [OF assms]) simp_all
  have u': "unsettled ((watched r ! i)\<lparr>w_expires_at := d\<rparr>)" for d
    using u by (simp add: unsettled_def)
  have rem: "watch_ok (r\<lparr>watched := remove_at i (watched r)\<rparr>)"
    by (rule watch_ok_remove [OF assms _ i]) simp_all
  show ?thesis
    using Some u' rem
    by (auto simp: record_polled_status_def case_prod_unfold Let_def unsettled_def intro!: upd
        split: result.split)
qed

lemma poll_one_ok: "watch_ok r \<Longrightarrow> watch_ok (snd (poll_one ser venue receipt r))"
proof -
  assume ok: "watch_ok r"
  have "watch_ok (snd (on_env (inv_status adp receipt) r))" for adp
    by (rule watch_ok_same [OF ok]) simp_all
  then show ?thesis
    using ok by (auto simp: poll_one_def case_prod_unfold Let_def watch_ok_record split: result.split)
qed

lemma poll_loop_ok: "watch_ok r \<Longrightarrow> watch_ok (snd (poll_loop ser ps r))"
  by (induction ps arbitrary: r) (auto simp: case_prod_unfold Let_def poll_one_ok)

lemma poll_ok: "watch_ok r \<Longrightarrow> watch_ok (snd (poll_status_transitions ser r))"
  by (simp add: poll_status_transitions_def case_prod_unfold Let_def poll_loop_ok prune_expired_ok)

lemma submit_in_slot_ok:
  assumes "watch_ok r"
  shows "watch_ok (snd (submit_in_slot adp caller venue body r))"
proof -
  let ?d = "snd (on_env (inv_derive_header adp body) r)"
  let ?c = "charge caller ?d"
  have d: "watch_ok ?d" "watch_ok ?c"
    by (rule watch_ok_same [OF assms]; simp)+
  have s: "watch_ok (snd (on_env (inv_submit adp body) (snd (on_env m ?c))))"
    for m :: "'a world \<Rightarrow> GuardVerdict \<times> 'a world"
    by (rule watch_ok_same [OF assms]) simp_all
  show ?thesis
    using d s watch_ok_watch [OF s]
    by (auto simp: submit_in_slot_def case_prod_unfold Let_def
        split: result.split VenueError.split SubmitOutcome.split)
qed

lemma submit_ok:
  assumes "watch_ok r"
  shows "watch_ok (snd (submit caller venue body r))"
proof -
  have "watch_ok (snd (quota_admits caller r))"
    by (rule watch_ok_same [OF assms]) simp_all
  with assms show ?thesis
    by (auto simp: submit_def case_prod_unfold submit_in_slot_ok split: result.split bool.split)
qed

lemma observe_ok: "watch_ok r \<Longrightarrow> watch_ok (snd (observe venue receipt r))"
  using watch_ok_watch [of r venue receipt]
  by (auto simp: observe_def case_prod_unfold split: result.split bool.split)

lemma apply_event_watch_ok: "watch_ok r \<Longrightarrow> watch_ok (apply_event ser ev r)"
proof (cases ev)
  case (EProcess w)
  then show "watch_ok r \<Longrightarrow> ?thesis" by (simp add: watch_ok_def)
qed (auto simp: submit_ok observe_ok poll_ok intro: watch_ok_same [of r])

lemma reach_watch_ok: "reg_reach ser r0 r \<Longrightarrow> watch_ok r0 \<Longrightarrow> watch_ok r"
  by (induction rule: reg_reach.induct) (simp_all add: apply_event_watch_ok)

lemma build_watch_ok: "watch_ok (build b w)"
  by (simp add: watch_ok_def)

end
