(* ===== verification/Registry_Concurrent.thy ===== *)
theory Registry_Concurrent imports Registry_Ledger Registry_Watch
begin

text \<open>
  The calls of \<^verbatim>\<open>videre-host/src/registry.rs\<close> as the tasks they are: between two critical
  sections, and at every \<^verbatim>\<open>await\<close> on a slot or an adapter, any other task may run. A task is
  the point its call has reached with what it holds there; \<open>advance\<close> runs it to the next such
  point, or blocks on a held slot. The sequential operations of \<open>Registry\<close> are the runs in
  which nothing intervenes. A task may also be dropped where it awaits, as a future is when
  its caller goes away.
\<close>

section \<open>Tasks\<close>

datatype 'x submit_point =
    SubmitCalled string VenueId bytes
  | SubmitResolved string VenueId bytes "'x AdapterSlot"
  | SubmitAdmitted string VenueId bytes "'x AdapterSlot"
  | SubmitHolding string VenueId bytes "'x AdapterSlot"
  | SubmitDerived string VenueId bytes "'x AdapterSlot" "(IntentHeader, VenueError) result"
  | SubmitCharged string VenueId bytes "'x AdapterSlot" IntentHeader
  | SubmitGuarded string VenueId bytes "'x AdapterSlot"
  | SubmitAnswered string VenueId bytes "'x AdapterSlot" "(SubmitOutcome, VenueError) result"
  | SubmitDone string "(SubmitOutcome, VenueError) result"

datatype 'x quote_point =
    QuoteCalled string VenueId bytes
  | QuoteResolved string VenueId bytes "'x AdapterSlot"
  | QuoteAdmitted string VenueId bytes "'x AdapterSlot"
  | QuoteCharged string VenueId bytes "'x AdapterSlot"
  | QuoteHolding string VenueId bytes "'x AdapterSlot"
  | QuoteDone string "(Quotation, VenueError) result"

datatype observe_point =
    ObserveCalled VenueId bytes
  | ObserveResolved VenueId bytes
  | ObserveDone "(unit, VenueError) result"

datatype 'x status_point =
    StatusCalled VenueId bytes
  | StatusResolved VenueId bytes "'x AdapterSlot"
  | StatusHolding VenueId bytes "'x AdapterSlot"
  | StatusDone "(IntentStatus, VenueError) result"

datatype 'x cancel_point =
    CancelCalled VenueId bytes
  | CancelResolved VenueId bytes "'x AdapterSlot"
  | CancelHolding VenueId bytes "'x AdapterSlot"
  | CancelDone "(unit, VenueError) result"

datatype 'x poll_point =
    PollCalled
  | PollNext "(VenueId \<times> bytes) list" "IntentStatusUpdate list"
  | PollResolved VenueId bytes "'x AdapterSlot" "(VenueId \<times> bytes) list" "IntentStatusUpdate list"
  | PollHolding VenueId bytes "'x AdapterSlot" "(VenueId \<times> bytes) list" "IntentStatusUpdate list"
  | PollAnswered VenueId bytes "(IntentStatus, VenueError) result" "(VenueId \<times> bytes) list"
      "IntentStatusUpdate list"
  | PollDone "IntentStatusUpdate list"

datatype 'x task =
    SubmitTask "'x submit_point"
  | QuoteTask "'x quote_point"
  | ObserveTask observe_point
  | StatusTask "'x status_point"
  | CancelTask "'x cancel_point"
  | PollTask "'x poll_point"
  | Dropped "string option"

fun advance ::
  "StatusBody ser \<Rightarrow> 'x task \<Rightarrow> slot_ref set \<Rightarrow> 'x VenueRegistry
    \<Rightarrow> ('x task \<times> slot_ref set \<times> 'x VenueRegistry) option" where
  "advance ser (SubmitTask (SubmitCalled c v b)) held r =
     (case resolve v r of
        Err e \<Rightarrow> Some (SubmitTask (SubmitDone c (Err e)), held, r)
      | Ok sl \<Rightarrow> Some (SubmitTask (SubmitResolved c v b sl), held, r))"
| "advance ser (SubmitTask (SubmitResolved c v b sl)) held r =
     (case quota_admits c r of
        (False, r1) \<Rightarrow> Some (SubmitTask (SubmitDone c (Err (rate_limited_by (quota r1)))), held, r1)
      | (True, r1) \<Rightarrow> Some (SubmitTask (SubmitAdmitted c v b sl), held, r1))"
| "advance ser (SubmitTask (SubmitAdmitted c v b sl)) held r =
     (if slot_addr sl \<in> held then None
      else Some (SubmitTask (SubmitHolding c v b sl), insert (slot_addr sl) held, r))"
| "advance ser (SubmitTask (SubmitHolding c v b sl)) held r =
     (let (res, r1) = on_env (inv_derive_header (invoker sl) b) r
      in Some (SubmitTask (SubmitDerived c v b sl res), held, r1))"
| "advance ser (SubmitTask (SubmitDerived c v b sl (Err e))) held r =
     Some (SubmitTask (SubmitDone c (Err e)), held - {slot_addr sl},
       (case e of InvalidBody _ \<Rightarrow> charge c r | _ \<Rightarrow> r))"
| "advance ser (SubmitTask (SubmitDerived c v b sl (Ok header))) held r =
     Some (SubmitTask (SubmitCharged c v b sl header), held, charge c r)"
| "advance ser (SubmitTask (SubmitCharged c v b sl header)) held r =
     (let (verdict, r1) = on_env (guard r \<lparr>gc_caller = c, gc_venue = v, gc_header = header\<rparr>) r
      in Some (SubmitTask (SubmitGuarded c v b sl), held, r1))"
| "advance ser (SubmitTask (SubmitGuarded c v b sl)) held r =
     (let (res, r1) = on_env (inv_submit (invoker sl) b) r
      in Some (SubmitTask (SubmitAnswered c v b sl res), held, r1))"
| "advance ser (SubmitTask (SubmitAnswered c v b sl res)) held r =
     Some (SubmitTask (SubmitDone c res), held - {slot_addr sl},
       (case res of Ok (Accepted receipt) \<Rightarrow> snd (watch v receipt r) | _ \<Rightarrow> r))"
| "advance ser (SubmitTask (SubmitDone c res)) held r = None"
| "advance ser (QuoteTask (QuoteCalled c v b)) held r =
     (case resolve v r of
        Err e \<Rightarrow> Some (QuoteTask (QuoteDone c (Err e)), held, r)
      | Ok sl \<Rightarrow> Some (QuoteTask (QuoteResolved c v b sl), held, r))"
| "advance ser (QuoteTask (QuoteResolved c v b sl)) held r =
     (case quota_admits c r of
        (False, r1) \<Rightarrow> Some (QuoteTask (QuoteDone c (Err (rate_limited_by (quota r1)))), held, r1)
      | (True, r1) \<Rightarrow> Some (QuoteTask (QuoteAdmitted c v b sl), held, r1))"
| "advance ser (QuoteTask (QuoteAdmitted c v b sl)) held r = Some (QuoteTask (QuoteCharged c v b sl), held, charge c r)"
| "advance ser (QuoteTask (QuoteCharged c v b sl)) held r =
     (if slot_addr sl \<in> held then None
      else Some (QuoteTask (QuoteHolding c v b sl), insert (slot_addr sl) held, r))"
| "advance ser (QuoteTask (QuoteHolding c v b sl)) held r =
     (let (res, r1) = on_env (inv_quote (invoker sl) b) r
      in Some (QuoteTask (QuoteDone c res), held - {slot_addr sl}, r1))"
| "advance ser (QuoteTask (QuoteDone c res)) held r = None"
| "advance ser (ObserveTask (ObserveCalled v rc)) held r =
     (case resolve v r of
        Err e \<Rightarrow> Some (ObserveTask (ObserveDone (Err e)), held, r)
      | Ok _ \<Rightarrow> Some (ObserveTask (ObserveResolved v rc), held, r))"
| "advance ser (ObserveTask (ObserveResolved v rc)) held r =
     (case watch v rc r of
        (True, r1) \<Rightarrow> Some (ObserveTask (ObserveDone (Ok ())), held, r1)
      | (False, r1) \<Rightarrow> Some (ObserveTask (ObserveDone (Err (Unavailable ''status watch set full''))), held, r1))"
| "advance ser (ObserveTask (ObserveDone res)) held r = None"
| "advance ser (StatusTask (StatusCalled v rc)) held r =
     (case resolve v r of
        Err e \<Rightarrow> Some (StatusTask (StatusDone (Err e)), held, r)
      | Ok sl \<Rightarrow> Some (StatusTask (StatusResolved v rc sl), held, r))"
| "advance ser (StatusTask (StatusResolved v rc sl)) held r =
     (if slot_addr sl \<in> held then None
      else Some (StatusTask (StatusHolding v rc sl), insert (slot_addr sl) held, r))"
| "advance ser (StatusTask (StatusHolding v rc sl)) held r =
     (let (res, r1) = on_env (inv_status (invoker sl) rc) r
      in Some (StatusTask (StatusDone res), held - {slot_addr sl}, r1))"
| "advance ser (StatusTask (StatusDone res)) held r = None"
| "advance ser (CancelTask (CancelCalled v rc)) held r =
     (case resolve v r of
        Err e \<Rightarrow> Some (CancelTask (CancelDone (Err e)), held, r)
      | Ok sl \<Rightarrow> Some (CancelTask (CancelResolved v rc sl), held, r))"
| "advance ser (CancelTask (CancelResolved v rc sl)) held r =
     (if slot_addr sl \<in> held then None
      else Some (CancelTask (CancelHolding v rc sl), insert (slot_addr sl) held, r))"
| "advance ser (CancelTask (CancelHolding v rc sl)) held r =
     (let (res, r1) = on_env (inv_cancel (invoker sl) rc) r
      in Some (CancelTask (CancelDone res), held - {slot_addr sl}, r1))"
| "advance ser (CancelTask (CancelDone res)) held r = None"
| "advance ser (PollTask PollCalled) held r =
     (let (evicted, r1) = prune_expired r
      in Some (PollTask (PollNext (map (\<lambda>w. (w_venue w, w_receipt w)) (watched r1)) []), held, r1))"
| "advance ser (PollTask (PollNext [] us)) held r = Some (PollTask (PollDone us), held, r)"
| "advance ser (PollTask (PollNext ((v, rc) # rest) us)) held r =
     (case resolve v r of
        Err _ \<Rightarrow> Some (PollTask (PollNext rest us), held, r)
      | Ok sl \<Rightarrow> Some (PollTask (PollResolved v rc sl rest us), held, r))"
| "advance ser (PollTask (PollResolved v rc sl rest us)) held r =
     (if slot_addr sl \<in> held then None
      else Some (PollTask (PollHolding v rc sl rest us), insert (slot_addr sl) held, r))"
| "advance ser (PollTask (PollHolding v rc sl rest us)) held r =
     (let (res, r1) = on_env (inv_status (invoker sl) rc) r
      in Some (PollTask (PollAnswered v rc res rest us), held - {slot_addr sl}, r1))"
| "advance ser (PollTask (PollAnswered v rc (Ok st) rest us)) held r =
     (let (upd, r1) = record_polled_status ser v rc st r
      in Some (PollTask (PollNext rest (us @ (case upd of Some u \<Rightarrow> [u] | None \<Rightarrow> []))), held, r1))"
| "advance ser (PollTask (PollAnswered v rc (Err e) rest us)) held r = Some (PollTask (PollNext rest us), held, r)"
| "advance ser (PollTask (PollDone us)) held r = None"
| "advance ser (Dropped c) held r = None"

text \<open>A task on its own, for at most so many steps.\<close>

fun run_task ::
  "StatusBody ser \<Rightarrow> nat \<Rightarrow> 'x task \<Rightarrow> slot_ref set \<Rightarrow> 'x VenueRegistry
    \<Rightarrow> 'x task \<times> slot_ref set \<times> 'x VenueRegistry" where
  "run_task ser 0 t held r = (t, held, r)"
| "run_task ser (Suc n) t held r =
     (case advance ser t held r of
        None \<Rightarrow> (t, held, r)
      | Some (t', held', r') \<Rightarrow> run_task ser n t' held' r')"

text \<open>
  Undisturbed, on a free slot, a task is the sequential call: it ends within a fixed number of
  steps with the call's result, the call's registry, and the slot released.
\<close>

lemma insert_remove: "a \<notin> A \<Longrightarrow> insert a A - {a} = A"
  by auto

lemma run_task_stuck: "advance ser t held r = None \<Longrightarrow> run_task ser n t held r = (t, held, r)"
  by (cases n) simp_all

lemma run_task_step:
  "advance ser t held r = Some (t', held', r')
    \<Longrightarrow> run_task ser (Suc n) t held r = run_task ser n t' held' r'"
  by simp

lemma submit_alone:
  assumes "\<And>sl. resolve venue r = Ok sl \<Longrightarrow> slot_addr sl \<notin> held"
  shows "run_task ser 8 (SubmitTask (SubmitCalled caller venue body)) held r =
     (SubmitTask (SubmitDone caller (fst (submit caller venue body r))), held, snd (submit caller venue body r))"
proof (cases "resolve venue r")
  case (Ok sl)
  then have free: "slot_addr sl \<notin> held" by (rule assms)
  have g: "guard (snd (quota_admits caller r)) = guard r" by (rule config_fields) simp
  show ?thesis
    using free Ok
    by (auto simp: numeral_eq_Suc submit_def submit_in_slot_def insert_remove case_prod_unfold Let_def
        simp del: on_env_simps
        split: bool.splits result.splits VenueError.splits SubmitOutcome.splits)
qed (simp add: numeral_eq_Suc submit_def)

lemma quote_alone:
  assumes "\<And>sl. resolve venue r = Ok sl \<Longrightarrow> slot_addr sl \<notin> held"
  shows "run_task ser 5 (QuoteTask (QuoteCalled caller venue body)) held r =
     (QuoteTask (QuoteDone caller (fst (quote caller venue body r))), held, snd (quote caller venue body r))"
proof (cases "resolve venue r")
  case (Ok sl)
  then have "slot_addr sl \<notin> held" by (rule assms)
  then show ?thesis
    using Ok
    by (auto simp: numeral_eq_Suc quote_def insert_remove case_prod_unfold Let_def
        simp del: on_env_simps split: bool.splits result.splits)
qed (simp add: numeral_eq_Suc quote_def)

lemma observe_alone:
  "run_task ser 2 (ObserveTask (ObserveCalled venue receipt)) held r =
     (ObserveTask (ObserveDone (fst (observe venue receipt r))), held, snd (observe venue receipt r))"
  by (auto simp: numeral_eq_Suc observe_def split: result.splits prod.splits bool.splits)

lemma status_alone:
  assumes "\<And>sl. resolve venue r = Ok sl \<Longrightarrow> slot_addr sl \<notin> held"
  shows "run_task ser 3 (StatusTask (StatusCalled venue receipt)) held r =
     (StatusTask (StatusDone (fst (status venue receipt r))), held, snd (status venue receipt r))"
  using assms
  by (auto simp: numeral_eq_Suc status_def insert_remove case_prod_unfold Let_def
      simp del: on_env_simps split: result.splits)

lemma cancel_alone:
  assumes "\<And>sl. resolve venue r = Ok sl \<Longrightarrow> slot_addr sl \<notin> held"
  shows "run_task ser 3 (CancelTask (CancelCalled venue receipt)) held r =
     (CancelTask (CancelDone (fst (cancel venue receipt r))), held, snd (cancel venue receipt r))"
  using assms
  by (auto simp: numeral_eq_Suc cancel_def insert_remove case_prod_unfold Let_def
      simp del: on_env_simps split: result.splits)

text \<open>Four steps for each receipt of the snapshot, one more when it is spent.\<close>

lemma poll_entry:
  assumes "resolve v r = Ok sl" "slot_addr sl \<notin> held"
  shows "run_task ser (Suc (Suc (Suc (Suc m)))) (PollTask (PollNext ((v, rc) # ps) us)) held r =
     run_task ser m (PollTask (PollNext ps (us @ fst (poll_one ser v rc r)))) held (snd (poll_one ser v rc r))"
proof -
  obtain res r1 where res: "on_env (inv_status (invoker sl) rc) r = (res, r1)" by fastforce
  show ?thesis
  proof (cases res)
    case (Ok st)
    obtain upd r2 where "record_polled_status ser v rc st r1 = (upd, r2)" by fastforce
    with Ok assms res show ?thesis by (simp add: poll_one_def insert_remove)
  next
    case (Err e)
    with assms res show ?thesis by (simp add: poll_one_def insert_remove)
  qed
qed

lemma poll_loop_alone:
  assumes "\<And>v i. adapters r v = Some i \<Longrightarrow> slot_addr (slot i) \<notin> held"
  shows "run_task ser (4 * length ps + Suc n) (PollTask (PollNext ps us)) held r =
     (PollTask (PollDone (us @ fst (poll_loop ser ps r))), held, snd (poll_loop ser ps r))"
  using assms
proof (induction ps arbitrary: us r n)
  case Nil
  then show ?case by (simp add: run_task_stuck)
next
  case (Cons p ps)
  obtain v rc where p: "p = (v, rc)" by fastforce
  show ?case
  proof (cases "resolve v r")
    case (Err e)
    have "run_task ser (4 * length ps + Suc (3 + n)) (PollTask (PollNext ps us)) held r =
        (PollTask (PollDone (us @ fst (poll_loop ser ps r))), held, snd (poll_loop ser ps r))"
      by (rule Cons.IH) (rule Cons.prems)
    moreover have "run_task ser (Suc (4 * length ps + Suc (3 + n))) (PollTask (PollNext (p # ps) us)) held r =
        run_task ser (4 * length ps + Suc (3 + n)) (PollTask (PollNext ps us)) held r"
      by (rule run_task_step) (simp add: p Err)
    moreover have "poll_loop ser (p # ps) r = poll_loop ser ps r"
      by (simp add: p Err poll_one_def)
    ultimately show ?thesis by (simp add: numeral_eq_Suc del: run_task.simps)
  next
    case (Ok sl)
    then have free: "slot_addr sl \<notin> held"
      using Cons.prems by (auto simp: resolve_def split: option.splits if_splits)
    let ?r1 = "snd (poll_one ser v rc r)" and ?us = "us @ fst (poll_one ser v rc r)"
    have "run_task ser (4 * length ps + Suc n) (PollTask (PollNext ps ?us)) held ?r1 =
        (PollTask (PollDone (?us @ fst (poll_loop ser ps ?r1))), held, snd (poll_loop ser ps ?r1))"
      by (rule Cons.IH) (simp add: Cons.prems)
    then have "run_task ser (Suc (Suc (Suc (Suc (4 * length ps + Suc n))))) (PollTask (PollNext (p # ps) us)) held r =
        (PollTask (PollDone (us @ fst (poll_loop ser (p # ps) r))), held, snd (poll_loop ser (p # ps) r))"
      using poll_entry [OF Ok free, of ser "4 * length ps + Suc n" rc ps us]
      by (simp add: p case_prod_unfold Let_def del: run_task.simps)
    then show ?thesis by (simp add: numeral_eq_Suc del: run_task.simps)
  qed
qed

lemma poll_alone:
  assumes "\<And>v i. adapters r v = Some i \<Longrightarrow> slot_addr (slot i) \<notin> held"
  shows "run_task ser (4 * length (watched r) + 2) (PollTask PollCalled) held r =
     (PollTask (PollDone (fst (poll_status_transitions ser r))), held, snd (poll_status_transitions ser r))"
proof -
  let ?r1 = "snd (prune_expired r)" and ?ps = "map (\<lambda>w. (w_venue w, w_receipt w)) (watched (snd (prune_expired r)))"
  have le: "length ?ps \<le> length (watched r)" by (simp add: prune_expired_eq)
  then have "4 * length (watched r) + 1 = 4 * length ?ps + Suc (4 * (length (watched r) - length ?ps))"
    by simp
  moreover have "\<And>v i. adapters ?r1 v = Some i \<Longrightarrow> slot_addr (slot i) \<notin> held"
    using assms by simp
  ultimately have "run_task ser (4 * length (watched r) + 1) (PollTask (PollNext ?ps [])) held ?r1 =
      (PollTask (PollDone (fst (poll_loop ser ?ps ?r1))), held, snd (poll_loop ser ?ps ?r1))"
    using poll_loop_alone [of ?r1 held ser ?ps "4 * (length (watched r) - length ?ps)" "[]"] by simp
  moreover have "run_task ser (4 * length (watched r) + 2) (PollTask PollCalled) held r =
      run_task ser (4 * length (watched r) + 1) (PollTask (PollNext ?ps [])) held ?r1"
    using run_task_step [of ser "PollTask PollCalled" held r "PollTask (PollNext ?ps [])" held ?r1 "4 * length (watched r) + 1"]
    by (simp add: case_prod_unfold Let_def del: run_task.simps)
  ultimately show ?thesis
    by (simp only: poll_status_transitions_def case_prod_unfold Let_def)
qed

section \<open>Classes of tasks\<close>

text \<open>The module a metered call is made for; polls, observations and status reads have none.\<close>

fun caller_of :: "'x task \<Rightarrow> string option" where
  "caller_of (SubmitTask (SubmitCalled c _ _)) = Some c"
| "caller_of (SubmitTask (SubmitResolved c _ _ _)) = Some c"
| "caller_of (SubmitTask (SubmitAdmitted c _ _ _)) = Some c"
| "caller_of (SubmitTask (SubmitHolding c _ _ _)) = Some c"
| "caller_of (SubmitTask (SubmitDerived c _ _ _ _)) = Some c"
| "caller_of (SubmitTask (SubmitCharged c _ _ _ _)) = Some c"
| "caller_of (SubmitTask (SubmitGuarded c _ _ _)) = Some c"
| "caller_of (SubmitTask (SubmitAnswered c _ _ _ _)) = Some c"
| "caller_of (SubmitTask (SubmitDone c _)) = Some c"
| "caller_of (QuoteTask (QuoteCalled c _ _)) = Some c"
| "caller_of (QuoteTask (QuoteResolved c _ _ _)) = Some c"
| "caller_of (QuoteTask (QuoteAdmitted c _ _ _)) = Some c"
| "caller_of (QuoteTask (QuoteCharged c _ _ _)) = Some c"
| "caller_of (QuoteTask (QuoteHolding c _ _ _)) = Some c"
| "caller_of (QuoteTask (QuoteDone c _)) = Some c"
| "caller_of (Dropped c) = c"
| "caller_of _ = None"

definition called :: "'x task \<Rightarrow> bool" where
  "called t = (case t of SubmitTask (SubmitCalled _ _ _) \<Rightarrow> True | QuoteTask (QuoteCalled _ _ _) \<Rightarrow> True
     | ObserveTask (ObserveCalled _ _) \<Rightarrow> True | StatusTask (StatusCalled _ _) \<Rightarrow> True | CancelTask (CancelCalled _ _) \<Rightarrow> True
     | PollTask PollCalled \<Rightarrow> True | _ \<Rightarrow> False)"

definition finished :: "'x task \<Rightarrow> bool" where
  "finished t = (case t of SubmitTask (SubmitDone _ _) \<Rightarrow> True | QuoteTask (QuoteDone _ _) \<Rightarrow> True | ObserveTask (ObserveDone _) \<Rightarrow> True
     | StatusTask (StatusDone _) \<Rightarrow> True | CancelTask (CancelDone _) \<Rightarrow> True | PollTask (PollDone _) \<Rightarrow> True | Dropped _ \<Rightarrow> True
     | _ \<Rightarrow> False)"

text \<open>Past the gate and not charged yet.\<close>

definition uncharged :: "'x task \<Rightarrow> bool" where
  "uncharged t = (case t of SubmitTask (SubmitAdmitted _ _ _ _) \<Rightarrow> True | SubmitTask (SubmitHolding _ _ _ _) \<Rightarrow> True
     | SubmitTask (SubmitDerived _ _ _ _ _) \<Rightarrow> True | QuoteTask (QuoteAdmitted _ _ _ _) \<Rightarrow> True | _ \<Rightarrow> False)"

text \<open>The adapter slot a task still refers to, and the one it holds the lock of.\<close>

fun task_slot :: "'x task \<Rightarrow> 'x AdapterSlot option" where
  "task_slot (SubmitTask (SubmitResolved _ _ _ sl)) = Some sl"
| "task_slot (SubmitTask (SubmitAdmitted _ _ _ sl)) = Some sl"
| "task_slot (SubmitTask (SubmitHolding _ _ _ sl)) = Some sl"
| "task_slot (SubmitTask (SubmitDerived _ _ _ sl _)) = Some sl"
| "task_slot (SubmitTask (SubmitCharged _ _ _ sl _)) = Some sl"
| "task_slot (SubmitTask (SubmitGuarded _ _ _ sl)) = Some sl"
| "task_slot (SubmitTask (SubmitAnswered _ _ _ sl _)) = Some sl"
| "task_slot (QuoteTask (QuoteResolved _ _ _ sl)) = Some sl"
| "task_slot (QuoteTask (QuoteAdmitted _ _ _ sl)) = Some sl"
| "task_slot (QuoteTask (QuoteCharged _ _ _ sl)) = Some sl"
| "task_slot (QuoteTask (QuoteHolding _ _ _ sl)) = Some sl"
| "task_slot (StatusTask (StatusResolved _ _ sl)) = Some sl"
| "task_slot (StatusTask (StatusHolding _ _ sl)) = Some sl"
| "task_slot (CancelTask (CancelResolved _ _ sl)) = Some sl"
| "task_slot (CancelTask (CancelHolding _ _ sl)) = Some sl"
| "task_slot (PollTask (PollResolved _ _ sl _ _)) = Some sl"
| "task_slot (PollTask (PollHolding _ _ sl _ _)) = Some sl"
| "task_slot _ = None"

fun holds :: "'x task \<Rightarrow> slot_ref option" where
  "holds (SubmitTask (SubmitHolding _ _ _ sl)) = Some (slot_addr sl)"
| "holds (SubmitTask (SubmitDerived _ _ _ sl _)) = Some (slot_addr sl)"
| "holds (SubmitTask (SubmitCharged _ _ _ sl _)) = Some (slot_addr sl)"
| "holds (SubmitTask (SubmitGuarded _ _ _ sl)) = Some (slot_addr sl)"
| "holds (SubmitTask (SubmitAnswered _ _ _ sl _)) = Some (slot_addr sl)"
| "holds (QuoteTask (QuoteHolding _ _ _ sl)) = Some (slot_addr sl)"
| "holds (StatusTask (StatusHolding _ _ sl)) = Some (slot_addr sl)"
| "holds (CancelTask (CancelHolding _ _ sl)) = Some (slot_addr sl)"
| "holds (PollTask (PollHolding _ _ sl _ _)) = Some (slot_addr sl)"
| "holds _ = None"

text \<open>
  Where a task awaits: the slot's lock, or the adapter. There its future may be dropped, which
  releases the lock it holds.
\<close>

definition awaiting :: "'x task \<Rightarrow> bool" where
  "awaiting t = (case t of SubmitTask (SubmitAdmitted _ _ _ _) \<Rightarrow> True | SubmitTask (SubmitHolding _ _ _ _) \<Rightarrow> True
     | SubmitTask (SubmitGuarded _ _ _ _) \<Rightarrow> True | QuoteTask (QuoteCharged _ _ _ _) \<Rightarrow> True | QuoteTask (QuoteHolding _ _ _ _) \<Rightarrow> True
     | StatusTask (StatusResolved _ _ _) \<Rightarrow> True | StatusTask (StatusHolding _ _ _) \<Rightarrow> True
     | CancelTask (CancelResolved _ _ _) \<Rightarrow> True | CancelTask (CancelHolding _ _ _) \<Rightarrow> True
     | PollTask (PollResolved _ _ _ _ _) \<Rightarrow> True | PollTask (PollHolding _ _ _ _ _) \<Rightarrow> True | _ \<Rightarrow> False)"

definition in_flight :: "string \<Rightarrow> 'x task list \<Rightarrow> nat" where
  "in_flight c ts = length (filter (\<lambda>t. caller_of t = Some c \<and> \<not> finished t) ts)"

definition pending_of :: "string \<Rightarrow> 'x task list \<Rightarrow> nat" where
  "pending_of c ts = length (filter (\<lambda>t. caller_of t = Some c \<and> uncharged t) ts)"

lemmas task_splits = task.splits submit_point.splits quote_point.splits observe_point.splits
  status_point.splits cancel_point.splits poll_point.splits

section \<open>What a step leaves in the history\<close>

text \<open>
  A charge and its instant; an entry put under watch; a status that task \<open>i\<close> reported of an
  entry.
\<close>

datatype label =
    Charged string instant
  | Watched "VenueId \<times> bytes"
  | Reported nat "VenueId \<times> bytes" IntentStatus

definition charge_label :: "string \<Rightarrow> 'x VenueRegistry \<Rightarrow> label" where
  "charge_label c r = Charged c (last (history_of (charge c r) c))"

definition watch_labels :: "VenueId \<Rightarrow> bytes \<Rightarrow> 'x VenueRegistry \<Rightarrow> label list" where
  "watch_labels v rc r =
     (let r1 = snd (prune_expired r) in
      if list_ex (watches v rc) (watched r1) \<or> \<not> length (watched r1) < max_entries (watch_limit r1)
      then [] else [Watched (v, rc)])"

fun step_labels :: "nat \<Rightarrow> StatusBody ser \<Rightarrow> 'x task \<Rightarrow> 'x VenueRegistry \<Rightarrow> label list" where
  "step_labels i ser (SubmitTask (SubmitDerived c v b sl (Err (InvalidBody e)))) r = [charge_label c r]"
| "step_labels i ser (SubmitTask (SubmitDerived c v b sl (Ok header))) r = [charge_label c r]"
| "step_labels i ser (QuoteTask (QuoteAdmitted c v b sl)) r = [charge_label c r]"
| "step_labels i ser (SubmitTask (SubmitAnswered c v b sl (Ok (Accepted rc)))) r = watch_labels v rc r"
| "step_labels i ser (ObserveTask (ObserveResolved v rc)) r = watch_labels v rc r"
| "step_labels i ser (PollTask (PollAnswered v rc (Ok st) rest us)) r =
     (case fst (record_polled_status ser v rc st r) of Some u \<Rightarrow> [Reported i (v, rc) st] | None \<Rightarrow> [])"
| "step_labels i ser t r = []"

definition charges_in :: "label list \<Rightarrow> (string \<times> instant) list" where
  "charges_in log = List.map_filter (\<lambda>l. case l of Charged c at \<Rightarrow> Some (c, at) | _ \<Rightarrow> None) log"

lemma charges_in_simps [simp]:
  "charges_in [] = []" "charges_in (a @ b) = charges_in a @ charges_in b"
  "charges_in [Charged c at] = [(c, at)]"
  "charges_in [Watched k] = []" "charges_in [Reported i k st] = []"
  by (simp_all add: charges_in_def List.map_filter_def)

section \<open>Interleavings\<close>

text \<open>
  What the rest of the process does meanwhile: venues are installed, and time passes. It
  leaves the ledger and the watch list alone and installs only lawful adapters.
\<close>

definition elsewhere :: "'x VenueRegistry \<Rightarrow> 'x VenueRegistry \<Rightarrow> bool" where
  "elsewhere r r' \<longleftrightarrow> per_caller r' = per_caller r \<and> quota r' = quota r
     \<and> watched r' = watched r \<and> watch_limit r' = watch_limit r
     \<and> world_le (env r) (env r') \<and> (lawful_registry r \<longrightarrow> lawful_registry r')"

lemma elsewhere_event:
  assumes "lawful_registry r" "lawful_event ev r" "is_ERegister ev \<or> is_EProcess ev"
  shows "elsewhere r (apply_event ser ev r)"
  using assms apply_event_world [OF assms(1,2)] apply_event_lawful [OF assms(1,2)]
  by (cases ev) (auto simp: elsewhere_def)

record 'x conc =
  tasks :: "'x task list"
  slots_held :: "slot_ref set"
  registry :: "'x VenueRegistry"

text \<open>The states an interleaving reaches; \<open>K\<close> bounds the calls each caller has in flight at once.\<close>

inductive conc_run ::
  "(string \<Rightarrow> nat) \<Rightarrow> StatusBody ser \<Rightarrow> 'x VenueRegistry \<Rightarrow> label list \<Rightarrow> 'x conc \<Rightarrow> bool"
  for K ser r0 where
  start: "conc_run K ser r0 [] \<lparr>tasks = [], slots_held = {}, registry = r0\<rparr>"
| spawn: "conc_run K ser r0 log s \<Longrightarrow> called t
    \<Longrightarrow> (\<And>c. caller_of t = Some c \<Longrightarrow> in_flight c (tasks s) < K c)
    \<Longrightarrow> conc_run K ser r0 log (s\<lparr>tasks := tasks s @ [t]\<rparr>)"
| step: "conc_run K ser r0 log s \<Longrightarrow> i < length (tasks s)
    \<Longrightarrow> advance ser (tasks s ! i) (slots_held s) (registry s) = Some (t', held', r')
    \<Longrightarrow> conc_run K ser r0 (log @ step_labels i ser (tasks s ! i) (registry s))
          \<lparr>tasks = (tasks s)[i := t'], slots_held = held', registry = r'\<rparr>"
| other: "conc_run K ser r0 log s \<Longrightarrow> elsewhere (registry s) r'
    \<Longrightarrow> conc_run K ser r0 log (s\<lparr>registry := r'\<rparr>)"
| drop: "conc_run K ser r0 log s \<Longrightarrow> i < length (tasks s) \<Longrightarrow> awaiting (tasks s ! i)
    \<Longrightarrow> conc_run K ser r0 log
          (s\<lparr>tasks := (tasks s)[i := Dropped (caller_of (tasks s ! i))],
             slots_held := slots_held s - set_option (holds (tasks s ! i))\<rparr>)"

end
