(* ===== verification/Registry_Overlap.thy ===== *)
theory Registry_Overlap imports Registry_Concurrent
begin

text \<open>
  The quota and the slots under interleaving. What each step of a task does to the ledger, the
  invariant that counts the charges in the window together with the calls admitted but not
  charged yet, and the exclusive ownership of a slot.
\<close>

section \<open>The effect of a step\<close>

lemma length_filter_update:
  assumes "i < length xs"
  shows "length (filter P (xs[i := y])) + of_bool (P (xs ! i)) = length (filter P xs) + of_bool (P y)"
  using assms
proof (induction xs arbitrary: i)
  case (Cons x xs)
  then show ?case by (cases i) auto
qed simp

lemmas step_splits = result.splits bool.splits option.splits if_splits VenueError.splits SubmitOutcome.splits

lemma history_of_polls [simp]:
  "history_of (snd (prune_expired r)) = history_of r"
  "history_of (snd (record_polled_status ser venue receipt st r)) = history_of r"
  by (rule history_of_per_caller; simp)+

lemma advance_frame:
  assumes "advance ser t held r = Some (t', held', r')"
  shows "caller_of t' = caller_of t" "config r' = config r" "\<not> finished t" "\<not> called t'"
    "caller_of t \<noteq> Some c \<Longrightarrow> history_of r' c = history_of r c"
  using assms
  by (cases "(ser, t, held, r)" rule: advance.cases;
      auto simp: finished_def called_def case_prod_unfold Let_def split: step_splits)+

lemma advance_slot:
  assumes "advance ser t held r = Some (t', held', r')" "task_slot t' = Some sl"
  shows "task_slot t = Some sl \<or> (\<exists>venue. resolve venue r = Ok sl)"
  using assms
  by (cases "(ser, t, held, r)" rule: advance.cases;
      auto simp: case_prod_unfold Let_def split: result.splits bool.splits if_splits)

definition slot_lawful :: "'x task \<Rightarrow> bool" where
  "slot_lawful t \<longleftrightarrow> (\<forall>sl. task_slot t = Some sl \<longrightarrow> venue_invoker (invoker sl))"

lemma advance_world:
  assumes "advance ser t held r = Some (t', held', r')" "lawful_registry r" "slot_lawful t"
  shows "world_le (env r) (env r')"
proof -
  note calls = lawful_call_on_env [OF venue_invoker.lawful_derive_header]
    lawful_call_on_env [OF venue_invoker.lawful_submit] lawful_call_on_env [OF venue_invoker.lawful_quote]
    lawful_call_on_env [OF venue_invoker.lawful_status] lawful_call_on_env [OF venue_invoker.lawful_cancel]
    lawful_call_on_env [OF lawful_registry.lawful_guard [OF assms(2)]]
  show ?thesis
    using assms(1,3)
    by (cases "(ser, t, held, r)" rule: advance.cases;
        auto simp: slot_lawful_def case_prod_unfold Let_def calls simp del: on_env_simps
        split: step_splits)
qed

text \<open>Every step is one of three: it leaves the ledger alone, gates, or charges.\<close>

lemma charges_in_watch_labels [simp]: "charges_in (watch_labels v rc r) = []"
  by (simp add: watch_labels_def Let_def)

lemma advance_ledger:
  assumes "advance ser t held r = Some (t', held', r')"
  shows "(charges_in (step_labels i ser t r) = [] \<and> history_of r' = history_of r \<and> (uncharged t' \<longrightarrow> uncharged t))
     \<or> (\<exists>c. caller_of t = Some c \<and> charges_in (step_labels i ser t r) = []
          \<and> r' = snd (quota_admits c r) \<and> \<not> uncharged t \<and> (uncharged t' \<longleftrightarrow> fst (quota_admits c r)))
     \<or> (\<exists>c. caller_of t = Some c \<and> charges_in (step_labels i ser t r) = [(c, last (history_of r' c))]
          \<and> r' = charge c r \<and> uncharged t \<and> \<not> uncharged t')"
  using assms
  by (cases "(ser, t, held, r)" rule: advance.cases;
      auto simp: charge_label_def uncharged_def case_prod_unfold Let_def
      simp del: on_env_simps split: step_splits)

section \<open>Charges in the window plus calls to be charged\<close>

lemma recent_later: "n \<le> n' \<Longrightarrow> length (recent n' win log) \<le> length (recent n win log)"
  by (metis recent_recent recent_def length_filter_le)

text \<open>The bound for a caller: the allowance, and one more for each further call in flight.\<close>

definition overlap_bound :: "(string \<Rightarrow> nat) \<Rightarrow> 'x VenueRegistry \<Rightarrow> string \<Rightarrow> nat" where
  "overlap_bound K r c = unat (max_charges (quota r)) + (K c - 1)"

definition caller_ok ::
  "(string \<Rightarrow> nat) \<Rightarrow> string \<Rightarrow> (string \<times> instant) list \<Rightarrow> 'x task list \<Rightarrow> 'x VenueRegistry \<Rightarrow> bool" where
  "caller_ok K c log ts r \<longleftrightarrow>
     tracks (quota_nanos r) (next_reading (env r)) (log_of c log) (history_of r c)
     \<and> length (recent (next_reading (env r)) (quota_nanos r) (log_of c log)) + pending_of c ts
         \<le> overlap_bound K r c
     \<and> (\<forall>t. length (in_window t (quota_nanos r) (log_of c log)) \<le> overlap_bound K r c)"

text \<open>Time passes, the ledger stays, no call is admitted.\<close>

lemma caller_ok_later:
  assumes ok: "caller_ok K c log ts r" and q: "quota r' = quota r" and h: "history_of r' c = history_of r c"
    and later: "next_reading (env r) \<le> next_reading (env r')" and p: "pending_of c ts' \<le> pending_of c ts"
  shows "caller_ok K c log ts' r'"
  using ok tracks_later [OF _ later] recent_later [OF later, of "quota_nanos r" "log_of c log"] p
  unfolding caller_ok_def overlap_bound_def q h by fastforce

text \<open>The gate prunes, and admits at most one call, only below the allowance.\<close>

lemma caller_ok_gate:
  assumes ok: "caller_ok K c log ts r" and r': "r' = snd (quota_admits c r)"
    and mono: "mono (clock (env r))" and small: "overlap_bound K r c < 2 ^ 32"
    and p: "pending_of c ts' \<le> pending_of c ts + of_bool (fst (quota_admits c r))"
    and flight: "pending_of c ts' \<le> K c"
  shows "caller_ok K c log ts' r'"
proof -
  let ?win = "quota_nanos r" and ?n = "next_reading (env r)" and ?n' = "next_reading (env r')"
  let ?log = "log_of c log" and ?m = "unat (max_charges (quota r))"
  have q: "quota r' = quota r" unfolding r' by (rule config_fields) simp
  have later: "?n \<le> ?n'"
    unfolding r' by (rule next_reading_mono [OF quota_admits_world mono])
  have tr: "tracks ?win ?n ?log (history_of r c)" using ok by (simp add: caller_ok_def)
  have pruned: "history_of r' c = prune_before ?n ?win (history_of r c)"
    by (simp add: r' history_of_quota_admits)
  have rec: "prune_before ?n ?win (history_of r c) = recent ?n ?win ?log"
    by (rule tracks_prune_eq [OF tr order_refl])
  have len: "length (recent ?n ?win ?log) + pending_of c ts \<le> overlap_bound K r c"
    using ok by (simp add: caller_ok_def)
  have sum: "length (recent ?n ?win ?log) + pending_of c ts' \<le> overlap_bound K r c"
  proof (cases "fst (quota_admits c r)")
    case True
    then have less: "(of_nat (length (recent ?n ?win ?log)) :: u32) < max_charges (quota r)"
      by (simp add: fst_quota_admits rec)
    have "length (recent ?n ?win ?log) < 2 ^ 32" using len small by simp
    then have "unat (of_nat (length (recent ?n ?win ?log)) :: u32) = length (recent ?n ?win ?log)"
      by (simp add: unat_of_nat)
    then have "length (recent ?n ?win ?log) < ?m"
      using less by (simp add: word_less_nat_alt)
    then show ?thesis
      using flight by (simp add: overlap_bound_def)
  next
    case False
    then show ?thesis using len p by simp
  qed
  show ?thesis
    unfolding caller_ok_def
  proof (intro conjI)
    show "tracks (quota_nanos r') ?n' ?log (history_of r' c)"
      unfolding q pruned by (rule tracks_prune [OF tr order_refl later])
    show "length (recent ?n' (quota_nanos r') ?log) + pending_of c ts' \<le> overlap_bound K r' c"
      using sum recent_later [OF later, of ?win ?log] by (simp add: overlap_bound_def q)
    show "\<forall>t. length (in_window t (quota_nanos r') ?log) \<le> overlap_bound K r' c"
      using ok by (simp add: caller_ok_def overlap_bound_def q)
  qed
qed

text \<open>A charge moves one call from the pending to the log.\<close>

lemma caller_ok_charge:
  assumes ok: "caller_ok K c log ts r" and r': "r' = charge c r" and mono: "mono (clock (env r))"
    and p: "Suc (pending_of c ts') \<le> pending_of c ts"
  shows "caller_ok K c (log @ [(c, last (history_of r' c))]) ts' r'"
proof -
  let ?win = "quota_nanos r" and ?n = "next_reading (env r)" and ?n' = "next_reading (env r')"
  let ?log = "log_of c log"
  define t where "t = clock (env r) (Suc (reads (env r)))"
  have q: "quota r' = quota r" unfolding r' by (rule config_fields) simp
  have h: "history_of r' c = prune_before ?n ?win (history_of r c) @ [t]"
    by (simp add: r' history_of_charge t_def)
  have nt: "?n \<le> t"
    unfolding t_def next_reading_def by (rule monoD [OF mono]) simp
  have tn': "t \<le> ?n'"
    unfolding t_def next_reading_def r' charge_eq by (simp add: monoD [OF mono])
  have tr: "tracks ?win ?n ?log (history_of r c)"
    and len: "length (recent ?n ?win ?log) + pending_of c ts \<le> overlap_bound K r c"
    and windows: "\<And>u. length (in_window u ?win ?log) \<le> overlap_bound K r c"
    using ok by (simp_all add: caller_ok_def)
  show ?thesis
    unfolding caller_ok_def log_of_append h last_snoc
  proof (intro conjI allI)
    show "tracks (quota_nanos r') ?n' (?log @ log_of c [(c, t)]) (prune_before ?n ?win (history_of r c) @ [t])"
      using tracks_charge [OF tr order_refl nt tn'] by (simp add: q)
    have "length (recent ?n' ?win (?log @ [t])) \<le> Suc (length (recent ?n ?win ?log))"
      using recent_later [of ?n ?n' ?win ?log] nt tn' by (simp add: recent_def)
    then show "length (recent ?n' (quota_nanos r') (?log @ log_of c [(c, t)])) + pending_of c ts'
        \<le> overlap_bound K r' c"
      using len p by (simp add: overlap_bound_def q)
  next
    fix u
    have "length (recent ?n ?win ?log) < overlap_bound K r c" using len p by simp
    from in_window_snoc [OF windows this nt]
    show "length (in_window u (quota_nanos r') (?log @ log_of c [(c, t)])) \<le> overlap_bound K r' c"
      by (simp add: overlap_bound_def q)
  qed
qed

section \<open>The invariant of a run\<close>

definition conc_ok :: "(string \<Rightarrow> nat) \<Rightarrow> label list \<Rightarrow> 'x conc \<Rightarrow> bool" where
  "conc_ok K log s \<longleftrightarrow>
     lawful_registry (registry s) \<and> mono (clock (env (registry s)))
     \<and> (\<forall>t\<in>set (tasks s). slot_lawful t) \<and> (\<forall>c. in_flight c (tasks s) \<le> K c)
     \<and> (\<forall>c. overlap_bound K (registry s) c < 2 ^ 32 \<longrightarrow> caller_ok K c (charges_in log) (tasks s) (registry s))"

lemma uncharged_unfinished: "uncharged t \<Longrightarrow> \<not> finished t"
  by (auto simp: uncharged_def finished_def split: task_splits)

lemma pending_le_in_flight: "pending_of c ts \<le> in_flight c ts"
  unfolding pending_of_def in_flight_def
  by (induction ts) (auto dest: uncharged_unfinished)

lemma conc_ok_start:
  assumes "lawful_registry r" "mono (clock (env r))" "per_caller r = Map.empty"
  shows "conc_ok K [] \<lparr>tasks = [], slots_held = {}, registry = r\<rparr>"
  using assms tracks_empty
  by (simp add: conc_ok_def caller_ok_def history_of_def in_flight_def pending_of_def recent_def
      in_window_def)

lemma conc_ok_spawn:
  assumes "conc_ok K log s" "called t" "\<And>c. caller_of t = Some c \<Longrightarrow> in_flight c (tasks s) < K c"
  shows "conc_ok K log (s\<lparr>tasks := tasks s @ [t]\<rparr>)"
proof -
  have "in_flight c (tasks s @ [t]) \<le> K c" for c
    using assms(1) assms(3) [of c]
    by (cases "caller_of t = Some c") (auto simp: conc_ok_def in_flight_def)
  moreover have "pending_of c (tasks s @ [t]) = pending_of c (tasks s)" for c
    using assms(2) by (auto simp: pending_of_def called_def uncharged_def split: task_splits)
  moreover have "slot_lawful t"
    using assms(2) by (auto simp: called_def slot_lawful_def split: task_splits)
  ultimately show ?thesis
    using assms(1) by (simp add: conc_ok_def caller_ok_def)
qed

lemma conc_ok_other:
  assumes "conc_ok K log s" "elsewhere (registry s) r'"
  shows "conc_ok K log (s\<lparr>registry := r'\<rparr>)"
proof -
  have r: "quota r' = quota (registry s)" "history_of r' = history_of (registry s)"
    "world_le (env (registry s)) (env r')" "lawful_registry r'"
    using assms history_of_per_caller [of r' "registry s"] by (auto simp: elsewhere_def conc_ok_def)
  have mono: "mono (clock (env (registry s)))" using assms(1) by (simp add: conc_ok_def)
  note later = next_reading_mono [OF r(3) mono]
  have "clock (env r') = clock (env (registry s))" using r(3) by (simp add: world_le_def)
  then show ?thesis
    using assms(1) r(1,2,4) caller_ok_later [OF _ r(1) _ later order_refl]
    by (simp add: conc_ok_def overlap_bound_def)
qed

text \<open>The calls in flight and the calls to be charged, when one task moves.\<close>

lemma flight_update:
  assumes "i < length ts" "caller_of t' = caller_of (ts ! i)" "\<not> finished (ts ! i)"
  shows "in_flight c (ts[i := t']) \<le> in_flight c ts"
  using length_filter_update [OF assms(1), of "\<lambda>t. caller_of t = Some c \<and> \<not> finished t" t'] assms(2,3)
  by (cases "caller_of (ts ! i) = Some c"; cases "finished t'") (auto simp: in_flight_def)

lemma pending_update:
  assumes "i < length ts" "caller_of t' = caller_of (ts ! i)"
  shows "pending_of c (ts[i := t']) + of_bool (caller_of (ts ! i) = Some c \<and> uncharged (ts ! i)) =
     pending_of c ts + of_bool (caller_of (ts ! i) = Some c \<and> uncharged t')"
  using length_filter_update [OF assms(1), of "\<lambda>t. caller_of t = Some c \<and> uncharged t" t'] assms(2)
  by (simp add: pending_of_def)

lemma awaiting_unfinished: "awaiting t \<Longrightarrow> \<not> finished t"
  by (auto simp: awaiting_def finished_def split: task_splits)

lemma conc_ok_drop:
  assumes "conc_ok K log s" "i < length (tasks s)" "awaiting (tasks s ! i)"
  shows "conc_ok K log (s\<lparr>tasks := (tasks s)[i := Dropped (caller_of (tasks s ! i))], slots_held := held'\<rparr>)"
proof -
  define t :: "'a task" where "t = Dropped (caller_of (tasks s ! i))"
  have t: "caller_of t = caller_of (tasks s ! i)" "\<not> uncharged t" "slot_lawful t"
    by (simp_all add: t_def uncharged_def slot_lawful_def)
  have flight: "in_flight c ((tasks s)[i := t]) \<le> K c" for c
  proof (rule order_trans)
    show "in_flight c ((tasks s)[i := t]) \<le> in_flight c (tasks s)"
      by (rule flight_update [OF assms(2) t(1) awaiting_unfinished [OF assms(3)]])
  qed (use assms(1) in \<open>simp add: conc_ok_def\<close>)
  have pending: "pending_of c ((tasks s)[i := t]) \<le> pending_of c (tasks s)" for c
    using pending_update [OF assms(2) t(1), of c] t(2) by simp
  have callers: "caller_ok K c (charges_in log) ((tasks s)[i := t]) (registry s)"
    if "overlap_bound K (registry s) c < 2 ^ 32" for c
    by (rule caller_ok_later [OF _ refl refl order_refl pending])
      (use assms(1) that in \<open>simp_all add: conc_ok_def\<close>)
  have "slot_lawful u" if "u \<in> set ((tasks s)[i := t])" for u
    using set_update_subset_insert [of "tasks s" i t] that t(3) assms(1) by (auto simp: conc_ok_def)
  with assms(1) flight callers show ?thesis
    unfolding t_def [symmetric] by (simp add: conc_ok_def)
qed

lemma conc_ok_step:
  assumes ok: "conc_ok K log s" and i: "i < length (tasks s)"
    and adv: "advance ser (tasks s ! i) (slots_held s) (registry s) = Some (t', held', r')"
  shows "conc_ok K (log @ step_labels i ser (tasks s ! i) (registry s))
     \<lparr>tasks = (tasks s)[i := t'], slots_held = held', registry = r'\<rparr>"
proof -
  let ?t = "tasks s ! i" and ?r = "registry s" and ?ts = "(tasks s)[i := t']"
  let ?log = "charges_in log" and ?new = "charges_in (step_labels i ser (tasks s ! i) (registry s))"
  note frame = advance_frame [OF adv]
  have lawful: "lawful_registry ?r" and mono: "mono (clock (env ?r))"
    and slots: "\<forall>t\<in>set (tasks s). slot_lawful t"
    and flight: "\<And>c. in_flight c (tasks s) \<le> K c"
    and callers: "\<And>c. overlap_bound K ?r c < 2 ^ 32 \<Longrightarrow> caller_ok K c ?log (tasks s) ?r"
    using ok by (auto simp: conc_ok_def)
  have sl: "slot_lawful ?t" using slots i by simp
  have world: "world_le (env ?r) (env r')" by (rule advance_world [OF adv lawful sl])
  have later: "next_reading (env ?r) \<le> next_reading (env r')" by (rule next_reading_mono [OF world mono])
  have q: "quota r' = quota ?r" by (rule config_fields [OF frame(2)])
  have flight': "in_flight c ?ts \<le> K c" for c
    using flight_update [OF i frame(1,3)] flight by (rule order_trans)
  note pending = pending_update [OF i frame(1)]
  have le: "pending_of c ?ts \<le> K c" for c
    using pending_le_in_flight [of c ?ts] flight' [of c] by simp
  have "caller_ok K c (?log @ ?new) ?ts r'" if small: "overlap_bound K ?r c < 2 ^ 32" for c
  proof (cases "caller_of ?t = Some c")
    case other: False
    then have "log_of c ?new = []"
      using advance_ledger [OF adv, of i] by auto
    moreover have "caller_ok K c ?log ?ts r'"
      using caller_ok_later [OF callers [OF small] q frame(5) later] other pending [of c] by simp
    ultimately show ?thesis by (simp add: caller_ok_def)
  next
    case mine: True
    from advance_ledger [OF adv, of i] show ?thesis
    proof (elim disjE exE conjE)
      assume "?new = []" "history_of r' = history_of ?r" "uncharged t' \<longrightarrow> uncharged ?t"
      then show ?thesis
        using caller_ok_later [OF callers [OF small] q _ later, of ?ts] pending [of c] mine
        by (cases "uncharged t'") auto
    next
      fix c'
      assume a: "caller_of ?t = Some c'" "?new = []" "r' = snd (quota_admits c' ?r)" "\<not> uncharged ?t"
        "uncharged t' \<longleftrightarrow> fst (quota_admits c' ?r)"
      then have "pending_of c ?ts \<le> pending_of c (tasks s) + of_bool (fst (quota_admits c ?r))"
        using pending [of c] mine by simp
      from caller_ok_gate [OF callers [OF small] _ mono small this le] a mine show ?thesis by simp
    next
      fix c'
      assume a: "caller_of ?t = Some c'" "?new = [(c', last (history_of r' c'))]"
        "r' = charge c' ?r" "uncharged ?t" "\<not> uncharged t'"
      then have "Suc (pending_of c ?ts) \<le> pending_of c (tasks s)"
        using pending [of c] mine by simp
      from caller_ok_charge [OF callers [OF small] _ mono this] a mine show ?thesis by simp
    qed
  qed
  moreover have "lawful_registry r'"
    using lawful frame(2) by (simp add: lawful_registry_config)
  moreover have "slot_lawful t'"
    using advance_slot [OF adv] sl lawful_registry.resolve_lawful [OF lawful] by (auto simp: slot_lawful_def)
  moreover have "clock (env r') = clock (env ?r)" using world by (simp add: world_le_def)
  ultimately show ?thesis
    using mono slots flight' set_update_subset_insert [of "tasks s" i t']
    by (auto simp: conc_ok_def overlap_bound_def q)
qed

lemma conc_run_ok:
  assumes "conc_run K ser r0 log s" "lawful_registry r0" "mono (clock (env r0))" "per_caller r0 = Map.empty"
  shows "conc_ok K log s \<and> quota (registry s) = quota r0"
  using assms(1)
proof (induction rule: conc_run.induct)
  case start
  show ?case using conc_ok_start [OF assms(2-4)] by simp
next
  case (spawn log s t)
  show ?case using conc_ok_spawn [OF conjunct1 [OF spawn.IH] spawn.hyps(2,3)] spawn.IH by simp
next
  case (step log s i t' held' r')
  then show ?case using conc_ok_step config_fields(3) [OF advance_frame(2) [OF step.hyps(3)]] by auto
next
  case (other log s r')
  then show ?case
    using conc_ok_other [OF conjunct1 [OF other.IH] other.hyps(2)] by (simp add: elsewhere_def)
next
  case (drop log s i)
  then show ?case using conc_ok_drop by auto
qed

section \<open>A slot has one holder\<close>

text \<open>The locked slots are those the tasks hold, each held once.\<close>

abbreviation held_by :: "'x task list \<Rightarrow> slot_ref list" where
  "held_by ts \<equiv> List.map_filter holds ts"

definition slots_ok :: "'x conc \<Rightarrow> bool" where
  "slots_ok s \<longleftrightarrow> distinct (held_by (tasks s)) \<and> slots_held s = set (held_by (tasks s))"

lemma map_filter_append: "List.map_filter f (xs @ ys) = List.map_filter f xs @ List.map_filter f ys"
  by (simp add: List.map_filter_def)

lemma advance_holds:
  assumes "advance ser t held r = Some (t', held', r')"
  shows "(holds t' = holds t \<and> held' = held)
     \<or> (\<exists>a. holds t = None \<and> holds t' = Some a \<and> a \<notin> held \<and> held' = insert a held)
     \<or> (\<exists>a. holds t = Some a \<and> holds t' = None \<and> held' = held - {a})"
  using assms
  by (cases "(ser, t, held, r)" rule: advance.cases;
      auto simp: case_prod_unfold Let_def split: result.splits bool.splits if_splits)

text \<open>One task takes a free slot, gives its own back, or keeps what it has.\<close>

lemma slots_ok_update:
  assumes "slots_ok s" "i < length (tasks s)"
    and "(holds t' = holds (tasks s ! i) \<and> held' = slots_held s)
     \<or> (\<exists>a. holds (tasks s ! i) = None \<and> holds t' = Some a \<and> a \<notin> slots_held s \<and> held' = insert a (slots_held s))
     \<or> (holds t' = None \<and> held' = slots_held s - set_option (holds (tasks s ! i)))"
  shows "slots_ok \<lparr>tasks = (tasks s)[i := t'], slots_held = held', registry = r'\<rparr>"
proof -
  define xs ys t where "xs = take i (tasks s)" and "ys = drop (Suc i) (tasks s)" and "t = tasks s ! i"
  have ts: "tasks s = xs @ t # ys" and i: "i = length xs"
    using assms(2) by (simp_all add: xs_def ys_def t_def id_take_nth_drop [symmetric])
  have "tasks s ! i = t" by (simp add: t_def)
  then show ?thesis
    using assms(1,3) unfolding ts i
    by (cases "holds t"; cases "holds t'")
      (auto simp: slots_ok_def ts map_filter_append map_filter_simps)
qed

lemma conc_run_slots: "conc_run K ser r0 log s \<Longrightarrow> slots_ok s"
proof (induction rule: conc_run.induct)
  case (spawn log s t)
  then have "holds t = None" by (auto simp: called_def split: task_splits)
  with spawn.IH show ?case by (simp add: slots_ok_def map_filter_append map_filter_simps)
next
  case (step log s i t' held' r')
  from advance_holds [OF step.hyps(3)] show ?case
    by (intro slots_ok_update [OF step.IH step.hyps(2)]) auto
next
  case (drop log s i)
  let ?t = "Dropped (caller_of (tasks s ! i)) :: 'a task"
  have "slots_ok \<lparr>tasks = (tasks s)[i := ?t], slots_held = slots_held s - set_option (holds (tasks s ! i)),
      registry = registry s\<rparr>"
    by (rule slots_ok_update [OF drop.IH drop.hyps(2)]) simp
  then show ?case by (simp add: slots_ok_def)
qed (simp_all add: slots_ok_def map_filter_simps)

lemma distinct_map_filter_nth:
  assumes "distinct (List.map_filter f xs)" "i < length xs" "j < length xs" "f (xs ! i) = Some a" "f (xs ! j) = Some a"
  shows "i = j"
  using assms
proof (induction xs arbitrary: i j)
  case (Cons x xs)
  have "a \<in> set (List.map_filter f xs)" if "k < length xs" "f (xs ! k) = Some a" for k
    using that nth_mem [OF that(1)] by (force simp: List.map_filter_def)
  then show ?case
    using Cons by (cases i; cases j) (auto simp: map_filter_simps split: option.splits)
qed simp

lemma one_holder:
  assumes "slots_ok s" "i < length (tasks s)" "j < length (tasks s)"
    and "holds (tasks s ! i) = Some a" "holds (tasks s ! j) = Some a"
  shows "i = j"
  using assms by (intro distinct_map_filter_nth [of holds "tasks s"]) (simp_all add: slots_ok_def)

end
