(* ===== verification/Registry_Poll.thy ===== *)
theory Registry_Poll imports Registry_Watch
begin

text \<open>
  What polling reports. \<open>tracked\<close> abstracts the watch list to a map from venue and
  receipt to the last reported status; a poll of one entry is one labelled step of that
  map, so a sequence of polls reports each transition once and nothing after a terminal
  status. With adapters that only answer, a whole poll is a map over the list.
\<close>

section \<open>The watch list as a map\<close>

definition tracked :: "'x VenueRegistry \<Rightarrow> VenueId \<times> bytes \<Rightarrow> IntentStatus option option" where
  "tracked r = map_of (map (\<lambda>e. (watch_key e, w_last e)) (watched r))"

lemma tracked_cong: "watched r' = watched r \<Longrightarrow> tracked r' = tracked r"
  by (simp add: tracked_def)

lemma tracked_eq_None: "tracked r k = None \<longleftrightarrow> k \<notin> watch_key ` set (watched r)"
  by (simp add: tracked_def map_of_eq_None_iff image_image)

lemma position_watches:
  assumes "distinct (map watch_key (xs @ e # ys))" and "watch_key e = (venue, receipt)"
  shows "position (watches venue receipt) (xs @ e # ys) = Some (length xs)"
  using assms by (induction xs) (auto simp: watches_key)

lemma position_watches_split:
  assumes "position (watches venue receipt) ws = Some i" and "distinct (map watch_key ws)"
  obtains xs e ys where "ws = xs @ e # ys" "i = length xs" "watch_key e = (venue, receipt)"
proof
  have i: "i < length ws" "watch_key (ws ! i) = (venue, receipt)"
    using position_SomeD [OF assms(1)] by (simp_all add: watches_key)
  then show "ws = take i ws @ ws ! i # drop (Suc i) ws" "i = length (take i ws)"
    "watch_key (ws ! i) = (venue, receipt)"
    by (simp_all add: id_take_nth_drop [symmetric])
qed

lemma remove_at_append [simp]: "remove_at (length xs) (xs @ e # ys) = xs @ ys"
  by (simp add: remove_at_def)

lemma tracked_split:
  assumes "distinct (map watch_key (xs @ e # ys))"
  shows "map_of (map (\<lambda>e. (watch_key e, w_last e)) (xs @ e # ys)) =
     (map_of (map (\<lambda>e. (watch_key e, w_last e)) (xs @ ys))) (watch_key e \<mapsto> w_last e)"
    and "map_of (map (\<lambda>e. (watch_key e, w_last e)) (xs @ ys)) (watch_key e) = None"
proof -
  have n: "map_of (map (\<lambda>e. (watch_key e, w_last e)) xs) (watch_key e) = None"
    "map_of (map (\<lambda>e. (watch_key e, w_last e)) ys) (watch_key e) = None"
    using assms by (auto simp: map_of_eq_None_iff image_image)
  then show "map_of (map (\<lambda>e. (watch_key e, w_last e)) (xs @ ys)) (watch_key e) = None"
    by (simp add: map_add_def)
  show "map_of (map (\<lambda>e. (watch_key e, w_last e)) (xs @ e # ys)) =
     (map_of (map (\<lambda>e. (watch_key e, w_last e)) (xs @ ys))) (watch_key e \<mapsto> w_last e)"
    using n by (auto simp: fun_eq_iff map_add_def split: option.split)
qed

section \<open>Polling one entry\<close>

definition update_for :: "VenueId \<Rightarrow> bytes \<Rightarrow> bytes \<Rightarrow> IntentStatusUpdate" where
  "update_for venue receipt body =
     \<lparr>upd_venue = as_str venue, upd_receipt = receipt, upd_status = body\<rparr>"

text \<open>The effect of recording an answer on an entry in the middle of the list.\<close>

lemma record_polled_status_at:
  assumes "watched r = xs @ e # ys" and "distinct (map watch_key (watched r))"
    and "watch_key e = (venue, receipt)"
  shows "record_polled_status ser venue receipt st r =
     (let (deadline, r1) = give_up_deadline r;
          refreshed = e\<lparr>w_expires_at := deadline\<rparr>
      in if w_last e = Some st then (None, r1\<lparr>watched := xs @ refreshed # ys\<rparr>)
         else (case StatusBody_encode ser (status_body st) of
             Err _ \<Rightarrow> (None, r1\<lparr>watched := xs @ refreshed # ys\<rparr>)
           | Ok body \<Rightarrow> (Some (update_for venue receipt body),
               if is_terminal st then r\<lparr>watched := xs @ ys\<rparr>
               else r1\<lparr>watched := xs @ e\<lparr>w_last := Some st, w_expires_at := deadline\<rparr> # ys\<rparr>)))"
  using assms position_watches [of xs e ys venue receipt]
  by (auto simp: record_polled_status_def case_prod_unfold Let_def update_for_def split: result.split)

lemma record_polled_status_tracked:
  fixes r :: "'x VenueRegistry"
  assumes "watch_ok r" and "record_polled_status ser venue receipt st r = (upd, r')"
  shows "upd = None \<and> tracked r' = tracked r
     \<or> (\<exists>body l. upd = Some (update_for venue receipt body)
          \<and> StatusBody_encode ser (status_body st) = Ok body
          \<and> tracked r (venue, receipt) = Some l \<and> l \<noteq> Some st
          \<and> tracked r' = (tracked r) ((venue, receipt) :=
               (if is_terminal st then None else Some (Some st))))"
proof (cases "position (watches venue receipt) (watched r)")
  case None
  with assms(2) show ?thesis by (simp add: record_polled_status_def)
next
  case (Some i)
  obtain xs e ys where ws: "watched r = xs @ e # ys" and key: "watch_key e = (venue, receipt)"
    by (rule position_watches_split [OF Some watch_okD(2) [OF assms(1)]])
  note d = watch_okD(2) [OF assms(1)]
  define M where "M = map_of (map (\<lambda>e. (watch_key e, w_last e)) (xs @ ys))"
  have t: "tracked (x\<lparr>watched := xs @ e' # ys\<rparr>) = M ((venue, receipt) \<mapsto> w_last e')"
    if "watch_key e' = (venue, receipt)" for e' and x :: "'x VenueRegistry"
    using tracked_split(1) [of xs e' ys] d that key unfolding ws M_def by (simp add: tracked_def)
  have g: "tracked (x\<lparr>watched := xs @ ys\<rparr>) = M" for x :: "'x VenueRegistry"
    by (simp add: M_def tracked_def)
  have n: "M (venue, receipt) = None"
    using tracked_split(2) [of xs e ys] d key unfolding ws M_def by simp
  have t0: "tracked r = M ((venue, receipt) \<mapsto> w_last e)"
    using t [OF key, of r] ws by (simp add: tracked_def)
  show ?thesis
    using assms(2) n key
    by (auto simp: record_polled_status_at [OF ws d key] case_prod_unfold Let_def
        t0 t g fun_eq_iff split: if_splits result.splits)
qed

text \<open>
  One labelled step of the map: nothing is emitted and the map stays, or the update of one
  entry is emitted and the map records what it said.
\<close>

definition emits :: "StatusBody ser \<Rightarrow> (VenueId \<times> bytes \<Rightarrow> IntentStatus option option)
    \<Rightarrow> IntentStatusUpdate list \<Rightarrow> (VenueId \<times> bytes \<Rightarrow> IntentStatus option option) \<Rightarrow> bool" where
  "emits ser t us t' \<longleftrightarrow> us = [] \<and> t' = t
     \<or> (\<exists>venue receipt st body l. us = [update_for venue receipt body]
          \<and> StatusBody_encode ser (status_body st) = Ok body
          \<and> t (venue, receipt) = Some l \<and> l \<noteq> Some st
          \<and> t' = t ((venue, receipt) := (if is_terminal st then None else Some (Some st))))"

lemma poll_one_emits:
  assumes "watch_ok r"
  shows "emits ser (tracked r) (fst (poll_one ser venue receipt r))
           (tracked (snd (poll_one ser venue receipt r)))"
proof (cases "resolve venue r")
  case (Ok sl)
  let ?r1 = "snd (on_env (inv_status (invoker sl) receipt) r)"
  have ok1: "watch_ok ?r1" and t1: "tracked ?r1 = tracked r"
    by (rule watch_ok_same [OF assms]; simp) (rule tracked_cong, simp)
  show ?thesis
  proof (cases "fst (on_env (inv_status (invoker sl) receipt) r)")
    case (Ok st)
    then show ?thesis
      using record_polled_status_tracked [OF ok1, of ser venue receipt st] t1
        \<open>resolve venue r = Ok sl\<close>
      by (cases "record_polled_status ser venue receipt st ?r1")
        (fastforce simp: poll_one_def case_prod_unfold Let_def emits_def)
  next
    case (Err e)
    then show ?thesis
      using t1 \<open>resolve venue r = Ok sl\<close>
      by (simp add: poll_one_def case_prod_unfold Let_def emits_def)
  qed
qed (simp add: poll_one_def emits_def)

section \<open>Sequences of polls\<close>

text \<open>
  A stretch of a run in which nothing new is put under watch: polls, calls that do not
  watch, venues being installed and the process moving on, with the updates emitted.
\<close>

fun watches_nothing :: "'x reg_event \<Rightarrow> bool" where
  "watches_nothing (ESubmit _ _ _) = False"
| "watches_nothing (EObserve _ _) = False"
| "watches_nothing _ = True"

fun event_updates ::
  "StatusBody ser \<Rightarrow> 'x reg_event \<Rightarrow> 'x VenueRegistry \<Rightarrow> IntentStatusUpdate list" where
  "event_updates ser EPoll r = fst (poll_status_transitions ser r)"
| "event_updates ser _ r = []"

inductive reg_polls ::
  "StatusBody ser \<Rightarrow> 'x VenueRegistry \<Rightarrow> IntentStatusUpdate list \<Rightarrow> 'x VenueRegistry \<Rightarrow> bool"
  for ser r0 where
  start: "reg_polls ser r0 [] r0"
| event: "reg_polls ser r0 us r \<Longrightarrow> watches_nothing ev
    \<Longrightarrow> reg_polls ser r0 (us @ event_updates ser ev r) (apply_event ser ev r)"

definition bodies_of :: "VenueId \<times> bytes \<Rightarrow> IntentStatusUpdate list \<Rightarrow> bytes list" where
  "bodies_of k us = map upd_status
     (filter (\<lambda>u. upd_venue u = as_str (fst k) \<and> upd_receipt u = snd k) us)"

lemma bodies_of_simps [simp]:
  "bodies_of k [] = []" "bodies_of k (us @ vs) = bodies_of k us @ bodies_of k vs"
  "bodies_of k [update_for v rc body] = (if k = (v, rc) then [body] else [])"
  by (auto simp: bodies_of_def update_for_def prod_eq_iff VenueId.expand)

text \<open>
  What has been reported of one key so far: no status twice in a row, nothing after a
  terminal one, and the map remembers the last one.
\<close>

definition reported :: "StatusBody ser \<Rightarrow> IntentStatus option option \<Rightarrow> bytes list \<Rightarrow> bool" where
  "reported ser l bs \<longleftrightarrow> distinct_adj bs
     \<and> (\<forall>b\<in>set (butlast bs). \<forall>st. is_terminal st \<longrightarrow> StatusBody_encode ser (status_body st) \<noteq> Ok b)
     \<and> (case l of None \<Rightarrow> True
        | Some None \<Rightarrow> bs = []
        | Some (Some st) \<Rightarrow> bs = [] \<or>
            (\<not> is_terminal st \<and> StatusBody_encode ser (status_body st) = Ok (last bs)))"

lemma status_body_inj [simp]: "status_body st = status_body st' \<longleftrightarrow> st = st'"
  by (cases st; cases st') (simp_all add: status_body_def)

lemma encode_status_inj:
  "borsh_codec ser de \<Longrightarrow> StatusBody_encode ser (status_body st) = Ok b
     \<Longrightarrow> StatusBody_encode ser (status_body st') = Ok b \<Longrightarrow> st = st'"
  using StatusBody_encode_decode [of ser de "status_body st" b]
    StatusBody_encode_decode [of ser de "status_body st'" b] by simp

lemma distinct_adj_snoc: "distinct_adj (bs @ [b]) \<longleftrightarrow> distinct_adj bs \<and> (bs = [] \<or> last bs \<noteq> b)"
  by (cases bs rule: rev_cases) (auto simp: distinct_adj_append_iff)

lemma reported_emits:
  assumes codec: "borsh_codec ser de" and "\<And>k. reported ser (t k) (bs k)"
    and "emits ser t us t'"
  shows "reported ser (t' k) (bs k @ bodies_of k us)"
proof (cases "us = [] \<and> t' = t")
  case True
  with assms show ?thesis by simp
next
  case False
  then obtain venue receipt st body l where
    us: "us = [update_for venue receipt body]"
    and enc: "StatusBody_encode ser (status_body st) = Ok body"
    and t: "t (venue, receipt) = Some l" "l \<noteq> Some st"
    and t': "t' = t ((venue, receipt) := (if is_terminal st then None else Some (Some st)))"
    using assms(3) unfolding emits_def by blast
  show ?thesis
  proof (cases "k = (venue, receipt)")
    case True
    have r: "reported ser (Some l) (bs k)" using assms(2) [of k] t True by simp
    have "bs k = [] \<or> (\<exists>st'. l = Some st' \<and> \<not> is_terminal st'
        \<and> StatusBody_encode ser (status_body st') = Ok (last (bs k)))"
      using r by (auto simp: reported_def split: option.splits)
    then have new: "bs k = [] \<or> last (bs k) \<noteq> body"
      and live: "bs k = [] \<or> (\<forall>st. is_terminal st \<longrightarrow>
          StatusBody_encode ser (status_body st) \<noteq> Ok (last (bs k)))"
      using t(2) enc encode_status_inj [OF codec] by blast+
    have "\<forall>b\<in>set (bs k). \<forall>st. is_terminal st \<longrightarrow> StatusBody_encode ser (status_body st) \<noteq> Ok b"
      using r live by (cases "bs k" rule: rev_cases) (auto simp: reported_def)
    then show ?thesis
      using True r new enc by (auto simp: us t' reported_def distinct_adj_snoc)
  next
    case False
    with assms(2) [of k] us t' show ?thesis by simp
  qed
qed

lemma reported_poll_loop:
  assumes "borsh_codec ser de"
  shows "watch_ok r \<Longrightarrow> (\<And>k. reported ser (tracked r k) (bs k))
    \<Longrightarrow> reported ser (tracked (snd (poll_loop ser ps r)) k)
          (bs k @ bodies_of k (fst (poll_loop ser ps r)))"
proof (induction ps arbitrary: r bs)
  case (Cons p ps)
  obtain venue receipt where p: "p = (venue, receipt)" by fastforce
  let ?us = "fst (poll_one ser venue receipt r)" and ?r1 = "snd (poll_one ser venue receipt r)"
  have "reported ser (tracked ?r1 k) (bs k @ bodies_of k ?us)" for k
    by (rule reported_emits [OF assms Cons.prems(2) poll_one_emits [OF Cons.prems(1)]])
  from Cons.IH [OF poll_one_ok [OF Cons.prems(1)] this] show ?case
    by (simp add: p case_prod_unfold Let_def)
qed simp

text \<open>Eviction only forgets.\<close>

lemma reported_forget: "reported ser l bs \<Longrightarrow> reported ser None bs"
  by (auto simp: reported_def)

lemma map_of_filter_distinct:
  "distinct (map watch_key ws) \<Longrightarrow>
     map_of (map (\<lambda>e. (watch_key e, w_last e)) (filter P ws)) k = None
     \<or> map_of (map (\<lambda>e. (watch_key e, w_last e)) (filter P ws)) k =
        map_of (map (\<lambda>e. (watch_key e, w_last e)) ws) k"
  by (induction ws) (auto simp: map_of_eq_None_iff image_image)

lemma reported_poll:
  assumes "borsh_codec ser de" and "watch_ok r" and "\<And>k. reported ser (tracked r k) (bs k)"
  shows "reported ser (tracked (snd (poll_status_transitions ser r)) k)
          (bs k @ bodies_of k (fst (poll_status_transitions ser r)))"
proof -
  have "tracked (snd (prune_expired r)) k = None \<or> tracked (snd (prune_expired r)) k = tracked r k"
    for k using map_of_filter_distinct [OF watch_okD(2) [OF assms(2)]]
    by (simp add: tracked_def prune_expired_eq)
  then have "reported ser (tracked (snd (prune_expired r)) k) (bs k)" for k
    using assms(3) [of k] reported_forget by metis
  from reported_poll_loop [OF assms(1) prune_expired_ok [OF assms(2)] this] show ?thesis
    by (simp add: poll_status_transitions_def case_prod_unfold Let_def)
qed

lemma watched_watches_nothing:
  "watches_nothing ev \<Longrightarrow> ev \<noteq> EPoll \<Longrightarrow> watched (apply_event ser ev r) = watched r"
  by (cases ev) simp_all

lemma polls_reported:
  assumes "borsh_codec ser de"
  shows "reg_polls ser r0 us r \<Longrightarrow> watch_ok r0 \<Longrightarrow>
     watch_ok r \<and> (\<forall>k. reported ser (tracked r k) (bodies_of k us))"
proof (induction rule: reg_polls.induct)
  case start
  then have "reported ser (tracked r0 k) []" for k
    by (auto simp: reported_def split: option.split)
  with start show ?case by simp
next
  case (event us r ev)
  then have ok: "watch_ok r" and rep: "\<And>k. reported ser (tracked r k) (bodies_of k us)" by auto
  show ?case
  proof (cases "ev = EPoll")
    case True
    then show ?thesis
      using reported_poll [OF assms ok rep] poll_ok [OF ok] by simp
  next
    case False
    then have "event_updates ser ev r = []" by (cases ev) simp_all
    with False event.hyps rep show ?thesis
      using watched_watches_nothing [of ev ser r] tracked_cong [of "apply_event ser ev r" r]
        apply_event_watch_ok [OF ok] by simp
  qed
qed

section \<open>Give-up deadlines\<close>

abbreviation grace_nanos :: "'x VenueRegistry \<Rightarrow> nat" where
  "grace_nanos r \<equiv> duration_nanos (grace (watch_limit r))"

definition deadlines_ok :: "'x VenueRegistry \<Rightarrow> bool" where
  "deadlines_ok r \<longleftrightarrow>
     (\<forall>e\<in>set (watched r). due_within (grace_nanos r) (next_reading (env r)) e)"

text \<open>
  The clock of \<open>r'\<close> is not behind that of \<open>r\<close>, and an entry of \<open>r'\<close> keeps the deadline
  of an entry of \<open>r\<close> or got a fresh one.
\<close>

definition deadline_step :: "'x VenueRegistry \<Rightarrow> 'x VenueRegistry \<Rightarrow> bool" where
  "deadline_step r r' \<longleftrightarrow>
     world_le (env r) (env r') \<and> watch_limit r' = watch_limit r
     \<and> (\<forall>e'\<in>set (watched r').
          (\<exists>e\<in>set (watched r). w_expires_at e' = w_expires_at e)
          \<or> (\<exists>n\<le>reads (env r'). due_within (grace_nanos r) (clock (env r) n) e'))"

lemma due_within_later: "due_within g n e \<Longrightarrow> n \<le> n' \<Longrightarrow> due_within g n' e"
  by (auto simp: due_within_def split: option.splits)

lemma deadline_step_ok:
  assumes "deadline_step r r'" and "deadlines_ok r" and mono: "mono (clock (env r))"
  shows "deadlines_ok r'"
  unfolding deadlines_ok_def
proof
  fix e'
  assume e': "e' \<in> set (watched r')"
  have w: "world_le (env r) (env r')" and l: "watch_limit r' = watch_limit r"
    using assms(1) by (simp_all add: deadline_step_def)
  have n: "next_reading (env r) \<le> next_reading (env r')"
    by (rule next_reading_mono [OF w mono])
  have c: "clock (env r) n \<le> next_reading (env r')" if "n \<le> reads (env r')" for n
    using w monoD [OF mono that] by (simp add: next_reading_def world_le_def)
  consider e where "e \<in> set (watched r)" "w_expires_at e' = w_expires_at e"
    | n where "n \<le> reads (env r')" "due_within (grace_nanos r) (clock (env r) n) e'"
    using assms(1) e' by (auto simp: deadline_step_def)
  then show "due_within (grace_nanos r') (next_reading (env r')) e'"
  proof cases
    case 1
    with assms(2) have "due_within (grace_nanos r) (next_reading (env r)) e'"
      by (auto simp: deadlines_ok_def due_within_def)
    with n show ?thesis by (simp add: l due_within_later)
  next
    case 2
    then show ?thesis using c due_within_later by (metis l)
  qed
qed

lemma deadline_step_trans:
  assumes "deadline_step r s" and "deadline_step s t"
  shows "deadline_step r t"
  unfolding deadline_step_def
proof (intro conjI ballI)
  show "world_le (env r) (env t)" "watch_limit t = watch_limit r"
    using assms world_le_trans [of "env r" "env s" "env t"] by (simp_all add: deadline_step_def)
  fix e'
  assume "e' \<in> set (watched t)"
  then consider e where "e \<in> set (watched s)" "w_expires_at e' = w_expires_at e"
    | n where "n \<le> reads (env t)" "due_within (grace_nanos s) (clock (env s) n) e'"
    using assms(2) by (auto simp: deadline_step_def)
  then show "(\<exists>e\<in>set (watched r). w_expires_at e' = w_expires_at e)
      \<or> (\<exists>n\<le>reads (env t). due_within (grace_nanos r) (clock (env r) n) e')"
  proof cases
    case 1
    then consider e0 where "e0 \<in> set (watched r)" "w_expires_at e = w_expires_at e0"
      | n where "n \<le> reads (env s)" "due_within (grace_nanos r) (clock (env r) n) e"
      using assms(1) by (auto simp: deadline_step_def)
    then show ?thesis
    proof cases
      case 2
      then have "n \<le> reads (env t)" "due_within (grace_nanos r) (clock (env r) n) e'"
        using assms(2) 1(2) by (auto simp: deadline_step_def world_le_def due_within_def)
      then show ?thesis by blast
    qed (use 1 in auto)
  next
    case 2
    then show ?thesis
      using assms(1) by (auto simp: deadline_step_def world_le_def)
  qed
qed

lemma deadline_step_same:
  "world_le (env r) (env r') \<Longrightarrow> watch_limit r' = watch_limit r
     \<Longrightarrow> set (watched r') \<subseteq> set (watched r) \<Longrightarrow> deadline_step r r'"
  by (auto simp: deadline_step_def)

lemma give_up_due:
  "w_expires_at e = fst (give_up_deadline r) \<Longrightarrow>
     due_within (grace_nanos r) (clock (env r) (reads (env r))) e"
  by (auto simp: fst_give_up_deadline due_within_def instant_checked_add_def)

lemma deadline_step_fresh:
  assumes "set (watched r') \<subseteq> insert e (set (watched r))"
    and "w_expires_at e = fst (give_up_deadline r)"
    and "env r' = (env r)\<lparr>reads := Suc (reads (env r))\<rparr>" and "watch_limit r' = watch_limit r"
  shows "deadline_step r r'"
  using assms give_up_due [OF assms(2)]
  by (auto simp: deadline_step_def world_le_def intro: exI [of _ "reads (env r)"])

lemma prune_expired_deadline: "deadline_step r (snd (prune_expired r))"
  by (rule deadline_step_same) (auto simp: prune_expired_eq)

lemma watch_deadline: "deadline_step r (snd (watch venue receipt r))"
proof -
  let ?r1 = "snd (prune_expired r)"
  let ?e = "\<lparr>w_venue = venue, w_receipt = receipt, w_last = None,
      w_expires_at = fst (give_up_deadline ?r1)\<rparr>"
  have "deadline_step ?r1 ((snd (give_up_deadline ?r1))\<lparr>watched := watched ?r1 @ [?e]\<rparr>)"
    by (rule deadline_step_fresh [where e = ?e]) auto
  with prune_expired_deadline [of r] deadline_step_trans show ?thesis
    by (auto simp: watch_def case_prod_unfold Let_def)
qed

lemma record_deadline: "deadline_step r (snd (record_polled_status ser venue receipt st r))"
proof -
  have "deadline_step r ((snd (give_up_deadline r))\<lparr>watched := (watched r)[i := e]\<rparr>)"
    if "w_expires_at e = fst (give_up_deadline r)" for i e
    by (rule deadline_step_fresh [OF _ that]) (simp_all add: set_update_subset_insert)
  moreover have "deadline_step r (r\<lparr>watched := remove_at i (watched r)\<rparr>)" for i
    by (rule deadline_step_same) (simp_all add: set_remove_at)
  moreover have "deadline_step r r"
    by (rule deadline_step_same) simp_all
  ultimately show ?thesis
    by (auto simp: record_polled_status_def case_prod_unfold Let_def
        split: option.split result.split)
qed

lemma poll_one_deadline:
  assumes "lawful_registry r"
  shows "deadline_step r (snd (poll_one ser venue receipt r))"
proof -
  have "deadline_step r r"
    by (rule deadline_step_same) simp_all
  moreover have a: "deadline_step r (snd (on_env (inv_status (invoker sl) receipt) r))"
    if "resolve venue r = Ok sl" for sl
    using lawful_call_on_env [OF venue_invoker.lawful_status
        [OF lawful_registry.resolve_lawful [OF assms that]]]
    by (intro deadline_step_same) simp_all
  ultimately show ?thesis
    using deadline_step_trans [OF a record_deadline]
    by (auto simp: poll_one_def case_prod_unfold Let_def split: result.split)
qed

lemma poll_loop_deadline:
  "lawful_registry r \<Longrightarrow> deadline_step r (snd (poll_loop ser ps r))"
proof (induction ps arbitrary: r)
  case Nil
  then show ?case by (simp add: deadline_step_same)
next
  case (Cons p ps)
  obtain venue receipt where p: "p = (venue, receipt)" by fastforce
  have "lawful_registry (snd (poll_one ser venue receipt r))"
    using Cons.prems by (simp add: lawful_registry_config)
  with deadline_step_trans [OF poll_one_deadline [OF Cons.prems] Cons.IH] show ?case
    by (simp add: p case_prod_unfold Let_def)
qed

lemma poll_deadline:
  assumes "lawful_registry r"
  shows "deadline_step r (snd (poll_status_transitions ser r))"
proof -
  have "lawful_registry (snd (prune_expired r))"
    using assms by (simp add: lawful_registry_config)
  from deadline_step_trans [OF prune_expired_deadline poll_loop_deadline [OF this]] show ?thesis
    by (simp add: poll_status_transitions_def case_prod_unfold Let_def)
qed

lemma submit_in_slot_deadline:
  assumes "lawful_registry r" and "venue_invoker adp" and "config r1 = config r"
  shows "deadline_step r1 (snd (submit_in_slot adp caller venue body r1))"
proof -
  let ?d = "snd (on_env (inv_derive_header adp body) r1)"
  let ?s = "\<lambda>ctx. snd (on_env (inv_submit adp body) (snd (on_env (guard r ctx) (charge caller ?d))))"
  have g: "guard (charge caller ?d) = guard r"
    by (rule config_fields) (simp add: assms)
  have d: "world_le (env r1) (env ?d)"
    by (rule lawful_call_on_env [OF venue_invoker.lawful_derive_header [OF assms(2)]])
  have c: "world_le (env r1) (env (charge caller ?d))"
    using d charge_world world_le_trans by blast
  have s: "world_le (env r1) (env (?s ctx))" for ctx
    using c lawful_call_on_env [OF lawful_registry.lawful_guard [OF assms(1)]]
      lawful_call_on_env [OF venue_invoker.lawful_submit [OF assms(2)]] world_le_trans by blast
  have "deadline_step r1 ?d" "deadline_step r1 (charge caller ?d)"
    by (rule deadline_step_same [OF d], simp_all) (rule deadline_step_same [OF c], simp_all)
  moreover have ds: "deadline_step r1 (?s ctx)" for ctx
    using assms(3) by (intro deadline_step_same [OF s]) simp_all
  moreover have "deadline_step r1 (snd (watch venue receipt (?s ctx)))" for ctx receipt
    by (rule deadline_step_trans [OF ds watch_deadline])
  ultimately show ?thesis
    using g by (auto simp: submit_in_slot_def case_prod_unfold Let_def simp del: on_env_simps(1)
        split: result.split VenueError.split SubmitOutcome.split)
qed

lemma submit_deadline:
  assumes "lawful_registry r"
  shows "deadline_step r (snd (submit caller venue body r))"
proof -
  have a: "deadline_step r (snd (quota_admits caller r))" "deadline_step r r"
    by (rule deadline_step_same; simp)+
  have "deadline_step r (snd (submit_in_slot (invoker sl) caller venue body
          (snd (quota_admits caller r))))" if "resolve venue r = Ok sl" for sl
    by (rule deadline_step_trans [OF a(1) submit_in_slot_deadline [OF assms
          lawful_registry.resolve_lawful [OF assms that] ledger_frame(1)]])
  with a show ?thesis
    by (auto simp: submit_def case_prod_unfold split: result.split bool.split)
qed

lemma event_deadline:
  assumes "lawful_registry r" and "lawful_event ev r"
  shows "deadline_step r (apply_event ser ev r)"
proof -
  have ww: "world_le (env r) (env (apply_event ser ev r))"
    by (rule apply_event_world [OF assms])
  show ?thesis
  proof (cases "watches_nothing ev \<and> ev \<noteq> EPoll")
    case True
    with ww show ?thesis
      using watched_watches_nothing [of ev ser r] by (intro deadline_step_same) simp_all
  next
    case False
    have "deadline_step r (snd (observe venue receipt r))" for venue receipt
      using watch_deadline [of r venue receipt] deadline_step_same [of r r]
      by (auto simp: observe_def case_prod_unfold split: result.split bool.split)
    with False assms show ?thesis
      by (cases ev) (simp_all add: submit_deadline poll_deadline)
  qed
qed

lemma reach_deadlines_ok:
  assumes "reg_reach ser r0 r" and "lawful_registry r0" and "mono (clock (env r0))"
    and "deadlines_ok r0"
  shows "deadlines_ok r"
proof -
  have "deadlines_ok r \<and> mono (clock (env r))"
    using assms(1,2)
  proof (induction rule: reg_reach_invariant)
    case (step r ev)
    then show ?case
      using deadline_step_ok [OF event_deadline] apply_event_world [of r ev]
      by (metis world_le_def)
  qed (use assms in simp)
  then show ?thesis ..
qed

lemma build_deadlines_ok: "deadlines_ok (build b w)"
  by (simp add: deadlines_ok_def)

text \<open>Once the grace has passed unanswered, the next poll drops every watch unpolled.\<close>

lemma poll_evicts:
  assumes "deadlines_ok r" and "next_reading (env r) + grace_nanos r \<le> next_reading w"
    and "\<forall>e\<in>set (watched r). w_expires_at e \<noteq> None"
  shows "poll_status_transitions ser (r\<lparr>env := w\<rparr>) =
     ([], r\<lparr>watched := [], env := w\<lparr>reads := Suc (reads w)\<rparr>\<rparr>)"
proof -
  have "expired_at (clock w (reads w)) e" if "e \<in> set (watched r)" for e
    using assms that
    by (fastforce simp: deadlines_ok_def due_within_def expired_at_def next_reading_def
        split: option.splits)
  then have none: "filter (\<lambda>e. \<not> expired_at (clock w (reads w)) e) (watched r) = []"
    by (simp add: filter_empty_conv)
  show ?thesis
    by (simp add: poll_status_transitions_def case_prod_unfold Let_def prune_expired_eq none)
qed

section \<open>A whole poll, when the adapters only answer\<close>

text \<open>
  \<open>entry_report\<close> is what a poll emits for an entry, \<open>entry_after\<close> what is left of it, with
  the deadlines of answered entries given by \<open>due\<close>.
\<close>

definition quiet_status ::
  "(VenueId \<Rightarrow> bytes \<Rightarrow> (IntentStatus, VenueError) result) \<Rightarrow> 'x VenueRegistry \<Rightarrow> bool" where
  "quiet_status ans r \<longleftrightarrow> (\<forall>venue sl receipt w. resolve venue r = Ok sl \<longrightarrow>
     inv_status (invoker sl) receipt w = (ans venue receipt, w))"

definition entry_report where
  "entry_report ser ans r e =
     (if \<not> is_ok (resolve (w_venue e) r) then []
      else case ans (w_venue e) (w_receipt e) of
          Err _ \<Rightarrow> []
        | Ok st \<Rightarrow> if w_last e = Some st then []
            else (case StatusBody_encode ser (status_body st) of
                Err _ \<Rightarrow> []
              | Ok body \<Rightarrow> [update_for (w_venue e) (w_receipt e) body]))"

definition entry_after where
  "entry_after ser ans r due e =
     (if \<not> is_ok (resolve (w_venue e) r) then [e]
      else case ans (w_venue e) (w_receipt e) of
          Err _ \<Rightarrow> [e]
        | Ok st \<Rightarrow>
            if w_last e = Some st then [e\<lparr>w_expires_at := due (watch_key e)\<rparr>]
            else (case StatusBody_encode ser (status_body st) of
                Err _ \<Rightarrow> [e\<lparr>w_expires_at := due (watch_key e)\<rparr>]
              | Ok _ \<Rightarrow> if is_terminal st then []
                  else [e\<lparr>w_last := Some st, w_expires_at := due (watch_key e)\<rparr>]))"

text \<open>
  An entry whose venue is routable and answers, and the deadline such an entry is given: the
  grace after a reading taken between two states.
\<close>

definition answered ::
  "(VenueId \<Rightarrow> bytes \<Rightarrow> (IntentStatus, VenueError) result) \<Rightarrow> 'x VenueRegistry \<Rightarrow> WatchedIntent \<Rightarrow> bool" where
  "answered ans r e \<longleftrightarrow> is_ok (resolve (w_venue e) r) \<and> is_ok (ans (w_venue e) (w_receipt e))"

definition deadline_read :: "'x VenueRegistry \<Rightarrow> 'x VenueRegistry \<Rightarrow> instant option \<Rightarrow> bool" where
  "deadline_read r r' d \<longleftrightarrow> (\<exists>n. reads (env r) \<le> n \<and> n < reads (env r')
     \<and> d = instant_checked_add (env r) (clock (env r) n) (grace (watch_limit r)))"

text \<open>Nothing but the clock has moved.\<close>

definition clock_only :: "'x VenueRegistry \<Rightarrow> 'x VenueRegistry \<Rightarrow> bool" where
  "clock_only r r' \<longleftrightarrow> config r' = config r \<and> (\<exists>n\<ge>reads (env r). env r' = (env r)\<lparr>reads := n\<rparr>)"

lemma clock_only_refl [simp]: "clock_only r r"
  by (auto simp: clock_only_def intro: exI [of _ "reads (env r)"])

lemma clock_only_trans: "clock_only r s \<Longrightarrow> clock_only s t \<Longrightarrow> clock_only r t"
  by (auto simp: clock_only_def intro: exI [of _ "reads (env t)"])

lemma clock_only_reads: "clock_only r r' \<Longrightarrow> reads (env r) \<le> reads (env r')"
  by (auto simp: clock_only_def)

lemma clock_only_resolve: "clock_only r r' \<Longrightarrow> resolve venue r' = resolve venue r"
  using config_fields(1) [of r' r]
  by (auto simp: clock_only_def resolve_def split: option.split)

lemma clock_only_simps [simp]:
  "clock_only r (r'\<lparr>watched := ws\<rparr>) = clock_only r r'"
  "clock_only r (snd (give_up_deadline r))"
  "clock_only r (snd (prune_expired r))"
  by (auto simp: clock_only_def prune_expired_eq give_up_deadline_def case_prod_unfold
      instant_now_def
      intro: exI [of _ "Suc (reads (env r))"])

lemma deadline_read_later:
  "deadline_read r s d \<Longrightarrow> clock_only s t \<Longrightarrow> deadline_read r t d"
  unfolding deadline_read_def using clock_only_reads less_le_trans by metis

lemma deadline_read_earlier:
  assumes "deadline_read s t d" and "clock_only r s"
  shows "deadline_read r t d"
proof -
  obtain n where n: "reads (env r) \<le> n" "env s = (env r)\<lparr>reads := n\<rparr>" "watch_limit s = watch_limit r"
    using assms(2) config_fields(4) [of s r] by (auto simp: clock_only_def)
  then show ?thesis
    using assms(1) by (auto simp: deadline_read_def instant_checked_add_def intro: order_trans)
qed

lemma quiet_status_cong: "clock_only r r' \<Longrightarrow> quiet_status ans r' = quiet_status ans r"
  by (simp add: quiet_status_def clock_only_resolve)

lemma entry_cong:
  "clock_only r r' \<Longrightarrow> entry_report ser ans r' = entry_report ser ans r"
  "clock_only r r' \<Longrightarrow> entry_after ser ans r' = entry_after ser ans r"
  "clock_only r r' \<Longrightarrow> answered ans r' = answered ans r"
  by (simp_all add: answered_def entry_report_def entry_after_def clock_only_resolve fun_eq_iff)

lemma entry_after_due_cong:
  "due (watch_key e) = due' (watch_key e) \<Longrightarrow> entry_after ser ans r due e = entry_after ser ans r due' e"
  by (simp add: entry_after_def split: result.split)

lemma entry_after_keys: "e' \<in> set (entry_after ser ans r due e) \<Longrightarrow> watch_key e' = watch_key e"
  by (auto simp: entry_after_def split: if_splits result.splits)

lemma poll_one_quiet:
  assumes "quiet_status ans r" and ws: "watched r = xs @ e # ys"
    and d: "distinct (map watch_key (watched r))"
  obtains due where
    "fst (poll_one ser (w_venue e) (w_receipt e) r) = entry_report ser ans r e"
    "watched (snd (poll_one ser (w_venue e) (w_receipt e) r)) =
       xs @ entry_after ser ans r due e @ ys"
    "clock_only r (snd (poll_one ser (w_venue e) (w_receipt e) r))"
    "\<And>e'. e' \<in> set (entry_after ser ans r due e) \<Longrightarrow> answered ans r e \<Longrightarrow>
       deadline_read r (snd (poll_one ser (w_venue e) (w_receipt e) r)) (w_expires_at e')"
proof (cases "resolve (w_venue e) r")
  case (Err err)
  then show ?thesis
    using that ws by (simp add: poll_one_def entry_report_def entry_after_def answered_def)
next
  case (Ok sl)
  then have q: "on_env (inv_status (invoker sl) (w_receipt e)) r =
      (ans (w_venue e) (w_receipt e), r)"
    using assms(1) by (simp add: quiet_status_def on_env_def)
  have key: "watch_key e = (w_venue e, w_receipt e)"
    by (simp add: watch_key_def)
  have fresh: "deadline_read r (snd (give_up_deadline r)) (fst (give_up_deadline r))"
    by (auto simp: deadline_read_def give_up_deadline_def instant_now_def instant_checked_add_def)
  then have fresh': "deadline_read r (snd (give_up_deadline r)\<lparr>watched := ws\<rparr>) (fst (give_up_deadline r))"
    for ws by (simp add: deadline_read_def)
  show ?thesis
  proof (cases "ans (w_venue e) (w_receipt e)")
    case (Err err)
    then show ?thesis
      using that ws Ok q by (simp add: poll_one_def entry_report_def entry_after_def answered_def)
  next
    case ans: (Ok st)
    have p: "poll_one ser (w_venue e) (w_receipt e) r =
        (let (upd, r2) = record_polled_status ser (w_venue e) (w_receipt e) st r
         in (case upd of None \<Rightarrow> [] | Some u \<Rightarrow> [u], r2))"
      using Ok q ans by (simp add: poll_one_def)
    show ?thesis
      by (rule that [of "\<lambda>_. fst (give_up_deadline r)"])
        (use Ok in \<open>auto simp: p ans entry_report_def entry_after_def ws fresh' case_prod_unfold Let_def
           record_polled_status_at [OF ws d key] split: result.splits if_splits\<close>)
  qed
qed

lemma poll_loop_quiet:
  "quiet_status ans r \<Longrightarrow> watched r = xs @ ys \<Longrightarrow> distinct (map watch_key (watched r)) \<Longrightarrow>
   \<exists>due. fst (poll_loop ser (map watch_key ys) r) = concat (map (entry_report ser ans r) ys)
     \<and> watched (snd (poll_loop ser (map watch_key ys) r)) =
         xs @ concat (map (entry_after ser ans r due) ys)
     \<and> clock_only r (snd (poll_loop ser (map watch_key ys) r))
     \<and> (\<forall>e\<in>set ys. \<forall>e'\<in>set (entry_after ser ans r due e). answered ans r e \<longrightarrow>
          deadline_read r (snd (poll_loop ser (map watch_key ys) r)) (w_expires_at e'))"
proof (induction ys arbitrary: r xs)
  case (Cons e ys)
  let ?p = "poll_one ser (w_venue e) (w_receipt e) r"
  obtain due where
    us: "fst ?p = entry_report ser ans r e"
    and w: "watched (snd ?p) = xs @ entry_after ser ans r due e @ ys"
    and c: "clock_only r (snd ?p)"
    and dl: "\<And>e'. e' \<in> set (entry_after ser ans r due e) \<Longrightarrow> answered ans r e \<Longrightarrow>
      deadline_read r (snd ?p) (w_expires_at e')"
    using poll_one_quiet [OF Cons.prems(1,2,3), of ser] by blast
  have q: "quiet_status ans (snd ?p)"
    using Cons.prems(1) c by (simp add: quiet_status_cong)
  have sub: "map watch_key (entry_after ser ans r due e) = [] \<or>
      map watch_key (entry_after ser ans r due e) = [watch_key e]"
    by (auto simp: entry_after_def split: result.split)
  then have d: "distinct (map watch_key (watched (snd ?p)))"
    using Cons.prems(2,3) entry_after_keys [of _ ser ans r due e] unfolding w
    by (elim disjE) (force simp: distinct_append)+
  obtain due' where
    us': "fst (poll_loop ser (map watch_key ys) (snd ?p)) =
        concat (map (entry_report ser ans r) ys)"
    and w': "watched (snd (poll_loop ser (map watch_key ys) (snd ?p))) =
        (xs @ entry_after ser ans r due e) @ concat (map (entry_after ser ans r due') ys)"
    and c': "clock_only (snd ?p) (snd (poll_loop ser (map watch_key ys) (snd ?p)))"
    and dl': "\<forall>e\<in>set ys. \<forall>e'\<in>set (entry_after ser ans r due' e). answered ans r e \<longrightarrow>
      deadline_read (snd ?p) (snd (poll_loop ser (map watch_key ys) (snd ?p))) (w_expires_at e')"
    using Cons.IH [OF q _ d, of "xs @ entry_after ser ans r due e"] w
    by (auto simp: entry_cong [OF c])
  let ?due = "due'(watch_key e := due (watch_key e))"
  have a: "entry_after ser ans r ?due e = entry_after ser ans r due e"
    by (rule entry_after_due_cong) simp
  have each: "entry_after ser ans r ?due y = entry_after ser ans r due' y" if "y \<in> set ys" for y
  proof (rule entry_after_due_cong)
    have "watch_key e \<notin> watch_key ` set ys"
      using Cons.prems(2,3) by simp
    with that have "watch_key y \<noteq> watch_key e" by (metis imageI)
    then show "?due (watch_key y) = due' (watch_key y)" by simp
  qed
  then have m: "map (entry_after ser ans r ?due) ys = map (entry_after ser ans r due') ys" by simp
  let ?r2 = "snd (poll_loop ser (map watch_key ys) (snd ?p))"
  have fresh: "\<forall>x\<in>set (e # ys). \<forall>e'\<in>set (entry_after ser ans r ?due x). answered ans r x \<longrightarrow>
      deadline_read r ?r2 (w_expires_at e')"
    using deadline_read_later [OF dl c'] deadline_read_earlier [OF _ c] dl' each by (simp add: a)
  have pl: "poll_loop ser (map watch_key (e # ys)) r =
      (fst ?p @ fst (poll_loop ser (map watch_key ys) (snd ?p)),
       snd (poll_loop ser (map watch_key ys) (snd ?p)))"
    by (simp add: watch_key_def case_prod_unfold Let_def)
  show ?case
    unfolding pl fst_conv snd_conv us us' w'
    by (intro exI [of _ ?due] conjI clock_only_trans [OF c c'] fresh)
      (simp_all only: list.map concat.simps a m append_assoc)
qed simp

lemma poll_quiet:
  assumes "quiet_status ans r" and "watch_ok r"
  defines "live \<equiv> filter (\<lambda>e. \<not> expired_at (next_reading (env r)) e) (watched r)"
  shows "\<exists>due. fst (poll_status_transitions ser r) = concat (map (entry_report ser ans r) live)
     \<and> watched (snd (poll_status_transitions ser r)) = concat (map (entry_after ser ans r due) live)
     \<and> clock_only r (snd (poll_status_transitions ser r))
     \<and> (\<forall>e\<in>set live. \<forall>e'\<in>set (entry_after ser ans r due e). answered ans r e \<longrightarrow>
          deadline_read r (snd (poll_status_transitions ser r)) (w_expires_at e'))"
proof -
  let ?r1 = "snd (prune_expired r)"
  have w: "watched ?r1 = [] @ live"
    by (simp add: live_def prune_expired_eq next_reading_def)
  have c: "clock_only r ?r1" by simp
  have k: "(\<lambda>w. (w_venue w, w_receipt w)) = watch_key"
    by (simp add: watch_key_def fun_eq_iff)
  have q: "quiet_status ans ?r1"
    using assms(1) quiet_status_cong [OF c] by simp
  from poll_loop_quiet [OF q w watch_okD(2) [OF prune_expired_ok [OF assms(2)]], of ser]
  show ?thesis
    using clock_only_trans [OF c] deadline_read_earlier [OF _ c] w
    by (auto 0 3 simp: poll_status_transitions_def case_prod_unfold Let_def k entry_cong [OF c])
qed

end
