(* ===== verification/Registry_Reports.thy ===== *)
theory Registry_Reports imports Registry_Overlap Registry_Poll
begin

text \<open>
  The watch list under interleaving. Polls overlap each other, submissions and observations;
  what has been reported of a receipt is read off the history of the run, and the watch list
  never disagrees with it: an entry remembers the last status reported since it was put under
  watch, and what a poll returns is what it put in the history.
\<close>

section \<open>What the history says of a receipt\<close>

fun hear :: "VenueId \<times> bytes \<Rightarrow> IntentStatus option option \<Rightarrow> label \<Rightarrow> IntentStatus option option" where
  "hear k l (Charged c at) = l"
| "hear k l (Watched k') = (if k' = k then Some None else l)"
| "hear k l (Reported i k' st) =
     (if k' = k then (if is_terminal st then None else Some (Some st)) else l)"

definition heard :: "VenueId \<times> bytes \<Rightarrow> label list \<Rightarrow> IntentStatus option option" where
  "heard k log = foldl (hear k) None log"

lemma heard_simps [simp]:
  "heard k [] = None" "heard k (a @ b) = foldl (hear k) (heard k a) b"
  by (simp_all add: heard_def)

fun concerns :: "VenueId \<times> bytes \<Rightarrow> label \<Rightarrow> bool" where
  "concerns k (Charged c at) = False"
| "concerns k (Watched k') = (k' = k)"
| "concerns k (Reported i k' st) = (k' = k)"

lemma hear_other: "\<forall>x\<in>set b. \<not> concerns k x \<Longrightarrow> foldl (hear k) l b = l"
proof (induction b rule: rev_induct)
  case (snoc x b)
  then show ?case by (cases x) auto
qed simp

text \<open>Every report is of a receipt under watch, and differs from the last one since.\<close>

definition sound :: "label list \<Rightarrow> bool" where
  "sound log \<longleftrightarrow> (\<forall>a i k st b. log = a @ Reported i k st # b
     \<longrightarrow> (\<exists>l. heard k a = Some l \<and> l \<noteq> Some st))"

lemma sound_append:
  assumes "sound log" "\<And>i k st. Reported i k st \<notin> set ls"
  shows "sound (log @ ls)"
proof -
  have "\<exists>b'. log = a @ Reported i k st # b'" if "log @ ls = a @ Reported i k st # b" for a i k st b
    using that assms(2) [of i k st] by (auto simp: append_eq_append_conv2 append_eq_Cons_conv)
  with assms(1) show ?thesis unfolding sound_def by metis
qed

lemma sound_report:
  assumes "sound log" "heard k log = Some l" "l \<noteq> Some st"
  shows "sound (log @ [Reported i k st])"
  unfolding sound_def
proof (intro allI impI)
  fix a i' k' st' b
  assume eq: "log @ [Reported i k st] = a @ Reported i' k' st' # b"
  show "\<exists>l. heard k' a = Some l \<and> l \<noteq> Some st'"
  proof (cases b rule: rev_cases)
    case Nil
    with eq assms(2,3) show ?thesis by simp
  next
    case (snoc b' x)
    with eq have "log = a @ Reported i' k' st' # b'" by simp
    with assms(1) show ?thesis unfolding sound_def by blast
  qed
qed

lemma sound_watched: "sound log \<Longrightarrow> heard k log \<noteq> None \<Longrightarrow> Watched k \<in> set log"
proof (induction log rule: rev_induct)
  case (snoc x log)
  then have "sound log" by (auto simp: sound_def)
  moreover have "heard k log \<noteq> None" if "x = Reported i k st" for i st
    using snoc.prems(1) that unfolding sound_def by blast
  ultimately show ?case using snoc by (cases x) (auto split: if_splits)
qed simp

lemma sound_before:
  assumes "log = a @ Reported i k st # c" "sound log"
  shows "Watched k \<in> set a"
proof -
  have "sound a" using assms unfolding sound_def by (metis append.assoc append_Cons)
  moreover have "heard k a \<noteq> None" using assms unfolding sound_def by blast
  ultimately show ?thesis by (rule sound_watched)
qed

text \<open>Two reports of a receipt with nothing of it between them.\<close>

lemma sound_consecutive:
  assumes "sound (a @ Reported i k st # b @ Reported j k st' # c)" "\<forall>x\<in>set b. \<not> concerns k x"
  shows "st \<noteq> st' \<and> \<not> is_terminal st"
proof -
  have "\<exists>l. heard k (a @ Reported i k st # b) = Some l \<and> l \<noteq> Some st'"
    using assms(1) unfolding sound_def by (metis append.assoc append_Cons)
  then show ?thesis
    using hear_other [OF assms(2)] by (auto split: if_splits)
qed

section \<open>The watch list agrees with the history\<close>

definition reports_ok :: "label list \<Rightarrow> 'x VenueRegistry \<Rightarrow> bool" where
  "reports_ok log r \<longleftrightarrow> watch_ok r \<and> sound log
     \<and> (\<forall>k. tracked r k = None \<or> tracked r k = heard k log)"

lemma reports_ok_same:
  assumes "reports_ok log r" "watched r' = watched r" "watch_limit r' = watch_limit r"
    and "\<And>x. x \<in> set ls \<Longrightarrow> \<exists>c at. x = Charged c at"
  shows "reports_ok (log @ ls) r'"
proof -
  have "\<forall>x\<in>set ls. \<not> concerns k x" for k using assms(4) by fastforce
  then have "heard k (log @ ls) = heard k log" for k by (simp add: hear_other)
  moreover have "sound (log @ ls)"
    using assms(1,4) by (intro sound_append) (auto simp: reports_ok_def)
  ultimately show ?thesis
    using assms(1) watch_ok_same [OF _ assms(2,3)] tracked_cong [OF assms(2)]
    by (simp add: reports_ok_def)
qed

lemma tracked_prune:
  "watch_ok r \<Longrightarrow> tracked (snd (prune_expired r)) k = None \<or> tracked (snd (prune_expired r)) k = tracked r k"
  using map_of_filter_distinct [OF watch_okD(2)] by (simp add: tracked_def prune_expired_eq)

lemma reports_ok_prune: "reports_ok log r \<Longrightarrow> reports_ok log (snd (prune_expired r))"
  unfolding reports_ok_def using prune_expired_ok tracked_prune by metis

lemma reports_ok_watch:
  assumes "reports_ok log r"
  shows "reports_ok (log @ watch_labels v rc r) (snd (watch v rc r))"
proof -
  let ?r1 = "snd (prune_expired r)" and ?ls = "watch_labels v rc r"
  have ok: "watch_ok (snd (watch v rc r))" "sound (log @ ?ls)"
    using assms watch_ok_watch sound_append [of log ?ls]
    by (auto simp: reports_ok_def watch_labels_def Let_def split: if_splits)
  note r1 = reports_ok_prune [OF assms]
  have new: "tracked (x\<lparr>watched := watched ?r1 @ [e]\<rparr>) k =
      (if k = (v, rc) then Some None else tracked ?r1 k)"
    if "\<not> list_ex (watches v rc) (watched ?r1)" "watch_key e = (v, rc)" "w_last e = None"
    for e k and x :: "'a VenueRegistry"
  proof -
    have "tracked ?r1 (v, rc) = None"
      using that(1) by (auto simp: tracked_eq_None list_ex_iff watches_key)
    then show ?thesis
      using that(2,3) by (auto simp: tracked_def map_add_def split: option.split)
  qed
  show ?thesis
  proof (cases "list_ex (watches v rc) (watched ?r1) \<or> \<not> length (watched ?r1) < max_entries (watch_limit ?r1)")
    case True
    then have "snd (watch v rc r) = ?r1" "?ls = []"
      by (auto simp: watch_def watch_labels_def case_prod_unfold Let_def)
    with r1 show ?thesis by simp
  next
    case False
    then have "tracked (snd (watch v rc r)) k = (if k = (v, rc) then Some None else tracked ?r1 k)" for k
      using new by (simp add: watch_def case_prod_unfold Let_def)
    moreover have "?ls = [Watched (v, rc)]"
      using False by (simp add: watch_labels_def Let_def)
    ultimately show ?thesis
      using ok r1 by (auto simp: reports_ok_def)
  qed
qed

lemma reports_ok_record:
  assumes "reports_ok log r"
  shows "reports_ok (log @ (case fst (record_polled_status ser v rc st r) of
      Some u \<Rightarrow> [Reported i (v, rc) st] | None \<Rightarrow> [])) (snd (record_polled_status ser v rc st r))"
proof -
  have ok: "watch_ok r" "sound log" using assms by (simp_all add: reports_ok_def)
  note ok' = watch_ok_record [OF ok(1), of ser v rc st]
  obtain upd r' where eq: "record_polled_status ser v rc st r = (upd, r')" by fastforce
  from record_polled_status_tracked [OF ok(1) eq] show ?thesis
  proof (elim disjE exE conjE)
    assume "upd = None" "tracked r' = tracked r"
    then show ?thesis using assms ok' by (simp add: reports_ok_def eq)
  next
    fix body l
    assume u: "upd = Some (update_for v rc body)" and t: "tracked r (v, rc) = Some l" "l \<noteq> Some st"
      and t': "tracked r' = (tracked r) ((v, rc) := (if is_terminal st then None else Some (Some st)))"
    have "heard (v, rc) log = Some l" using assms t(1) unfolding reports_ok_def by (metis option.distinct(1))
    from sound_report [OF ok(2) this t(2)] show ?thesis
      using assms ok' by (auto simp: reports_ok_def eq u t')
  qed
qed

text \<open>Every step of a task leaves the list alone, prunes it, watches a receipt or records a poll.\<close>

lemma advance_watched:
  assumes "advance ser t held r = Some (t', held', r')"
  shows "(watched r' = watched r \<and> watch_limit r' = watch_limit r
        \<and> (\<forall>x\<in>set (step_labels i ser t r). \<exists>c at. x = Charged c at))
     \<or> (r' = snd (prune_expired r) \<and> step_labels i ser t r = [])
     \<or> (\<exists>v rc. r' = snd (watch v rc r) \<and> step_labels i ser t r = watch_labels v rc r)
     \<or> (\<exists>v rc st. r' = snd (record_polled_status ser v rc st r)
          \<and> step_labels i ser t r =
              (case fst (record_polled_status ser v rc st r) of
                 Some u \<Rightarrow> [Reported i (v, rc) st] | None \<Rightarrow> []))"
  using assms
  by (cases "(ser, t, held, r)" rule: advance.cases;
      auto simp: charge_label_def case_prod_unfold Let_def split: result.splits bool.splits if_splits
        VenueError.splits SubmitOutcome.splits)

lemma reports_ok_advance:
  assumes "reports_ok log r" "advance ser t held r = Some (t', held', r')"
  shows "reports_ok (log @ step_labels i ser t r) r'"
  using advance_watched [OF assms(2), of i]
proof (elim disjE exE conjE)
  assume "watched r' = watched r" "watch_limit r' = watch_limit r"
    "\<forall>x\<in>set (step_labels i ser t r). \<exists>c at. x = Charged c at"
  then show ?thesis by (intro reports_ok_same [OF assms(1)]) auto
qed (use reports_ok_prune [OF assms(1)] reports_ok_watch [OF assms(1)] reports_ok_record [OF assms(1)] in simp_all)

lemma conc_run_reports:
  assumes "conc_run K ser r0 log s" "watched r0 = []"
  shows "reports_ok log (registry s)"
  using assms(1)
proof (induction rule: conc_run.induct)
  case start
  show ?case using assms(2) by (simp add: reports_ok_def watch_ok_def sound_def tracked_def)
next
  case (step log s i t' held' r')
  from reports_ok_advance [OF step.IH step.hyps(3)] show ?case by simp
next
  case (other log s r')
  then show ?case
    using reports_ok_same [OF other.IH, of r' "[]"] by (simp add: elsewhere_def)
qed simp_all

section \<open>What a poll returns\<close>

definition reports_by :: "nat \<Rightarrow> label list \<Rightarrow> ((VenueId \<times> bytes) \<times> IntentStatus) list" where
  "reports_by i log = List.map_filter
     (\<lambda>l. case l of Reported j k st \<Rightarrow> if j = i then Some (k, st) else None | _ \<Rightarrow> None) log"

lemma reports_by_append [simp]: "reports_by i (a @ b) = reports_by i a @ reports_by i b"
  by (simp add: reports_by_def map_filter_append)

lemma reports_by_nil [simp]: "reports_by i [] = []"
  by (simp add: reports_by_def map_filter_simps)

definition carries :: "StatusBody ser \<Rightarrow> (VenueId \<times> bytes) \<times> IntentStatus \<Rightarrow> IntentStatusUpdate \<Rightarrow> bool" where
  "carries ser = (\<lambda>((v, rc), st) u. \<exists>body. StatusBody_encode ser (status_body st) = Ok body
     \<and> u = update_for v rc body)"

fun collected :: "'x task \<Rightarrow> IntentStatusUpdate list" where
  "collected (PollTask (PollNext _ us)) = us"
| "collected (PollTask (PollResolved _ _ _ _ us)) = us"
| "collected (PollTask (PollHolding _ _ _ _ us)) = us"
| "collected (PollTask (PollAnswered _ _ _ _ us)) = us"
| "collected (PollTask (PollDone us)) = us"
| "collected _ = []"

lemma reports_by_labels:
  "reports_by j (step_labels i ser t r) = [] \<or> j = i \<and>
     (\<exists>v rc st rest us. t = PollTask (PollAnswered v rc (Ok st) rest us)
        \<and> fst (record_polled_status ser v rc st r) \<noteq> None
        \<and> reports_by j (step_labels i ser t r) = [((v, rc), st)])"
  by (cases "(i, ser, t, r)" rule: step_labels.cases)
    (auto simp: charge_label_def watch_labels_def Let_def reports_by_def map_filter_simps
      split: option.split)

lemma advance_collected:
  assumes "advance ser t held r = Some (t', held', r')" "watch_ok r"
  shows "\<exists>us. collected t' = collected t @ us
     \<and> list_all2 (carries ser) (reports_by i (step_labels i ser t r)) us"
proof (cases "\<exists>v rc st rest us. t = PollTask (PollAnswered v rc (Ok st) rest us)")
  case True
  then obtain v rc st rest us where t: "t = PollTask (PollAnswered v rc (Ok st) rest us)" by blast
  obtain upd r1 where upd: "record_polled_status ser v rc st r = (upd, r1)" by fastforce
  from record_polled_status_tracked [OF assms(2) upd] show ?thesis
    using assms(1)
    by (auto simp: t upd carries_def reports_by_def map_filter_simps)
next
  case False
  then have "reports_by i (step_labels i ser t r) = []"
    using reports_by_labels [of i i ser t r] by blast
  moreover have "collected t' = collected t"
    using assms(1) False
    by (cases "(ser, t, held, r)" rule: advance.cases;
        auto simp: case_prod_unfold Let_def split: step_splits)
  ultimately show ?thesis by simp
qed

lemma conc_run_returns:
  assumes "conc_run K ser r0 log s" "watched r0 = []"
  shows "(\<forall>i<length (tasks s). (\<exists>c. tasks s ! i = Dropped c)
        \<or> list_all2 (carries ser) (reports_by i log) (collected (tasks s ! i)))
     \<and> (\<forall>i\<ge>length (tasks s). reports_by i log = [])"
  using assms(1)
proof (induction rule: conc_run.induct)
  case (spawn log s t)
  have "collected t = []" using spawn.hyps(2) by (auto simp: called_def split: task_splits)
  with spawn.IH show ?case by (auto simp: nth_append less_Suc_eq)
next
  case (step log s i t' held' r')
  let ?ls = "step_labels i ser (tasks s ! i) (registry s)"
  have ok: "watch_ok (registry s)"
    using conc_run_reports [OF step.hyps(1) assms(2)] by (simp add: reports_ok_def)
  obtain us where us: "collected t' = collected (tasks s ! i) @ us" "list_all2 (carries ser) (reports_by i ?ls) us"
    using advance_collected [OF step.hyps(3) ok, of i] by blast
  have live: "tasks s ! i \<noteq> Dropped c" for c using step.hyps(3) by auto
  have other: "reports_by j ?ls = []" if "j \<noteq> i" for j
    using reports_by_labels [of j i] that by blast
  have "list_all2 (carries ser) (reports_by i (log @ ?ls)) (collected t')"
    using conjunct1 [OF step.IH] step.hyps(2) us live by (auto intro: list_all2_appendI)
  with step.IH step.hyps(2) other show ?case by (auto simp: nth_list_update)
next
  case (drop log s i)
  then show ?case by (auto simp: nth_list_update)
qed simp_all

end
