(* ===== verification/Registry_Progress.thy ===== *)
theory Registry_Progress imports Registry_Reports
begin

text \<open>
  Every call comes back. A task that holds a slot never waits for another, so some task can
  always move; and each move brings its task nearer its end by a count that the watch cap
  bounds. An adapter's call is one move: that the adapter itself answers is its contract.
\<close>

section \<open>The moves a task has left\<close>

fun steps_left :: "nat \<Rightarrow> 'x task \<Rightarrow> nat" where
  "steps_left cap (SubmitTask (SubmitCalled _ _ _)) = 8"
| "steps_left cap (SubmitTask (SubmitResolved _ _ _ _)) = 7"
| "steps_left cap (SubmitTask (SubmitAdmitted _ _ _ _)) = 6"
| "steps_left cap (SubmitTask (SubmitHolding _ _ _ _)) = 5"
| "steps_left cap (SubmitTask (SubmitDerived _ _ _ _ _)) = 4"
| "steps_left cap (SubmitTask (SubmitCharged _ _ _ _ _)) = 3"
| "steps_left cap (SubmitTask (SubmitGuarded _ _ _ _)) = 2"
| "steps_left cap (SubmitTask (SubmitAnswered _ _ _ _ _)) = 1"
| "steps_left cap (QuoteTask (QuoteCalled _ _ _)) = 5"
| "steps_left cap (QuoteTask (QuoteResolved _ _ _ _)) = 4"
| "steps_left cap (QuoteTask (QuoteAdmitted _ _ _ _)) = 3"
| "steps_left cap (QuoteTask (QuoteCharged _ _ _ _)) = 2"
| "steps_left cap (QuoteTask (QuoteHolding _ _ _ _)) = 1"
| "steps_left cap (ObserveTask (ObserveCalled _ _)) = 2"
| "steps_left cap (ObserveTask (ObserveResolved _ _)) = 1"
| "steps_left cap (StatusTask (StatusCalled _ _)) = 3"
| "steps_left cap (StatusTask (StatusResolved _ _ _)) = 2"
| "steps_left cap (StatusTask (StatusHolding _ _ _)) = 1"
| "steps_left cap (CancelTask (CancelCalled _ _)) = 3"
| "steps_left cap (CancelTask (CancelResolved _ _ _)) = 2"
| "steps_left cap (CancelTask (CancelHolding _ _ _)) = 1"
| "steps_left cap (PollTask PollCalled) = 4 * cap + 2"
| "steps_left cap (PollTask (PollNext rest _)) = 4 * length rest + 1"
| "steps_left cap (PollTask (PollResolved _ _ _ rest _)) = 4 * length rest + 4"
| "steps_left cap (PollTask (PollHolding _ _ _ rest _)) = 4 * length rest + 3"
| "steps_left cap (PollTask (PollAnswered _ _ _ rest _)) = 4 * length rest + 2"
| "steps_left cap _ = 0"

lemma advance_steps:
  assumes "advance ser t held r = Some (t', held', r')" "length (watched r) \<le> cap"
  shows "steps_left cap t' < steps_left cap t"
proof -
  have "length (watched (snd (prune_expired r))) \<le> cap"
    by (simp add: prune_expired_eq) (rule order_trans [OF length_filter_le assms(2)])
  then show ?thesis
    using assms(1)
    by (cases "(ser, t, held, r)" rule: advance.cases;
        auto simp: case_prod_unfold Let_def split: step_splits)
qed

section \<open>Some task can move\<close>

lemma holder_moves: "holds t = Some a \<Longrightarrow> advance ser t held r \<noteq> None"
  by (cases "(ser, t, held, r)" rule: advance.cases)
    (auto simp: case_prod_unfold Let_def)

lemma free_moves: "\<not> finished t \<Longrightarrow> advance ser t {} r \<noteq> None"
  by (cases "(ser, t, {} :: slot_ref set, r)" rule: advance.cases)
    (auto simp: finished_def case_prod_unfold Let_def split: result.splits bool.splits)

lemma some_task_moves:
  assumes "slots_ok s" "t \<in> set (tasks s)" "\<not> finished t"
  shows "\<exists>i<length (tasks s). advance ser (tasks s ! i) (slots_held s) (registry s) \<noteq> None"
proof (cases "held_by (tasks s)")
  case Nil
  then have "slots_held s = {}" using assms(1) by (simp add: slots_ok_def)
  then show ?thesis using assms(2,3) free_moves by (metis in_set_conv_nth)
next
  case (Cons a as)
  then have "a \<in> set (held_by (tasks s))" by simp
  then obtain u where "u \<in> set (tasks s)" "holds u = Some a"
    by (auto simp: List.map_filter_def)
  then show ?thesis using holder_moves by (metis in_set_conv_nth)
qed

section \<open>Moves\<close>

text \<open>So many moves of the tasks in flight, in any order, with nothing new called.\<close>

inductive moves :: "StatusBody ser \<Rightarrow> 'x conc \<Rightarrow> nat \<Rightarrow> 'x conc \<Rightarrow> bool" for ser s0 where
  none: "moves ser s0 0 s0"
| move: "moves ser s0 n s \<Longrightarrow> i < length (tasks s)
    \<Longrightarrow> advance ser (tasks s ! i) (slots_held s) (registry s) = Some (t', held', r')
    \<Longrightarrow> moves ser s0 (Suc n) \<lparr>tasks = (tasks s)[i := t'], slots_held = held', registry = r'\<rparr>"

definition work :: "nat \<Rightarrow> 'x conc \<Rightarrow> nat" where
  "work cap s = sum_list (map (steps_left cap) (tasks s))"

lemma sum_list_update_less:
  fixes f :: "'a \<Rightarrow> nat"
  assumes "i < length xs" "f y < f (xs ! i)"
  shows "sum_list (map f (xs[i := y])) < sum_list (map f xs)"
  using assms
proof (induction xs arbitrary: i)
  case (Cons x xs)
  then show ?case by (cases i) auto
qed simp

lemma conc_run_limit:
  assumes "conc_run K ser r0 log s"
  shows "watch_limit (registry s) = watch_limit r0"
  using assms
proof (induction rule: conc_run.induct)
  case (step log s i t' held' r')
  then show ?case using config_fields(4) [OF advance_frame(2) [OF step.hyps(3)]] by simp
qed (simp_all add: elsewhere_def)

lemma conc_run_capped:
  assumes "conc_run K ser r0 log s" "watched r0 = []"
  shows "length (watched (registry s)) \<le> max_entries (watch_limit r0)"
  using conc_run_reports [OF assms] conc_run_limit [OF assms(1)] watch_okD(1)
  by (metis reports_ok_def)

lemma moves_bounded:
  assumes "moves ser s0 n s" "conc_run K ser r0 log s0" "watched r0 = []"
  shows "(\<exists>log'. conc_run K ser r0 log' s)
     \<and> n + work (max_entries (watch_limit r0)) s \<le> work (max_entries (watch_limit r0)) s0"
  using assms(1)
proof (induction rule: moves.induct)
  case none
  show ?case using assms(2) by auto
next
  case (move n s i t' held' r')
  let ?cap = "max_entries (watch_limit r0)"
  let ?s = "\<lparr>tasks = (tasks s)[i := t'], slots_held = held', registry = r'\<rparr>"
  obtain log' where run: "conc_run K ser r0 log' s" using move.IH by blast
  have "steps_left ?cap t' < steps_left ?cap (tasks s ! i)"
    by (rule advance_steps [OF move.hyps(3) conc_run_capped [OF run assms(3)]])
  then have "work ?cap ?s < work ?cap s"
    using sum_list_update_less [OF move.hyps(2)] by (simp add: work_def)
  moreover have "conc_run K ser r0 (log' @ step_labels i ser (tasks s ! i) (registry s)) ?s"
    by (rule conc_run.step [OF run move.hyps(2,3)])
  ultimately show ?case using move.IH by auto
qed

lemma finished_holds_nothing: "finished t \<Longrightarrow> holds t = None"
  by (auto simp: finished_def split: task_splits)

lemma all_finished_free:
  assumes "slots_ok s" "\<forall>t\<in>set (tasks s). finished t"
  shows "slots_held s = {}"
  using assms finished_holds_nothing by (auto simp: slots_ok_def List.map_filter_def)

lemma moves_to_the_end:
  assumes "moves ser s0 n s" "conc_run K ser r0 log s0" "watched r0 = []"
  shows "\<exists>m s'. moves ser s0 m s' \<and> (\<forall>t\<in>set (tasks s'). finished t)"
  using assms(1)
proof (induction "work (max_entries (watch_limit r0)) s" arbitrary: n s rule: less_induct)
  case less
  obtain log' where run: "conc_run K ser r0 log' s"
    using moves_bounded [OF less.prems assms(2,3)] by blast
  show ?case
  proof (cases "\<forall>t\<in>set (tasks s). finished t")
    case False
    then obtain i where i: "i < length (tasks s)"
      and "advance ser (tasks s ! i) (slots_held s) (registry s) \<noteq> None"
      using some_task_moves [OF conc_run_slots [OF run]] by metis
    then obtain t' held' r' where adv: "advance ser (tasks s ! i) (slots_held s) (registry s) = Some (t', held', r')"
      by (metis not_None_eq prod_cases3)
    note move = moves.move [OF less.prems i adv]
    have "steps_left (max_entries (watch_limit r0)) t' < steps_left (max_entries (watch_limit r0)) (tasks s ! i)"
      by (rule advance_steps [OF adv conc_run_capped [OF run assms(3)]])
    then show ?thesis
      using less.hyps [OF _ move] sum_list_update_less [OF i] by (simp add: work_def)
  qed (use less.prems in blast)
qed

end
