(* ===== verification/Byte_Order.thy ===== *)
theory Byte_Order imports Videre_Prelude
begin

text \<open>
  Integers as byte lists: the little-endian and big-endian digits of a natural number in
  base 256, which the standard library's \<^verbatim>\<open>to_le_bytes\<close> and \<^verbatim>\<open>to_be_bytes\<close> write at a
  fixed width, and the value a byte list denotes.
\<close>

fun le_bytes :: "nat \<Rightarrow> nat \<Rightarrow> bytes" where
  "le_bytes 0 n = []"
| "le_bytes (Suc k) n = of_nat (n mod 256) # le_bytes k (n div 256)"

fun le_value :: "bytes \<Rightarrow> nat" where
  "le_value [] = 0"
| "le_value (b # bs) = unat b + 256 * le_value bs"

definition be_bytes :: "nat \<Rightarrow> nat \<Rightarrow> bytes" where
  "be_bytes k n = rev (le_bytes k n)"

definition be_value :: "bytes \<Rightarrow> nat" where
  "be_value bs = le_value (rev bs)"

lemma length_le_bytes [simp]: "length (le_bytes k n) = k"
  by (induction k arbitrary: n) auto

lemma length_be_bytes [simp]: "length (be_bytes k n) = k"
  by (simp add: be_bytes_def)

lemma unat_of_nat_mod_256 [simp]: "unat (of_nat (n mod 256) :: u8) = n mod 256"
  by (simp add: unsigned_of_nat take_bit_eq_mod)

lemma unat_u8_lt: "unat (b :: u8) < 256"
  using unsigned_less [of b] by simp

lemma le_value_le_bytes: "le_value (le_bytes k n) = n mod 256 ^ k"
  by (induction k arbitrary: n) (auto simp: mod_mult2_eq)

lemma le_value_lt: "le_value bs < 256 ^ length bs"
proof (induction bs)
  case (Cons b bs)
  have "unat b + 256 * le_value bs < 256 * Suc (le_value bs)"
    using unat_u8_lt [of b] by simp
  also have "\<dots> \<le> 256 * 256 ^ length bs"
    using Cons.IH by (intro mult_le_mono2) simp
  finally show ?case by simp
qed simp

lemma le_bytes_le_value: "le_bytes (length bs) (le_value bs) = bs"
proof (induction bs)
  case (Cons b bs)
  have "(unat b + 256 * le_value bs) mod 256 = unat b"
    using unat_u8_lt [of b] by simp
  moreover have "(unat b + 256 * le_value bs) div 256 = le_value bs"
    using unat_u8_lt [of b] by simp
  ultimately show ?case using Cons.IH by simp
qed simp

lemma le_value_inj: "length bs = length cs \<Longrightarrow> le_value bs = le_value cs \<Longrightarrow> bs = cs"
  by (metis le_bytes_le_value)

lemma be_value_be_bytes: "be_value (be_bytes k n) = n mod 256 ^ k"
  by (simp add: be_value_def be_bytes_def le_value_le_bytes)

lemma be_value_lt: "be_value bs < 256 ^ length bs"
  using le_value_lt [of "rev bs"] by (simp add: be_value_def)

lemma be_value_inj: "length bs = length cs \<Longrightarrow> be_value bs = be_value cs \<Longrightarrow> bs = cs"
  using le_value_inj [of "rev bs" "rev cs"] by (simp add: be_value_def)

lemma le_value_append: "le_value (bs @ cs) = le_value bs + 256 ^ length bs * le_value cs"
  by (induction bs) (auto simp: algebra_simps)

lemma be_value_Cons: "be_value (b # bs) = unat b * 256 ^ length bs + be_value bs"
  by (simp add: be_value_def le_value_append)

lemma be_value_Nil [simp]: "be_value [] = 0"
  by (simp add: be_value_def)

lemma be_value_zeros: "be_value (replicate n 0 @ bs) = be_value bs"
  by (induction n) (auto simp: be_value_Cons)

text \<open>
  A big-endian encoding is minimal when it has no leading zero byte. Minimal encodings
  are determined by their value: the leading byte fixes the length.
\<close>

definition minimal :: "bytes \<Rightarrow> bool" where
  "minimal bs \<longleftrightarrow> (case bs of [] \<Rightarrow> True | b # _ \<Rightarrow> b \<noteq> 0)"

lemma minimal_Cons_bound: "minimal (b # bs) \<Longrightarrow> 256 ^ length bs \<le> be_value (b # bs)"
proof -
  assume "minimal (b # bs)"
  then have "1 \<le> unat b"
    by (simp add: minimal_def) (metis One_nat_def Suc_leI neq0_conv unat_eq_0)
  then have "1 * 256 ^ length bs \<le> unat b * 256 ^ length bs"
    by (rule mult_le_mono1)
  then show ?thesis unfolding be_value_Cons mult_1 by (rule trans_le_add1)
qed

lemma minimal_length_le:
  assumes "minimal cs" "be_value bs = be_value cs"
  shows "length cs \<le> length bs"
proof (cases cs)
  case (Cons c cs')
  then have "(256::nat) ^ length cs' < 256 ^ length bs"
    using minimal_Cons_bound [of c cs'] be_value_lt [of bs] assms
    by (metis order_le_less_trans)
  then have "length cs' < length bs"
    by (rule power_less_imp_less_exp [rotated]) simp
  then show ?thesis using Cons by simp
qed simp

lemma minimal_unique:
  assumes "minimal bs" "minimal cs" "be_value bs = be_value cs"
  shows "bs = cs"
  using assms minimal_length_le [of cs bs] minimal_length_le [of bs cs] be_value_inj
  by fastforce

lemma minimal_dropWhile: "minimal (dropWhile (\<lambda>b. b = 0) bs)"
  by (induction bs) (auto simp: minimal_def)

lemma be_value_dropWhile [simp]: "be_value (dropWhile (\<lambda>b. b = 0) bs) = be_value bs"
  by (induction bs) (auto simp: be_value_Cons)

end
