(* ===== verification/Value_Flow.thy ===== *)
theory Value_Flow imports Wire_Types Byte_Order
begin

text \<open>
  \<^verbatim>\<open>videre-sdk/src/value_flow.rs\<close>: the canonical \<^verbatim>\<open>uint\<close> codec of ADR 0001 and the
  amount constructors. \<^verbatim>\<open>U256\<close> is a 256-bit word. Its two byte conversions come from a
  third-party crate, so they are arguments: \<open>trimmed\<close> is \<^verbatim>\<open>to_be_bytes_trimmed_vec\<close>
  and \<open>from_be\<close> is \<^verbatim>\<open>from_be_slice\<close>. The locale \<open>u256_bytes\<close> states their documented
  behaviour.
\<close>

type_synonym u256 = "256 word"

section \<open>The contract of the 256-bit integer\<close>

locale u256_bytes =
  fixes trimmed :: "u256 \<Rightarrow> bytes" and from_be :: "bytes \<Rightarrow> u256"
  assumes trimmed_value: "be_value (trimmed v) = unat v"
    and trimmed_minimal: "minimal (trimmed v)"
    and from_be_value: "length bs \<le> 32 \<Longrightarrow> unat (from_be bs) = be_value bs"
begin

lemma length_trimmed: "length (trimmed v) \<le> 32"
proof (cases "trimmed v")
  case (Cons b bs)
  have "256 ^ length bs \<le> be_value (b # bs)"
    using minimal_Cons_bound trimmed_minimal [of v] Cons by simp
  also have "\<dots> < 256 ^ 32"
    using unsigned_less [of v, where ?'a = nat] trimmed_value [of v] Cons by simp
  finally have "length bs < 32"
    by (rule power_less_imp_less_exp [rotated]) simp
  then show ?thesis using Cons by simp
qed simp

lemma from_be_trimmed: "from_be (trimmed v) = v"
  by (rule word_unat_eq_iff [THEN iffD2])
    (simp add: from_be_value length_trimmed trimmed_value)

lemma trimmed_from_be:
  assumes "length bs \<le> 32" "minimal bs"
  shows "trimmed (from_be bs) = bs"
  using assms by (intro minimal_unique)
    (simp_all add: trimmed_minimal trimmed_value from_be_value)

lemma trimmed_inj: "trimmed v = trimmed w \<Longrightarrow> v = w"
  by (metis from_be_trimmed)

end

section \<open>The codec\<close>

datatype UintError = LeadingZero | Overflow nat

definition encode_uint :: "(u256 \<Rightarrow> bytes) \<Rightarrow> u256 \<Rightarrow> bytes" where
  "encode_uint trimmed v = trimmed v"

definition decode_uint :: "(bytes \<Rightarrow> u256) \<Rightarrow> bytes \<Rightarrow> (u256, UintError) result" where
  "decode_uint from_be bs =
     (if 32 < length bs then Err (Overflow (length bs))
      else if (case bs of [] \<Rightarrow> None | b # _ \<Rightarrow> Some b) = Some 0 then Err LeadingZero
      else Ok (from_be bs))"

definition AssetAmount_erc20 :: "(u256 \<Rightarrow> bytes) \<Rightarrow> bytes \<Rightarrow> u256 \<Rightarrow> AssetAmount" where
  "AssetAmount_erc20 trimmed address v =
     \<lparr>asset = AErc20 \<lparr>token = address\<rparr>, amount = encode_uint trimmed v\<rparr>"

definition AssetAmount_native :: "(u256 \<Rightarrow> bytes) \<Rightarrow> u256 \<Rightarrow> AssetAmount" where
  "AssetAmount_native trimmed v = \<lparr>asset = Native, amount = encode_uint trimmed v\<rparr>"

definition AssetAmount_value ::
  "(bytes \<Rightarrow> u256) \<Rightarrow> AssetAmount \<Rightarrow> (u256, UintError) result" where
  "AssetAmount_value from_be a = decode_uint from_be (amount a)"

lemma decode_uint_cases:
  "decode_uint from_be bs =
     (if 32 < length bs then Err (Overflow (length bs))
      else if minimal bs then Ok (from_be bs) else Err LeadingZero)"
  by (cases bs) (simp_all add: decode_uint_def minimal_def)

lemma decode_uint_eq_Ok:
  "decode_uint from_be bs = Ok v \<longleftrightarrow> length bs \<le> 32 \<and> minimal bs \<and> from_be bs = v"
  by (auto simp: decode_uint_cases)

section \<open>A concrete 256-bit integer\<close>

text \<open>
  The conversions as the library documents them: the 32 big-endian bytes without their
  leading zeros, and the big-endian value.
\<close>

definition u256_trimmed :: "u256 \<Rightarrow> bytes" where
  "u256_trimmed v = dropWhile (\<lambda>b. b = 0) (be_bytes 32 (unat v))"

definition u256_from_be :: "bytes \<Rightarrow> u256" where
  "u256_from_be bs = of_nat (be_value bs)"

interpretation u256: u256_bytes u256_trimmed u256_from_be
proof unfold_locales
  fix v :: u256
  show "be_value (u256_trimmed v) = unat v"
    using unsigned_less [of v, where ?'a = nat]
    by (simp add: u256_trimmed_def be_value_be_bytes)
  show "minimal (u256_trimmed v)"
    by (simp add: u256_trimmed_def minimal_dropWhile)
next
  fix bs :: bytes
  assume "length bs \<le> 32"
  then have "be_value bs < 256 ^ 32"
    using be_value_lt [of bs] power_increasing [of "length bs" 32 "256::nat"] by simp
  then show "unat (u256_from_be bs) = be_value bs"
    by (simp add: u256_from_be_def unsigned_of_nat take_bit_nat_eq_self)
qed

section \<open>Properties\<close>

lemma decode_encode_uint [codec_laws]:
  assumes "u256_bytes trimmed from_be"
  shows "decode_uint from_be (encode_uint trimmed v) = Ok v"
  using assms
  by (simp add: decode_uint_eq_Ok encode_uint_def u256_bytes.length_trimmed
      u256_bytes.trimmed_minimal u256_bytes.from_be_trimmed)

lemma encode_decode_uint:
  assumes "u256_bytes trimmed from_be" "decode_uint from_be bs = Ok v"
  shows "encode_uint trimmed v = bs"
  using assms by (auto simp: decode_uint_eq_Ok encode_uint_def u256_bytes.trimmed_from_be)

text \<open>
  C33: the \<open>uint\<close> wire form is canonical. The decoder accepts exactly the encoder's output,
  so a value has one encoding and a byte string one reading; everything longer than the
  32-byte word is an overflow, whatever its padding, and what is left is a leading zero.
\<close>

theorem uint_is_canonical:
  assumes "u256_bytes trimmed from_be"
  shows "(decode_uint from_be bs = Ok v \<longleftrightarrow> encode_uint trimmed v = bs)
     \<and> (decode_uint from_be bs = Err (Overflow n) \<longleftrightarrow> 32 < length bs \<and> n = length bs)
     \<and> (decode_uint from_be bs = Err LeadingZero \<longleftrightarrow> length bs \<le> 32 \<and> (\<exists>cs. bs = 0 # cs))"
proof (intro conjI)
  show "decode_uint from_be bs = Ok v \<longleftrightarrow> encode_uint trimmed v = bs"
    using decode_encode_uint [OF assms] encode_decode_uint [OF assms] by blast
  show "decode_uint from_be bs = Err (Overflow n) \<longleftrightarrow> 32 < length bs \<and> n = length bs"
    by (auto simp: decode_uint_cases)
  show "decode_uint from_be bs = Err LeadingZero \<longleftrightarrow> length bs \<le> 32 \<and> (\<exists>cs. bs = 0 # cs)"
    by (cases bs) (auto simp: decode_uint_def)
qed

theorem uint_is_canonical_witness:
  "decode_uint u256_from_be [1, 0] = Ok 256 \<and> decode_uint u256_from_be [0, 1] = Err LeadingZero"
proof -
  have "be_value [1, 0] = 256"
    by (simp add: be_value_Cons)
  then have "u256_from_be [1, 0] = 256"
    by (simp add: u256_from_be_def)
  then have "encode_uint u256_trimmed 256 = [1, 0]"
    using u256.trimmed_from_be [of "[1, 0]"] by (simp add: encode_uint_def minimal_def)
  then show ?thesis
    using uint_is_canonical [OF u256.u256_bytes_axioms] by simp
qed

end
