(* ===== verification/Echo_Venue.thy ===== *)
theory Echo_Venue imports Registry_Run Value_Flow
begin

text \<open>
  \<^verbatim>\<open>crates/echo-venue/src/lib.rs\<close>: the reference adapter. It accepts any body, echoes it
  back as the receipt and settles instantly. It is the first provider of the
  \<open>venue_invoker\<close> contract, and the venue the registry's properties are exercised on.
\<close>

section \<open>The adapter\<close>

definition echo_BODY_VERSIONS :: "u32 list" where "echo_BODY_VERSIONS = [1]"

definition echo_SETTLEMENT_CHAIN :: u64 where "echo_SETTLEMENT_CHAIN = 1"

definition echo_body_versions :: "u32 set" where
  "echo_body_versions = set echo_BODY_VERSIONS"

definition zero_native :: AssetAmount where
  "zero_native = \<lparr>asset = Native, amount = []\<rparr>"

text \<open>\<^verbatim>\<open>to_be_bytes\<close>, and the same without its leading zero bytes.\<close>

definition u64_to_be_bytes :: "u64 \<Rightarrow> bytes" where
  "u64_to_be_bytes v = be_bytes 8 (unat v)"

definition minimal_be :: "u64 \<Rightarrow> bytes" where
  "minimal_be v =
     (let bs = u64_to_be_bytes v
      in case position (\<lambda>b. b \<noteq> 0) bs of None \<Rightarrow> [] | Some index \<Rightarrow> drop index bs)"

definition echo_derive_header :: "bytes \<Rightarrow> (IntentHeader, VenueError) result" where
  "echo_derive_header body = Ok
     \<lparr>gives = \<lparr>asset = Native, amount = minimal_be (of_nat (length body))\<rparr>,
      wants = zero_native,
      settlement = \<lparr>chain = echo_SETTLEMENT_CHAIN\<rparr>,
      authorisation = Eip1271\<rparr>"

definition echo_quote :: "bytes \<Rightarrow> (Quotation, VenueError) result" where
  "echo_quote body = Ok
     \<lparr>q_gives = \<lparr>asset = Native, amount = minimal_be (of_nat (length body))\<rparr>,
      q_wants = zero_native, q_fee = zero_native, q_valid_until_ms = - 1\<rparr>"

definition echo_submit :: "bytes \<Rightarrow> (SubmitOutcome, VenueError) result" where
  "echo_submit body = Ok (Accepted body)"

definition echo_status :: "bytes \<Rightarrow> (IntentStatus, VenueError) result" where
  "echo_status receipt = Ok Fulfilled"

definition echo_cancel :: "bytes \<Rightarrow> (unit, VenueError) result" where
  "echo_cancel receipt = Ok ()"

definition EchoVenue :: "'x VenueInvoker" where
  "EchoVenue =
     \<lparr>inv_derive_header = (\<lambda>body w. (echo_derive_header body, w)),
      inv_quote = (\<lambda>body w. (echo_quote body, w)),
      inv_submit = (\<lambda>body w. (echo_submit body, w)),
      inv_status = (\<lambda>receipt w. (echo_status receipt, w)),
      inv_cancel = (\<lambda>receipt w. (echo_cancel receipt, w))\<rparr>"

definition echo_register ::
  "VenueId \<Rightarrow> 'x VenueRegistry \<Rightarrow> (live_ref, DuplicateVenue) result \<times> 'x VenueRegistry" where
  "echo_register venue r =
     (let (live, r1) = on_env Liveness_new r in
      case register venue live echo_body_versions EchoVenue r1 of
        (Ok _, r2) \<Rightarrow> (Ok live, r2)
      | (Err e, r2) \<Rightarrow> (Err e, r2))"

lemmas echo_ops = echo_derive_header_def echo_quote_def echo_submit_def echo_status_def
  echo_cancel_def

lemma EchoVenue_simps [simp]:
  "inv_derive_header EchoVenue body w = (echo_derive_header body, w)"
  "inv_quote EchoVenue body w = (echo_quote body, w)"
  "inv_submit EchoVenue body w = (Ok (Accepted body), w)"
  "inv_status EchoVenue receipt w = (Ok Fulfilled, w)"
  "inv_cancel EchoVenue receipt w = (Ok (), w)"
  by (simp_all add: EchoVenue_def echo_ops)

interpretation echo: venue_invoker EchoVenue
  by unfold_locales (simp_all add: lawful_call_def)

section \<open>The amount encoder\<close>

lemma drop_position:
  "(case position P xs of None \<Rightarrow> [] | Some i \<Rightarrow> drop i xs) = dropWhile (\<lambda>x. \<not> P x) xs"
  by (induction xs) (auto split: option.splits)

lemma minimal_be_eq: "minimal_be v = dropWhile (\<lambda>b. b = 0) (be_bytes 8 (unat v))"
  by (simp add: minimal_be_def u64_to_be_bytes_def Let_def drop_position)

lemma minimal_minimal_be: "minimal (minimal_be v)"
  by (simp add: minimal_be_eq minimal_dropWhile)

lemma be_value_minimal_be: "be_value (minimal_be v) = unat v"
  using unat_u64_lt [of v] by (simp add: minimal_be_eq be_value_be_bytes)

lemma minimal_be_encode_uint:
  assumes "u256_bytes trimmed from_be"
  shows "minimal_be v = encode_uint trimmed (ucast v)"
proof (rule minimal_unique)
  show "minimal (encode_uint trimmed (ucast v))"
    by (simp add: encode_uint_def u256_bytes.trimmed_minimal [OF assms])
  have "unat (ucast v :: u256) = unat v"
    using unat_u64_lt [of v] by (simp add: unsigned_ucast_eq take_bit_nat_eq_self)
  then show "be_value (minimal_be v) = be_value (encode_uint trimmed (ucast v))"
    by (simp add: encode_uint_def u256_bytes.trimmed_value [OF assms] be_value_minimal_be)
qed (rule minimal_minimal_be)

text \<open>
  C34: the venue's local encoder is the platform's. Over any lawful 256-bit integer it
  writes exactly what the SDK's \<open>encode_uint\<close> writes, so the amount in a derived header
  reads back through \<open>decode_uint\<close> as the length of the body.
\<close>

theorem echo_amounts_read_back:
  assumes "u256_bytes trimmed from_be" and "length body < 2 ^ 64"
  shows "\<exists>h q. echo_derive_header body = Ok h \<and> echo_quote body = Ok q
     \<and> amount (gives h) = encode_uint trimmed (of_nat (length body))
     \<and> AssetAmount_value from_be (gives h) = Ok (of_nat (length body))
     \<and> AssetAmount_value from_be (wants h) = Ok 0
     \<and> q_gives q = gives h \<and> AssetAmount_value from_be (q_fee q) = Ok 0"
proof -
  have "ucast (of_nat (length body) :: u64) = (of_nat (length body) :: u256)"
    using assms(2) by (simp add: unsigned_of_nat take_bit_nat_eq_self)
  then have enc: "minimal_be (of_nat (length body)) = encode_uint trimmed (of_nat (length body))"
    using minimal_be_encode_uint [OF assms(1), of "of_nat (length body)"] by simp
  have "unat (from_be []) = 0"
    using u256_bytes.from_be_value [OF assms(1), of "[]"] by simp
  then have "from_be [] = 0" by (simp add: unat_eq_0)
  then have "decode_uint from_be [] = Ok 0" by (simp add: decode_uint_def)
  then show ?thesis
    using enc decode_encode_uint [OF assms(1), of "of_nat (length body)"]
    by (simp add: echo_derive_header_def echo_quote_def zero_native_def AssetAmount_value_def)
qed

theorem echo_amounts_read_back_witness:
  "\<exists>h. echo_derive_header [1, 2, 3, 4] = Ok h \<and> AssetAmount_value u256_from_be (gives h) = Ok 4"
  using echo_amounts_read_back [OF u256.u256_bytes_axioms, of "[1, 2, 3, 4]"] by auto

end
