(* ===== verification/Flaky_Venue.thy ===== *)
theory Flaky_Venue imports Echo_Venue
begin

text \<open>
  \<^verbatim>\<open>crates/flaky-venue/src/lib.rs\<close>: the fixture that kills itself. Its \<^verbatim>\<open>submit\<close> fails
  and marks the venue dead while the chain head reads the poison sentinel; a sweep over a
  healthy head revives it. The head is an \<^verbatim>\<open>Arc<Mutex<String>>\<close>, so it is a cell of the
  world: the adapters' part \<open>ext\<close> is any record with \<open>head_at\<close>.
\<close>

section \<open>The chain head\<close>

record chain_heads =
  head_at :: "nat \<Rightarrow> string"

type_synonym head_ref = nat

definition POISON_HEAD :: string where "POISON_HEAD = ''0xdead''"
definition HEALTHY_HEAD :: string where "HEALTHY_HEAD = ''0x1''"
definition flaky_SETTLEMENT_CHAIN :: u64 where "flaky_SETTLEMENT_CHAIN = 1"

type_synonym 'y flaky_world = "'y chain_heads_scheme world"

definition ChainHead_new :: "string \<Rightarrow> 'y flaky_world \<Rightarrow> head_ref \<times> 'y flaky_world" where
  "ChainHead_new head w =
     (allocs w, w\<lparr>allocs := Suc (allocs w),
        ext := (ext w)\<lparr>head_at := (head_at (ext w))(allocs w := head)\<rparr>\<rparr>)"

definition ChainHead_poisoned :: "'y flaky_world \<Rightarrow> head_ref \<times> 'y flaky_world" where
  "ChainHead_poisoned = ChainHead_new POISON_HEAD"

definition ChainHead_healthy :: "'y flaky_world \<Rightarrow> head_ref \<times> 'y flaky_world" where
  "ChainHead_healthy = ChainHead_new HEALTHY_HEAD"

definition head_get :: "head_ref \<Rightarrow> 'y flaky_world \<Rightarrow> string" where
  "head_get h w = head_at (ext w) h"

definition head_set :: "head_ref \<Rightarrow> string \<Rightarrow> 'y flaky_world \<Rightarrow> 'y flaky_world" where
  "head_set h head w = w\<lparr>ext := (ext w)\<lparr>head_at := (head_at (ext w))(h := head)\<rparr>\<rparr>"

definition head_heal :: "head_ref \<Rightarrow> 'y flaky_world \<Rightarrow> 'y flaky_world" where
  "head_heal h = head_set h HEALTHY_HEAD"

definition is_poisoned :: "head_ref \<Rightarrow> 'y flaky_world \<Rightarrow> bool" where
  "is_poisoned h w \<longleftrightarrow> str_contains POISON_HEAD (head_get h w)"

section \<open>The adapter\<close>

record FlakyVenue =
  fv_head :: head_ref
  fv_liveness :: live_ref

definition FlakyVenue_new :: "head_ref \<Rightarrow> 'y flaky_world \<Rightarrow> FlakyVenue \<times> 'y flaky_world" where
  "FlakyVenue_new h w = (let (live, w1) = Liveness_new w in (\<lparr>fv_head = h, fv_liveness = live\<rparr>, w1))"

definition submit_now ::
  "FlakyVenue \<Rightarrow> bytes \<Rightarrow> ('y chain_heads_scheme, SubmitOutcome) adapter_call" where
  "submit_now v body w =
     (if is_poisoned (fv_head v) w
      then (Err (Unavailable ''flaky-venue poison head''), mark_dead (fv_liveness v) w)
      else (Ok (Accepted body), w))"

definition flaky_header :: IntentHeader where
  "flaky_header = \<lparr>gives = zero_native, wants = zero_native,
     settlement = \<lparr>chain = flaky_SETTLEMENT_CHAIN\<rparr>, authorisation = Eip1271\<rparr>"

definition flaky_quotation :: Quotation where
  "flaky_quotation = \<lparr>q_gives = zero_native, q_wants = zero_native, q_fee = zero_native,
     q_valid_until_ms = - 1\<rparr>"

definition flaky_invoker :: "FlakyVenue \<Rightarrow> 'y chain_heads_scheme VenueInvoker" where
  "flaky_invoker v =
     \<lparr>inv_derive_header = (\<lambda>body w. (Ok flaky_header, w)),
      inv_quote = (\<lambda>body w. (Ok flaky_quotation, w)),
      inv_submit = submit_now v,
      inv_status = (\<lambda>receipt w. (Ok Open, w)),
      inv_cancel = (\<lambda>receipt w. (Ok (), w))\<rparr>"

section \<open>The handle\<close>

record FlakyHandle =
  fh_head :: head_ref
  fh_liveness :: live_ref

definition fh_is_alive :: "FlakyHandle \<Rightarrow> 'y flaky_world \<Rightarrow> bool" where
  "fh_is_alive h w = is_alive w (fh_liveness h)"

definition fh_poison :: "FlakyHandle \<Rightarrow> 'y flaky_world \<Rightarrow> 'y flaky_world" where
  "fh_poison h = head_set (fh_head h) POISON_HEAD"

definition fh_heal :: "FlakyHandle \<Rightarrow> 'y flaky_world \<Rightarrow> 'y flaky_world" where
  "fh_heal h = head_heal (fh_head h)"

definition sweep :: "FlakyHandle \<Rightarrow> 'y flaky_world \<Rightarrow> bool \<times> 'y flaky_world" where
  "sweep h w =
     (let w1 = (if \<not> is_poisoned (fh_head h) w then mark_alive (fh_liveness h) w else w)
      in (fh_is_alive h w1, w1))"

definition flaky_register ::
  "VenueId \<Rightarrow> head_ref \<Rightarrow> 'y chain_heads_scheme VenueRegistry
    \<Rightarrow> (FlakyHandle, DuplicateVenue) result \<times> 'y chain_heads_scheme VenueRegistry" where
  "flaky_register venue h r =
     (let (adapter, r1) = on_env (FlakyVenue_new h) r;
          live = fv_liveness adapter
      in case register venue live {} (flaky_invoker adapter) r1 of
           (Ok _, r2) \<Rightarrow> (Ok \<lparr>fh_head = h, fh_liveness = live\<rparr>, r2)
         | (Err e, r2) \<Rightarrow> (Err e, r2))"

section \<open>The contract and the effect of each call\<close>

lemma flaky_invoker_simps [simp]:
  "inv_derive_header (flaky_invoker v) body w = (Ok flaky_header, w)"
  "inv_quote (flaky_invoker v) body w = (Ok flaky_quotation, w)"
  "inv_submit (flaky_invoker v) body w = submit_now v body w"
  "inv_status (flaky_invoker v) receipt w = (Ok Open, w)"
  "inv_cancel (flaky_invoker v) receipt w = (Ok (), w)"
  by (simp_all add: flaky_invoker_def)

interpretation flaky: venue_invoker "flaky_invoker v" for v
  by unfold_locales (simp_all add: lawful_call_def submit_now_def)

lemma poisoned_simps [simp]:
  "str_contains POISON_HEAD POISON_HEAD" "\<not> str_contains POISON_HEAD HEALTHY_HEAD"
  by (simp_all add: POISON_HEAD_def HEALTHY_HEAD_def)

lemma is_poisoned_simps [simp]:
  "is_poisoned h (w\<lparr>reads := n\<rparr>) = is_poisoned h w"
  "is_poisoned h (mark_dead l w) = is_poisoned h w"
  "is_poisoned h (mark_alive l w) = is_poisoned h w"
  "is_poisoned h (head_set h head w) = str_contains POISON_HEAD head"
  "h \<noteq> h' \<Longrightarrow> is_poisoned h (head_set h' head w) = is_poisoned h w"
  by (simp_all add: is_poisoned_def head_get_def head_set_def)

lemma head_set_alive [simp]: "is_alive (head_set h head w) l = is_alive w l"
  by (simp add: head_set_def)

end
