(* ===== verification/Borsh_Layout.thy ===== *)
theory Borsh_Layout imports Status_Body Byte_Order
begin

text \<open>
  The borsh wire layout as the sources document it: integers little-endian at their
  width, an option one presence byte (0 absent, 1 present) and then the payload, a byte
  vector a \<^verbatim>\<open>u32\<close> little-endian count and then its bytes, a string the same over its
  UTF-8 bytes, an enum one discriminant byte, a struct its fields in order
  (\<^verbatim>\<open>videre-status-body\<close>'s module documentation and \<^verbatim>\<open>videre-test/src/reference.rs\<close>).
  It is the concrete instance of the \<open>borsh_codec\<close> contract, at which the properties
  about encoded bodies are applied.
\<close>

section \<open>Formats\<close>

text \<open>
  A format writes a value and reads it off the front of a byte list, handing back the
  rest. Formats compose; \<^verbatim>\<open>from_slice\<close> closes one by refusing trailing bytes.
\<close>

locale wire_format =
  fixes put :: "'a \<Rightarrow> (bytes, string) result"
    and get :: "bytes \<Rightarrow> ('a \<times> bytes, string) result"
  assumes get_put: "put x = Ok p \<Longrightarrow> get (p @ rest) = Ok (x, rest)"
    and put_get: "get bs = Ok (x, rest) \<Longrightarrow> \<exists>p. put x = Ok p \<and> bs = p @ rest"

definition from_slice :: "(bytes \<Rightarrow> ('a \<times> bytes, string) result) \<Rightarrow> 'a de" where
  "from_slice get bs =
     (case get bs of
        Err e \<Rightarrow> Err e
      | Ok (x, rest) \<Rightarrow> if rest = [] then Ok x else Err ''Not all bytes read'')"

lemma from_slice_eq_Ok: "from_slice get bs = Ok x \<longleftrightarrow> get bs = Ok (x, [])"
  by (auto simp: from_slice_def split: result.splits if_splits)

context wire_format begin

lemma borsh: "borsh_codec put (from_slice get)"
proof unfold_locales
  fix x bs
  show "put x = Ok bs \<Longrightarrow> from_slice get bs = Ok x"
    using get_put [of x bs "[]"] by (simp add: from_slice_eq_Ok)
  show "from_slice get bs = Ok x \<Longrightarrow> put x = Ok bs"
    using put_get [of bs x "[]"] by (simp add: from_slice_eq_Ok)
qed

end

sublocale wire_format \<subseteq> closed: borsh_codec put "from_slice get"
  by (rule borsh)

section \<open>Combinators\<close>

definition put_pair where
  "put_pair p q z = and_then (p (fst z)) (\<lambda>a. map_ok (\<lambda>b. a @ b) (q (snd z)))"

definition get_pair where
  "get_pair g h bs = and_then (g bs) (\<lambda>(x, r). map_ok (\<lambda>(y, r'). ((x, y), r')) (h r))"

definition put_conv :: "('a \<Rightarrow> 'b) \<Rightarrow> ('b \<Rightarrow> 'c) \<Rightarrow> 'a \<Rightarrow> 'c" where
  "put_conv to p x = p (to x)"

definition get_conv :: "('b \<Rightarrow> 'a) \<Rightarrow> (bytes \<Rightarrow> ('b \<times> bytes, string) result)
    \<Rightarrow> bytes \<Rightarrow> ('a \<times> bytes, string) result" where
  "get_conv from_b g bs = map_ok (\<lambda>(y, r). (from_b y, r)) (g bs)"

lemma wire_format_pair:
  assumes "wire_format p g" "wire_format q h"
  shows "wire_format (put_pair p q) (get_pair g h)"
proof -
  note a = wire_format.get_put [OF assms(1)] wire_format.get_put [OF assms(2)]
  show ?thesis
  proof unfold_locales
    fix x :: "'a \<times> 'b" and s rest
    show "put_pair p q x = Ok s \<Longrightarrow> get_pair g h (s @ rest) = Ok (x, rest)"
      by (cases x)
        (auto simp: put_pair_def get_pair_def and_then_eq_Ok map_ok_eq_Ok a)
  next
    fix bs rest and x :: "'a \<times> 'b"
    assume "get_pair g h bs = Ok (x, rest)"
    then obtain u r v where "g bs = Ok (u, r)" "h r = Ok (v, rest)" "x = (u, v)"
      by (auto simp: get_pair_def and_then_eq_Ok map_ok_eq_Ok)
    then show "\<exists>s. put_pair p q x = Ok s \<and> bs = s @ rest"
      using wire_format.put_get [OF assms(1), of bs u r] wire_format.put_get [OF assms(2), of r v rest]
      by (auto simp: put_pair_def and_then_eq_Ok map_ok_eq_Ok)
  qed
qed

lemma wire_format_conv:
  assumes "wire_format p g" "\<And>x. from_b (to x) = x" "\<And>y. to (from_b y) = y"
  shows "wire_format (put_conv to p) (get_conv from_b g)"
proof -
  note get_put = wire_format.get_put [OF assms(1)] and put_get = wire_format.put_get [OF assms(1)]
  show ?thesis
  proof unfold_locales
    fix x s rest
    show "put_conv to p x = Ok s \<Longrightarrow> get_conv from_b g (s @ rest) = Ok (x, rest)"
      using assms(2) by (auto simp: put_conv_def get_conv_def map_ok_eq_Ok get_put)
  next
    fix bs x rest
    show "get_conv from_b g bs = Ok (x, rest) \<Longrightarrow> \<exists>s. put_conv to p x = Ok s \<and> bs = s @ rest"
      using assms(3) by (auto simp: put_conv_def get_conv_def map_ok_eq_Ok dest: put_get)
  qed
qed

section \<open>Primitive formats\<close>

definition put_int :: "nat \<Rightarrow> nat \<Rightarrow> (bytes, string) result" where
  "put_int k n = (if n < 256 ^ k then Ok (le_bytes k n) else Err ''integer too wide'')"

definition get_int :: "nat \<Rightarrow> bytes \<Rightarrow> (nat \<times> bytes, string) result" where
  "get_int k bs = (if length bs < k then Err ''Unexpected length of input''
     else Ok (le_value (take k bs), drop k bs))"

lemma wire_format_int: "wire_format (put_int k) (get_int k)"
proof unfold_locales
  fix x p rest
  show "put_int k x = Ok p \<Longrightarrow> get_int k (p @ rest) = Ok (x, rest)"
    by (auto simp: put_int_def get_int_def le_value_le_bytes split: if_splits)
next
  fix bs x rest
  assume "get_int k bs = Ok (x, rest)"
  then have k: "k \<le> length bs" and x: "x = le_value (take k bs)" and r: "rest = drop k bs"
    by (auto simp: get_int_def split: if_splits)
  have "x < 256 ^ k" "le_bytes k x = take k bs"
    using le_value_lt [of "take k bs"] le_bytes_le_value [of "take k bs"] k x
    by (simp_all add: min_absorb2)
  then show "\<exists>p. put_int k x = Ok p \<and> bs = p @ rest"
    using r by (auto simp: put_int_def)
qed

definition put_u64 :: "u64 \<Rightarrow> (bytes, string) result" where
  "put_u64 w = put_int 8 (unat w)"

definition get_u64 :: "bytes \<Rightarrow> (u64 \<times> bytes, string) result" where
  "get_u64 bs = map_ok (\<lambda>(n, r). (of_nat n, r)) (get_int 8 bs)"

lemma wire_format_u64: "wire_format put_u64 get_u64"
proof unfold_locales
  fix x p rest
  show "put_u64 x = Ok p \<Longrightarrow> get_u64 (p @ rest) = Ok (x, rest)"
    by (auto simp: put_u64_def get_u64_def map_ok_eq_Ok wire_format.get_put [OF wire_format_int])
next
  fix bs x rest
  assume "get_u64 bs = Ok (x, rest)"
  then obtain n where n: "get_int 8 bs = Ok (n, rest)" "x = of_nat n"
    by (auto simp: get_u64_def map_ok_eq_Ok)
  then obtain p where p: "put_int 8 n = Ok p" "bs = p @ rest"
    using wire_format.put_get [OF wire_format_int] by blast
  then have "unat x = n"
    using n by (simp add: put_int_def unsigned_of_nat take_bit_nat_eq_self split: if_splits)
  then show "\<exists>p. put_u64 x = Ok p \<and> bs = p @ rest"
    using p by (simp add: put_u64_def)
qed

definition put_bool :: "bool \<Rightarrow> (bytes, string) result" where
  "put_bool b = Ok [if b then 1 else 0]"

fun get_bool :: "bytes \<Rightarrow> (bool \<times> bytes, string) result" where
  "get_bool [] = Err ''Unexpected length of input''"
| "get_bool (b # bs) = (if b = 0 then Ok (False, bs) else if b = 1 then Ok (True, bs)
     else Err ''Invalid bool representation'')"

lemma wire_format_bool: "wire_format put_bool get_bool"
proof unfold_locales
  fix bs x rest
  show "get_bool bs = Ok (x, rest) \<Longrightarrow> \<exists>p. put_bool x = Ok p \<and> bs = p @ rest"
    by (cases bs) (auto simp: put_bool_def split: if_splits)
qed (auto simp: put_bool_def)

fun put_option :: "('a \<Rightarrow> (bytes, string) result) \<Rightarrow> 'a option \<Rightarrow> (bytes, string) result" where
  "put_option p None = Ok [0]"
| "put_option p (Some x) = map_ok (\<lambda>b. 1 # b) (p x)"

fun get_option :: "(bytes \<Rightarrow> ('a \<times> bytes, string) result)
    \<Rightarrow> bytes \<Rightarrow> ('a option \<times> bytes, string) result" where
  "get_option g [] = Err ''Unexpected length of input''"
| "get_option g (b # bs) =
     (if b = 0 then Ok (None, bs)
      else if b = 1 then map_ok (\<lambda>(x, r). (Some x, r)) (g bs)
      else Err ''Invalid Option representation'')"

lemma wire_format_option:
  assumes "wire_format p g"
  shows "wire_format (put_option p) (get_option g)"
proof -
  note get_put = wire_format.get_put [OF assms(1)] and put_get = wire_format.put_get [OF assms(1)]
  show ?thesis
  proof unfold_locales
    fix x s rest
    show "put_option p x = Ok s \<Longrightarrow> get_option g (s @ rest) = Ok (x, rest)"
      by (cases x) (auto simp: map_ok_eq_Ok get_put)
  next
    fix bs x rest
    show "get_option g bs = Ok (x, rest) \<Longrightarrow> \<exists>s. put_option p x = Ok s \<and> bs = s @ rest"
      by (cases bs) (auto simp: map_ok_eq_Ok dest!: put_get split: if_splits)
  qed
qed

definition put_vec :: "bytes \<Rightarrow> (bytes, string) result" where
  "put_vec bs = map_ok (\<lambda>n. n @ bs) (put_int 4 (length bs))"

definition get_vec :: "bytes \<Rightarrow> (bytes \<times> bytes, string) result" where
  "get_vec bs = and_then (get_int 4 bs) (\<lambda>(n, r).
     if length r < n then Err ''Unexpected length of input'' else Ok (take n r, drop n r))"

lemma wire_format_vec: "wire_format put_vec get_vec"
proof unfold_locales
  fix x p rest
  show "put_vec x = Ok p \<Longrightarrow> get_vec (p @ rest) = Ok (x, rest)"
    by (auto simp: put_vec_def get_vec_def map_ok_eq_Ok
        wire_format.get_put [OF wire_format_int])
next
  fix bs x rest
  assume "get_vec bs = Ok (x, rest)"
  then obtain n r where n: "get_int 4 bs = Ok (n, r)" "n \<le> length r" "x = take n r"
      "rest = drop n r"
    by (auto simp: get_vec_def and_then_eq_Ok split: if_splits)
  then obtain p where "put_int 4 n = Ok p" "bs = p @ r"
    using wire_format.put_get [OF wire_format_int] by blast
  then show "\<exists>p. put_vec x = Ok p \<and> bs = p @ rest"
    using n by (auto simp: put_vec_def map_ok_eq_Ok min_absorb2)
qed

section \<open>UTF-8 strings\<close>

definition is_cont :: "nat \<Rightarrow> bool" where
  "is_cont b \<longleftrightarrow> 128 \<le> b \<and> b \<le> 191"

fun valid_utf8 :: "nat list \<Rightarrow> bool" where
  "valid_utf8 [] = True"
| "valid_utf8 (a # bs) =
     (if a \<le> 127 then valid_utf8 bs
      else if 194 \<le> a \<and> a \<le> 223 then
        (case bs of b # r \<Rightarrow> is_cont b \<and> valid_utf8 r | _ \<Rightarrow> False)
      else if 224 \<le> a \<and> a \<le> 239 then
        (case bs of b # c # r \<Rightarrow>
           is_cont b \<and> is_cont c \<and> (a = 224 \<longrightarrow> 160 \<le> b) \<and> (a = 237 \<longrightarrow> b \<le> 159)
           \<and> valid_utf8 r
         | _ \<Rightarrow> False)
      else if 240 \<le> a \<and> a \<le> 244 then
        (case bs of b # c # d # r \<Rightarrow>
           is_cont b \<and> is_cont c \<and> is_cont d \<and> (a = 240 \<longrightarrow> 144 \<le> b)
           \<and> (a = 244 \<longrightarrow> b \<le> 143) \<and> valid_utf8 r
         | _ \<Rightarrow> False)
      else False)"

definition str_bytes :: "string \<Rightarrow> bytes" where
  "str_bytes s = map of_char s"

definition bytes_str :: "bytes \<Rightarrow> string" where
  "bytes_str bs = map (\<lambda>b. char_of (unat b)) bs"

definition utf8_ok :: "bytes \<Rightarrow> bool" where
  "utf8_ok bs = valid_utf8 (map unat bs)"

lemma unat_of_char [simp]: "unat (of_char c :: u8) = of_char c"
proof -
  have "unat (of_nat (of_char c) :: u8) = of_char c"
    using of_char_mod_256 [of c, where ?'a = nat] mod_less_divisor [of 256 "of_char c"] by (simp add: unsigned_of_nat take_bit_nat_eq_self)
  then show ?thesis by (simp add: of_nat_of_char)
qed

lemma of_char_u8 [simp]: "of_char (char_of (unat (b :: u8))) = b"
  using unat_u8_lt [of b]
  by (intro word_unat_eq_iff [THEN iffD2]) (simp add: take_bit_nat_eq_self)

lemma bytes_str_str_bytes [simp]: "bytes_str (str_bytes s) = s"
  by (simp add: bytes_str_def str_bytes_def comp_def)

lemma str_bytes_bytes_str [simp]: "str_bytes (bytes_str bs) = bs"
  by (simp add: bytes_str_def str_bytes_def comp_def of_char_u8)

definition put_string :: "string \<Rightarrow> (bytes, string) result" where
  "put_string s =
     (if utf8_ok (str_bytes s) then put_vec (str_bytes s) else Err ''not a string'')"

definition get_string :: "bytes \<Rightarrow> (string \<times> bytes, string) result" where
  "get_string bs = and_then (get_vec bs) (\<lambda>(v, r).
     if utf8_ok v then Ok (bytes_str v, r) else Err ''invalid utf-8 sequence'')"

lemma wire_format_string: "wire_format put_string get_string"
proof unfold_locales
  fix x p rest
  show "put_string x = Ok p \<Longrightarrow> get_string (p @ rest) = Ok (x, rest)"
    by (auto simp: put_string_def get_string_def and_then_eq_Ok
        wire_format.get_put [OF wire_format_vec] split: if_splits)
next
  fix bs x rest
  show "get_string bs = Ok (x, rest) \<Longrightarrow> \<exists>p. put_string x = Ok p \<and> bs = p @ rest"
    by (auto simp: put_string_def get_string_def and_then_eq_Ok
        dest!: wire_format.put_get [OF wire_format_vec] split: if_splits)
qed

section \<open>The types of the status body crate\<close>

fun lifecycle_tag :: "Lifecycle \<Rightarrow> u8" where
  "lifecycle_tag LPending = 0"
| "lifecycle_tag LOpen = 1"
| "lifecycle_tag LFulfilled = 2"
| "lifecycle_tag LCancelled = 3"
| "lifecycle_tag LExpired = 4"

definition put_lifecycle :: "Lifecycle \<Rightarrow> (bytes, string) result" where
  "put_lifecycle l = Ok [lifecycle_tag l]"

fun get_lifecycle :: "bytes \<Rightarrow> (Lifecycle \<times> bytes, string) result" where
  "get_lifecycle [] = Err ''Unexpected length of input''"
| "get_lifecycle (b # bs) =
     (case find (\<lambda>l. lifecycle_tag l = b) [LPending, LOpen, LFulfilled, LCancelled, LExpired] of
        Some l \<Rightarrow> Ok (l, bs)
      | None \<Rightarrow> Err ''Unexpected variant tag'')"

lemma wire_format_lifecycle: "wire_format put_lifecycle get_lifecycle"
proof unfold_locales
  fix x p rest
  show "put_lifecycle x = Ok p \<Longrightarrow> get_lifecycle (p @ rest) = Ok (x, rest)"
    by (cases x) (auto simp: put_lifecycle_def)
next
  fix bs x rest
  show "get_lifecycle bs = Ok (x, rest) \<Longrightarrow> \<exists>p. put_lifecycle x = Ok p \<and> bs = p @ rest"
    by (cases bs) (auto simp: put_lifecycle_def split: if_splits)
qed

definition put_FailReason :: "FailReason ser" where
  "put_FailReason = put_conv (\<lambda>r. (code r, detail r)) (put_pair put_string put_string)"

definition get_FailReason :: "bytes \<Rightarrow> (FailReason \<times> bytes, string) result" where
  "get_FailReason = get_conv (\<lambda>(c, d). \<lparr>code = c, detail = d\<rparr>) (get_pair get_string get_string)"

definition put_StatusBody :: "StatusBody ser" where
  "put_StatusBody = put_conv (\<lambda>b. (sb_status b, sb_proof b, sb_reason b))
     (put_pair put_lifecycle (put_pair (put_option put_vec) (put_option put_FailReason)))"

definition get_StatusBody :: "bytes \<Rightarrow> (StatusBody \<times> bytes, string) result" where
  "get_StatusBody =
     get_conv (\<lambda>(s, p, r). \<lparr>sb_status = s, sb_proof = p, sb_reason = r\<rparr>)
       (get_pair get_lifecycle (get_pair (get_option get_vec) (get_option get_FailReason)))"

definition put_IntentStatusUpdate :: "IntentStatusUpdate ser" where
  "put_IntentStatusUpdate = put_conv (\<lambda>u. (upd_venue u, upd_receipt u, upd_status u))
     (put_pair put_string (put_pair put_vec put_vec))"

definition get_IntentStatusUpdate :: "bytes \<Rightarrow> (IntentStatusUpdate \<times> bytes, string) result" where
  "get_IntentStatusUpdate =
     get_conv (\<lambda>(v, r, s). \<lparr>upd_venue = v, upd_receipt = r, upd_status = s\<rparr>)
       (get_pair get_string (get_pair get_vec get_vec))"

lemmas layout_defs =
  put_FailReason_def get_FailReason_def put_StatusBody_def get_StatusBody_def
  put_IntentStatusUpdate_def get_IntentStatusUpdate_def

interpretation fail_reason: wire_format put_FailReason get_FailReason
  unfolding layout_defs by (intro wire_format_conv wire_format_pair wire_format_string) auto

interpretation status_body: wire_format put_StatusBody get_StatusBody
  unfolding put_StatusBody_def get_StatusBody_def
  by (intro wire_format_conv wire_format_pair wire_format_lifecycle wire_format_option
      wire_format_vec fail_reason.wire_format_axioms) auto

interpretation status_update: wire_format put_IntentStatusUpdate get_IntentStatusUpdate
  unfolding layout_defs
  by (intro wire_format_conv wire_format_pair wire_format_string wire_format_vec) auto

abbreviation borsh_StatusBody :: "StatusBody de" where
  "borsh_StatusBody \<equiv> from_slice get_StatusBody"

abbreviation borsh_IntentStatusUpdate :: "IntentStatusUpdate de" where
  "borsh_IntentStatusUpdate \<equiv> from_slice get_IntentStatusUpdate"

lemma le_bytes_numeral [simp]:
  "le_bytes (numeral k) n = of_nat (n mod 256) # le_bytes (pred_numeral k) (n div 256)"
  by (simp only: numeral_eq_Suc [of k] le_bytes.simps)

text \<open>What evaluates an encoding at a concrete value.\<close>

lemmas layout_eval =
  StatusBody_encode_def IntentStatusUpdate_encode_def layout_defs VERSION_V1_def
  ENVELOPE_VERSION_V1_def put_conv_def put_pair_def put_lifecycle_def put_vec_def put_int_def
  put_string_def utf8_ok_def str_bytes_def

text \<open>A body that carries only a lifecycle state always encodes, to four bytes with its tag.\<close>

lemma put_StatusBody_plain:
  "put_StatusBody \<lparr>sb_status = s, sb_proof = None, sb_reason = None\<rparr> = Ok [lifecycle_tag s, 0, 0]"
  by (simp add: put_StatusBody_def put_conv_def put_pair_def put_lifecycle_def)

text \<open>The golden encodings the crate's tests pin.\<close>

lemma golden_fulfilled_with_proof:
  "StatusBody_encode put_StatusBody
     \<lparr>sb_status = LFulfilled, sb_proof = Some [170, 187], sb_reason = None\<rparr>
   = Ok [1, 2, 1, 2, 0, 0, 0, 170, 187, 0]"
  by (simp add: layout_eval)

lemma golden_terminal_failure:
  "StatusBody_encode put_StatusBody
     \<lparr>sb_status = LCancelled, sb_proof = None, sb_reason = Some \<lparr>code = ''oc'', detail = ''od''\<rparr>\<rparr>
   = Ok [1, 3, 0, 1, 2, 0, 0, 0, 111, 99, 2, 0, 0, 0, 111, 100]"
  by (simp add: layout_eval)

section \<open>Properties of the versioned codecs\<close>

text \<open>
  C32: a status body and an intent-status envelope have one wire form each. Over any
  lawful borsh codec the versioned decoder accepts exactly what the versioned encoder
  writes, and the first byte alone decides: nothing but the published version is read.
\<close>

theorem versioned_codecs_are_inverse:
  assumes "borsh_codec ser de" and "borsh_codec ser' de'"
  shows "(StatusBody_decode de bs = Ok b \<longleftrightarrow> StatusBody_encode ser b = Ok bs)
     \<and> (IntentStatusUpdate_decode de' bs = Ok u \<longleftrightarrow> IntentStatusUpdate_encode ser' u = Ok bs)
     \<and> (StatusBody_encode ser b = Ok bs \<longrightarrow> (\<exists>p. bs = VERSION_V1 # p))
     \<and> (\<forall>v p. v \<noteq> VERSION_V1 \<longrightarrow> StatusBody_decode de (v # p) = Err (DecUnknownVersion v))"
  using borsh_codec.de_iff_ser [OF assms(1)] borsh_codec.de_iff_ser [OF assms(2)]
  by (auto simp: StatusBody_encode_eq_Ok StatusBody_decode_eq_Ok
      IntentStatusUpdate_encode_eq_Ok IntentStatusUpdate_decode_eq_Ok)

theorem versioned_codecs_are_inverse_witness:
  "StatusBody_decode borsh_StatusBody [1, 3, 0, 1, 2, 0, 0, 0, 111, 99, 2, 0, 0, 0, 111, 100] =
     Ok \<lparr>sb_status = LCancelled, sb_proof = None,
         sb_reason = Some \<lparr>code = ''oc'', detail = ''od''\<rparr>\<rparr>"
  using versioned_codecs_are_inverse [OF status_body.closed.borsh_codec_axioms
      status_update.closed.borsh_codec_axioms] golden_terminal_failure
  by blast

end
