(* ===== verification/Registry_Properties.thy ===== *)
theory Registry_Properties imports Registry_Ledger Registry_Poll Flaky_Venue Borsh_Layout
begin

text \<open>
  The registry's properties, over runs from a built registry or over one call, each with
  a run of the echo venue or the flaky fixture on which its hypotheses hold.
\<close>

section \<open>A concrete process\<close>

text \<open>A clock that gains a second per reading, and one registry with the echo venue on it.\<close>

definition sample_world :: "chain_heads world" where
  "sample_world = \<lparr>clock = (\<lambda>n. n * 1000000000), reads = 0, instant_max = 2 ^ 63,
     deaths = (\<lambda>_. None), allocs = 0, ext = \<lparr>head_at = (\<lambda>_. [])\<rparr>\<rparr>"

definition echo_id :: VenueId where "echo_id = VenueId ''echo-venue''"

definition sample_builder :: "u32 \<Rightarrow> chain_heads VenueRegistryBuilder" where
  "sample_builder m = VenueRegistryBuilder_new (SubmitQuota_new m (from_secs 60))"

definition sample_registry :: "u32 \<Rightarrow> chain_heads VenueRegistry" where
  "sample_registry m = snd (echo_register echo_id (build (sample_builder m) sample_world))"

lemma sample_registry_simps [simp]:
  "adapters (sample_registry m) =
     [echo_id \<mapsto> \<lparr>slot = \<lparr>slot_addr = 1, invoker = EchoVenue\<rparr>, liveness = 0,
        installed_versions = echo_body_versions\<rparr>]"
  "guard (sample_registry m) = unit_guard"
  "quota (sample_registry m) = SubmitQuota_new (max m 1) (from_secs 60)"
  "per_caller (sample_registry m) = Map.empty"
  "watch_limit (sample_registry m) = WatchLimit_default"
  "watched (sample_registry m) = []"
  "env (sample_registry m) = sample_world\<lparr>allocs := 2\<rparr>"
  by (simp_all add: sample_registry_def echo_register_def on_env_def Liveness_new_def Let_def
      register_def is_alive_def sample_builder_def VenueRegistryBuilder_new_def
      WatchLimit_default_def WatchLimit_new_def WatchLimit_with_grace_def build_def
      DEFAULT_WATCH_MAX_ENTRIES_def SubmitQuota_new_def sample_world_def fun_eq_iff)

lemma sample_world_simps [simp]:
  "clock sample_world = (\<lambda>n. n * 1000000000)" "reads sample_world = 0"
  "is_alive sample_world l" "instant_max sample_world = 2 ^ 63"
  by (simp_all add: sample_world_def is_alive_def)

lemma resolve_sample [simp]:
  "resolve echo_id (sample_registry m) = Ok \<lparr>slot_addr = 1, invoker = EchoVenue\<rparr>"
  by (simp add: resolve_def)

lemma quota_admits_fresh:
  "per_caller r caller = None \<Longrightarrow> 0 < max_charges (quota r) \<Longrightarrow> fst (quota_admits caller r)"
  by (simp add: quota_admits_eq Let_def history_of_def)

lemma max_one_pos: "0 < max m (1 :: u32)"
  by (rule less_le_trans [OF _ max.cobounded2]) simp

lemma quota_admits_sample: "fst (quota_admits caller (sample_registry m))"
  by (rule quota_admits_fresh) (simp_all add: SubmitQuota_new_def max_one_pos)

lemma sample_lawful [simp]: "lawful_registry (sample_registry m)"
  by (auto simp: lawful_registry_def lawful_unit_guard echo.venue_invoker_axioms split: if_splits)

interpretation sample_reg: lawful_registry "sample_registry m" for m
  by (rule sample_lawful)

lemma mono_sample: "mono (\<lambda>n :: nat. n * 1000000000)"
  by (auto intro: monoI)

section \<open>The quota\<close>

lemma build_run_ledger_ok:
  assumes "reg_log ser (build b w) log r" and "\<And>ctx. lawful_call (b_guard b ctx)"
    and "mono (clock w)"
  shows "ledger_ok log r" and "window (quota r) = window (b_quota b)"
    and "max_charges (quota r) = max (max_charges (b_quota b)) 1"
  using run_ledger_ok [OF assms(1) build_lawful [OF assms(2)] assms(3)] run_policy [OF assms(1)]
  by simp_all

text \<open>
  In a run whose calls follow one another, no caller is charged more often than the quota
  allows in any interval of the length of the quota window. Calls that overlap may pass the
  gate before any of them has charged; what then holds is the bound of \<open>Overlap_Properties\<close>.
\<close>

lemma submit_rate_bound:
  assumes "reg_log ser (build b w) log r"
    and "\<And>ctx. lawful_call (b_guard b ctx)" and "mono (clock w)"
  shows "length (in_window t (duration_nanos (window (b_quota b))) (log_of caller log))
     \<le> unat (max (max_charges (b_quota b)) 1)"
  using build_run_ledger_ok [OF assms] by (simp add: ledger_ok_def)

definition sample_installed :: "chain_heads VenueRegistry" where
  "sample_installed = apply_event put_StatusBody (ERegister echo_id 0 {1} EchoVenue)
     (build (sample_builder 1) sample_world)"

lemma submit_echo:
  assumes "resolve venue r = Ok sl" and "invoker sl = EchoVenue" and "fst (quota_admits caller r)"
  shows "fst (submit caller venue body r) = Ok (Accepted body)"
  using assms
  by (simp add: submit_def submit_in_slot_def case_prod_unfold Let_def echo_derive_header_def)

lemma resolve_installed [simp]:
  "resolve echo_id sample_installed = Ok \<lparr>slot_addr = 0, invoker = EchoVenue\<rparr>"
  by (simp add: sample_installed_def resolve_def register_def Let_def sample_world_def is_alive_def)

lemma quota_admits_installed: "fst (quota_admits caller sample_installed)"
  by (rule quota_admits_fresh) (simp_all add: sample_installed_def max_one_pos)

definition sample_log where
  "sample_log = event_charges put_StatusBody (ESubmit ''mod-a'' echo_id [7]) sample_installed"

definition sample_end where
  "sample_end = apply_event put_StatusBody (ESubmit ''mod-a'' echo_id [7]) sample_installed"

lemma sample_run:
  "reg_log put_StatusBody (build (sample_builder 1) sample_world) sample_log sample_end"
  "log_of ''mod-a'' sample_log \<noteq> []"
proof -
  have "reg_log put_StatusBody (build (sample_builder 1) sample_world)
      ([] @ event_charges put_StatusBody (ERegister echo_id 0 {1} EchoVenue)
         (build (sample_builder 1) sample_world)) sample_installed"
    unfolding sample_installed_def
    by (intro reg_log.intros) (simp add: echo.venue_invoker_axioms)
  from reg_log.event [OF this, of "ESubmit ''mod-a'' echo_id [7]"]
  show "reg_log put_StatusBody (build (sample_builder 1) sample_world) sample_log sample_end"
    by (simp add: sample_log_def sample_end_def)
  have "submit_charges ''mod-a'' echo_id [7] sample_installed"
    by (rule submit_Ok_charges, rule submit_echo [OF resolve_installed])
      (simp_all add: quota_admits_installed)
  then show "log_of ''mod-a'' sample_log \<noteq> []"
    by (simp add: sample_log_def)
qed

lemma sample_builder_simps [simp]:
  "b_guard (sample_builder m) = unit_guard" "b_quota (sample_builder m) = SubmitQuota_new m (from_secs 60)"
  by (simp_all add: sample_builder_def VenueRegistryBuilder_new_def)

lemma submit_rate_bound_example:
  "\<exists>log. log_of ''mod-a'' log \<noteq> []
     \<and> length (in_window 0 (duration_nanos (from_secs 60)) (log_of ''mod-a'' log)) \<le> 1"
  using submit_rate_bound [OF sample_run(1) _ mono_sample [folded sample_world_simps(1)], of 0 "''mod-a''"]
    sample_run(2)
  by (intro exI [of _ sample_log]) (simp add: lawful_unit_guard SubmitQuota_new_def)

text \<open>
  C9: a caller is admitted exactly when the charges of the whole run that still lie inside
  the window, counted at the reading the call takes, are below the allowance; what the
  registry keeps of them afterwards is exactly those. The deque the code prunes from the
  front, and the truncating comparison of its length, implement that count.
\<close>

theorem quota_admits_counts_the_window:
  assumes "reg_log ser (build b w) log r"
    and "\<And>ctx. lawful_call (b_guard b ctx)" and "mono (clock w)"
  shows "let live = recent (next_reading (env r)) (duration_nanos (window (b_quota b)))
               (log_of caller log)
     in (fst (quota_admits caller r) \<longleftrightarrow>
           length live < unat (max (max_charges (b_quota b)) 1))
        \<and> history_of (snd (quota_admits caller r)) caller = live"
proof -
  let ?live = "recent (next_reading (env r)) (duration_nanos (window (b_quota b)))
    (log_of caller log)"
  note ok = build_run_ledger_ok [OF assms]
  then have tr: "tracks (duration_nanos (window (b_quota b))) (next_reading (env r))
        (log_of caller log) (history_of r caller)"
    and len: "length (history_of r caller) \<le> unat (max (max_charges (b_quota b)) 1)"
    by (simp_all add: ledger_ok_def)
  have eq: "prune_before (next_reading (env r)) (duration_nanos (window (b_quota b)))
      (history_of r caller) = ?live"
    by (rule tracks_prune_eq [OF tr order_refl])
  then have "length ?live \<le> unat (max (max_charges (b_quota b)) 1)"
    using len length_prune_before le_trans by metis
  then show ?thesis
    by (simp add: fst_quota_admits history_of_quota_admits ok(2,3) eq admits_count Let_def)
qed

theorem quota_admits_counts_the_window_witness:
  "\<exists>log (r :: chain_heads VenueRegistry). log_of ''mod-a'' log \<noteq> []
     \<and> (let live = recent (next_reading (env r)) (duration_nanos (from_secs 60))
             (log_of ''mod-a'' log)
        in (fst (quota_admits ''mod-a'' r) \<longleftrightarrow> length live < 1)
           \<and> history_of (snd (quota_admits ''mod-a'' r)) ''mod-a'' = live)"
  using quota_admits_counts_the_window [OF sample_run(1) _
      mono_sample [folded sample_world_simps(1)], of "''mod-a''"] sample_run(2)
  by (intro exI [of _ sample_log] exI [of _ sample_end] conjI)
    (simp_all add: lawful_unit_guard SubmitQuota_new_def)

text \<open>
  C25: a call over the quota is answered rate-limited, with the whole window as the delay,
  and reaches no venue: neither submit nor quote changes anything outside the ledger and
  the clock, and the ledger only loses stale charges.
\<close>

theorem over_quota_reaches_no_venue:
  assumes "resolve venue r = Ok sl" and "\<not> fst (quota_admits caller r)"
  shows "submit caller venue body r =
       (Err (RateLimited \<lparr>retry_after_ms = Some (window_ms (window (quota r)))\<rparr>),
        snd (quota_admits caller r))
     \<and> quote caller venue body r =
       (Err (RateLimited \<lparr>retry_after_ms = Some (window_ms (window (quota r)))\<rparr>),
        snd (quota_admits caller r))
     \<and> ext (env (snd (quota_admits caller r))) = ext (env r)
     \<and> watched (snd (quota_admits caller r)) = watched r
     \<and> suffix (history_of (snd (quota_admits caller r)) c) (history_of r c)"
proof -
  have "suffix (prune_before n win h) h" for n win h
    by (induction h) (auto intro: suffix_ConsI)
  then have "suffix (history_of (snd (quota_admits caller r)) c) (history_of r c)"
    by (cases "c = caller") (simp_all add: history_of_quota_admits)
  moreover have "ext (env (snd (quota_admits caller r))) = ext (env r)"
    by (simp add: quota_admits_eq Let_def)
  ultimately show ?thesis
    using assms
    by (simp add: submit_def quote_def case_prod_unfold rate_limited_by_def)
qed

theorem over_quota_reaches_no_venue_witness:
  "fst (submit ''mod-a'' echo_id [7] ((sample_registry 1)\<lparr>per_caller := [''mod-a'' \<mapsto> [0]]\<rparr>)) =
     Err (RateLimited \<lparr>retry_after_ms = Some 60000\<rparr>)"
proof -
  let ?r = "(sample_registry 1)\<lparr>per_caller := [''mod-a'' \<mapsto> [0]]\<rparr>"
  have "resolve echo_id ?r = Ok \<lparr>slot_addr = 1, invoker = EchoVenue\<rparr>"
    by (simp add: resolve_def)
  moreover have "\<not> fst (quota_admits ''mod-a'' ?r)"
    by (simp add: quota_admits_eq Let_def history_of_def SubmitQuota_new_def duration_since_def)
  ultimately show ?thesis
    using over_quota_reaches_no_venue [of echo_id ?r _ "''mod-a''" "[7]"]
    by (simp add: SubmitQuota_new_def window_ms_def as_millis_def from_secs_def)
qed

lemma prune_before_suffix: "suffix (prune_before now win h) h"
  by (induction h) (auto intro: suffix_ConsI)

lemma watch_tracks:
  "tracked (snd (watch venue receipt r)) (venue, receipt) \<noteq> None
   \<or> max_entries (watch_limit r) \<le> length (watched (snd (watch venue receipt r)))"
  by (auto simp: watch_def case_prod_unfold Let_def tracked_eq_None list_ex_iff watches_key
      intro!: image_eqI [OF sym])

lemma submit_accepted_charged:
  assumes "fst (submit caller venue body r) = Ok (Accepted receipt)"
  obtains r4 h t where "snd (submit caller venue body r) = snd (watch venue receipt r4)"
    "config r4 = config r" "history_of r4 caller = h @ [t]" "suffix h (history_of r caller)"
proof -
  obtain sl where sl: "resolve venue r = Ok sl"
    using assms by (auto simp: submit_def split: result.splits)
  let ?r0 = "snd (quota_admits caller r)"
  let ?d = "on_env (inv_derive_header (invoker sl) body) ?r0"
  have s: "submit caller venue body r = submit_in_slot (invoker sl) caller venue body ?r0"
    using assms sl by (auto simp: submit_def case_prod_unfold split: bool.splits)
  obtain header where d: "fst ?d = Ok header"
    using assms unfolding s by (auto simp: submit_in_slot_def case_prod_unfold split: result.splits)
  define ctx where "ctx = \<lparr>gc_caller = caller, gc_venue = venue, gc_header = header\<rparr>"
  let ?c = "charge caller (snd ?d)"
  let ?s = "on_env (inv_submit (invoker sl) body) (snd (on_env (guard ?c ctx) ?c))"
  have "fst ?s = Ok (Accepted receipt)" and "snd (submit caller venue body r) = snd (watch venue receipt (snd ?s))"
    using assms d unfolding s ctx_def
    by (auto simp: submit_in_slot_def case_prod_unfold Let_def simp del: on_env_simps
        split: result.splits)
  moreover have "config (snd ?s) = config r" by simp
  moreover have "suffix (prune_before n (quota_nanos (snd ?d)) (history_of (snd ?d) caller))
      (history_of r caller)" for n
    unfolding history_of_update history_of_quota_admits
    by (rule suffix_order.trans [OF prune_before_suffix prune_before_suffix])
  ultimately show ?thesis
    using that [of "snd ?s"] by (simp add: history_of_charge)
qed

text \<open>
  C11: an accepted submission is charged exactly once, at the end of its caller's ledger
  whose older entries are at most pruned, charges nobody else, and leaves its receipt
  under watch unless the watch list stands at its cap.
\<close>

theorem accepted_submit_is_charged_and_watched:
  assumes "fst (submit caller venue body r) = Ok (Accepted receipt)"
  shows "\<exists>h t. suffix h (history_of r caller)
     \<and> history_of (snd (submit caller venue body r)) caller = h @ [t]
     \<and> (\<forall>c. c = caller \<or> history_of (snd (submit caller venue body r)) c = history_of r c)
     \<and> (tracked (snd (submit caller venue body r)) (venue, receipt) \<noteq> None
        \<or> max_entries (watch_limit r) \<le> length (watched (snd (submit caller venue body r))))"
proof -
  obtain r4 h t where r4: "snd (submit caller venue body r) = snd (watch venue receipt r4)"
    "config r4 = config r" "history_of r4 caller = h @ [t]" "suffix h (history_of r caller)"
    by (rule submit_accepted_charged [OF assms])
  have "history_of (snd (submit caller venue body r)) c = history_of r c" if "c \<noteq> caller" for c
    using that by simp
  with r4 show ?thesis
    using watch_tracks [of venue receipt r4] config_fields(4) [OF r4(2)] by auto
qed

theorem accepted_submit_is_charged_and_watched_witness:
  "\<exists>h t. history_of (snd (submit ''mod-a'' echo_id [7] (sample_registry 1))) ''mod-a'' = h @ [t]"
  using accepted_submit_is_charged_and_watched [OF submit_echo [OF resolve_sample _ quota_admits_sample]]
  by (metis AdapterSlot.select_convs(2))

text \<open>
  C30: the egress guard is advisory. Two guards that move the process alike give every
  submission the same result and the same registry, whatever either of them decides.
\<close>

theorem guard_is_advisory:
  assumes "\<And>ctx w. snd (g ctx w) = snd (g' ctx w)"
  shows "submit caller venue body (r\<lparr>guard := g\<rparr>) =
     map_prod id (\<lambda>r'. r'\<lparr>guard := g\<rparr>) (submit caller venue body (r\<lparr>guard := g'\<rparr>))"
proof -
  have comm: "snd (watch v rc (x\<lparr>guard := g\<rparr>)) = (snd (watch v rc x))\<lparr>guard := g\<rparr>" for v rc x
    by (auto simp: watch_def prune_expired_def give_up_deadline_def case_prod_unfold Let_def)
  have c: "charge caller (x\<lparr>guard := g\<rparr>) = (charge caller x)\<lparr>guard := g\<rparr>"
    "charge caller (x\<lparr>guard := g'\<rparr>) = (charge caller x)\<lparr>guard := g'\<rparr>" for x
    by (simp_all add: charge_eq history_of_def)
  have s: "submit_in_slot adp caller venue body (x\<lparr>guard := g\<rparr>) =
      map_prod id (\<lambda>r'. r'\<lparr>guard := g\<rparr>) (submit_in_slot adp caller venue body (x\<lparr>guard := g'\<rparr>))"
    for adp x
    using assms
    by (auto simp: submit_in_slot_def on_env_def case_prod_unfold Let_def charge_eq history_of_def
        map_prod_def comm [symmetric]
        intro!: arg_cong [where f = "\<lambda>x. snd (watch venue _ x)"]
        split: result.splits VenueError.splits SubmitOutcome.splits)
  have q: "quota_admits caller (r\<lparr>guard := h\<rparr>) =
      (fst (quota_admits caller r), (snd (quota_admits caller r))\<lparr>guard := h\<rparr>)" for h
    by (simp add: quota_admits_eq Let_def history_of_def)
  have rv: "resolve venue (r\<lparr>guard := h\<rparr>) = resolve venue r" for h
    by (simp add: resolve_def split: option.split)
  show ?thesis
    by (auto simp: submit_def q rv s map_prod_def split: result.splits bool.splits)
qed

definition deny_all :: "'x EgressGuard" where
  "deny_all ctx w = (Deny ''no'', w)"

theorem guard_is_advisory_witness:
  "fst (submit ''mod-a'' echo_id [7] ((sample_registry 1)\<lparr>guard := deny_all\<rparr>)) = Ok (Accepted [7])"
proof -
  have "fst (submit ''mod-a'' echo_id [7] ((sample_registry 1)\<lparr>guard := unit_guard\<rparr>)) = Ok (Accepted [7])"
  proof (rule submit_echo [where sl = "\<lparr>slot_addr = 1, invoker = EchoVenue\<rparr>"])
    show "fst (quota_admits ''mod-a'' ((sample_registry 1)\<lparr>guard := unit_guard\<rparr>))"
      by (rule quota_admits_fresh) (simp_all add: SubmitQuota_new_def)
  qed (simp_all add: resolve_def)
  then show ?thesis
    using guard_is_advisory [of deny_all unit_guard "''mod-a''" echo_id "[7]" "sample_registry 1"]
    by (simp add: deny_all_def unit_guard_def map_prod_def case_prod_unfold)
qed

section \<open>Venues that cannot serve\<close>

text \<open>
  C31: a venue that is not installed is \<open>unknown-venue\<close>, one that is installed but dead is
  \<open>unavailable\<close> and names itself, and in both cases every one of the five calls returns
  that error and changes nothing: no charge, no watch, no adapter call, no clock reading.
\<close>

theorem unroutable_venue_is_refused:
  assumes "case adapters r venue of None \<Rightarrow> True | Some i \<Rightarrow> \<not> is_alive (env r) (liveness i)"
  defines "e \<equiv> (case adapters r venue of None \<Rightarrow> UnknownVenue
                 | Some _ \<Rightarrow> Unavailable (dead_venue_detail venue))"
  shows "submit caller venue body r = (Err e, r) \<and> quote caller venue body r = (Err e, r)
     \<and> observe venue receipt r = (Err e, r) \<and> status venue receipt r = (Err e, r)
     \<and> cancel venue receipt r = (Err e, r)"
proof -
  have "resolve venue r = Err e"
    using assms by (auto simp: resolve_def split: option.splits)
  then show ?thesis
    by (simp add: submit_def quote_def observe_def status_def cancel_def)
qed

theorem unroutable_venue_is_refused_witness:
  "submit ''mod-a'' (VenueId ''cow'') [7] (sample_registry 1) = (Err UnknownVenue, sample_registry 1)"
proof -
  have "adapters (sample_registry 1) (VenueId ''cow'') = None"
    by (simp add: echo_id_def)
  then show ?thesis
    using unroutable_venue_is_refused [of "sample_registry 1" "VenueId ''cow''" "''mod-a''" "[7]" "[]"]
    by simp
qed

text \<open>
  A registration is refused exactly when a live venue holds the id, and then changes
  nothing. Otherwise it installs the adapter in a slot of its own, in place of a dead
  incumbent, leaves every other venue and the rest of the registry alone, and the id
  routes to the new adapter as long as the flag passed in is alive.
\<close>

lemma register_replaces_only_the_dead:
  shows "(case adapters r venue of
       Some i \<Rightarrow> is_alive (env r) (liveness i) | None \<Rightarrow> False) \<and>
     register venue live versions adp r = (Err (DuplicateVenue venue), r)
   \<or> \<not> (case adapters r venue of
       Some i \<Rightarrow> is_alive (env r) (liveness i) | None \<Rightarrow> False) \<and>
     (\<exists>r'. register venue live versions adp r = (Ok (), r')
        \<and> body_versions r' venue = Some versions
        \<and> resolve venue r' = (if is_alive (env r) live
            then Ok \<lparr>slot_addr = allocs (env r), invoker = adp\<rparr>
            else Err (Unavailable (dead_venue_detail venue)))
        \<and> (\<forall>v. v = venue \<or> adapters r' v = adapters r v)
        \<and> per_caller r' = per_caller r \<and> watched r' = watched r)"
  by (auto simp: register_def body_versions_def resolve_def Let_def split: option.splits)

section \<open>The watch list\<close>

lemma submit_echo_eq:
  assumes "resolve venue r = Ok sl" and "invoker sl = EchoVenue" and "fst (quota_admits caller r)"
    and "guard r = unit_guard"
  shows "submit caller venue body r =
     (Ok (Accepted body), snd (watch venue body (charge caller (snd (quota_admits caller r)))))"
proof -
  let ?c = "charge caller (snd (quota_admits caller r))"
  have "guard ?c = unit_guard"
    by (simp add: assms(4))
  then show ?thesis
    using assms
    by (simp add: submit_def submit_in_slot_def case_prod_unfold Let_def on_env_def
        echo_derive_header_def unit_guard_def)
qed

lemma sample_installed_simps [simp]:
  "guard sample_installed = unit_guard" "watched sample_installed = []"
  "env sample_installed = sample_world\<lparr>allocs := 1\<rparr>"
  "per_caller sample_installed = Map.empty"
  "watch_limit sample_installed = WatchLimit_default"
  "quota sample_installed = SubmitQuota_new 1 (from_secs 60)"
  by (simp_all add: sample_installed_def register_def Let_def sample_world_def is_alive_def
      sample_builder_def VenueRegistryBuilder_new_def WatchLimit_default_def WatchLimit_new_def
      WatchLimit_with_grace_def build_def DEFAULT_WATCH_MAX_ENTRIES_def SubmitQuota_new_def)

lemma default_grace_nanos [simp]:
  "duration_nanos (grace WatchLimit_default) = 86400000000000"
  using derive_grace_secs [of DEFAULT_WATCH_EXPIRY]
  by (simp add: duration_nanos_def WatchLimit_default_def WatchLimit_new_def
      WatchLimit_with_grace_def DEFAULT_WATCH_EXPIRY_def from_secs_def)

lemma default_max_entries [simp]: "max_entries WatchLimit_default = 1024"
  by (simp add: WatchLimit_default_def WatchLimit_new_def WatchLimit_with_grace_def
      DEFAULT_WATCH_MAX_ENTRIES_def)

lemma sample_end_watched:
  "watched sample_end = [\<lparr>w_venue = echo_id, w_receipt = [7], w_last = None,
     w_expires_at = Some 86404000000000\<rparr>]"
  using submit_echo_eq [OF resolve_installed _ quota_admits_installed, of "''mod-a''" "[7]"]
  by (simp add: sample_end_def watch_def case_prod_unfold Let_def prune_expired_eq charge_eq
      quota_admits_eq fst_give_up_deadline instant_checked_add_def)

text \<open>
  C7: in every state a run reaches, the watch list is within its cap, holds one entry per
  venue and receipt, and no entry whose last report was terminal; and no entry can outlive
  the grace: its deadline is at most the grace ahead of the clock.
\<close>

theorem watch_list_invariant:
  assumes "reg_reach ser (build b w) r" and "\<And>ctx. lawful_call (b_guard b ctx)"
    and "mono (clock w)"
  shows "watched_count r \<le> max (max_entries (b_watch_limit b)) 1
     \<and> distinct (map (\<lambda>e. (w_venue e, w_receipt e)) (watched r))
     \<and> (\<forall>e\<in>set (watched r). (\<forall>st. w_last e = Some st \<longrightarrow> \<not> is_terminal st)
          \<and> (\<forall>d. w_expires_at e = Some d \<longrightarrow>
               d \<le> next_reading (env r) + duration_nanos (grace (b_watch_limit b))))"
proof -
  have ok: "watch_ok r"
    by (rule reach_watch_ok [OF assms(1) build_watch_ok])
  have "lawful_registry (build b w)"
    by (rule build_lawful [OF assms(2)])
  then have due: "deadlines_ok r"
    using assms by (intro reach_deadlines_ok [OF assms(1)]) (simp_all add: build_deadlines_ok)
  have lim: "watch_limit r = watch_limit (build b w)"
    using assms(1) by (induction rule: reg_reach.induct) simp_all
  have "watch_key = (\<lambda>e. (w_venue e, w_receipt e))"
    by (simp add: watch_key_def fun_eq_iff)
  then show ?thesis
    using ok due
    by (auto simp: watch_ok_def deadlines_ok_def watched_count_def lim unsettled_def due_within_def
        split: option.splits)
qed

theorem watch_list_invariant_witness:
  "watched sample_end \<noteq> [] \<and> watched_count sample_end \<le> 1024
     \<and> distinct (map (\<lambda>e. (w_venue e, w_receipt e)) (watched sample_end))"
  using watch_list_invariant [OF reg_log_reach [OF sample_run(1)] _
      mono_sample [folded sample_world_simps(1)]] sample_end_watched
  by (simp add: lawful_unit_guard sample_builder_def VenueRegistryBuilder_new_def
      WatchLimit_default_def WatchLimit_new_def WatchLimit_with_grace_def
      DEFAULT_WATCH_MAX_ENTRIES_def)

text \<open>
  Over any stretch of polls that follow one another, with nothing put under watch between
  them and whatever the venues answer, the updates emitted for one venue and receipt never repeat the
  status just reported, and no update follows one with a terminal status.
\<close>

lemma transitions_are_reported_once:
  assumes "borsh_codec ser de" and "reg_reach ser (build b w) r0" and "reg_polls ser r0 us r"
  shows "distinct_adj (bodies_of k us)
     \<and> (\<forall>i st. Suc i < length (bodies_of k us) \<longrightarrow> is_terminal st \<longrightarrow>
          StatusBody_encode ser (status_body st) \<noteq> Ok (bodies_of k us ! i))"
proof -
  have "watch_ok r0"
    by (rule reach_watch_ok [OF assms(2) build_watch_ok])
  then have "reported ser (tracked r k) (bodies_of k us)"
    using polls_reported [OF assms(1,3)] by blast
  then show ?thesis
    by (auto simp: reported_def) (metis in_set_conv_nth length_butlast less_diff_conv nth_butlast
        add.commute plus_1_eq_Suc)
qed

lemma sample_end_reach: "reg_reach put_StatusBody (build (sample_builder 1) sample_world) sample_end"
  by (rule reg_log_reach [OF sample_run(1)])

lemma sample_end_config: "config sample_end = config sample_installed"
  by (simp add: sample_end_def)

lemma sample_end_resolve: "resolve echo_id sample_end = Ok \<lparr>slot_addr = 0, invoker = EchoVenue\<rparr>"
proof -
  have "deaths (env sample_end) = (\<lambda>_. None)"
    using submit_echo_eq [OF resolve_installed _ quota_admits_installed, of "''mod-a''" "[7]"]
    by (simp add: sample_end_def watch_def case_prod_unfold Let_def prune_expired_eq charge_eq
        quota_admits_eq sample_world_def)
  then show ?thesis
    using resolve_installed config_fields(1) [OF sample_end_config]
    by (auto simp: resolve_def is_alive_def split: option.splits if_splits)
qed

lemma sample_end_quiet: "quiet_status (\<lambda>_ _. Ok Fulfilled) sample_end"
  using config_fields(1) [OF sample_end_config]
  by (auto simp: quiet_status_def resolve_def sample_installed_def register_def Let_def
      split: option.splits if_splits)

lemma sample_end_reads: "next_reading (env sample_end) = 5000000000"
  using submit_echo_eq [OF resolve_installed _ quota_admits_installed, of "''mod-a''" "[7]"]
  by (simp add: sample_end_def watch_def case_prod_unfold Let_def prune_expired_eq charge_eq
      quota_admits_eq next_reading_def)

lemma fulfilled_bytes: "StatusBody_encode put_StatusBody (status_body Fulfilled) = Ok [1, 2, 0, 0]"
  by (simp add: status_body_def StatusBody_encode_def put_StatusBody_plain lifecycle_tag.simps
      VERSION_V1_def)

text \<open>
  C10: when the adapters only answer, a poll is a map over the entries that have not
  expired, in their order: it emits an update exactly for each entry whose venue is
  routable and answers a status other than the last reported one; such an entry is
  dropped on a terminal status and otherwise remembers it with a fresh deadline, an
  unchanged answer only refreshes the deadline (a fresh deadline is the grace after a
  clock reading the poll itself took, or none where that is not representable), and an entry whose venue is down or
  answers an error is left exactly as it was, deadline included.
\<close>

theorem poll_is_a_map_over_the_watch_list:
  assumes "quiet_status ans r" and "reg_reach ser (build b w) r"
  shows "\<exists>due. fst (poll_status_transitions ser r) = concat (map (entry_report ser ans r)
         (filter (\<lambda>e. \<not> expired_at (next_reading (env r)) e) (watched r)))
     \<and> watched (snd (poll_status_transitions ser r)) = concat (map (entry_after ser ans r due)
         (filter (\<lambda>e. \<not> expired_at (next_reading (env r)) e) (watched r)))
     \<and> clock_only r (snd (poll_status_transitions ser r))
     \<and> (\<forall>e\<in>set (filter (\<lambda>e. \<not> expired_at (next_reading (env r)) e) (watched r)).
          \<forall>e'\<in>set (entry_after ser ans r due e). answered ans r e \<longrightarrow>
            deadline_read r (snd (poll_status_transitions ser r)) (w_expires_at e'))"
  by (rule poll_quiet [OF assms(1) reach_watch_ok [OF assms(2) build_watch_ok]])

theorem poll_is_a_map_over_the_watch_list_witness:
  "fst (poll_status_transitions put_StatusBody sample_end) = [update_for echo_id [7] [1, 2, 0, 0]]
     \<and> watched (snd (poll_status_transitions put_StatusBody sample_end)) = []"
  using poll_is_a_map_over_the_watch_list [OF sample_end_quiet sample_end_reach]
  by (simp add: sample_end_watched expired_at_def sample_end_reads entry_report_def
      entry_after_def sample_end_resolve fulfilled_bytes is_terminal_def)

lemma sample_polls:
  "reg_polls put_StatusBody sample_end
     ([] @ event_updates put_StatusBody EPoll sample_end) (apply_event put_StatusBody EPoll sample_end)"
  by (intro reg_polls.intros) simp

lemma sample_poll: "fst (poll_status_transitions put_StatusBody sample_end) =
    [update_for echo_id [7] [1, 2, 0, 0]]"
  using poll_quiet [OF sample_end_quiet reach_watch_ok [OF sample_end_reach build_watch_ok],
      of put_StatusBody]
  by (simp add: sample_end_watched expired_at_def sample_end_reads entry_report_def
      sample_end_resolve fulfilled_bytes)

lemma transitions_are_reported_once_example:
  "\<exists>us r. reg_polls put_StatusBody sample_end us (r :: chain_heads VenueRegistry)
     \<and> bodies_of (echo_id, [7]) us = [[1, 2, 0, 0]] \<and> distinct_adj (bodies_of (echo_id, [7]) us)"
  using transitions_are_reported_once [OF status_body.closed.borsh_codec_axioms sample_end_reach
      sample_polls, of "(echo_id, [7])"] sample_polls
  by (intro exI conjI) (auto simp: sample_poll)

text \<open>
  C24: a watch does not outlive its grace. Once the clock has moved the grace past a state
  the registry reached, the next poll empties the watch list without asking any venue and
  reports nothing, even of an intent its venue would by then have settled.
\<close>

theorem poll_after_the_grace_reports_nothing:
  assumes "reg_reach ser (build b w) r" and "\<And>ctx. lawful_call (b_guard b ctx)"
    and "mono (clock w)"
    and "next_reading (env r) + duration_nanos (grace (b_watch_limit b)) \<le> next_reading w'"
    and "\<forall>e\<in>set (watched r). w_expires_at e \<noteq> None"
  shows "poll_status_transitions ser' (r\<lparr>env := w'\<rparr>) =
     ([], r\<lparr>watched := [], env := w'\<lparr>reads := Suc (reads w')\<rparr>\<rparr>)"
proof (rule poll_evicts)
  have "lawful_registry (build b w)"
    by (rule build_lawful [OF assms(2)])
  then show "deadlines_ok r"
    using assms(3) by (intro reach_deadlines_ok [OF assms(1)]) (simp_all add: build_deadlines_ok)
  have "watch_limit r = watch_limit (build b w)"
    using assms(1) by (induction rule: reg_reach.induct) simp_all
  then show "next_reading (env r) + grace_nanos r \<le> next_reading w'"
    using assms(4) by simp
qed (rule assms(5))

theorem poll_after_the_grace_reports_nothing_witness:
  "fst (poll_status_transitions put_StatusBody
     (sample_end\<lparr>env := (env sample_end)\<lparr>reads := 100000\<rparr>\<rparr>)) = []"
proof -
  have c: "clock (env sample_end) = clock sample_world"
    using reg_reach_world [OF sample_end_reach build_lawful] by (simp add: world_le_def lawful_unit_guard)
  have "next_reading (env sample_end) + duration_nanos (grace (b_watch_limit (sample_builder 1)))
      \<le> next_reading ((env sample_end)\<lparr>reads := 100000\<rparr>)"
    by (simp add: sample_end_reads sample_builder_def VenueRegistryBuilder_new_def)
      (simp add: next_reading_def c)
  from poll_after_the_grace_reports_nothing [OF sample_end_reach _
      mono_sample [folded sample_world_simps(1)] this]
  show ?thesis
    by (simp add: lawful_unit_guard sample_end_watched)
qed

text \<open>
  Observing an intent never displaces another. Every entry that has not expired stays,
  in place and unchanged; the call succeeds exactly when the intent is under watch
  afterwards, adds at most that one entry, and is refused only at the cap.
\<close>

lemma observe_never_displaces:
  assumes "resolve venue r = Ok sl"
  shows "let r' = snd (observe venue receipt r);
         live = filter (\<lambda>e. \<not> expired_at (next_reading (env r)) e) (watched r)
     in (fst (observe venue receipt r) = Ok () \<longleftrightarrow> tracked r' (venue, receipt) \<noteq> None)
        \<and> (fst (observe venue receipt r) \<noteq> Ok () \<longrightarrow>
             watched r' = live \<and> max_entries (watch_limit r) \<le> length live
             \<and> fst (observe venue receipt r) = Err (Unavailable ''status watch set full''))
        \<and> (\<exists>new. watched r' = live @ new \<and> length new \<le> 1)"
  using assms
  by (auto simp: observe_def watch_def case_prod_unfold Let_def tracked_eq_None list_ex_iff
      watches_key prune_expired_eq next_reading_def image_iff watch_key_new
      split: bool.split)

lemma observe_never_displaces_example:
  "fst (observe echo_id [9] sample_end) = Ok ()
     \<and> tracked (snd (observe echo_id [9] sample_end)) (echo_id, [9]) \<noteq> None"
proof -
  have l: "watch_limit sample_end = WatchLimit_default"
    using config_fields(4) [OF sample_end_config] by simp
  show ?thesis
    using observe_never_displaces [OF sample_end_resolve, of "[9]"]
    by (auto simp: Let_def sample_end_watched expired_at_def sample_end_reads l)
qed

section \<open>Death and recovery of a venue\<close>

text \<open>
  C23: the recovery the flaky fixture drives, through the registry. While the head reads the
  sentinel the first submission reaches the adapter, fails and kills the venue; the next
  one is refused without reaching it and changes nothing; healing the head alone does not
  revive it, nor does a sweep over the sentinel; a sweep over the healed head does, and
  the venue then accepts the body again.
\<close>

theorem flaky_venue_recovers_only_by_sweep:
  assumes "adapters r venue = Some i" and "invoker (slot i) = flaky_invoker v"
    and "liveness i = fv_liveness v" and "guard r = unit_guard"
    and "is_alive (env r) (fv_liveness v)" and "is_poisoned (fv_head v) (env r)"
    and "fst (quota_admits caller r)"
  shows "let h = \<lparr>fh_head = fv_head v, fh_liveness = fv_liveness v\<rparr>;
         (res, r1) = submit caller venue body r;
         healed = fh_heal h (env r1);
         revived = r1\<lparr>env := snd (sweep h healed)\<rparr>
     in res = Err (Unavailable ''flaky-venue poison head'') \<and> \<not> fh_is_alive h (env r1)
        \<and> submit caller venue body r1 = (Err (Unavailable (dead_venue_detail venue)), r1)
        \<and> \<not> fst (sweep h (env r1)) \<and> \<not> fh_is_alive h healed
        \<and> fst (sweep h healed)
        \<and> (fst (quota_admits caller revived) \<longrightarrow>
             fst (submit caller venue body revived) = Ok (Accepted body))"
proof -
  let ?c = "charge caller (snd (quota_admits caller r))"
  have rv: "resolve venue r = Ok (slot i)"
    using assms by (simp add: resolve_def)
  have env: "is_poisoned (fv_head v) (env ?c)" "is_alive (env ?c) (fv_liveness v)"
    using assms by (simp_all add: charge_eq quota_admits_eq Let_def)
  have cfg: "guard ?c = unit_guard" "adapters ?c = adapters r"
    using assms by simp_all
  have s: "submit caller venue body r =
      (Err (Unavailable ''flaky-venue poison head''),
       ?c\<lparr>env := mark_dead (fv_liveness v) (env ?c)\<rparr>)"
    using assms(2,7) rv env cfg
    by (simp add: submit_def submit_in_slot_def case_prod_unfold Let_def on_env_def submit_now_def
        unit_guard_def)
  let ?r1 = "?c\<lparr>env := mark_dead (fv_liveness v) (env ?c)\<rparr>"
  let ?h = "\<lparr>fh_head = fv_head v, fh_liveness = fv_liveness v\<rparr>"
  let ?rev = "?r1\<lparr>env := snd (sweep ?h (fh_heal ?h (env ?r1)))\<rparr>"
  have dead: "resolve venue ?r1 = Err (Unavailable (dead_venue_detail venue))"
    using assms(1,3) cfg by (simp add: resolve_def)
  have rrev: "resolve venue ?rev = Ok (slot i)"
    using assms(1,3) cfg by (simp add: resolve_def sweep_def fh_heal_def head_heal_def Let_def)
  have ok: "fst (submit caller venue body ?rev) = Ok (Accepted body)"
    if "fst (quota_admits caller ?rev)"
  proof -
    have "guard (charge caller (snd (quota_admits caller ?rev))) = unit_guard"
      using cfg by simp
    moreover have "\<not> is_poisoned (fv_head v) (env (charge caller (snd (quota_admits caller ?rev))))"
      by (simp add: charge_eq quota_admits_eq Let_def sweep_def fh_heal_def head_heal_def)
    ultimately show ?thesis
      using that rrev assms(2)
      by (simp add: submit_def submit_in_slot_def case_prod_unfold Let_def on_env_def
          submit_now_def unit_guard_def)
  qed
  show ?thesis
    using env dead ok
    by (simp add: s Let_def) (simp add: submit_def sweep_def fh_is_alive_def fh_heal_def
        head_heal_def Let_def)
qed

definition sample_flaky :: "chain_heads VenueRegistry" where
  "sample_flaky = snd (flaky_register (VenueId ''flaky'') 7 (build (sample_builder 256)
     (head_set 7 POISON_HEAD sample_world)))"

lemma sample_flaky_simps [simp]:
  "adapters sample_flaky (VenueId ''flaky'') =
     Some \<lparr>slot = \<lparr>slot_addr = 1, invoker = flaky_invoker \<lparr>fv_head = 7, fv_liveness = 0\<rparr>\<rparr>,
           liveness = 0, installed_versions = {}\<rparr>"
  "guard sample_flaky = unit_guard" "per_caller sample_flaky = Map.empty"
  "quota sample_flaky = SubmitQuota_new 256 (from_secs 60)"
  "is_alive (env sample_flaky) 0" "is_poisoned 7 (env sample_flaky)"
  by (simp_all add: sample_flaky_def flaky_register_def on_env_def FlakyVenue_new_def
      Liveness_new_def Let_def register_def is_alive_def is_poisoned_def head_get_def
      head_set_def sample_world_def build_def SubmitQuota_new_def max_def word_le_nat_alt)

theorem flaky_venue_recovers_only_by_sweep_witness:
  "fst (submit ''mod-a'' (VenueId ''flaky'') [7] sample_flaky) =
     Err (Unavailable ''flaky-venue poison head'')
   \<and> fst (submit ''mod-a'' (VenueId ''flaky'') [7]
       (snd (submit ''mod-a'' (VenueId ''flaky'') [7] sample_flaky))) =
     Err (Unavailable ''venue flaky is dead pending restart'')"
proof -
  have "fst (quota_admits ''mod-a'' sample_flaky)"
    by (rule quota_admits_fresh) (simp_all add: SubmitQuota_new_def)
  then show ?thesis
    using flaky_venue_recovers_only_by_sweep [of sample_flaky "VenueId ''flaky''" _
        "\<lparr>fv_head = 7, fv_liveness = 0\<rparr>" "''mod-a''" "[7]"]
    by (auto simp: Let_def case_prod_unfold dead_venue_detail_def)
qed

end
