(* ===== verification/Overlap_Properties.thy ===== *)
theory Overlap_Properties imports Registry_Progress Registry_Properties
begin

text \<open>
  The registry under overlapping calls: the quota bound with several calls of one caller in
  flight, the exclusive slot, what overlapping polls report, and that every call comes back;
  with the interleavings of two quotes and of two polls that meet them.
\<close>

section \<open>Calls on their own\<close>



section \<open>Overlapping calls\<close>

text \<open>
  C1: overlapping calls weaken the quota by no more than their number, and never share an
  adapter. In every interleaving of submissions, quotes, observations, status reads,
  cancellations and polls, with each other and with the rest of the process, any of them
  dropped wherever it awaits, a caller that has at most \<open>K\<close> calls in flight is charged, in
  any interval of the window, at most the allowance and one more per further call in flight;
  a caller whose calls follow one another keeps the allowance exactly, however many other
  callers overlap it; and no two tasks hold one adapter slot.
\<close>

theorem overlapping_calls_stay_bounded:
  assumes "conc_run K ser (build b w) log s"
    and "\<And>ctx. lawful_call (b_guard b ctx)" and "mono (clock w)"
    and "unat (max (max_charges (b_quota b)) 1) + (K caller - 1) < 2 ^ 32"
  shows "length (in_window t (duration_nanos (window (b_quota b))) (log_of caller (charges_in log)))
       \<le> unat (max (max_charges (b_quota b)) 1) + (K caller - 1)
     \<and> (\<forall>i<length (tasks s). \<forall>j<length (tasks s). holds (tasks s ! i) \<noteq> None
          \<longrightarrow> holds (tasks s ! j) = holds (tasks s ! i) \<longrightarrow> j = i)"
proof -
  have ok: "conc_ok K log s" "quota (registry s) = quota (build b w)"
    using conc_run_ok [OF assms(1) build_lawful [OF assms(2)]] assms(3) by simp_all
  then have "overlap_bound K (registry s) caller < 2 ^ 32"
    using assms(4) by (simp add: overlap_bound_def)
  then have "caller_ok K caller (charges_in log) (tasks s) (registry s)"
    using ok(1) by (simp add: conc_ok_def)
  then have "length (in_window t (duration_nanos (window (b_quota b))) (log_of caller (charges_in log)))
       \<le> unat (max (max_charges (b_quota b)) 1) + (K caller - 1)"
    by (simp add: caller_ok_def overlap_bound_def ok(2))
  moreover have "j = i" if "i < length (tasks s)" "j < length (tasks s)" "holds (tasks s ! i) \<noteq> None"
      "holds (tasks s ! j) = holds (tasks s ! i)" for i j
    using one_holder [OF conc_run_slots [OF assms(1)] that(1,2)] that(3,4) by auto
  ultimately show ?thesis by blast
qed

text \<open>
  C4: overlapping polls report as one. However polls overlap each other and the calls that
  put receipts under watch, the watch list keeps its invariant; a status is reported only of
  a receipt that was put under watch before; of two reports of a receipt with nothing of it
  between them, by whichever polls, the second tells another status and the first was not
  terminal; and a poll that ends returns exactly what it reported, in order.
\<close>

theorem overlapping_polls_report_once:
  assumes "conc_run K ser (build b w) log s"
  shows "watch_ok (registry s)
     \<and> (\<forall>a i st c. log = a @ Reported i k st # c \<longrightarrow> Watched k \<in> set a)
     \<and> (\<forall>a i st b j st' c. log = a @ Reported i k st # b @ Reported j k st' # c
          \<longrightarrow> (\<exists>x\<in>set b. concerns k x) \<or> st \<noteq> st' \<and> \<not> is_terminal st)
     \<and> (\<forall>i<length (tasks s). \<forall>us. tasks s ! i = PollTask (PollDone us)
          \<longrightarrow> list_all2 (carries ser) (reports_by i log) us)"
proof (intro conjI allI impI)
  have ok: "reports_ok log (registry s)" by (rule conc_run_reports [OF assms]) simp
  then show "watch_ok (registry s)" by (simp add: reports_ok_def)
  have sound: "sound log" using ok by (simp add: reports_ok_def)
  {
    fix a i st c assume "log = a @ Reported i k st # c"
    then show "Watched k \<in> set a" using sound by (rule sound_before)
  }
  {
    fix a i st b j st' c assume "log = a @ Reported i k st # b @ Reported j k st' # c"
    then show "(\<exists>x\<in>set b. concerns k x) \<or> st \<noteq> st' \<and> \<not> is_terminal st"
      using sound sound_consecutive by blast
  }
  fix i us assume "i < length (tasks s)" "tasks s ! i = PollTask (PollDone us)"
  then show "list_all2 (carries ser) (reports_by i log) us"
    using conc_run_returns [OF assms] by auto
qed

text \<open>
  C26: no call hangs in the registry. From any interleaving, the calls in flight make at most a
  number of moves that the watch cap bounds, whatever the order; while one is unfinished some
  task can move, so the locks never deadlock; an order that finishes them all exists, and
  when all have finished every adapter slot is free.
\<close>

theorem calls_in_flight_return:
  assumes "conc_run K ser (build b w) log s"
  shows "(\<forall>n s'. moves ser s n s' \<longrightarrow> n \<le> work (max (max_entries (b_watch_limit b)) 1) s
       \<and> (if \<forall>t\<in>set (tasks s'). finished t then slots_held s' = {}
          else \<exists>i<length (tasks s'). advance ser (tasks s' ! i) (slots_held s') (registry s') \<noteq> None))
     \<and> (\<exists>n s'. moves ser s n s' \<and> (\<forall>t\<in>set (tasks s'). finished t))"
proof (intro conjI allI impI)
  note empty = build_simps(4) [of b w]
  show "\<exists>n s'. moves ser s n s' \<and> (\<forall>t\<in>set (tasks s'). finished t)"
    by (rule moves_to_the_end [OF moves.none assms empty])
  fix n s' assume moves: "moves ser s n s'"
  note bound = moves_bounded [OF moves assms empty]
  then show "n \<le> work (max (max_entries (b_watch_limit b)) 1) s" by simp
  from bound have ok: "slots_ok s'" using conc_run_slots by blast
  show "if \<forall>t\<in>set (tasks s'). finished t then slots_held s' = {}
      else \<exists>i<length (tasks s'). advance ser (tasks s' ! i) (slots_held s') (registry s') \<noteq> None"
    using all_finished_free [OF ok] some_task_moves [OF ok] by auto
qed

section \<open>Two quotes of one caller\<close>

text \<open>Running the tasks by a schedule: at each entry the task of that number moves if it can.\<close>

fun schedule ::
  "StatusBody ser \<Rightarrow> nat list \<Rightarrow> label list \<times> 'x conc \<Rightarrow> label list \<times> 'x conc" where
  "schedule ser [] x = x"
| "schedule ser (i # is) (log, s) =
     (case advance ser (tasks s ! i) (slots_held s) (registry s) of
        None \<Rightarrow> schedule ser is (log, s)
      | Some (t', held', r') \<Rightarrow>
          schedule ser is (log @ step_labels i ser (tasks s ! i) (registry s),
            \<lparr>tasks = (tasks s)[i := t'], slots_held = held', registry = r'\<rparr>))"

lemma schedule_runs:
  assumes "conc_run K ser r0 log s" "\<forall>i\<in>set is. i < length (tasks s)" "schedule ser is (log, s) = (log', s')"
  shows "conc_run K ser r0 log' s'"
  using assms
proof (induction "is" arbitrary: log s)
  case (Cons i js)
  show ?case
  proof (cases "advance ser (tasks s ! i) (slots_held s) (registry s)")
    case None
    then show ?thesis using Cons by simp
  next
    case (Some x)
    obtain t' held' r' where x: "x = (t', held', r')" by (cases x)
    let ?s = "\<lparr>tasks = (tasks s)[i := t'], slots_held = held', registry = r'\<rparr>"
    have "conc_run K ser r0 (log @ step_labels i ser (tasks s ! i) (registry s)) ?s"
      using Cons.prems Some x by (auto intro: conc_run.step)
    moreover have "\<forall>j\<in>set js. j < length (tasks ?s)" using Cons.prems by simp
    moreover have "schedule ser js (log @ step_labels i ser (tasks s ! i) (registry s), ?s) = (log', s')"
      using Cons.prems(3) Some x by simp
    ultimately show ?thesis by (rule Cons.IH)
  qed
qed simp

text \<open>A registry with the echo venue installed, and tasks spawned on it.\<close>

definition sample_conc :: "chain_heads task list \<Rightarrow> chain_heads conc" where
  "sample_conc ts = \<lparr>tasks = ts, slots_held = {}, registry = sample_installed\<rparr>"

lemma sample_installed_runs:
  "conc_run K put_StatusBody (build (sample_builder 1) sample_world) [] (sample_conc [])"
proof -
  let ?r0 = "build (sample_builder 1) sample_world"
  have "lawful_registry ?r0"
    by (rule build_lawful) (simp add: lawful_unit_guard)
  then have "elsewhere ?r0 sample_installed"
    unfolding sample_installed_def
    by (rule elsewhere_event) (simp_all add: echo.venue_invoker_axioms)
  then show ?thesis
    using conc_run.other [OF conc_run.start, of ?r0 sample_installed] by (simp add: sample_conc_def)
qed

lemma called_unfinished: "called t \<Longrightarrow> \<not> finished t"
  by (auto simp: called_def finished_def split: task_splits)

lemma sample_spawns:
  assumes "\<forall>t\<in>set ts. called t" "\<And>c. in_flight c ts \<le> K c"
  shows "conc_run K put_StatusBody (build (sample_builder 1) sample_world) [] (sample_conc ts)"
  using assms
proof (induction ts rule: rev_induct)
  case (snoc t ts)
  have le: "in_flight c ts + of_bool (caller_of t = Some c) \<le> K c" for c
    using snoc.prems(2) [of c] snoc.prems(1) called_unfinished [of t]
    by (cases "caller_of t = Some c") (auto simp: in_flight_def)
  then have "in_flight c ts \<le> K c" for c by (rule add_leD1)
  then have "conc_run K put_StatusBody (build (sample_builder 1) sample_world) [] (sample_conc ts)"
    using snoc by simp
  from conc_run.spawn [OF this, of t] show ?case
    using snoc.prems(1) le by (simp add: sample_conc_def) (metis Suc_le_eq add.commute of_bool_eq(2) plus_1_eq_Suc)
qed (rule sample_installed_runs)

definition sample_overlap :: "chain_heads conc" where
  "sample_overlap = sample_conc [QuoteTask (QuoteCalled ''mod-a'' echo_id [7]), QuoteTask (QuoteCalled ''mod-a'' echo_id [8])]"

lemma sample_overlap_runs:
  "conc_run (\<lambda>_. 2) put_StatusBody (build (sample_builder 1) sample_world) [] sample_overlap"
  unfolding sample_overlap_def by (rule sample_spawns) (simp_all add: called_def in_flight_def finished_def)

text \<open>Both pass the gate of an allowance of one before either is charged.\<close>

lemma sample_overlap_charges:
  "\<exists>log s. schedule put_StatusBody [0, 1, 0, 1, 0, 1] ([], sample_overlap) = (log, s)
     \<and> length (in_window 0 (duration_nanos (from_secs 60)) (log_of ''mod-a'' (charges_in log))) = 2"
proof -
  have r: "resolve echo_id (snd (quota_admits c r)) = resolve echo_id r" for c and r :: "'x VenueRegistry"
    by (cases "adapters r echo_id") (simp_all add: resolve_def quota_admits_eq Let_def)
  have h: "history_of (snd (quota_admits c sample_installed)) c = []" for c
    by (simp add: quota_admits_eq Let_def history_of_def sample_installed_def)
  have q: "quota (snd (quota_admits c r)) = quota r" for c and r :: "'x VenueRegistry"
    by (rule config_fields) simp
  have pos: "0 < max_charges (quota sample_installed)"
    by (simp add: sample_installed_def max_one_pos)
  have second: "fst (quota_admits c (snd (quota_admits c sample_installed)))" for c
    using pos by (simp add: fst_quota_admits h q)
  have start: "env sample_installed = sample_world\<lparr>allocs := 1\<rparr>"
    by (simp add: sample_installed_def register_def Let_def sample_world_def)
  have moves: "env (snd (quota_admits c r)) = (env r)\<lparr>reads := Suc (reads (env r))\<rparr>"
      "env (charge c r) = (env r)\<lparr>reads := Suc (Suc (reads (env r)))\<rparr>"
    for c and r :: "'x VenueRegistry"
    by (simp_all add: quota_admits_eq charge_eq Let_def)
  have minute: "duration_nanos (from_secs 60) = 60000000000"
    by (simp add: duration_nanos_def from_secs_def)
  show ?thesis
    by (simp add: sample_overlap_def sample_conc_def charge_label_def quota_admits_installed second case_prod_unfold Let_def
        charges_in_def map_filter_simps log_of_def history_of_charge in_window_def start moves minute
        split: bool.splits)
qed

theorem overlapping_calls_stay_bounded_witness:
  "\<exists>log s. conc_run (\<lambda>_. 2) put_StatusBody (build (sample_builder 1) sample_world) log s
     \<and> length (in_window 0 (duration_nanos (from_secs 60)) (log_of ''mod-a'' (charges_in log))) = 2
     \<and> length (in_window 1 (duration_nanos (from_secs 60)) (log_of ''mod-a'' (charges_in log))) \<le> 2"
proof -
  obtain log s where s: "schedule put_StatusBody [0, 1, 0, 1, 0, 1] ([], sample_overlap) = (log, s)"
    "length (in_window 0 (duration_nanos (from_secs 60)) (log_of ''mod-a'' (charges_in log))) = 2"
    using sample_overlap_charges by blast
  have run: "conc_run (\<lambda>_. 2) put_StatusBody (build (sample_builder 1) sample_world) log s"
    by (rule schedule_runs [OF sample_overlap_runs _ s(1)]) (simp add: sample_overlap_def sample_conc_def)
  from overlapping_calls_stay_bounded [OF run, where caller = "''mod-a''" and t = 1]
  have "length (in_window 1 (duration_nanos (from_secs 60)) (log_of ''mod-a'' (charges_in log))) \<le> 2"
    by (simp add: lawful_unit_guard mono_sample SubmitQuota_new_def)
  with run s(2) show ?thesis by blast
qed

section \<open>Two polls and an observation\<close>

definition polling_sample :: "chain_heads conc" where
  "polling_sample = sample_conc [ObserveTask (ObserveCalled echo_id [7]), PollTask PollCalled, PollTask PollCalled]"

lemma polling_sample_runs:
  "conc_run K put_StatusBody (build (sample_builder 1) sample_world) [] polling_sample"
  unfolding polling_sample_def by (rule sample_spawns) (simp_all add: called_def in_flight_def)

text \<open>The registry after the observation, however many readings of the clock later.\<close>

definition sample_entry :: WatchedIntent where
  "sample_entry = \<lparr>w_venue = echo_id, w_receipt = [7], w_last = None, w_expires_at = Some 86401000000000\<rparr>"

definition sample_observed :: "nat \<Rightarrow> WatchedIntent list \<Rightarrow> chain_heads VenueRegistry" where
  "sample_observed n ws = sample_installed\<lparr>watched := ws, env := (env sample_installed)\<lparr>reads := n\<rparr>\<rparr>"

lemma watch_sample:
  "watch echo_id [7] sample_installed = (True, sample_observed 2 [sample_entry])"
  "watch_labels echo_id [7] sample_installed = [Watched (echo_id, [7])]"
  by (simp_all add: watch_def watch_labels_def prune_expired_def give_up_deadline_def instant_now_def
      instant_checked_add_def sample_observed_def sample_entry_def Let_def)

lemma sample_observed_simps:
  "n < 10 \<Longrightarrow> prune_expired (sample_observed n [sample_entry]) = (0, sample_observed (Suc n) [sample_entry])"
  "resolve echo_id (sample_observed n ws) = Ok \<lparr>slot_addr = 0, invoker = EchoVenue\<rparr>"
  "on_env (inv_status EchoVenue rc) (sample_observed n ws) = (Ok Fulfilled, sample_observed n ws)"
  "record_polled_status put_StatusBody echo_id [7] Fulfilled (sample_observed n [sample_entry]) =
     (Some (update_for echo_id [7] [1, 2, 0, 0]), sample_observed n [])"
  "record_polled_status put_StatusBody echo_id [7] Fulfilled (sample_observed n []) = (None, sample_observed n [])"
proof -
  have "resolve echo_id (sample_observed n ws) = resolve echo_id sample_installed"
    by (cases "adapters sample_installed echo_id") (simp_all add: resolve_def sample_observed_def)
  then show "resolve echo_id (sample_observed n ws) = Ok \<lparr>slot_addr = 0, invoker = EchoVenue\<rparr>" by simp
next
  have "StatusBody_encode put_StatusBody (status_body Fulfilled) = Ok [1, 2, 0, 0]"
    by (simp add: layout_eval status_body_def)
  then show "record_polled_status put_StatusBody echo_id [7] Fulfilled (sample_observed n [sample_entry]) =
     (Some (update_for echo_id [7] [1, 2, 0, 0]), sample_observed n [])"
    by (simp add: sample_observed_def sample_entry_def record_polled_status_def watches_def
        is_terminal_def remove_at_def update_for_def)
qed (simp_all add: sample_observed_def sample_entry_def prune_expired_def instant_now_def Let_def
    expired_at_def on_env_def record_polled_status_def)

text \<open>Both polls ask of the receipt before either has recorded the answer; one reports it.\<close>

lemma polling_sample_reports:
  "schedule put_StatusBody [0, 0, 1, 2, 1, 2, 1, 1, 2, 2, 1, 2, 1, 2] ([], polling_sample) =
     ([Watched (echo_id, [7]), Reported 1 (echo_id, [7]) Fulfilled],
      \<lparr>tasks = [ObserveTask (ObserveDone (Ok ())), PollTask (PollDone [update_for echo_id [7] [1, 2, 0, 0]]), PollTask (PollDone [])],
       slots_held = {}, registry = sample_observed 4 []\<rparr>)"
proof -
  have key: "w_venue sample_entry = echo_id" "w_receipt sample_entry = [7]" "watched (sample_observed n ws) = ws"
    for n ws by (simp_all add: sample_entry_def sample_observed_def)
  show ?thesis
    by (simp add: polling_sample_def sample_conc_def watch_sample sample_observed_simps key Let_def)
qed

theorem overlapping_polls_report_once_witness:
  "\<exists>log s. conc_run (\<lambda>_. 1) put_StatusBody (build (sample_builder 1) sample_world) log s
     \<and> tasks s ! 1 = PollTask (PollDone [update_for echo_id [7] [1, 2, 0, 0]])
     \<and> list_all2 (carries put_StatusBody) (reports_by 1 log) [update_for echo_id [7] [1, 2, 0, 0]]
     \<and> Reported 1 (echo_id, [7]) Fulfilled \<in> set log \<and> watch_ok (registry s)"
proof -
  let ?us = "[update_for echo_id [7] [1, 2, 0, 0]]"
  let ?log = "[Watched (echo_id, [7]), Reported 1 (echo_id, [7]) Fulfilled]"
  let ?s = "\<lparr>tasks = [ObserveTask (ObserveDone (Ok ())), PollTask (PollDone ?us), PollTask (PollDone [])], slots_held = {},
    registry = sample_observed 4 []\<rparr>"
  have run: "conc_run (\<lambda>_. 1) put_StatusBody (build (sample_builder 1) sample_world) ?log ?s"
    by (rule schedule_runs [OF polling_sample_runs _ polling_sample_reports])
      (simp add: polling_sample_def sample_conc_def)
  from overlapping_polls_report_once [OF this, of "(echo_id, [7])"]
  have "watch_ok (sample_observed 4 [])" "list_all2 (carries put_StatusBody) (reports_by 1 ?log) ?us"
    by simp_all
  with run show ?thesis by (intro exI [of _ ?log] exI [of _ ?s]) simp
qed

theorem calls_in_flight_return_witness:
  "\<exists>n s'. moves put_StatusBody sample_overlap n s' \<and> n \<le> 10 \<and> (\<forall>t\<in>set (tasks s'). finished t)
     \<and> slots_held s' = {}"
proof -
  note all = calls_in_flight_return [OF sample_overlap_runs]
  then obtain n s' where s': "moves put_StatusBody sample_overlap n s'" "\<forall>t\<in>set (tasks s'). finished t"
    by blast
  moreover from this all have "n \<le> work (max (max_entries (b_watch_limit (sample_builder 1))) 1) sample_overlap"
    "slots_held s' = {}"
    by auto
  ultimately show ?thesis by (auto simp: work_def sample_overlap_def sample_conc_def)
qed

end
