(* ===== verification/Test_Assertions.thy ===== *)
theory Test_Assertions imports Videre_Prelude
begin

text \<open>
  How a unit test is written here: as a bool over the calls it makes. An \<^verbatim>\<open>expect\<close> or
  \<^verbatim>\<open>expect_err\<close> that would panic makes it false, and so does an assertion that fails.
\<close>

definition expect :: "('a, 'e) result \<times> 's \<Rightarrow> ('a \<Rightarrow> 's \<Rightarrow> bool) \<Rightarrow> bool" where
  "expect xs k = (case xs of (Ok x, s) \<Rightarrow> k x s | (Err _, s) \<Rightarrow> False)"

definition expect_err :: "('a, 'e) result \<times> 's \<Rightarrow> ('e \<Rightarrow> 's \<Rightarrow> bool) \<Rightarrow> bool" where
  "expect_err xs k = (case xs of (Ok x, s) \<Rightarrow> False | (Err e, s) \<Rightarrow> k e s)"

text \<open>The same for a call without a state.\<close>

definition expected :: "('a, 'e) result \<Rightarrow> ('a \<Rightarrow> bool) \<Rightarrow> bool" where
  "expected x k = (case x of Ok a \<Rightarrow> k a | Err _ \<Rightarrow> False)"

lemma expect_simps [simp]:
  "expect (Ok x, s) k = k x s" "\<not> expect (Err e, s) k"
  "\<not> expect_err (Ok x, s) k'" "expect_err (Err e, s) k' = k' e s"
  "expected (Ok x) j = j x" "\<not> expected (Err e) j"
  by (simp_all add: expect_def expect_err_def expected_def)

end
