(* ===== verification/Stub_Adapter.thy ===== *)
theory Stub_Adapter imports Registry_Run Borsh_Layout Test_Assertions
begin

text \<open>
  The fixture of the registry's unit tests (\<^verbatim>\<open>videre-host/src/registry.rs\<close>, module
  \<^verbatim>\<open>tests\<close>): a programmable adapter that counts its calls, a denying guard, and the
  registries the tests start from. The counters and the script of statuses an adapter serves
  are what it owns in the process; a call counts itself in and out around its one await.
\<close>

section \<open>The adapter\<close>

record StubCalls =
  c_derive :: nat
  c_quote :: nat
  c_submit :: nat
  c_status :: nat
  c_cancel :: nat
  max_concurrency :: nat
  c_live :: nat

definition StubCalls_default :: StubCalls where
  "StubCalls_default = \<lparr>c_derive = 0, c_quote = 0, c_submit = 0, c_status = 0, c_cancel = 0,
     max_concurrency = 0, c_live = 0\<rparr>"

record stub_state =
  calls :: StubCalls
  status_script :: "(IntentStatus, VenueError) result list"

record StubAdapter =
  sa_derive :: "(IntentHeader, VenueError) result"
  sa_submit :: "(SubmitOutcome, VenueError) result"
  echo_receipt :: bool
  sa_script :: "(IntentStatus, VenueError) result list"

definition native :: "bytes \<Rightarrow> AssetAmount" where
  "native n = \<lparr>asset = Native, amount = n\<rparr>"

definition stub_quotation :: Quotation where
  "stub_quotation = \<lparr>q_gives = native [1], q_wants = native [], q_fee = native [],
     q_valid_until_ms = 1700000000000\<rparr>"

definition stub_header :: IntentHeader where
  "stub_header = \<lparr>gives = native [1], wants = native [], settlement = \<lparr>chain = 1\<rparr>,
     authorisation = Eip712\<rparr>"

definition StubAdapter_new :: StubAdapter where
  "StubAdapter_new = \<lparr>sa_derive = Ok stub_header, sa_submit = Ok (Accepted (str_bytes ''receipt'')),
     echo_receipt = False, sa_script = []\<rparr>"

definition with_receipt_echo :: "StubAdapter \<Rightarrow> StubAdapter" where
  "with_receipt_echo a = a\<lparr>echo_receipt := True\<rparr>"

definition with_derive :: "(IntentHeader, VenueError) result \<Rightarrow> StubAdapter \<Rightarrow> StubAdapter" where
  "with_derive derive a = a\<lparr>sa_derive := derive\<rparr>"

definition with_submit :: "(SubmitOutcome, VenueError) result \<Rightarrow> StubAdapter \<Rightarrow> StubAdapter" where
  "with_submit sub a = a\<lparr>sa_submit := sub\<rparr>"

definition with_status_script :: "(IntentStatus, VenueError) result list \<Rightarrow> StubAdapter \<Rightarrow> StubAdapter" where
  "with_status_script script a = a\<lparr>sa_script := script\<rparr>"

text \<open>Counted in, yielding, counted out.\<close>

definition enter :: "StubCalls \<Rightarrow> StubCalls" where
  "enter c =
     (let live = c_live c + 1;
          c1 = c\<lparr>c_live := live, max_concurrency := max (max_concurrency c) live\<rparr>
      in c1\<lparr>c_live := c_live c1 - 1\<rparr>)"

definition on_calls :: "(StubCalls \<Rightarrow> StubCalls) \<Rightarrow> stub_state world \<Rightarrow> stub_state world" where
  "on_calls f w = w\<lparr>ext := (ext w)\<lparr>calls := f (calls (ext w))\<rparr>\<rparr>"

definition pop_status :: "stub_state world \<Rightarrow> (IntentStatus, VenueError) result \<times> stub_state world" where
  "pop_status w =
     (case status_script (ext w) of
        [] \<Rightarrow> (Ok Open, w)
      | st # rest \<Rightarrow> (st, w\<lparr>ext := (ext w)\<lparr>status_script := rest\<rparr>\<rparr>))"

definition stub_invoker :: "StubAdapter \<Rightarrow> stub_state VenueInvoker" where
  "stub_invoker a =
     \<lparr>inv_derive_header = (\<lambda>_ w. (sa_derive a, on_calls (\<lambda>c. enter (c\<lparr>c_derive := c_derive c + 1\<rparr>)) w)),
      inv_quote = (\<lambda>_ w. (Ok stub_quotation, on_calls (\<lambda>c. enter (c\<lparr>c_quote := c_quote c + 1\<rparr>)) w)),
      inv_submit = (\<lambda>body w.
        (if echo_receipt a then Ok (Accepted body) else sa_submit a,
         on_calls (\<lambda>c. enter (c\<lparr>c_submit := c_submit c + 1\<rparr>)) w)),
      inv_status = (\<lambda>_ w. pop_status (on_calls (\<lambda>c. c\<lparr>c_status := c_status c + 1\<rparr>) w)),
      inv_cancel = (\<lambda>_ w. (Ok (), on_calls (\<lambda>c. c\<lparr>c_cancel := c_cancel c + 1\<rparr>) w))\<rparr>"

lemma world_le_ext [simp]: "world_le w (w\<lparr>ext := x\<rparr>)"
  by (simp add: world_le_def)

lemma on_calls_world [simp]: "world_le w (on_calls f w)"
  by (simp add: on_calls_def)

interpretation stub: venue_invoker "stub_invoker a" for a
  by unfold_locales
    (auto simp: lawful_call_def stub_invoker_def pop_status_def on_calls_def split: list.split)

section \<open>The registries of the tests\<close>

definition cow :: VenueId where "cow = VenueId ''cow''"
definition unlisted :: VenueId where "unlisted = VenueId ''unlisted''"

definition DenyGuard :: "'x EgressGuard" where
  "DenyGuard ctx w = (Deny ''blocked by test policy'', w)"

text \<open>A fresh process for a test: nothing called yet, no script.\<close>

definition fresh :: "stub_state world \<Rightarrow> stub_state world" where
  "fresh w = w\<lparr>reads := 0, deaths := (\<lambda>_. None), allocs := 0,
     ext := \<lparr>calls = StubCalls_default, status_script = []\<rparr>\<rparr>"

text \<open>Registering an adapter moves it, script and all, into the registry.\<close>

definition install_stub ::
  "VenueId \<Rightarrow> live_ref \<Rightarrow> u32 set \<Rightarrow> StubAdapter \<Rightarrow> stub_state VenueRegistry
    \<Rightarrow> (unit, DuplicateVenue) result \<times> stub_state VenueRegistry" where
  "install_stub venue live versions a r =
     (let w = env r
      in register venue live versions (stub_invoker a)
           (r\<lparr>env := w\<lparr>ext := (ext w)\<lparr>status_script := sa_script a\<rparr>\<rparr>\<rparr>))"

text \<open>\<^verbatim>\<open>Liveness::default()\<close> is a flag of its own.\<close>

definition new_liveness :: "stub_state VenueRegistry \<Rightarrow> live_ref \<times> stub_state VenueRegistry" where
  "new_liveness r = on_env Liveness_new r"

definition registry_with ::
  "SubmitQuota \<Rightarrow> stub_state EgressGuard option \<Rightarrow> StubAdapter \<Rightarrow> stub_state world
    \<Rightarrow> (unit, DuplicateVenue) result \<times> stub_state VenueRegistry" where
  "registry_with q g a w =
     (let builder = VenueRegistryBuilder_new q;
          builder = (case g of Some g \<Rightarrow> with_guard g builder | None \<Rightarrow> builder);
          (live, r) = new_liveness (build builder w)
      in install_stub cow live {} a r)"

definition watch_bounded_registry ::
  "WatchLimit \<Rightarrow> StubAdapter \<Rightarrow> stub_state world
    \<Rightarrow> (unit, DuplicateVenue) result \<times> stub_state VenueRegistry" where
  "watch_bounded_registry limit a w =
     (let (live, r) = new_liveness
            (build (with_watch_limit limit (VenueRegistryBuilder_new SubmitQuota_default)) w)
      in install_stub cow live {} a r)"

section \<open>Assertions\<close>

definition calls_of :: "stub_state VenueRegistry \<Rightarrow> StubCalls" where
  "calls_of r = calls (ext (env r))"

definition polled :: "stub_state VenueRegistry \<Rightarrow> (IntentStatusUpdate list \<Rightarrow> stub_state VenueRegistry \<Rightarrow> bool) \<Rightarrow> bool" where
  "polled r k = (let (us, r1) = poll_status_transitions put_StatusBody r in k us r1)"

definition plain :: "Lifecycle \<Rightarrow> StatusBody" where
  "plain st = \<lparr>sb_status = st, sb_proof = None, sb_reason = None\<rparr>"

definition decodes_to :: "IntentStatusUpdate \<Rightarrow> StatusBody \<Rightarrow> bool" where
  "decodes_to u b \<longleftrightarrow> StatusBody_decode borsh_StatusBody (upd_status u) = Ok b"

lemma decodes_plain: "decodes_to u b \<longleftrightarrow> StatusBody_encode put_StatusBody b = Ok (upd_status u)"
  using borsh_codec.de_iff_ser [OF status_body.closed.borsh_codec_axioms]
  by (auto simp: decodes_to_def StatusBody_decode_eq_Ok StatusBody_encode_eq_Ok)

definition is_unavailable :: "VenueError \<Rightarrow> bool" where
  "is_unavailable e = (case e of Unavailable _ \<Rightarrow> True | _ \<Rightarrow> False)"

definition is_rate_limited :: "VenueError \<Rightarrow> bool" where
  "is_rate_limited e = (case e of RateLimited _ \<Rightarrow> True | _ \<Rightarrow> False)"

definition is_invalid_body :: "VenueError \<Rightarrow> bool" where
  "is_invalid_body e = (case e of InvalidBody _ \<Rightarrow> True | _ \<Rightarrow> False)"

text \<open>\<^verbatim>\<open>liveness.mark_dead()\<close> while the registry holds a clone of the flag.\<close>

definition dies :: "live_ref \<Rightarrow> stub_state VenueRegistry \<Rightarrow> stub_state VenueRegistry" where
  "dies live r = r\<lparr>env := mark_dead live (env r)\<rparr>"

end
