(* ===== verification/Registry_Tests.thy ===== *)
theory Registry_Tests imports Stub_Adapter
begin

text \<open>
  The unit tests of \<^verbatim>\<open>videre-host/src/registry.rs\<close>, replayed on the model: one
  definition per test, with its calls in their order and its assertions, over the process
  it starts in. They are proved for every process whose clock stays within a second while a
  test runs, not for one sample of the readings. Not replayed: the test of overlapping
  calls, whose claim is proved of every interleaving in \<open>Overlap_Properties\<close>; the
  test that sleeps through an expiry window; the two of \<^verbatim>\<open>VenueId::new\<close>, whose
  parser is code of another repository.
\<close>

section \<open>The clock while a test runs\<close>

text \<open>
  The readings never go back, stay within a second of each other (the tests use windows of
  a minute or more, or of nothing) and leave the platform room for a deadline a day away.
\<close>

definition steady :: "'x world \<Rightarrow> bool" where
  "steady w \<longleftrightarrow> mono (clock w) \<and> (\<forall>m n. clock w m \<le> clock w n + 1000000000)
     \<and> (\<forall>n. clock w n + 100000000000000 \<le> instant_max w)"

type_synonym registry_test = "stub_state world \<Rightarrow> bool"

lemma fresh_eq:
  "fresh w = \<lparr>clock = clock w, reads = 0, instant_max = instant_max w, deaths = (\<lambda>_. None),
     allocs = 0, ext = \<lparr>calls = StubCalls_default, status_script = []\<rparr>\<rparr>"
  by (simp add: fresh_def)

lemma steady_near: "steady w \<Longrightarrow> clock w m \<le> clock w n + 1000000000"
  by (simp add: steady_def)

lemma steady_window:
  assumes "steady w" and "1000000000 \<le> k"
  shows "\<not> k < clock w m - clock w n"
  using steady_near [OF assms(1), of m n] assms(2) by linarith

lemma steady_fits:
  assumes "steady w" and "k \<le> 100000000000000"
  shows "clock w m + k \<le> instant_max w"
proof -
  have "clock w m + 100000000000000 \<le> instant_max w" using assms(1) by (simp add: steady_def)
  with assms(2) show ?thesis by linarith
qed

lemma steady_live:
  assumes "steady w" and "1000000000 < k"
  shows "clock w m < clock w n + k"
  using steady_near [OF assms(1), of m n] assms(2) by linarith

lemma steady_now: "steady w \<Longrightarrow> clock w m \<le> instant_max w"
  using steady_fits [of w 0 m] by simp

lemma steady_order: "steady w \<Longrightarrow> n \<le> m \<Longrightarrow> \<not> clock w m < clock w n"
  by (auto simp: steady_def mono_def not_less)

lemmas steady_simps = steady_window steady_fits steady_live steady_now steady_order

section \<open>What evaluates a test\<close>

lemmas fixture = registry_with_def watch_bounded_registry_def install_stub_def new_liveness_def
  build_def with_guard_def with_watch_limit_def VenueRegistryBuilder_new_def SubmitQuota_new_def
  SubmitQuota_default_def DEFAULT_QUOTA_MAX_CHARGES_def DEFAULT_QUOTA_WINDOW_def
  WatchLimit_default_def WatchLimit_new_def WatchLimit_with_grace_def DEFAULT_WATCH_MAX_ENTRIES_def
  DEFAULT_WATCH_EXPIRY_def derive_grace_def WATCH_GRACE_MULTIPLIER_def WATCH_GRACE_MAX_def
  from_secs_def u64_saturating_mul_def
  register_def Liveness_new_def is_alive_def fresh_eq StubAdapter_new_def with_receipt_echo_def
  with_derive_def with_submit_def with_status_script_def cow_def unlisted_def

lemma quota_floor: "max 2 (1 :: u32) = 2"
  by (simp add: max_def word_le_nat_alt)

lemma dom_body_versions: "dom (body_versions r) = dom (adapters r)"
  by (auto simp: body_versions_def dom_def)

text \<open>The sole entry's give-up deadline.\<close>

definition sole_deadline :: "stub_state VenueRegistry \<Rightarrow> instant option" where
  "sole_deadline r = (case watched r of [] \<Rightarrow> None | e # _ \<Rightarrow> w_expires_at e)"

lemmas calling = expect_def expect_err_def calls_of_def polled_def submit_def submit_in_slot_def
  resolve_def quota_admits_def charge_def prune_def history_of_def on_env_def stub_invoker_def
  on_calls_def enter_def StubCalls_default_def instant_now_def unit_guard_def DenyGuard_def
  watch_def prune_expired_def give_up_deadline_def instant_checked_add_def duration_nanos_def
  duration_since_def rate_limited_by_def window_ms_def as_millis_def quote_def status_def
  cancel_def observe_def watched_count_def watches_def expired_at_def
  poll_status_transitions_def poll_one_def record_polled_status_def pop_status_def remove_at_def
  status_body_def plain_def decodes_plain is_terminal_def mark_dead_def is_unavailable_def
  is_rate_limited_def is_invalid_body_def dies_def body_versions_def dom_body_versions
  venue_count_def quota_floor sole_deadline_def layout_eval

lemmas replay = fixture calling steady_simps

section \<open>Submitting, quoting and the quota\<close>

definition submit_round_trips_through_derive_guard_submit :: registry_test where
  "submit_round_trips_through_derive_guard_submit w =
     expect (registry_with SubmitQuota_default None StubAdapter_new w) (\<lambda>_ r.
     expect (submit ''mod-a'' cow (str_bytes ''body'') r) (\<lambda>outcome r.
       outcome = Accepted (str_bytes ''receipt'')
       \<and> c_derive (calls_of r) = 1 \<and> c_submit (calls_of r) = 1))"

definition unknown_venue_is_rejected_without_touching_an_adapter :: registry_test where
  "unknown_venue_is_rejected_without_touching_an_adapter w =
     expect (registry_with SubmitQuota_default None StubAdapter_new w) (\<lambda>_ r.
     expect_err (submit ''mod-a'' unlisted (str_bytes ''body'') r) (\<lambda>err r.
       err = UnknownVenue \<and> c_derive (calls_of r) = 0 \<and> c_submit (calls_of r) = 0))"

definition guard_deny_is_advisory_and_does_not_block_submit :: registry_test where
  "guard_deny_is_advisory_and_does_not_block_submit w =
     expect (registry_with SubmitQuota_default (Some DenyGuard) StubAdapter_new w) (\<lambda>_ r.
     expect (submit ''mod-a'' cow (str_bytes ''body'') r) (\<lambda>outcome r.
       outcome = Accepted (str_bytes ''receipt'')
       \<and> c_derive (calls_of r) = 1 \<and> c_submit (calls_of r) = 1))"

definition repeated_guard_denies_exhaust_the_caller_quota :: registry_test where
  "repeated_guard_denies_exhaust_the_caller_quota w =
     expect (registry_with (SubmitQuota_new 2 (from_secs 3600)) (Some DenyGuard) StubAdapter_new w) (\<lambda>_ r.
     expect (submit ''mod-a'' cow (str_bytes ''b'') r) (\<lambda>_ r.
     expect (submit ''mod-a'' cow (str_bytes ''b'') r) (\<lambda>_ r.
     expect_err (submit ''mod-a'' cow (str_bytes ''b'') r) (\<lambda>err r.
       is_rate_limited err \<and> c_derive (calls_of r) = 2 \<and> c_submit (calls_of r) = 2))))"

definition quote_reaches_the_adapter_without_header_or_guard :: registry_test where
  "quote_reaches_the_adapter_without_header_or_guard w =
     expect (registry_with SubmitQuota_default (Some DenyGuard) StubAdapter_new w) (\<lambda>_ r.
     expect (quote ''mod-a'' cow (str_bytes ''body'') r) (\<lambda>quoted r.
       quoted = stub_quotation \<and> c_quote (calls_of r) = 1 \<and> c_derive (calls_of r) = 0))"

definition quote_spends_the_caller_quota :: registry_test where
  "quote_spends_the_caller_quota w =
     expect (registry_with (SubmitQuota_new 1 (from_secs 3600)) None StubAdapter_new w) (\<lambda>_ r.
     expect (quote ''mod-a'' cow (str_bytes ''b'') r) (\<lambda>_ r.
     expect_err (quote ''mod-a'' cow (str_bytes ''b'') r) (\<lambda>e1 r.
     expect_err (submit ''mod-a'' cow (str_bytes ''b'') r) (\<lambda>e2 r.
       is_rate_limited e1 \<and> is_rate_limited e2
       \<and> c_quote (calls_of r) = 1 \<and> c_submit (calls_of r) = 0))))"

definition quote_to_an_unknown_venue_is_rejected :: registry_test where
  "quote_to_an_unknown_venue_is_rejected w =
     expect (registry_with SubmitQuota_default None StubAdapter_new w) (\<lambda>_ r.
     expect_err (quote ''mod-a'' unlisted (str_bytes ''b'') r) (\<lambda>err r.
       err = UnknownVenue \<and> c_quote (calls_of r) = 0))"

definition submission_quota_rate_limits_once_the_budget_is_spent :: registry_test where
  "submission_quota_rate_limits_once_the_budget_is_spent w =
     expect (registry_with (SubmitQuota_new 2 (from_secs 3600)) None StubAdapter_new w) (\<lambda>_ r.
     expect (submit ''mod-a'' cow (str_bytes ''b'') r) (\<lambda>_ r.
     expect (submit ''mod-a'' cow (str_bytes ''b'') r) (\<lambda>_ r.
     expect_err (submit ''mod-a'' cow (str_bytes ''b'') r) (\<lambda>err r.
       err = RateLimited \<lparr>retry_after_ms = Some 3600000\<rparr> \<and> c_submit (calls_of r) = 2))))"

definition quota_is_per_caller :: registry_test where
  "quota_is_per_caller w =
     expect (registry_with (SubmitQuota_new 1 (from_secs 3600)) None StubAdapter_new w) (\<lambda>_ r.
     expect (submit ''mod-a'' cow (str_bytes ''b'') r) (\<lambda>_ r.
     expect_err (submit ''mod-a'' cow (str_bytes ''b'') r) (\<lambda>_ r.
     expect (submit ''mod-b'' cow (str_bytes ''b'') r) (\<lambda>_ _. True))))"

definition decode_failures_are_charged_and_stop_re_invoking_the_adapter :: registry_test where
  "decode_failures_are_charged_and_stop_re_invoking_the_adapter w =
     expect (registry_with (SubmitQuota_new 1 (from_secs 3600)) None
       (with_derive (Err (InvalidBody ''bad'')) StubAdapter_new) w) (\<lambda>_ r.
     expect_err (submit ''mod-a'' cow (str_bytes ''junk'') r) (\<lambda>first r.
     expect_err (submit ''mod-a'' cow (str_bytes ''junk'') r) (\<lambda>second r.
       is_invalid_body first \<and> is_rate_limited second \<and> c_derive (calls_of r) = 1)))"

definition non_decode_venue_errors_are_not_charged :: registry_test where
  "non_decode_venue_errors_are_not_charged w =
     expect (registry_with (SubmitQuota_new 1 (from_secs 3600)) None
       (with_derive (Err (Unavailable ''rpc down'')) StubAdapter_new) w) (\<lambda>_ r.
     expect_err (submit ''mod-a'' cow (str_bytes ''b'') r) (\<lambda>first r.
     expect_err (submit ''mod-a'' cow (str_bytes ''b'') r) (\<lambda>second r.
       is_unavailable first \<and> is_unavailable second \<and> c_derive (calls_of r) = 2)))"

definition status_and_cancel_pass_through_without_quota :: registry_test where
  "status_and_cancel_pass_through_without_quota w =
     expect (registry_with (SubmitQuota_new 1 (from_secs 3600)) None StubAdapter_new w) (\<lambda>_ r.
     expect (status cow (str_bytes ''r'') r) (\<lambda>st r.
     expect (cancel cow (str_bytes ''r'') r) (\<lambda>_ r.
       st = Open \<and> c_status (calls_of r) = 1 \<and> c_cancel (calls_of r) = 1)))"

section \<open>Installing and resolving\<close>

definition duplicate_venue_id_is_rejected :: registry_test where
  "duplicate_venue_id_is_rejected w =
     (let (l1, r) = new_liveness (build (VenueRegistryBuilder_new SubmitQuota_default) w) in
      expect (install_stub cow l1 {} StubAdapter_new r) (\<lambda>_ r.
      let (l2, r) = new_liveness r in
      expect_err (install_stub cow l2 {} StubAdapter_new r) (\<lambda>err r. err = DuplicateVenue cow)))"

definition body_versions_reports_each_registered_venue_set :: registry_test where
  "body_versions_reports_each_registered_venue_set w =
     (let (l1, r) = new_liveness (build (VenueRegistryBuilder_new SubmitQuota_default) w) in
      expect (install_stub cow l1 {1, 2} StubAdapter_new r) (\<lambda>_ r.
      let (l2, r) = new_liveness r in
      expect (install_stub (VenueId ''uni'') l2 {} StubAdapter_new r) (\<lambda>_ r.
      let versions = body_versions r in
        card (dom versions) = 2 \<and> versions cow = Some {1, 2} \<and> versions (VenueId ''uni'') = Some {})))"

definition dead_venue_is_unavailable_not_unknown :: registry_test where
  "dead_venue_is_unavailable_not_unknown w =
     (let (live, r) = new_liveness (build (VenueRegistryBuilder_new SubmitQuota_default) w) in
      expect (install_stub cow live {} StubAdapter_new r) (\<lambda>_ r.
      let r = dies live r in
      expect_err (submit ''mod-a'' cow (str_bytes ''b'') r) (\<lambda>e1 r.
      expect_err (submit ''mod-a'' unlisted (str_bytes ''b'') r) (\<lambda>e2 r.
        is_unavailable e1 \<and> e2 = UnknownVenue \<and> c_derive (calls_of r) = 0))))"

definition a_dead_incumbent_is_replaced_on_reinstall :: registry_test where
  "a_dead_incumbent_is_replaced_on_reinstall w =
     (let (live, r) = new_liveness (build (VenueRegistryBuilder_new SubmitQuota_default) w) in
      expect (install_stub cow live {} StubAdapter_new r) (\<lambda>_ r.
      let (l2, r) = new_liveness (dies live r) in
      expect (install_stub cow l2 {} StubAdapter_new r) (\<lambda>_ r. venue_count r = 1)))"

definition zero_quota_saturates_to_one :: registry_test where
  "zero_quota_saturates_to_one w =
     (max_charges (quota (build (VenueRegistryBuilder_new (SubmitQuota_new 0 (from_secs 60))) w)) = 1)"

definition zero_watch_cap_saturates_to_one :: registry_test where
  "zero_watch_cap_saturates_to_one w =
     (max_entries (watch_limit (build (with_watch_limit (WatchLimit_new 0 (from_secs 60))
        (VenueRegistryBuilder_new SubmitQuota_default)) w)) = 1)"

section \<open>The watch list\<close>

definition accepted_submission_goes_under_status_watch :: registry_test where
  "accepted_submission_goes_under_status_watch w =
     expect (registry_with SubmitQuota_default None StubAdapter_new w) (\<lambda>_ r0.
     expect (submit ''mod-a'' cow (str_bytes ''body'') r0) (\<lambda>_ r1.
     expect (submit ''mod-a'' cow (str_bytes ''body'') r1) (\<lambda>_ r2.
       watched_count r0 = 0 \<and> watched_count r1 = 1 \<and> watched_count r2 = 1)))"

definition observe_watches_an_externally_obtained_receipt :: registry_test where
  "observe_watches_an_externally_obtained_receipt w =
     expect (registry_with SubmitQuota_default None
       (with_status_script [Ok Fulfilled] StubAdapter_new) w) (\<lambda>_ r.
     expect (observe cow (str_bytes ''onchain'') r) (\<lambda>_ r.
     expect (observe cow (str_bytes ''onchain'') r) (\<lambda>_ r.
       watched_count r = 1 \<and> c_status (calls_of r) = 0 \<and> c_submit (calls_of r) = 0
       \<and> polled r (\<lambda>updates r.
            length updates = 1 \<and> upd_receipt (updates ! 0) = str_bytes ''onchain''
            \<and> decodes_to (updates ! 0) (plain LFulfilled) \<and> watched_count r = 0))))"

definition observe_rejects_an_unknown_venue :: registry_test where
  "observe_rejects_an_unknown_venue w =
     expect (registry_with SubmitQuota_default None StubAdapter_new w) (\<lambda>_ r.
     expect_err (observe unlisted (str_bytes ''r'') r) (\<lambda>err r.
       err = UnknownVenue \<and> watched_count r = 0))"

definition observe_of_a_dead_venue_is_unavailable :: registry_test where
  "observe_of_a_dead_venue_is_unavailable w =
     (let (live, r) = new_liveness (build (VenueRegistryBuilder_new SubmitQuota_default) w) in
      expect (install_stub cow live {} StubAdapter_new r) (\<lambda>_ r.
      expect_err (observe cow (str_bytes ''r'') (dies live r)) (\<lambda>err r.
        is_unavailable err \<and> watched_count r = 0)))"

definition observe_at_the_watch_cap_is_refused_typedly :: registry_test where
  "observe_at_the_watch_cap_is_refused_typedly w =
     expect (watch_bounded_registry (WatchLimit_new 1 (from_secs 3600)) StubAdapter_new w) (\<lambda>_ r.
     expect (observe cow (str_bytes ''a'') r) (\<lambda>_ r.
     expect_err (observe cow (str_bytes ''b'') r) (\<lambda>err r.
       is_unavailable err \<and> watched_count r = 1)))"

definition requires_signing_outcome_is_not_watched :: registry_test where
  "requires_signing_outcome_is_not_watched w =
     expect (registry_with SubmitQuota_default None
       (with_submit (Ok (RequiresSigning
          \<lparr>tx_chain = 1, tx_to = replicate 20 0, tx_value = [], tx_data = []\<rparr>))
          StubAdapter_new) w) (\<lambda>_ r.
     expect (submit ''mod-a'' cow (str_bytes ''body'') r) (\<lambda>_ r.
       watched_count r = 0 \<and> polled r (\<lambda>updates _. updates = [])))"

definition expired_watches_are_evicted_unpolled :: registry_test where
  "expired_watches_are_evicted_unpolled w =
     expect (watch_bounded_registry (WatchLimit_new 8 (from_secs 0)) StubAdapter_new w) (\<lambda>_ r.
     expect (submit ''mod-a'' cow (str_bytes ''body'') r) (\<lambda>_ r.
       watched_count r = 1
       \<and> polled r (\<lambda>updates r.
            updates = [] \<and> watched_count r = 0 \<and> c_status (calls_of r) = 0)))"

definition expiry_frees_room_at_the_cap :: registry_test where
  "expiry_frees_room_at_the_cap w =
     expect (watch_bounded_registry (WatchLimit_new 1 (from_secs 0))
       (with_receipt_echo StubAdapter_new) w) (\<lambda>_ r.
     expect (submit ''mod-a'' cow (str_bytes ''a'') r) (\<lambda>_ r.
     expect (submit ''mod-a'' cow (str_bytes ''b'') r) (\<lambda>_ r.
       length (watched r) = 1 \<and> w_receipt (watched r ! 0) = str_bytes ''b'')))"

definition grace_derives_from_expiry_and_caps_at_a_day :: registry_test where
  "grace_derives_from_expiry_and_caps_at_a_day w =
     (grace (WatchLimit_new 8 (from_secs 900)) = from_secs 1800
      \<and> grace (WatchLimit_new 8 (from_secs 86400)) = WATCH_GRACE_MAX
      \<and> grace (WatchLimit_with_grace 8 (from_secs 900) (from_secs 60)) = from_secs 60)"

definition the_builder_keeps_an_explicit_grace_while_clamping_the_entry_cap :: registry_test where
  "the_builder_keeps_an_explicit_grace_while_clamping_the_entry_cap w =
     (let limit = watch_limit (build (with_watch_limit
            (WatchLimit_with_grace 0 (from_secs 900) (from_secs 60))
            (VenueRegistryBuilder_new SubmitQuota_default)) w)
      in grace limit = from_secs 60 \<and> max_entries limit = 1 \<and> expiry limit = from_secs 900)"

section \<open>Polling\<close>

definition poll_reports_the_first_status_then_dedupes_repeats :: registry_test where
  "poll_reports_the_first_status_then_dedupes_repeats w =
     expect (registry_with SubmitQuota_default None StubAdapter_new w) (\<lambda>_ r.
     expect (submit ''mod-a'' cow (str_bytes ''body'') r) (\<lambda>_ r.
     polled r (\<lambda>first r.
       length first = 1 \<and> upd_venue (first ! 0) = ''cow''
       \<and> upd_receipt (first ! 0) = str_bytes ''receipt''
       \<and> decodes_to (first ! 0) (plain LOpen)
       \<and> polled r (\<lambda>second r.
            second = [] \<and> c_status (calls_of r) = 2 \<and> watched_count r = 1))))"

definition poll_reports_each_transition_and_prunes_on_terminal :: registry_test where
  "poll_reports_each_transition_and_prunes_on_terminal w =
     expect (registry_with SubmitQuota_default None
       (with_status_script [Ok Pending, Ok Pending, Ok Open, Ok Fulfilled] StubAdapter_new) w) (\<lambda>_ r.
     expect (submit ''mod-a'' cow (str_bytes ''body'') r) (\<lambda>_ r.
     polled r (\<lambda>s1 r. polled r (\<lambda>s2 r. polled r (\<lambda>s3 r. polled r (\<lambda>s4 r.
       list_all2 decodes_to (s1 @ s2 @ s3 @ s4) [plain LPending, plain LOpen, plain LFulfilled]
       \<and> watched_count r = 0
       \<and> polled r (\<lambda>more _. more = [])))))))"

definition poll_failure_keeps_the_watch_for_the_next_cadence :: registry_test where
  "poll_failure_keeps_the_watch_for_the_next_cadence w =
     expect (registry_with SubmitQuota_default None
       (with_status_script [Err (Unavailable ''venue down'')] StubAdapter_new) w) (\<lambda>_ r.
     expect (submit ''mod-a'' cow (str_bytes ''body'') r) (\<lambda>_ r.
     polled r (\<lambda>first r.
       first = [] \<and> watched_count r = 1
       \<and> polled r (\<lambda>updates _.
            length updates = 1 \<and> decodes_to (updates ! 0) (plain LOpen)))))"

definition watch_cap_refuses_the_overflow_and_never_drops_live_watches :: registry_test where
  "watch_cap_refuses_the_overflow_and_never_drops_live_watches w =
     expect (watch_bounded_registry (WatchLimit_new 2 (from_secs 3600))
       (with_status_script [Ok Pending, Ok Pending] (with_receipt_echo StubAdapter_new)) w) (\<lambda>_ r.
     expect (submit ''mod-a'' cow (str_bytes ''a'') r) (\<lambda>_ r.
     expect (submit ''mod-a'' cow (str_bytes ''b'') r) (\<lambda>_ r.
     expect (submit ''mod-a'' cow (str_bytes ''c'') r) (\<lambda>_ r.
       watched_count r = 2
       \<and> polled r (\<lambda>updates _.
            map upd_receipt updates = [str_bytes ''a'', str_bytes ''b'']
            \<and> list_all (\<lambda>u. decodes_to u (plain LPending)) updates)))))"

definition a_dead_venue_rides_out_without_refreshing_the_deadline :: registry_test where
  "a_dead_venue_rides_out_without_refreshing_the_deadline w =
     (let (live, r) = new_liveness (build (with_watch_limit (WatchLimit_new 8 (from_secs 3600))
            (VenueRegistryBuilder_new SubmitQuota_default)) w) in
      expect (install_stub cow live {} StubAdapter_new r) (\<lambda>_ r.
      expect (submit ''mod-a'' cow (str_bytes ''body'') r) (\<lambda>_ r.
      let inserted = sole_deadline r in
      polled (dies live r) (\<lambda>updates r.
        updates = [] \<and> watched_count r = 1 \<and> sole_deadline r = inserted))))"

definition an_errored_poll_rides_out_without_refreshing_the_deadline :: registry_test where
  "an_errored_poll_rides_out_without_refreshing_the_deadline w =
     expect (watch_bounded_registry (WatchLimit_new 8 (from_secs 3600))
       (with_status_script [Err (Unavailable ''api down'')] StubAdapter_new) w) (\<lambda>_ r.
     expect (submit ''mod-a'' cow (str_bytes ''body'') r) (\<lambda>_ r.
     let inserted = sole_deadline r in
     polled r (\<lambda>updates r.
       updates = [] \<and> watched_count r = 1 \<and> sole_deadline r = inserted)))"

definition every_lifecycle_state_lowers_onto_the_status_body :: registry_test where
  "every_lifecycle_state_lowers_onto_the_status_body w =
     list_all (\<lambda>(wire, lowered). status_body wire = plain lowered)
       [(Pending, LPending), (Open, LOpen), (Fulfilled, LFulfilled),
        (Cancelled, LCancelled), (Expired, LExpired)]"

section \<open>They all pass\<close>

definition quota_tests :: "registry_test list" where
  "quota_tests =
    [submit_round_trips_through_derive_guard_submit,
     unknown_venue_is_rejected_without_touching_an_adapter,
     guard_deny_is_advisory_and_does_not_block_submit,
     repeated_guard_denies_exhaust_the_caller_quota,
     quote_reaches_the_adapter_without_header_or_guard,
     quote_spends_the_caller_quota,
     quote_to_an_unknown_venue_is_rejected,
     submission_quota_rate_limits_once_the_budget_is_spent,
     quota_is_per_caller,
     decode_failures_are_charged_and_stop_re_invoking_the_adapter,
     non_decode_venue_errors_are_not_charged,
     status_and_cancel_pass_through_without_quota]"

lemmas quota_test_defs =
  quota_tests_def
  submit_round_trips_through_derive_guard_submit_def
  unknown_venue_is_rejected_without_touching_an_adapter_def
  guard_deny_is_advisory_and_does_not_block_submit_def
  repeated_guard_denies_exhaust_the_caller_quota_def
  quote_reaches_the_adapter_without_header_or_guard_def
  quote_spends_the_caller_quota_def
  quote_to_an_unknown_venue_is_rejected_def
  submission_quota_rate_limits_once_the_budget_is_spent_def
  quota_is_per_caller_def
  decode_failures_are_charged_and_stop_re_invoking_the_adapter_def
  non_decode_venue_errors_are_not_charged_def
  status_and_cancel_pass_through_without_quota_def

definition install_tests :: "registry_test list" where
  "install_tests =
    [duplicate_venue_id_is_rejected,
     body_versions_reports_each_registered_venue_set,
     dead_venue_is_unavailable_not_unknown,
     a_dead_incumbent_is_replaced_on_reinstall,
     zero_quota_saturates_to_one,
     zero_watch_cap_saturates_to_one]"

lemmas install_test_defs =
  install_tests_def
  duplicate_venue_id_is_rejected_def
  body_versions_reports_each_registered_venue_set_def
  dead_venue_is_unavailable_not_unknown_def
  a_dead_incumbent_is_replaced_on_reinstall_def
  zero_quota_saturates_to_one_def
  zero_watch_cap_saturates_to_one_def

definition watch_tests :: "registry_test list" where
  "watch_tests =
    [accepted_submission_goes_under_status_watch,
     observe_watches_an_externally_obtained_receipt,
     observe_rejects_an_unknown_venue,
     observe_of_a_dead_venue_is_unavailable,
     observe_at_the_watch_cap_is_refused_typedly,
     requires_signing_outcome_is_not_watched,
     expired_watches_are_evicted_unpolled,
     expiry_frees_room_at_the_cap,
     grace_derives_from_expiry_and_caps_at_a_day,
     the_builder_keeps_an_explicit_grace_while_clamping_the_entry_cap]"

lemmas watch_test_defs =
  watch_tests_def
  accepted_submission_goes_under_status_watch_def
  observe_watches_an_externally_obtained_receipt_def
  observe_rejects_an_unknown_venue_def
  observe_of_a_dead_venue_is_unavailable_def
  observe_at_the_watch_cap_is_refused_typedly_def
  requires_signing_outcome_is_not_watched_def
  expired_watches_are_evicted_unpolled_def
  expiry_frees_room_at_the_cap_def
  grace_derives_from_expiry_and_caps_at_a_day_def
  the_builder_keeps_an_explicit_grace_while_clamping_the_entry_cap_def

definition polling_tests :: "registry_test list" where
  "polling_tests =
    [poll_reports_the_first_status_then_dedupes_repeats,
     poll_reports_each_transition_and_prunes_on_terminal,
     poll_failure_keeps_the_watch_for_the_next_cadence,
     watch_cap_refuses_the_overflow_and_never_drops_live_watches,
     a_dead_venue_rides_out_without_refreshing_the_deadline,
     an_errored_poll_rides_out_without_refreshing_the_deadline,
     every_lifecycle_state_lowers_onto_the_status_body]"

lemmas polling_test_defs =
  polling_tests_def
  poll_reports_the_first_status_then_dedupes_repeats_def
  poll_reports_each_transition_and_prunes_on_terminal_def
  poll_failure_keeps_the_watch_for_the_next_cadence_def
  watch_cap_refuses_the_overflow_and_never_drops_live_watches_def
  a_dead_venue_rides_out_without_refreshing_the_deadline_def
  an_errored_poll_rides_out_without_refreshing_the_deadline_def
  every_lifecycle_state_lowers_onto_the_status_body_def

lemma quota_tests_pass: "steady w \<Longrightarrow> list_all (\<lambda>test. test (fresh w)) quota_tests"
  by (simp add: quota_test_defs replay)

lemma install_tests_pass: "steady w \<Longrightarrow> list_all (\<lambda>test. test (fresh w)) install_tests"
  by (simp add: install_test_defs replay)

lemma watch_tests_pass: "steady w \<Longrightarrow> list_all (\<lambda>test. test (fresh w)) watch_tests"
  by (simp add: watch_test_defs replay)

lemma polling_tests_pass: "steady w \<Longrightarrow> list_all (\<lambda>test. test (fresh w)) polling_tests"
  by (simp add: polling_test_defs replay)

end
