(* ===== verification/Body_Codec.thy ===== *)
theory Body_Codec imports Borsh_Layout
begin

text \<open>
  The versioned intent body: \<^verbatim>\<open>videre-sdk/src/body.rs\<close> (the error and its fold onto the
  wire) and \<^verbatim>\<open>videre-macros/src/intent_body.rs\<close> (the derive). The derive is modelled in two
  steps, as it runs: \<open>expand\<close> checks the declared enum and emits one arm per version, and
  \<open>IntentBody_to_bytes\<close> and \<open>IntentBody_from_bytes\<close> are the functions the arms make up. A
  value of the enum is the name of its variant with the payload; the payload types are
  serialised by borsh, so \<open>ser\<close> and \<open>de\<close> give, for each type, the codec of that type.
\<close>

section \<open>The codec's error\<close>

datatype BodyError =
    BodyEmpty
  | BodyUnknownVersion u8
  | BodyMalformed u8 string
  | BodyEncode u8 string

fun body_error_message :: "BodyError \<Rightarrow> string" where
  "body_error_message BodyEmpty = ''empty body: missing the version tag''"
| "body_error_message (BodyUnknownVersion version) =
     ''unknown body version '' @ show_nat (unat version)"
| "body_error_message (BodyMalformed version why) =
     ''malformed version '' @ show_nat (unat version) @ '' payload: '' @ why"
| "body_error_message (BodyEncode version why) =
     ''version '' @ show_nat (unat version) @ '' payload failed to encode: '' @ why"

fun VenueError_from_BodyError :: "BodyError \<Rightarrow> VenueError" where
  "VenueError_from_BodyError (BodyEncode version why) =
     Unavailable (body_error_message (BodyEncode version why))"
| "VenueError_from_BodyError err = InvalidBody (body_error_message err)"

section \<open>The declaration the derive is applied to\<close>

datatype 'ty Fields = FieldsUnit | FieldsNamed "'ty list" | FieldsUnnamed "'ty list"

record 'ty Variant =
  v_ident :: string
  v_discriminant :: "nat option"
  v_fields :: "'ty Fields"

datatype 'ty Data = DataEnum "'ty Variant list" | DataStruct | DataUnion

record 'ty DeriveInput =
  di_generics :: "string list"
  di_data :: "'ty Data"

datatype DeriveError =
    GenericEnum
  | NotAnEnum
  | NoVersions
  | TooManyVersions
  | ExplicitDiscriminant string
  | NotANewtype string

text \<open>One emitted arm: the variant, its one-byte tag and its payload type.\<close>

record 'ty Arm =
  arm_ident :: string
  arm_tag :: u8
  arm_payload :: 'ty

fun expand_arms :: "nat \<Rightarrow> 'ty Variant list \<Rightarrow> ('ty Arm list, DeriveError) result" where
  "expand_arms index [] = Ok []"
| "expand_arms index (v # vs) =
     (if v_discriminant v \<noteq> None then Err (ExplicitDiscriminant (v_ident v))
      else case v_fields v of
          FieldsUnnamed [ty] \<Rightarrow>
            map_ok (\<lambda>arms. \<lparr>arm_ident = v_ident v, arm_tag = of_nat index, arm_payload = ty\<rparr> # arms)
              (expand_arms (Suc index) vs)
        | _ \<Rightarrow> Err (NotANewtype (v_ident v)))"

definition expand_derive :: "'ty DeriveInput \<Rightarrow> ('ty Arm list, DeriveError) result" where
  "expand_derive i =
     (if di_generics i \<noteq> [] then Err GenericEnum
      else case di_data i of
          DataEnum variants \<Rightarrow>
            if variants = [] then Err NoVersions
            else if 255 + 1 < length variants then Err TooManyVersions
            else expand_arms 0 variants
        | _ \<Rightarrow> Err NotAnEnum)"

section \<open>The emitted functions\<close>

record 'p Body =
  body_version :: string
  body_payload :: 'p

definition IntentBody_to_bytes ::
  "('ty \<Rightarrow> 'p ser) \<Rightarrow> 'ty Arm list \<Rightarrow> 'p Body \<Rightarrow> (bytes, BodyError) result option" where
  "IntentBody_to_bytes ser arms b =
     map_option (\<lambda>a. map_ok (\<lambda>out. arm_tag a # out)
         (map_err (BodyEncode (arm_tag a)) (ser (arm_payload a) (body_payload b))))
       (find (\<lambda>a. arm_ident a = body_version b) arms)"

fun IntentBody_from_bytes ::
  "('ty \<Rightarrow> 'p de) \<Rightarrow> 'ty Arm list \<Rightarrow> bytes \<Rightarrow> ('p Body, BodyError) result" where
  "IntentBody_from_bytes de arms [] = Err BodyEmpty"
| "IntentBody_from_bytes de arms (version # payload) =
     (case find (\<lambda>a. arm_tag a = version) arms of
        Some a \<Rightarrow> map_ok (\<lambda>p. \<lparr>body_version = arm_ident a, body_payload = p\<rparr>)
                   (map_err (BodyMalformed (arm_tag a)) (de (arm_payload a) payload))
      | None \<Rightarrow> Err (BodyUnknownVersion version))"

section \<open>What the derive emits\<close>

lemma map_ok_Ok_iff: "map_ok f r = Ok y \<longleftrightarrow> (\<exists>x. r = Ok x \<and> f x = y)"
  by (cases r) auto

lemma expand_arms_Ok:
  assumes "expand_arms index vs = Ok arms"
  shows "map arm_ident arms = map v_ident vs
    \<and> map arm_tag arms = map of_nat [index ..< index + length vs]"
  using assms
proof (induction index vs arbitrary: arms rule: expand_arms.induct)
  case (2 index v vs)
  then obtain ty rest where v: "v_discriminant v = None" "v_fields v = FieldsUnnamed [ty]"
    and rest: "expand_arms (Suc index) vs = Ok rest"
    and arms: "arms = \<lparr>arm_ident = v_ident v, arm_tag = of_nat index, arm_payload = ty\<rparr> # rest"
    by (auto simp: map_ok_Ok_iff split: if_splits Fields.splits list.splits)
  have "map arm_ident rest = map v_ident vs
      \<and> map arm_tag rest = map of_nat [Suc index ..< Suc index + length vs]"
    using 2 v rest by simp
  moreover have "[index ..< index + length (v # vs)] = index # [Suc index ..< Suc index + length vs]"
    using upt_conv_Cons [of index "index + length (v # vs)"] by simp
  ultimately show ?case
    unfolding arms by (simp del: upt.simps)
qed simp

lemma expand_arms_append:
  assumes "expand_arms index (vs @ ws) = Ok arms"
  shows "\<exists>more. expand_arms index vs = Ok (take (length vs) arms)
     \<and> arms = take (length vs) arms @ more"
  using assms
proof (induction index vs arbitrary: arms rule: expand_arms.induct)
  case (2 index v vs)
  then obtain ty rest where v: "v_discriminant v = None" "v_fields v = FieldsUnnamed [ty]"
    and rest: "expand_arms (Suc index) (vs @ ws) = Ok rest"
    and arms: "arms = \<lparr>arm_ident = v_ident v, arm_tag = of_nat index, arm_payload = ty\<rparr> # rest"
    by (auto simp: map_ok_Ok_iff split: if_splits Fields.splits list.splits)
  then show ?case using 2 by auto
qed (simp add: append_take_drop_id)

lemma of_nat_u8_inj: "i < 256 \<Longrightarrow> j < 256 \<Longrightarrow> of_nat i = (of_nat j :: u8) \<Longrightarrow> i = j"
  by (metis mod_less unat_of_nat_mod_256)

lemma expand_derive_Ok:
  assumes "expand_derive i = Ok arms"
  obtains vs where "di_data i = DataEnum vs" "expand_arms 0 vs = Ok arms" "length vs \<le> 256"
    "di_generics i = []" "vs \<noteq> []"
  using assms by (auto simp: expand_derive_def split: if_splits Data.splits)

lemma expand_tags_distinct:
  assumes "expand_arms 0 vs = Ok arms" and "length vs \<le> 256"
  shows "distinct (map arm_tag arms)"
proof -
  have "inj_on (of_nat :: nat \<Rightarrow> u8) (set [0 ..< length vs])"
    using assms(2) by (intro inj_onI of_nat_u8_inj) auto
  then show ?thesis
    using expand_arms_Ok [OF assms(1)] by (simp add: distinct_map)
qed

lemma find_key_unique:
  "distinct (map f xs) \<Longrightarrow> x \<in> set xs \<Longrightarrow> find (\<lambda>y. f y = f x) xs = Some x"
  by (induction xs) (auto simp: image_iff)

lemma find_SomeD: "find P xs = Some x \<Longrightarrow> x \<in> set xs \<and> P x"
  by (induction xs) (auto split: if_splits)

text \<open>Which bytes the emitted functions relate to which body, arm by arm.\<close>

lemma from_bytes_eq_Ok:
  assumes "distinct (map arm_tag arms)"
  shows "IntentBody_from_bytes de arms bs = Ok b \<longleftrightarrow>
      (\<exists>a\<in>set arms. \<exists>p. bs = arm_tag a # p \<and> arm_ident a = body_version b
         \<and> de (arm_payload a) p = Ok (body_payload b))"
proof
  assume "IntentBody_from_bytes de arms bs = Ok b"
  then show "\<exists>a\<in>set arms. \<exists>p. bs = arm_tag a # p \<and> arm_ident a = body_version b
       \<and> de (arm_payload a) p = Ok (body_payload b)"
    by (cases bs) (auto simp: map_ok_Ok_iff split: option.splits dest!: find_SomeD)
next
  assume "\<exists>a\<in>set arms. \<exists>p. bs = arm_tag a # p \<and> arm_ident a = body_version b
       \<and> de (arm_payload a) p = Ok (body_payload b)"
  then show "IntentBody_from_bytes de arms bs = Ok b"
    using find_key_unique [OF assms] by (auto simp: map_ok_Ok_iff)
qed

lemma to_bytes_eq_Ok:
  assumes "distinct (map arm_ident arms)"
  shows "IntentBody_to_bytes ser arms b = Some (Ok bs) \<longleftrightarrow>
      (\<exists>a\<in>set arms. \<exists>p. bs = arm_tag a # p \<and> arm_ident a = body_version b
         \<and> ser (arm_payload a) (body_payload b) = Ok p)"
proof
  assume "IntentBody_to_bytes ser arms b = Some (Ok bs)"
  then show "\<exists>a\<in>set arms. \<exists>p. bs = arm_tag a # p \<and> arm_ident a = body_version b
       \<and> ser (arm_payload a) (body_payload b) = Ok p"
    by (auto simp: IntentBody_to_bytes_def map_ok_Ok_iff dest!: find_SomeD)
next
  assume "\<exists>a\<in>set arms. \<exists>p. bs = arm_tag a # p \<and> arm_ident a = body_version b
       \<and> ser (arm_payload a) (body_payload b) = Ok p"
  then obtain a p where a: "a \<in> set arms" "bs = arm_tag a # p" "arm_ident a = body_version b"
    "ser (arm_payload a) (body_payload b) = Ok p" by blast
  then have "find (\<lambda>y. arm_ident y = body_version b) arms = Some a"
    using find_key_unique [OF assms a(1)] by simp
  with a show "IntentBody_to_bytes ser arms b = Some (Ok bs)"
    by (simp add: IntentBody_to_bytes_def)
qed

lemma arm_tag_nth:
  assumes "expand_arms 0 vs = Ok arms" "k < length arms"
  shows "arm_tag (arms ! k) = of_nat k"
proof -
  have tags: "map arm_tag arms = map of_nat [0 ..< length vs]"
    using expand_arms_Ok [OF assms(1)] by simp
  then have "length arms = length vs"
    by (metis length_map length_upt minus_nat.diff_0)
  then have "map arm_tag arms ! k = of_nat k"
    unfolding tags using assms(2) by simp
  then show ?thesis using assms(2) by simp
qed

text \<open>
  C17: the derived codec is the wire form. For every declaration the derive accepts, with a
  lawful codec for each payload type, decoding accepts exactly the bytes some body encodes
  to, each body has one encoding, and its first byte is the declaration index of its
  version.
\<close>

theorem derived_body_round_trips:
  assumes "expand_derive i = Ok arms" and "distinct (map arm_ident arms)"
    and "\<And>ty. borsh_codec (ser ty) (de ty)"
  shows "(IntentBody_from_bytes de arms bs = Ok b \<longleftrightarrow> IntentBody_to_bytes ser arms b = Some (Ok bs))
     \<and> (\<forall>k<length arms. IntentBody_to_bytes ser arms b = Some (Ok bs) \<longrightarrow>
          arm_ident (arms ! k) = body_version b \<longrightarrow> (\<exists>p. bs = of_nat k # p))"
proof -
  obtain vs where vs: "expand_arms 0 vs = Ok arms" "length vs \<le> 256"
    using expand_derive_Ok [OF assms(1)] by blast
  note enc = to_bytes_eq_Ok [OF assms(2)] and dec = from_bytes_eq_Ok [OF expand_tags_distinct [OF vs]]
  have "de ty p = Ok x \<longleftrightarrow> ser ty x = Ok p" for ty p x
    by (rule borsh_codec.de_iff_ser [OF assms(3)])
  moreover have "\<exists>p. bs = of_nat k # p"
    if k: "k < length arms" and e: "IntentBody_to_bytes ser arms b = Some (Ok bs)"
      and v: "arm_ident (arms ! k) = body_version b" for k
  proof -
    obtain a p where a: "a \<in> set arms" "bs = arm_tag a # p" "arm_ident a = body_version b"
      using e enc by blast
    then have "a = arms ! k"
      using assms(2) k v by (metis distinct_map inj_onD nth_mem)
    then show ?thesis using a arm_tag_nth [OF vs(1) k] by simp
  qed
  ultimately show ?thesis
    unfolding dec enc by auto
qed

text \<open>
  C35: appending versions keeps every published body readable. When both the old and the
  extended declaration are accepted, whatever the old decoder reads the new one reads as
  the same body, and the old encoder's bytes are the new encoder's.
\<close>

theorem appended_versions_keep_old_bodies:
  assumes "expand_derive \<lparr>di_generics = [], di_data = DataEnum vs\<rparr> = Ok arms"
    and "expand_derive \<lparr>di_generics = [], di_data = DataEnum (vs @ ws)\<rparr> = Ok arms'"
    and "IntentBody_from_bytes de arms bs = Ok b"
  shows "IntentBody_from_bytes de arms' bs = Ok b
     \<and> (\<forall>ser out. IntentBody_to_bytes ser arms b = Some out \<longrightarrow> IntentBody_to_bytes ser arms' b = Some out)"
proof -
  have e: "expand_arms 0 vs = Ok arms" "expand_arms 0 (vs @ ws) = Ok arms'"
    using assms(1,2) by (auto simp: expand_derive_def split: if_splits)
  then obtain more where arms': "arms' = arms @ more"
    using expand_arms_append [OF e(2)] by auto
  have app: "find P (xs @ ys) = (case find P xs of Some x \<Rightarrow> Some x | None \<Rightarrow> find P ys)"
    for P :: "'a Arm \<Rightarrow> bool" and xs ys
    by (induction xs) auto
  show ?thesis
    using assms(3)
    by (cases bs) (auto simp: arms' app IntentBody_to_bytes_def split: option.splits)
qed

section \<open>A two-version schema\<close>

definition version_of :: "string \<Rightarrow> string Variant" where
  "version_of name = \<lparr>v_ident = name, v_discriminant = None, v_fields = FieldsUnnamed [''u64'']\<rparr>"

definition v1_arms :: "string Arm list" where
  "v1_arms = [\<lparr>arm_ident = ''V1'', arm_tag = 0, arm_payload = ''u64''\<rparr>]"

definition v2_arms :: "string Arm list" where
  "v2_arms = v1_arms @ [\<lparr>arm_ident = ''V2'', arm_tag = 1, arm_payload = ''u64''\<rparr>]"

lemma expand_versions:
  "expand_derive \<lparr>di_generics = [], di_data = DataEnum [version_of ''V1'']\<rparr> = Ok v1_arms"
  "expand_derive \<lparr>di_generics = [], di_data = DataEnum ([version_of ''V1''] @ [version_of ''V2''])\<rparr> =
     Ok v2_arms"
  by (simp_all add: expand_derive_def version_of_def v1_arms_def v2_arms_def)

lemma u64_codec: "borsh_codec put_u64 (from_slice get_u64)"
  by (rule wire_format.borsh [OF wire_format_u64])

lemma v2_bytes:
  "IntentBody_to_bytes (\<lambda>_. put_u64) v2_arms \<lparr>body_version = ''V2'', body_payload = 5\<rparr> =
     Some (Ok [1, 5, 0, 0, 0, 0, 0, 0, 0])"
  by (simp add: IntentBody_to_bytes_def v2_arms_def v1_arms_def put_u64_def put_conv_def put_int_def)

theorem derived_body_round_trips_witness:
  "IntentBody_from_bytes (\<lambda>_. from_slice get_u64) v2_arms [1, 5, 0, 0, 0, 0, 0, 0, 0] =
     Ok \<lparr>body_version = ''V2'', body_payload = 5\<rparr>"
proof -
  have "distinct (map arm_ident v2_arms)"
    by (simp add: v2_arms_def v1_arms_def)
  from derived_body_round_trips [OF expand_versions(2) this u64_codec] v2_bytes
  show ?thesis by blast
qed

theorem appended_versions_keep_old_bodies_witness:
  "IntentBody_from_bytes (\<lambda>_. from_slice get_u64) v2_arms [0, 7, 0, 0, 0, 0, 0, 0, 0] =
     Ok \<lparr>body_version = ''V1'', body_payload = 7\<rparr>"
proof -
  have "put_u64 7 = Ok [7, 0, 0, 0, 0, 0, 0, 0]"
    by (simp add: put_u64_def put_conv_def put_int_def)
  then have "from_slice get_u64 [7, 0, 0, 0, 0, 0, 0, 0] = Ok 7"
    by (rule borsh_codec.de_ser [OF u64_codec])
  then have "IntentBody_from_bytes (\<lambda>_. from_slice get_u64) v1_arms [0, 7, 0, 0, 0, 0, 0, 0, 0] =
     Ok \<lparr>body_version = ''V1'', body_payload = 7\<rparr>"
    by (simp add: v1_arms_def)
  from appended_versions_keep_old_bodies [OF expand_versions this] show ?thesis ..
qed

end
