(* ===== verification/Sdk_Faults.thy ===== *)
theory Sdk_Faults imports Body_Codec
begin

text \<open>
  \<^verbatim>\<open>videre-sdk/src/faults.rs\<close>: the failure vocabularies an adapter touches and the folds
  between them, with the client error of \<^verbatim>\<open>videre-sdk/src/client.rs\<close>. The wire fault is the
  host's WIT variant. \<^verbatim>\<open>host::Fault\<close> and \<^verbatim>\<open>FetchError\<close> belong to the runtime's SDK and are
  open to new cases, which \<open>HFuture\<close> and \<open>FetchElse\<close> stand for; how the runtime renders
  one of their values is an argument \<open>display\<close>.
\<close>

section \<open>The vocabularies\<close>

datatype VenueFault =
    VUnknownVenue
  | VInvalidBody string
  | VUnsupported
  | VDenied string
  | VRateLimited "u64 option"
  | VUnavailable string
  | VTimeout
  | VInvalidReceipt
  | VReceiptMismatch

fun venue_fault_message :: "VenueFault \<Rightarrow> string" where
  "venue_fault_message VUnknownVenue = ''unknown venue''"
| "venue_fault_message (VInvalidBody s) = ''invalid body: '' @ s"
| "venue_fault_message VUnsupported = ''unsupported''"
| "venue_fault_message (VDenied s) = ''denied: '' @ s"
| "venue_fault_message (VRateLimited retry) =
     ''rate limited'' @ (case retry of None \<Rightarrow> []
        | Some ms \<Rightarrow> '', retry after '' @ show_nat (unat ms) @ '' ms'')"
| "venue_fault_message (VUnavailable s) = ''unavailable: '' @ s"
| "venue_fault_message VTimeout = ''timeout''"
| "venue_fault_message VInvalidReceipt = ''invalid receipt''"
| "venue_fault_message VReceiptMismatch = ''receipt mismatch''"

datatype WireFault =
    FUnsupported string
  | FUnavailable string
  | FDenied string
  | FRateLimited
  | FTimeout
  | FInvalidInput string
  | FInternal string

datatype 'o HostFault =
    HUnsupported string
  | HUnavailable string
  | HDenied string
  | HRateLimited
  | HTimeout
  | HInvalidInput string
  | HInternal string
  | HFuture 'o

datatype 'o FetchError = FetchDenied | FetchTimeout 'o | FetchElse 'o

datatype ClientError = ClientBody BodyError | ClientVenue VenueFault

section \<open>The folds\<close>

fun VenueFault_from_VenueError :: "VenueError \<Rightarrow> VenueFault" where
  "VenueFault_from_VenueError UnknownVenue = VUnknownVenue"
| "VenueFault_from_VenueError (InvalidBody s) = VInvalidBody s"
| "VenueFault_from_VenueError Unsupported = VUnsupported"
| "VenueFault_from_VenueError (Denied s) = VDenied s"
| "VenueFault_from_VenueError (RateLimited rl) = VRateLimited (retry_after_ms rl)"
| "VenueFault_from_VenueError (Unavailable s) = VUnavailable s"
| "VenueFault_from_VenueError Timeout = VTimeout"
| "VenueFault_from_VenueError InvalidReceipt = VInvalidReceipt"
| "VenueFault_from_VenueError ReceiptMismatch = VReceiptMismatch"

fun fault_into_sdk :: "WireFault \<Rightarrow> 'o HostFault" where
  "fault_into_sdk (FUnsupported s) = HUnsupported s"
| "fault_into_sdk (FUnavailable s) = HUnavailable s"
| "fault_into_sdk (FDenied s) = HDenied s"
| "fault_into_sdk FRateLimited = HRateLimited"
| "fault_into_sdk FTimeout = HTimeout"
| "fault_into_sdk (FInvalidInput s) = HInvalidInput s"
| "fault_into_sdk (FInternal s) = HInternal s"

fun WireFault_from_HostFault :: "('o HostFault \<Rightarrow> string) \<Rightarrow> 'o HostFault \<Rightarrow> WireFault" where
  "WireFault_from_HostFault display (HUnsupported s) = FUnsupported s"
| "WireFault_from_HostFault display (HUnavailable s) = FUnavailable s"
| "WireFault_from_HostFault display (HDenied s) = FDenied s"
| "WireFault_from_HostFault display HRateLimited = FRateLimited"
| "WireFault_from_HostFault display HTimeout = FTimeout"
| "WireFault_from_HostFault display (HInvalidInput s) = FInvalidInput s"
| "WireFault_from_HostFault display (HInternal s) = FInternal s"
| "WireFault_from_HostFault display other = FInternal (display other)"

fun VenueError_from_HostFault :: "('o HostFault \<Rightarrow> string) \<Rightarrow> 'o HostFault \<Rightarrow> VenueError" where
  "VenueError_from_HostFault display (HDenied s) = Denied s"
| "VenueError_from_HostFault display (HUnsupported _) = Unsupported"
| "VenueError_from_HostFault display HRateLimited = RateLimited \<lparr>retry_after_ms = None\<rparr>"
| "VenueError_from_HostFault display HTimeout = Timeout"
| "VenueError_from_HostFault display (HUnavailable s) = Unavailable s"
| "VenueError_from_HostFault display other = Unavailable (display other)"

fun HostFault_from_ClientError :: "ClientError \<Rightarrow> 'o HostFault" where
  "HostFault_from_ClientError (ClientBody body) = HInvalidInput (body_error_message body)"
| "HostFault_from_ClientError (ClientVenue fault) =
     (case fault of
        VUnknownVenue \<Rightarrow> HInvalidInput (venue_fault_message fault)
      | VInvalidBody s \<Rightarrow> HInvalidInput s
      | VUnsupported \<Rightarrow> HUnsupported (venue_fault_message fault)
      | VDenied s \<Rightarrow> HDenied s
      | VRateLimited _ \<Rightarrow> HRateLimited
      | VUnavailable s \<Rightarrow> HUnavailable s
      | VTimeout \<Rightarrow> HTimeout
      | VInvalidReceipt \<Rightarrow> HInvalidInput (venue_fault_message fault)
      | VReceiptMismatch \<Rightarrow> HInternal (venue_fault_message fault))"

fun VenueError_from_FetchError :: "('o FetchError \<Rightarrow> string) \<Rightarrow> 'o FetchError \<Rightarrow> VenueError" where
  "VenueError_from_FetchError display FetchDenied = Denied (display FetchDenied)"
| "VenueError_from_FetchError display (FetchTimeout _) = Timeout"
| "VenueError_from_FetchError display err = Unavailable (display err)"

section \<open>What the folds keep\<close>

text \<open>The wire fault crosses into the SDK and back unchanged.\<close>

lemma wire_fault_round_trips: "WireFault_from_HostFault display (fault_into_sdk f) = f"
  by (cases f) simp_all

text \<open>The client mirror loses nothing: the wire error can be read back from it.\<close>

fun VenueError_of_VenueFault :: "VenueFault \<Rightarrow> VenueError" where
  "VenueError_of_VenueFault VUnknownVenue = UnknownVenue"
| "VenueError_of_VenueFault (VInvalidBody s) = InvalidBody s"
| "VenueError_of_VenueFault VUnsupported = Unsupported"
| "VenueError_of_VenueFault (VDenied s) = Denied s"
| "VenueError_of_VenueFault (VRateLimited ms) = RateLimited \<lparr>retry_after_ms = ms\<rparr>"
| "VenueError_of_VenueFault (VUnavailable s) = Unavailable s"
| "VenueError_of_VenueFault VTimeout = Timeout"
| "VenueError_of_VenueFault VInvalidReceipt = InvalidReceipt"
| "VenueError_of_VenueFault VReceiptMismatch = ReceiptMismatch"

lemma venue_fault_round_trips [simp]:
  "VenueError_of_VenueFault (VenueFault_from_VenueError e) = e"
  "VenueFault_from_VenueError (VenueError_of_VenueFault f) = f"
  by (cases e; simp) (cases f; simp)

text \<open>
  Whether a failure may be retried, in each vocabulary: throttled, timed out or
  unavailable.
\<close>

fun transient_error :: "VenueError \<Rightarrow> bool" where
  "transient_error (RateLimited _) = True"
| "transient_error Timeout = True"
| "transient_error (Unavailable _) = True"
| "transient_error _ = False"

fun transient_fault :: "'o HostFault \<Rightarrow> bool" where
  "transient_fault HRateLimited = True"
| "transient_fault HTimeout = True"
| "transient_fault (HUnavailable _) = True"
| "transient_fault _ = False"

text \<open>
  No fold on the way of a venue's error to a keeper and out again turns a failure worth
  retrying into one that is not, or the reverse: the owned mirror is a bijection that
  renders exactly as the host's log does, the fold of a client failure into the SDK
  fault preserves which failures are transient, and the fold back into a wire error keeps
  the transient ones transient and denials denied.
\<close>

lemma folds_keep_retryability:
  shows "VenueError_of_VenueFault (VenueFault_from_VenueError e) = e
     \<and> venue_fault_message (VenueFault_from_VenueError e) = venue_error_message e
     \<and> (transient_fault (HostFault_from_ClientError
            (ClientVenue (VenueFault_from_VenueError e)) :: 'o HostFault) \<longleftrightarrow> transient_error e)
     \<and> \<not> transient_fault (HostFault_from_ClientError (ClientBody b) :: 'o HostFault)
     \<and> (let back = VenueError_from_HostFault display
             (HostFault_from_ClientError (ClientVenue (VenueFault_from_VenueError e)) :: 'o HostFault)
        in (transient_error e \<longleftrightarrow> transient_error e \<and> transient_error back)
           \<and> ((\<exists>s. back = Denied s) \<longleftrightarrow> (\<exists>s. e = Denied s)))"
  by (cases e) (auto split: option.split)

end
