(* ===== verification/Conformance.thy ===== *)
theory Conformance imports Body_Codec Value_Flow Sdk_Faults
begin

text \<open>
  The conformance kit \<^verbatim>\<open>videre-test\<close>: the verdict (\<^verbatim>\<open>report.rs\<close>), the fixture files
  (\<^verbatim>\<open>fixture.rs\<close>), the codec vectors (\<^verbatim>\<open>codec.rs\<close>), the uint vectors (\<^verbatim>\<open>uint.rs\<close>) and the
  header goldens (\<^verbatim>\<open>header.rs\<close>). The JSON reader and writer, the file system, the hex
  encoder and the \<^verbatim>\<open>Display\<close> and \<^verbatim>\<open>Debug\<close> of foreign types are arguments. A panic is
  \<^term>\<open>None\<close>. The \<^verbatim>\<open>&mut\<close> a push returns is the last entry of the new set.
\<close>

section \<open>The verdict\<close>

record Violation =
  vi_vector :: string
  vi_detail :: string

record ConformanceReport =
  violations :: "Violation list"

definition violation_message :: "Violation \<Rightarrow> string" where
  "violation_message v = vi_vector v @ '': '' @ vi_detail v"

definition report_message :: "ConformanceReport \<Rightarrow> string" where
  "report_message r =
     show_nat (length (violations r)) @ '' conformance violation(s):'' @ [CHR 0x0A]
     @ concat (map (\<lambda>v. ''  '' @ violation_message v @ [CHR 0x0A]) (violations r))"

definition settle :: "Violation list \<Rightarrow> (unit, ConformanceReport) result" where
  "settle vs = (if vs = [] then Ok () else Err \<lparr>violations = vs\<rparr>)"

section \<open>Fixture files\<close>

definition FORMAT_VERSION :: u32 where "FORMAT_VERSION = 1"

datatype FormatVersion = FormatVersion

definition FormatVersion_serialize :: "FormatVersion \<Rightarrow> u32" where
  "FormatVersion_serialize v = FORMAT_VERSION"

definition FormatVersion_deserialize :: "(u32, string) result \<Rightarrow> (FormatVersion, string) result" where
  "FormatVersion_deserialize parsed =
     and_then parsed (\<lambda>version.
       if version = FORMAT_VERSION then Ok FormatVersion
       else Err (''unknown fixture format version '' @ show_nat (unat version)
                   @ ''; this reader speaks '' @ show_nat (unat FORMAT_VERSION)))"

definition non_empty :: "('t list, string) result \<Rightarrow> ('t list, string) result" where
  "non_empty parsed =
     and_then parsed (\<lambda>entries.
       if entries = [] then Err ''a published fixture set is never empty'' else Ok entries)"

datatype FixtureError = FxRead string string | FxWrite string string | FxFormat string

fun fixture_error_message :: "FixtureError \<Rightarrow> string" where
  "fixture_error_message (FxRead path source) = ''failed to read '' @ path @ '': '' @ source"
| "fixture_error_message (FxWrite path source) = ''failed to write '' @ path @ '': '' @ source"
| "fixture_error_message (FxFormat why) = ''malformed fixture json: '' @ why"

text \<open>The JSON library for one fixture type, and the files by path.\<close>

record 't json_lib =
  to_string_pretty :: "'t \<Rightarrow> string"
  from_str :: "string \<Rightarrow> ('t, string) result"

type_synonym files = "string \<Rightarrow> (string, string) result"

definition to_json :: "'t json_lib \<Rightarrow> 't \<Rightarrow> string" where
  "to_json js v = to_string_pretty js v @ [CHR 0x0A]"

definition from_json :: "'t json_lib \<Rightarrow> string \<Rightarrow> ('t, FixtureError) result" where
  "from_json js json = map_err FxFormat (from_str js json)"

definition fixture_load :: "'t json_lib \<Rightarrow> files \<Rightarrow> string \<Rightarrow> ('t, FixtureError) result" where
  "fixture_load js fs path = and_then (map_err (FxRead path) (fs path)) (from_json js)"

definition fixture_write ::
  "'t json_lib \<Rightarrow> (string \<Rightarrow> string \<Rightarrow> 'w \<Rightarrow> (unit, string) result \<times> 'w)
    \<Rightarrow> string \<Rightarrow> 't \<Rightarrow> 'w \<Rightarrow> (unit, FixtureError) result \<times> 'w" where
  "fixture_write js write path v w =
     (case write path (to_json js v) w of (r, w') \<Rightarrow> (map_err (FxWrite path) r, w'))"

definition hex_serialize :: "(bytes \<Rightarrow> string) \<Rightarrow> bytes \<Rightarrow> string" where
  "hex_serialize hex_encode bs = hex_encode bs"

definition hex_deserialize ::
  "(string \<Rightarrow> (bytes, string) result) \<Rightarrow> (string, string) result \<Rightarrow> (bytes, string) result" where
  "hex_deserialize hex_decode parsed = and_then parsed hex_decode"

section \<open>Codec vectors\<close>

datatype Expectation =
    ExRoundTrip | ExEmpty | ExUnknownVersion (ex_version: u8) | ExMalformed (ex_version: u8)

fun expectation_message :: "Expectation \<Rightarrow> string" where
  "expectation_message ExRoundTrip = ''round-trip''"
| "expectation_message ExEmpty = ''empty''"
| "expectation_message (ExUnknownVersion version) = ''unknown-version '' @ show_nat (unat version)"
| "expectation_message (ExMalformed version) = ''malformed '' @ show_nat (unat version)"

record CodecVector =
  cv_name :: string
  cv_bytes :: bytes
  cv_expect :: Expectation
  cv_notes :: "string option"

record CodecVectors =
  cs_version :: FormatVersion
  cs_schema :: string
  cs_vectors :: "CodecVector list"

text \<open>The \<^verbatim>\<open>IntentBody\<close> trait: the two functions of a body type.\<close>

record 'b intent_body_impl =
  ib_to_bytes :: "'b \<Rightarrow> (bytes, BodyError) result"
  ib_from_bytes :: "bytes \<Rightarrow> ('b, BodyError) result"

definition CodecVectors_new :: "string \<Rightarrow> CodecVectors" where
  "CodecVectors_new schema = \<lparr>cs_version = FormatVersion, cs_schema = schema, cs_vectors = []\<rparr>"

definition push_vector :: "CodecVector \<Rightarrow> CodecVectors \<Rightarrow> CodecVectors" where
  "push_vector v s = s\<lparr>cs_vectors := cs_vectors s @ [v]\<rparr>"

definition push_round_trip ::
  "'b intent_body_impl \<Rightarrow> string \<Rightarrow> 'b \<Rightarrow> CodecVectors \<Rightarrow> (CodecVectors, BodyError) result" where
  "push_round_trip B name body s =
     map_ok (\<lambda>bs. push_vector \<lparr>cv_name = name, cv_bytes = bs, cv_expect = ExRoundTrip,
         cv_notes = None\<rparr> s) (ib_to_bytes B body)"

definition push_failure ::
  "string \<Rightarrow> bytes \<Rightarrow> Expectation \<Rightarrow> CodecVectors \<Rightarrow> CodecVectors option" where
  "push_failure name bs expect s =
     (if expect = ExRoundTrip then None
      else Some (push_vector \<lparr>cv_name = name, cv_bytes = bs, cv_expect = expect,
         cv_notes = None\<rparr> s))"

fun expectation_matches :: "Expectation \<Rightarrow> BodyError \<Rightarrow> bool" where
  "expectation_matches ExEmpty BodyEmpty = True"
| "expectation_matches (ExUnknownVersion version) (BodyUnknownVersion got) = (version = got)"
| "expectation_matches (ExMalformed version) (BodyMalformed got _) = (version = got)"
| "expectation_matches _ _ = False"

definition codec_vector_check ::
  "(bytes \<Rightarrow> string) \<Rightarrow> 'b intent_body_impl \<Rightarrow> CodecVector \<Rightarrow> (unit, string) result" where
  "codec_vector_check hex_encode B v =
     (case (cv_expect v, ib_from_bytes B (cv_bytes v)) of
        (ExRoundTrip, Ok body) \<Rightarrow>
          and_then (map_err (\<lambda>err. ''re-encode failed: '' @ body_error_message err) (ib_to_bytes B body))
            (\<lambda>reencoded. if reencoded = cv_bytes v then Ok ()
               else Err (''re-encoded bytes diverge from the published vector: published ''
                 @ hex_encode (cv_bytes v) @ '', re-encoded '' @ hex_encode reencoded))
      | (ExRoundTrip, Err err) \<Rightarrow>
          Err (''expected a round trip, decode failed: '' @ body_error_message err)
      | (expect, Ok _) \<Rightarrow> Err (''expected '' @ expectation_message expect @ '', decode succeeded'')
      | (expect, Err err) \<Rightarrow>
          if expectation_matches expect err then Ok ()
          else Err (''expected '' @ expectation_message expect @ '', got: '' @ body_error_message err))"

text \<open>The loop the codec and the uint check share: one violation per failing vector.\<close>

fun check_loop ::
  "('v \<Rightarrow> (unit, string) result) \<Rightarrow> ('v \<Rightarrow> string) \<Rightarrow> 'v list \<Rightarrow> Violation list \<Rightarrow> Violation list" where
  "check_loop check name [] vs = vs"
| "check_loop check name (vector # rest) vs =
     check_loop check name rest
       (case check vector of
          Err why \<Rightarrow> vs @ [\<lparr>vi_vector = name vector, vi_detail = why\<rparr>]
        | Ok _ \<Rightarrow> vs)"

definition codec_check ::
  "(bytes \<Rightarrow> string) \<Rightarrow> 'b intent_body_impl \<Rightarrow> CodecVectors \<Rightarrow> (unit, ConformanceReport) result" where
  "codec_check hex_encode B s =
     settle (check_loop (codec_vector_check hex_encode B) cv_name (cs_vectors s)
       (if cs_vectors s = []
        then [\<lparr>vi_vector = ''<set>'', vi_detail = ''published vector set is empty''\<rparr>] else []))"

definition codec_assert_conforms ::
  "(bytes \<Rightarrow> string) \<Rightarrow> 'b intent_body_impl \<Rightarrow> CodecVectors \<Rightarrow> unit option" where
  "codec_assert_conforms hex_encode B s =
     (case codec_check hex_encode B s of Ok _ \<Rightarrow> Some () | Err _ \<Rightarrow> None)"

section \<open>Uint vectors\<close>

datatype UintExpectation = UxValue string | UxReject

fun uint_expectation_message :: "UintExpectation \<Rightarrow> string" where
  "uint_expectation_message (UxValue v) = ''value '' @ v"
| "uint_expectation_message UxReject = ''reject''"

record UintVector =
  uv_name :: string
  uv_bytes :: bytes
  uv_expect :: UintExpectation
  uv_notes :: "string option"

record UintVectors =
  us_version :: FormatVersion
  us_vectors :: "UintVector list"

fun uint_vector_check ::
  "('v \<Rightarrow> string) \<Rightarrow> ('e \<Rightarrow> string) \<Rightarrow> (bytes \<Rightarrow> ('v, 'e) result) \<Rightarrow> UintVector
    \<Rightarrow> (unit, string) result" where
  "uint_vector_check show_v show_e decode v =
     (case (uv_expect v, decode (uv_bytes v)) of
        (UxValue expected, Ok got) \<Rightarrow>
          if show_v got = expected then Ok ()
          else Err (''expected value '' @ expected @ '', decoded '' @ show_v got)
      | (UxValue expected, Err err) \<Rightarrow>
          Err (''expected value '' @ expected @ '', decode failed: '' @ show_e err)
      | (UxReject, Ok got) \<Rightarrow> Err (''expected a rejection, decoded '' @ show_v got)
      | (UxReject, Err _) \<Rightarrow> Ok ())"

definition uint_check ::
  "('v \<Rightarrow> string) \<Rightarrow> ('e \<Rightarrow> string) \<Rightarrow> (bytes \<Rightarrow> ('v, 'e) result) \<Rightarrow> UintVectors
    \<Rightarrow> (unit, ConformanceReport) result" where
  "uint_check show_v show_e decode s =
     settle (check_loop (uint_vector_check show_v show_e decode) uv_name (us_vectors s)
       (if us_vectors s = []
        then [\<lparr>vi_vector = ''<set>'', vi_detail = ''published vector set is empty''\<rparr>] else []))"

definition uint_assert_conforms ::
  "('v \<Rightarrow> string) \<Rightarrow> ('e \<Rightarrow> string) \<Rightarrow> (bytes \<Rightarrow> ('v, 'e) result) \<Rightarrow> UintVectors \<Rightarrow> unit option" where
  "uint_assert_conforms show_v show_e decode s =
     (case uint_check show_v show_e decode s of Ok _ \<Rightarrow> Some () | Err _ \<Rightarrow> None)"

text \<open>The published set, as its regeneration builds it from the shipped encoder.\<close>

definition uint_entry :: "string \<Rightarrow> bytes \<Rightarrow> UintExpectation \<Rightarrow> string \<Rightarrow> UintVector" where
  "uint_entry name bs expect notes =
     \<lparr>uv_name = name, uv_bytes = bs, uv_expect = expect, uv_notes = Some notes\<rparr>"

definition uint_value :: "(u256 \<Rightarrow> bytes) \<Rightarrow> (u256 \<Rightarrow> string) \<Rightarrow> string \<Rightarrow> u256 \<Rightarrow> string \<Rightarrow> UintVector" where
  "uint_value trimmed show_u256 name integer notes =
     uint_entry name (encode_uint trimmed integer) (UxValue (show_u256 integer)) notes"

definition build_uint_vectors :: "(u256 \<Rightarrow> bytes) \<Rightarrow> (u256 \<Rightarrow> string) \<Rightarrow> UintVectors" where
  "build_uint_vectors trimmed show_u256 =
     \<lparr>us_version = FormatVersion,
      us_vectors =
       [uint_value trimmed show_u256 ''zero'' 0 ''zero is the empty list'',
        uint_value trimmed show_u256 ''one'' 1 ''one byte, no padding'',
        uint_value trimmed show_u256 ''byte-max'' 255 ''0xff alone is 255'',
        uint_value trimmed show_u256 ''two-byte-boundary'' 256
          ''256 is 0x0100: the minimal form keeps an interior zero'',
        uint_value trimmed show_u256 ''word-max'' (- 1) ''the largest EVM word: 32 0xff bytes'',
        uint_entry ''non-minimal-zero'' [0] UxReject ''zero is the empty list, never 0x00'',
        uint_entry ''non-minimal-one'' [0, 1] UxReject
          ''same integer as 0x01; a conforming decoder rejects the padding instead of normalising it'',
        uint_entry ''word-padded-zero'' (replicate 32 0) UxReject
          ''the ABI word form of zero; the canonical form is the empty list'',
        uint_entry ''word-padded-one'' (replicate 31 0 @ [1]) UxReject
          ''the ABI word form of one; a decoder must not exempt the word width from the minimality rule'',
        uint_entry ''overflow-33-bytes'' (1 # replicate 32 0) UxReject
          ''33 bytes cannot fit the 32-byte EVM word'']\<rparr>"

text \<open>The decoder that normalises padding away, which the published set must refuse.\<close>

definition tolerant :: "(bytes \<Rightarrow> u256) \<Rightarrow> bytes \<Rightarrow> (u256, string) result" where
  "tolerant from_be bs = (if 32 < length bs then Err ''too long'' else Ok (from_be bs))"

section \<open>Header goldens\<close>

datatype GoldenAsset = GNative | GErc20 (g_token: bytes)

datatype GoldenAuthScheme = GEip1271 | GEip712

record GoldenAssetAmount =
  ga_asset :: GoldenAsset
  ga_amount :: bytes

record GoldenSettlement =
  gs_chain :: u64

record GoldenHeader =
  gh_gives :: GoldenAssetAmount
  gh_wants :: GoldenAssetAmount
  gh_settlement :: GoldenSettlement
  gh_authorisation :: GoldenAuthScheme

record HeaderGolden =
  hg_name :: string
  hg_body :: bytes
  hg_header :: GoldenHeader
  hg_notes :: "string option"

record HeaderGoldens =
  hs_version :: FormatVersion
  hs_venue :: string
  hs_goldens :: "HeaderGolden list"

fun GoldenAsset_from :: "Asset \<Rightarrow> GoldenAsset" where
  "GoldenAsset_from Native = GNative"
| "GoldenAsset_from (AErc20 erc20) = GErc20 (token erc20)"

fun GoldenAuthScheme_from :: "AuthScheme \<Rightarrow> GoldenAuthScheme" where
  "GoldenAuthScheme_from Eip1271 = GEip1271"
| "GoldenAuthScheme_from Eip712 = GEip712"

definition GoldenSettlement_from :: "Settlement \<Rightarrow> GoldenSettlement" where
  "GoldenSettlement_from s = \<lparr>gs_chain = chain s\<rparr>"

definition GoldenAssetAmount_from :: "AssetAmount \<Rightarrow> GoldenAssetAmount" where
  "GoldenAssetAmount_from a = \<lparr>ga_asset = GoldenAsset_from (asset a), ga_amount = amount a\<rparr>"

definition GoldenHeader_from :: "IntentHeader \<Rightarrow> GoldenHeader" where
  "GoldenHeader_from h =
     \<lparr>gh_gives = GoldenAssetAmount_from (gives h), gh_wants = GoldenAssetAmount_from (wants h),
      gh_settlement = GoldenSettlement_from (settlement h),
      gh_authorisation = GoldenAuthScheme_from (authorisation h)\<rparr>"

definition HeaderGoldens_new :: "string \<Rightarrow> HeaderGoldens" where
  "HeaderGoldens_new venue = \<lparr>hs_version = FormatVersion, hs_venue = venue, hs_goldens = []\<rparr>"

text \<open>
  A derivation is a function of the body that may keep a state of its own (\<^verbatim>\<open>FnMut\<close>);
  \<open>into\<close> is the conversion of its header type.
\<close>

definition golden_record ::
  "('h \<Rightarrow> GoldenHeader) \<Rightarrow> string \<Rightarrow> bytes \<Rightarrow> (bytes \<Rightarrow> 's \<Rightarrow> ('h, 'e) result \<times> 's)
    \<Rightarrow> HeaderGoldens \<Rightarrow> 's \<Rightarrow> (HeaderGoldens, 'e) result \<times> 's" where
  "golden_record into name body derive s =
     try_bind (derive body) (\<lambda>header w.
       (Ok (s\<lparr>hs_goldens := hs_goldens s @ [\<lparr>hg_name = name, hg_body = body,
           hg_header = into header, hg_notes = None\<rparr>]\<rparr>), w))"

fun golden_loop ::
  "(GoldenHeader \<Rightarrow> string) \<Rightarrow> ('e \<Rightarrow> string) \<Rightarrow> ('h \<Rightarrow> GoldenHeader)
    \<Rightarrow> (bytes \<Rightarrow> 's \<Rightarrow> ('h, 'e) result \<times> 's) \<Rightarrow> HeaderGolden list \<Rightarrow> Violation list \<Rightarrow> 's
    \<Rightarrow> Violation list \<times> 's" where
  "golden_loop dbg dbg_e into derive [] vs w = (vs, w)"
| "golden_loop dbg dbg_e into derive (golden # rest) vs w =
     (case derive (hg_body golden) w of
        (Ok header, w') \<Rightarrow>
          golden_loop dbg dbg_e into derive rest
            (if into header \<noteq> hg_header golden
             then vs @ [\<lparr>vi_vector = hg_name golden,
                vi_detail = ''derived header diverges from the golden: expected ''
                  @ dbg (hg_header golden) @ '', derived '' @ dbg (into header)\<rparr>]
             else vs) w'
      | (Err err, w') \<Rightarrow>
          golden_loop dbg dbg_e into derive rest
            (vs @ [\<lparr>vi_vector = hg_name golden,
               vi_detail = ''derive-header failed: '' @ dbg_e err\<rparr>]) w')"

definition golden_check ::
  "(GoldenHeader \<Rightarrow> string) \<Rightarrow> ('e \<Rightarrow> string) \<Rightarrow> ('h \<Rightarrow> GoldenHeader)
    \<Rightarrow> (bytes \<Rightarrow> 's \<Rightarrow> ('h, 'e) result \<times> 's) \<Rightarrow> HeaderGoldens \<Rightarrow> 's
    \<Rightarrow> (unit, ConformanceReport) result \<times> 's" where
  "golden_check dbg dbg_e into derive s w =
     (case golden_loop dbg dbg_e into derive (hs_goldens s)
         (if hs_goldens s = []
          then [\<lparr>vi_vector = ''<set>'', vi_detail = ''published golden set is empty''\<rparr>] else []) w of
        (vs, w') \<Rightarrow> (settle vs, w'))"

definition golden_assert_conforms ::
  "(GoldenHeader \<Rightarrow> string) \<Rightarrow> ('e \<Rightarrow> string) \<Rightarrow> ('h \<Rightarrow> GoldenHeader)
    \<Rightarrow> (bytes \<Rightarrow> 's \<Rightarrow> ('h, 'e) result \<times> 's) \<Rightarrow> HeaderGoldens \<Rightarrow> 's \<Rightarrow> unit option \<times> 's" where
  "golden_assert_conforms dbg dbg_e into derive s w =
     (case golden_check dbg dbg_e into derive s w of
        (Ok _, w') \<Rightarrow> (Some (), w') | (Err _, w') \<Rightarrow> (None, w'))"

section \<open>What the checks find\<close>

lemma settle_eq_Ok [simp]: "settle vs = Ok () \<longleftrightarrow> vs = []"
  by (simp add: settle_def)

lemma settle_eq_Err [simp]: "settle vs = Err r \<longleftrightarrow> vs \<noteq> [] \<and> violations r = vs"
  by (cases r) (auto simp: settle_def)

lemma check_loop_names:
  "map vi_vector (check_loop check name vectors vs) =
     map vi_vector vs @ map name (filter (\<lambda>v. check v \<noteq> Ok ()) vectors)"
  by (induction check name vectors vs rule: check_loop.induct) (auto split: result.split)

text \<open>A header converts without loss, so equal goldens are equal headers.\<close>

lemma GoldenHeader_from_inj [simp]: "GoldenHeader_from h = GoldenHeader_from h' \<longleftrightarrow> h = h'"
proof
  have a: "GoldenAsset_from x = GoldenAsset_from y \<Longrightarrow> x = y" for x y
    by (cases x; cases y) auto
  have s: "GoldenAuthScheme_from x = GoldenAuthScheme_from y \<Longrightarrow> x = y" for x y
    by (cases x; cases y) auto
  have m: "GoldenAssetAmount_from x = GoldenAssetAmount_from y \<Longrightarrow> x = y" for x y
    by (cases x; cases y) (auto simp: GoldenAssetAmount_from_def intro: a)
  have t: "GoldenSettlement_from x = GoldenSettlement_from y \<Longrightarrow> x = y" for x y
    by (cases x; cases y) (auto simp: GoldenSettlement_from_def)
  assume "GoldenHeader_from h = GoldenHeader_from h'"
  then show "h = h'"
    by (cases h; cases h') (auto simp: GoldenHeader_from_def dest: a s m t)
qed simp

text \<open>A derivation without a state of its own is checked golden by golden.\<close>

definition pure_derive :: "(bytes \<Rightarrow> ('h, 'e) result) \<Rightarrow> bytes \<Rightarrow> 's \<Rightarrow> ('h, 'e) result \<times> 's" where
  "pure_derive f body w = (f body, w)"

lemma golden_loop_pure:
  "snd (golden_loop dbg dbg_e into (pure_derive f) goldens vs w) = w
   \<and> map vi_vector (fst (golden_loop dbg dbg_e into (pure_derive f) goldens vs w)) =
       map vi_vector vs
       @ map hg_name (filter (\<lambda>g. map_ok into (f (hg_body g)) \<noteq> Ok (hg_header g)) goldens)"
  by (induction goldens arbitrary: vs) (auto simp: pure_derive_def split: result.splits)

end
