(* ===== verification/Venue_Tests.thy ===== *)
theory Venue_Tests imports Registry_Tests Flaky_Venue Conformance
begin

text \<open>
  The unit tests of the two native venues (\<^verbatim>\<open>echo-venue/src/lib.rs\<close> and
  \<^verbatim>\<open>flaky-venue/src/lib.rs\<close>) replayed on the model: echo registered, routed to and held to
  a hand-written header golden, and the self-killing fixture through poison, death, healing
  and sweep. The test of the echo encoder against the published JSON file is not replayed;
  the encoder is compared with the platform's in \<open>Echo_Venue\<close>.
\<close>

section \<open>Set-ups\<close>

text \<open>A process before a test: nothing called yet.\<close>

definition unused :: "'x world \<Rightarrow> 'x world" where
  "unused w = w\<lparr>reads := 0, deaths := (\<lambda>_. None), allocs := 0\<rparr>"

text \<open>Something a test does to the process while the registry holds it.\<close>

definition meanwhile :: "('x world \<Rightarrow> 'x world) \<Rightarrow> 'x VenueRegistry \<Rightarrow> 'x VenueRegistry" where
  "meanwhile f r = r\<lparr>env := f (env r)\<rparr>"

definition default_registry :: "'x world \<Rightarrow> 'x VenueRegistry" where
  "default_registry w = build (VenueRegistryBuilder_new SubmitQuota_default) w"

section \<open>The echo venue\<close>

definition the_venue_declares_body_version_one :: bool where
  "the_venue_declares_body_version_one = (echo_body_versions = {1})"

definition submit_echoes_the_body_back_as_the_receipt :: "'x world \<Rightarrow> bool" where
  "submit_echoes_the_body_back_as_the_receipt w =
     expect (inv_submit EchoVenue (str_bytes ''body'') w)
       (\<lambda>outcome _. outcome = Accepted (str_bytes ''body''))"

definition a_receipt_reports_fulfilled_on_the_first_poll :: "'x world \<Rightarrow> bool" where
  "a_receipt_reports_fulfilled_on_the_first_poll w =
     expect (inv_status EchoVenue (str_bytes ''receipt'') w) (\<lambda>st w.
     expect (inv_cancel EchoVenue (str_bytes ''receipt'') w) (\<lambda>_ _. st = Fulfilled))"

definition a_registered_echo_venue_is_routable :: "'x world \<Rightarrow> bool" where
  "a_registered_echo_venue_is_routable w =
     (let venue = VenueId ''echo-venue'' in
      expect (echo_register venue (default_registry w)) (\<lambda>live r0.
      expect (submit ''mod-a'' venue (str_bytes ''body'') r0) (\<lambda>outcome r.
        is_alive (env r0) live
        \<and> outcome = Accepted (str_bytes ''body'')
        \<and> body_versions r venue = Some echo_body_versions)))"

text \<open>The echo contract as a golden; the second takes the amount unminimised.\<close>

definition echo_golden_amount :: "bytes \<Rightarrow> GoldenHeader" where
  "echo_golden_amount a =
     \<lparr>gh_gives = \<lparr>ga_asset = GNative, ga_amount = a\<rparr>,
      gh_wants = \<lparr>ga_asset = GNative, ga_amount = []\<rparr>,
      gh_settlement = \<lparr>gs_chain = 1\<rparr>, gh_authorisation = GEip1271\<rparr>"

definition echo_goldens :: "bytes \<Rightarrow> string option \<Rightarrow> HeaderGoldens" where
  "echo_goldens a notes =
     \<lparr>hs_version = FormatVersion, hs_venue = ''echo-venue'',
      hs_goldens = [\<lparr>hg_name = ''four-byte-body'', hg_body = [1, 2, 3, 4],
         hg_header = echo_golden_amount a, hg_notes = notes\<rparr>]\<rparr>"

definition derive_header_conforms_to_the_published_golden ::
  "(GoldenHeader \<Rightarrow> string) \<Rightarrow> (VenueError \<Rightarrow> string) \<Rightarrow> bool" where
  "derive_header_conforms_to_the_published_golden dbg dbg_e =
     (fst (golden_assert_conforms dbg dbg_e GoldenHeader_from (pure_derive echo_derive_header)
        (echo_goldens [4] (Some ''amount is the minimal big-endian body length'')) ())
      = Some ())"

definition divergent_derivation_is_caught_by_the_golden ::
  "(GoldenHeader \<Rightarrow> string) \<Rightarrow> (VenueError \<Rightarrow> string) \<Rightarrow> bool" where
  "divergent_derivation_is_caught_by_the_golden dbg dbg_e =
     (case fst (golden_check dbg dbg_e GoldenHeader_from (pure_derive echo_derive_header)
        (echo_goldens (u64_to_be_bytes 4) None) ()) of
        Ok _ \<Rightarrow> False | Err _ \<Rightarrow> True)"

definition the_amount_encoder_is_minimal_at_every_width :: bool where
  "the_amount_encoder_is_minimal_at_every_width =
     (minimal_be 0 = []
      \<and> list_all (\<lambda>v. minimal_be v \<noteq> [] \<and> hd (minimal_be v) \<noteq> 0)
          [1, 255, 256, push_bit 32 1, - 1])"

section \<open>The flaky venue\<close>

definition flaky_id :: VenueId where "flaky_id = VenueId ''flaky-venue''"

text \<open>A registry with the fixture on it, over a head that starts as given.\<close>

definition with_flaky ::
  "(chain_heads world \<Rightarrow> head_ref \<times> chain_heads world) \<Rightarrow> chain_heads world
    \<Rightarrow> (FlakyHandle, DuplicateVenue) result \<times> chain_heads VenueRegistry" where
  "with_flaky start w =
     (let (h, r) = on_env start (default_registry w) in flaky_register flaky_id h r)"

abbreviation send :: "chain_heads VenueRegistry
    \<Rightarrow> (SubmitOutcome, VenueError) result \<times> chain_heads VenueRegistry" where
  "send r \<equiv> submit ''mod-a'' flaky_id (str_bytes ''body'') r"

type_synonym flaky_test = "chain_heads world \<Rightarrow> bool"

definition a_poisoned_submit_kills_the_venue_and_the_registry_routes_around_it :: flaky_test where
  "a_poisoned_submit_kills_the_venue_and_the_registry_routes_around_it w =
     expect (with_flaky ChainHead_poisoned w) (\<lambda>handle r.
     expect_err (send r) (\<lambda>first r.
       is_unavailable first \<and> \<not> fh_is_alive handle (env r)
       \<and> expect_err (send r) (\<lambda>second _. is_unavailable second)))"

definition healing_the_head_alone_does_not_revive_the_venue :: flaky_test where
  "healing_the_head_alone_does_not_revive_the_venue w =
     expect (with_flaky ChainHead_poisoned w) (\<lambda>handle r.
     let (_, r) = send r;
         r = meanwhile (fh_heal handle) r
     in \<not> fh_is_alive handle (env r) \<and> expect_err (send r) (\<lambda>err _. is_unavailable err))"

definition a_sweep_over_a_healthy_head_restores_the_venue :: flaky_test where
  "a_sweep_over_a_healthy_head_restores_the_venue w =
     expect (with_flaky ChainHead_poisoned w) (\<lambda>handle r.
     let (_, r) = send r;
         (swept, r) = on_env (sweep handle) r;
         (revived, r) = on_env (sweep handle) (meanwhile (fh_heal handle) r)
     in \<not> swept \<and> revived
        \<and> expect (send r) (\<lambda>outcome _. outcome = Accepted (str_bytes ''body'')))"

definition a_healthy_fixture_accepts_and_can_be_poisoned_again :: flaky_test where
  "a_healthy_fixture_accepts_and_can_be_poisoned_again w =
     expect (with_flaky ChainHead_healthy w) (\<lambda>handle r.
     expect (send r) (\<lambda>_ r.
     expect_err (send (meanwhile (fh_poison handle) r)) (\<lambda>err r.
       is_unavailable err \<and> \<not> fh_is_alive handle (env r))))"

definition the_fixture_declares_no_body_versions :: flaky_test where
  "the_fixture_declares_no_body_versions w =
     expect (with_flaky ChainHead_healthy w) (\<lambda>_ r.
       map_option card (body_versions r flaky_id) = Some 0)"

section \<open>They all pass\<close>

lemmas venue_setups = unused_def meanwhile_def default_registry_def with_flaky_def flaky_id_def
  echo_register_def flaky_register_def ChainHead_poisoned_def ChainHead_healthy_def
  ChainHead_new_def FlakyVenue_new_def submit_now_def is_poisoned_def head_get_def head_set_def
  head_heal_def fh_is_alive_def fh_heal_def fh_poison_def sweep_def mark_alive_def
  POISON_HEAD_def HEALTHY_HEAD_def echo_derive_header_def

lemma unused_eq:
  "unused w = \<lparr>clock = clock w, reads = 0, instant_max = instant_max w, deaths = (\<lambda>_. None),
     allocs = 0, ext = ext w\<rparr>"
  by (simp add: unused_def)

definition flaky_tests :: "flaky_test list" where
  "flaky_tests =
     [a_poisoned_submit_kills_the_venue_and_the_registry_routes_around_it,
      healing_the_head_alone_does_not_revive_the_venue,
      a_sweep_over_a_healthy_head_restores_the_venue,
      a_healthy_fixture_accepts_and_can_be_poisoned_again,
      the_fixture_declares_no_body_versions]"

lemmas flaky_test_defs = flaky_tests_def
  a_poisoned_submit_kills_the_venue_and_the_registry_routes_around_it_def
  healing_the_head_alone_does_not_revive_the_venue_def
  a_sweep_over_a_healthy_head_restores_the_venue_def
  a_healthy_fixture_accepts_and_can_be_poisoned_again_def
  the_fixture_declares_no_body_versions_def

lemma flaky_tests_pass: "steady w \<Longrightarrow> list_all (\<lambda>test. test (unused w)) flaky_tests"
  by (simp add: flaky_test_defs venue_setups replay unused_eq)

definition echo_tests :: "('x world \<Rightarrow> bool) list" where
  "echo_tests =
     [submit_echoes_the_body_back_as_the_receipt, a_receipt_reports_fulfilled_on_the_first_poll,
      a_registered_echo_venue_is_routable]"

lemma echo_tests_pass: "steady w \<Longrightarrow> list_all (\<lambda>test. test (unused w)) echo_tests"
  by (simp add: echo_tests_def submit_echoes_the_body_back_as_the_receipt_def
      a_receipt_reports_fulfilled_on_the_first_poll_def a_registered_echo_venue_is_routable_def
      venue_setups replay unused_eq)

lemmas echo_eval = echo_derive_header_def minimal_be_eq be_bytes_def u64_to_be_bytes_def
  pure_derive_def settle_def zero_native_def GoldenHeader_from_def GoldenAssetAmount_from_def
  GoldenSettlement_from_def echo_goldens_def echo_golden_amount_def golden_assert_conforms_def
  golden_check_def echo_SETTLEMENT_CHAIN_def Let_def

lemma echo_golden_tests_pass:
  "derive_header_conforms_to_the_published_golden dbg dbg_e"
  "divergent_derivation_is_caught_by_the_golden dbg dbg_e"
  by (simp_all add: derive_header_conforms_to_the_published_golden_def
      divergent_derivation_is_caught_by_the_golden_def echo_eval)

lemma minimal_be_zero: "minimal_be 0 = []"
  by (simp add: minimal_be_eq be_bytes_def)

lemma minimal_be_nonzero:
  assumes "v \<noteq> 0"
  shows "minimal_be v \<noteq> [] \<and> hd (minimal_be v) \<noteq> 0"
proof -
  have "be_value (minimal_be v) \<noteq> 0" using assms by (simp add: be_value_minimal_be unat_eq_0)
  then have "minimal_be v \<noteq> []" by (auto simp: be_value_def)
  then show ?thesis using minimal_minimal_be [of v] by (cases "minimal_be v") (auto simp: minimal_def)
qed

lemma echo_constants_pass:
  "the_venue_declares_body_version_one"
  "the_amount_encoder_is_minimal_at_every_width"
  by (simp_all add: the_venue_declares_body_version_one_def echo_body_versions_def
      echo_BODY_VERSIONS_def the_amount_encoder_is_minimal_at_every_width_def minimal_be_nonzero
      minimal_be_zero)

end
