(* ===== verification/Sdk_Client.thy ===== *)
theory Sdk_Client imports Sdk_Faults Policy
begin

text \<open>
  The typed venue client of \<^verbatim>\<open>videre-sdk/src/client.rs\<close>, the receipt guard and export shim
  of \<^verbatim>\<open>videre-sdk/src/adapter.rs\<close>, the event recovery of \<^verbatim>\<open>videre-sdk/src/event.rs\<close> and the
  bounded fetch of \<^verbatim>\<open>videre-sdk/src/transport.rs\<close>. A call through a transport runs on the
  state \<open>'s\<close> of whatever is behind it. The host import \<^verbatim>\<open>videre:venue/client\<close> is bound when
  the module is instantiated, so its five functions are a record of arguments.
\<close>

section \<open>Venue ids\<close>

datatype SdkVenueId = SdkVenueId (id_str: string)

datatype SdkInvalidVenueId = SdkInvalidVenueId string

definition SdkVenueId_from_static :: "string \<Rightarrow> SdkVenueId" where
  "SdkVenueId_from_static i = SdkVenueId i"

definition SdkVenueId_new :: "string \<Rightarrow> (SdkVenueId, SdkInvalidVenueId) result" where
  "SdkVenueId_new i =
     (if i = [] \<or> i \<noteq> str_trim i then Err (SdkInvalidVenueId i) else Ok (SdkVenueId i))"

text \<open>
  The other ways to an id and back: \<^verbatim>\<open>FromStr\<close> and the two \<^verbatim>\<open>TryFrom\<close>s construct it, and
  \<^verbatim>\<open>as_str\<close>, \<^verbatim>\<open>AsRef\<close> and \<^verbatim>\<open>Display\<close> are its wire spelling.
\<close>

definition SdkVenueId_from_str :: "string \<Rightarrow> (SdkVenueId, SdkInvalidVenueId) result" where
  "SdkVenueId_from_str s = SdkVenueId_new s"

definition SdkVenueId_try_from_String :: "string \<Rightarrow> (SdkVenueId, SdkInvalidVenueId) result" where
  "SdkVenueId_try_from_String i = SdkVenueId_new i"

definition SdkVenueId_try_from :: "string \<Rightarrow> (SdkVenueId, SdkInvalidVenueId) result" where
  "SdkVenueId_try_from i = SdkVenueId_from_str i"

definition SdkVenueId_as_ref :: "SdkVenueId \<Rightarrow> string" where
  "SdkVenueId_as_ref v = id_str v"

definition SdkVenueId_to_string :: "SdkVenueId \<Rightarrow> string" where
  "SdkVenueId_to_string v = id_str v"

lemmas venue_id_paths = SdkVenueId_from_str_def SdkVenueId_try_from_String_def SdkVenueId_try_from_def
  SdkVenueId_as_ref_def SdkVenueId_to_string_def

section \<open>The transport seam\<close>

type_synonym ('s, 'a) venue_call = "'s \<Rightarrow> ('a, VenueFault) result \<times> 's"

record 's VenueTransport =
  vt_quote :: "SdkVenueId \<Rightarrow> bytes \<Rightarrow> ('s, Quotation) venue_call"
  vt_submit :: "SdkVenueId \<Rightarrow> bytes \<Rightarrow> ('s, SubmitOutcome) venue_call"
  vt_observe :: "SdkVenueId \<Rightarrow> bytes \<Rightarrow> ('s, unit) venue_call"
  vt_status :: "SdkVenueId \<Rightarrow> bytes \<Rightarrow> ('s, IntentStatus) venue_call"
  vt_cancel :: "SdkVenueId \<Rightarrow> bytes \<Rightarrow> ('s, unit) venue_call"

definition default_observe :: "SdkVenueId \<Rightarrow> bytes \<Rightarrow> ('s, unit) venue_call" where
  "default_observe venue receipt s = (Err VUnsupported, s)"

record 's client_import =
  shim_quote :: "string \<Rightarrow> bytes \<Rightarrow> 's \<Rightarrow> (Quotation, VenueError) result \<times> 's"
  shim_submit :: "string \<Rightarrow> bytes \<Rightarrow> 's \<Rightarrow> (SubmitOutcome, VenueError) result \<times> 's"
  shim_observe :: "string \<Rightarrow> bytes \<Rightarrow> 's \<Rightarrow> (unit, VenueError) result \<times> 's"
  shim_status :: "string \<Rightarrow> bytes \<Rightarrow> 's \<Rightarrow> (IntentStatus, VenueError) result \<times> 's"
  shim_cancel :: "string \<Rightarrow> bytes \<Rightarrow> 's \<Rightarrow> (unit, VenueError) result \<times> 's"

definition lift_venue_error :: "('s \<Rightarrow> ('a, VenueError) result \<times> 's) \<Rightarrow> ('s, 'a) venue_call" where
  "lift_venue_error m s = (let (r, s') = m s in (map_err VenueFault_from_VenueError r, s'))"

definition HostVenues :: "'s client_import \<Rightarrow> 's VenueTransport" where
  "HostVenues imp =
     \<lparr>vt_quote = (\<lambda>venue body. lift_venue_error (shim_quote imp (id_str venue) body)),
      vt_submit = (\<lambda>venue body. lift_venue_error (shim_submit imp (id_str venue) body)),
      vt_observe = (\<lambda>venue receipt. lift_venue_error (shim_observe imp (id_str venue) receipt)),
      vt_status = (\<lambda>venue receipt. lift_venue_error (shim_status imp (id_str venue) receipt)),
      vt_cancel = (\<lambda>venue receipt. lift_venue_error (shim_cancel imp (id_str venue) receipt))\<rparr>"

section \<open>The receipt guard\<close>

definition guard_receipt :: "bytes \<Rightarrow> (unit, VenueError) result" where
  "guard_receipt receipt = (if receipt = [] then Err InvalidReceipt else Ok ())"

text \<open>
  The export shim around an adapter's associated functions; \<open>'c\<close> is its configuration.
\<close>

record ('s, 'c, 'f) VenueAdapter =
  va_init :: "'c \<Rightarrow> 's \<Rightarrow> (unit, 'f) result \<times> 's"
  va_body_versions :: "u32 list"
  va_derive_header :: "bytes \<Rightarrow> 's \<Rightarrow> (IntentHeader, VenueError) result \<times> 's"
  va_quote :: "bytes \<Rightarrow> 's \<Rightarrow> (Quotation, VenueError) result \<times> 's"
  va_submit :: "bytes \<Rightarrow> 's \<Rightarrow> (SubmitOutcome, VenueError) result \<times> 's"
  va_status :: "bytes \<Rightarrow> 's \<Rightarrow> (IntentStatus, VenueError) result \<times> 's"
  va_cancel :: "bytes \<Rightarrow> 's \<Rightarrow> (unit, VenueError) result \<times> 's"

definition export_status ::
  "('s, 'c, 'f) VenueAdapter \<Rightarrow> bytes \<Rightarrow> 's \<Rightarrow> (IntentStatus, VenueError) result \<times> 's" where
  "export_status a receipt s =
     (case guard_receipt receipt of Err e \<Rightarrow> (Err e, s) | Ok _ \<Rightarrow> va_status a receipt s)"

definition export_cancel ::
  "('s, 'c, 'f) VenueAdapter \<Rightarrow> bytes \<Rightarrow> 's \<Rightarrow> (unit, VenueError) result \<times> 's" where
  "export_cancel a receipt s =
     (case guard_receipt receipt of Err e \<Rightarrow> (Err e, s) | Ok _ \<Rightarrow> va_cancel a receipt s)"

definition export_venue_adapter :: "('s, 'c, 'f) VenueAdapter \<Rightarrow> ('s, 'c, 'f) VenueAdapter" where
  "export_venue_adapter a = a\<lparr>va_status := export_status a, va_cancel := export_cancel a\<rparr>"

section \<open>The typed client\<close>

text \<open>
  A \<^verbatim>\<open>VenueClient\<close> is its venue's id and body encoder (the type parameter \<^verbatim>\<open>V\<close>) with a
  transport.
\<close>

record ('s, 'b) VenueClient =
  vc_id :: SdkVenueId
  vc_to_bytes :: "'b \<Rightarrow> (bytes, BodyError) result"
  vc_transport :: "'s VenueTransport"

definition VenueClient_with_transport ::
  "SdkVenueId \<Rightarrow> ('b \<Rightarrow> (bytes, BodyError) result) \<Rightarrow> 's VenueTransport \<Rightarrow> ('s, 'b) VenueClient" where
  [simp]: "VenueClient_with_transport venue to_bytes transport =
     \<lparr>vc_id = venue, vc_to_bytes = to_bytes, vc_transport = transport\<rparr>"

definition VenueClient_new ::
  "SdkVenueId \<Rightarrow> ('b \<Rightarrow> (bytes, BodyError) result) \<Rightarrow> 's client_import \<Rightarrow> ('s, 'b) VenueClient" where
  [simp]: "VenueClient_new venue to_bytes imp =
     \<lparr>vc_id = venue, vc_to_bytes = to_bytes, vc_transport = HostVenues imp\<rparr>"

definition client_venue :: "('s, 'b) VenueClient \<Rightarrow> SdkVenueId" where
  [simp]: "client_venue c = vc_id c"

definition client_transport :: "('s, 'b) VenueClient \<Rightarrow> 's VenueTransport" where
  [simp]: "client_transport c = vc_transport c"

record Quoted =
  qd_bytes :: bytes
  qd_quotation :: Quotation

definition client_quote :: "('s, 'b) VenueClient \<Rightarrow> 'b \<Rightarrow> 's \<Rightarrow> (Quoted, ClientError) result \<times> 's" where
  "client_quote c body s =
     (case vc_to_bytes c body of
        Err e \<Rightarrow> (Err (ClientBody e), s)
      | Ok bs \<Rightarrow>
          (case vt_quote (vc_transport c) (vc_id c) bs s of
             (Err e, s1) \<Rightarrow> (Err (ClientVenue e), s1)
           | (Ok q, s1) \<Rightarrow> (Ok \<lparr>qd_bytes = bs, qd_quotation = q\<rparr>, s1)))"

definition client_submit ::
  "('s, 'b) VenueClient \<Rightarrow> 'b \<Rightarrow> 's \<Rightarrow> (SubmitOutcome, ClientError) result \<times> 's" where
  "client_submit c body s =
     (case vc_to_bytes c body of
        Err e \<Rightarrow> (Err (ClientBody e), s)
      | Ok bs \<Rightarrow> (let (r, s1) = vt_submit (vc_transport c) (vc_id c) bs s in (map_err ClientVenue r, s1)))"

definition client_observe ::
  "('s, 'b) VenueClient \<Rightarrow> bytes \<Rightarrow> 's \<Rightarrow> (unit, ClientError) result \<times> 's" where
  "client_observe c receipt s =
     (let (r, s1) = vt_observe (vc_transport c) (vc_id c) receipt s in (map_err ClientVenue r, s1))"

definition client_status ::
  "('s, 'b) VenueClient \<Rightarrow> bytes \<Rightarrow> 's \<Rightarrow> (IntentStatus, ClientError) result \<times> 's" where
  "client_status c receipt s =
     (case guard_receipt receipt of
        Err e \<Rightarrow> (Err (ClientVenue (VenueFault_from_VenueError e)), s)
      | Ok _ \<Rightarrow> (let (r, s1) = vt_status (vc_transport c) (vc_id c) receipt s in (map_err ClientVenue r, s1)))"

definition client_cancel ::
  "('s, 'b) VenueClient \<Rightarrow> bytes \<Rightarrow> 's \<Rightarrow> (unit, ClientError) result \<times> 's" where
  "client_cancel c receipt s =
     (case guard_receipt receipt of
        Err e \<Rightarrow> (Err (ClientVenue (VenueFault_from_VenueError e)), s)
      | Ok _ \<Rightarrow> (let (r, s1) = vt_cancel (vc_transport c) (vc_id c) receipt s in (map_err ClientVenue r, s1)))"

definition Quoted_submit ::
  "('s, 'b) VenueClient \<Rightarrow> Quoted \<Rightarrow> 's \<Rightarrow> (SubmitOutcome, ClientError) result \<times> 's" where
  "Quoted_submit c q s =
     (let (r, s1) = vt_submit (vc_transport c) (vc_id c) (qd_bytes q) s in (map_err ClientVenue r, s1))"

section \<open>Futures, events and the bounded fetch\<close>

datatype 'a Poll = Ready 'a | PollPending

text \<open>A future is a step of the state that may leave it unfinished; it is stepped once.\<close>

definition poll_once :: "('s \<Rightarrow> 'a Poll \<times> 's) \<Rightarrow> 's \<Rightarrow> 'a Poll \<times> 's" where
  "poll_once future s = future s"

definition intent_status_update ::
  "IntentStatusUpdate de \<Rightarrow> string \<Rightarrow> bytes \<Rightarrow> (IntentStatusUpdate, EnvelopeError) result option" where
  "intent_status_update de kind payload =
     (if kind \<noteq> INTENT_STATUS_KIND then None else Some (IntentStatusUpdate_decode de payload))"

record FetchOptions =
  connect_timeout :: Duration
  first_byte_timeout :: Duration
  between_bytes_timeout :: Duration

definition duration_min :: "Duration \<Rightarrow> Duration \<Rightarrow> Duration" where
  "duration_min a b = (if duration_nanos a \<le> duration_nanos b then a else b)"

definition BoundedFetch_fetch_with ::
  "('q \<Rightarrow> FetchOptions \<Rightarrow> 'r) \<Rightarrow> Duration \<Rightarrow> 'q \<Rightarrow> FetchOptions \<Rightarrow> 'r" where
  "BoundedFetch_fetch_with inner bound request options =
     inner request
       \<lparr>connect_timeout = duration_min (connect_timeout options) bound,
        first_byte_timeout = duration_min (first_byte_timeout options) bound,
        between_bytes_timeout = duration_min (between_bytes_timeout options) bound\<rparr>"

record ('d) RpcError =
  rpc_code :: int
  rpc_message :: string
  rpc_data :: "'d option"

datatype ('f, 'd) ChainError = ChainFault 'f | ChainRpc "'d RpcError"

text \<open>
  \<open>into_data\<close> is the conversion of the error's payload between the two libraries' types.
\<close>

definition chain_error_into_sdk ::
  "('d \<Rightarrow> 'e) \<Rightarrow> (WireFault, 'd) ChainError \<Rightarrow> ('o HostFault, 'e) ChainError" where
  "chain_error_into_sdk into_data err =
     (case err of
        ChainFault f \<Rightarrow> ChainFault (fault_into_sdk f)
      | ChainRpc rpc \<Rightarrow> ChainRpc \<lparr>rpc_code = rpc_code rpc, rpc_message = rpc_message rpc,
                                rpc_data = map_option into_data (rpc_data rpc)\<rparr>)"

definition HostChain_request ::
  "(u64 \<Rightarrow> string \<Rightarrow> string \<Rightarrow> 's \<Rightarrow> (string, (WireFault, 'd) ChainError) result \<times> 's) \<Rightarrow> ('d \<Rightarrow> 'e)
    \<Rightarrow> u64 \<Rightarrow> string \<Rightarrow> string \<Rightarrow> 's \<Rightarrow> (string, ('o HostFault, 'e) ChainError) result \<times> 's" where
  "HostChain_request chain_request into_data chain_id meth params s =
     (let (r, s1) = chain_request chain_id meth params s
      in (map_err (chain_error_into_sdk into_data) r, s1))"

section \<open>Properties\<close>

text \<open>
  The validating constructor of a venue id keeps the spelling it is given and accepts
  exactly the ids that are not empty and neither start nor end with a white-space
  character, in any of the widths Unicode has.
\<close>

lemma venue_id_is_never_padded:
  "SdkVenueId_new i = Ok v \<longleftrightarrow>
     v = SdkVenueId i \<and> i \<noteq> [] \<and> \<not> starts_with_ws i \<and> \<not> ends_with_ws i"
  using str_trim_fixpoint [of i] by (auto simp: SdkVenueId_new_def)

text \<open>The static constructor takes what the validating one refuses.\<close>

lemma from_static_is_unvalidated:
  "SdkVenueId_from_static '' demo'' = SdkVenueId '' demo''
   \<and> SdkVenueId_new '' demo'' = Err (SdkInvalidVenueId '' demo'')"
proof -
  have "byte_str [32] = '' ''"
    by (simp add: byte_str_def char_of_def bit_0)
  moreover have "byte_str [32] \<in> set whitespace"
    by (simp add: whitespace_def)
  ultimately have "starts_with_ws '' demo''"
    by (auto simp: starts_with_ws_def list_ex_iff intro!: bexI [of _ "'' ''"])
  then have "str_trim '' demo'' \<noteq> '' demo''"
    by (simp add: str_trim_fixpoint)
  then show ?thesis
    by (simp add: SdkVenueId_from_static_def SdkVenueId_new_def)
qed

text \<open>
  C36: what is submitted is what was quoted. Submitting a quotation is, in whatever state it
  happens, the same call as submitting the typed body it was fetched for. A body that does
  not encode is refused before anything crosses the wire, and so is an empty receipt by
  status and cancel; observe has no such guard, and hands any receipt, an empty one
  included, to the transport as it is.
\<close>

theorem quoted_submission_is_the_quoted_body:
  shows "(\<forall>q s1. client_quote c body s = (Ok q, s1) \<longrightarrow>
            Quoted_submit c q s' = client_submit c body s'
            \<and> vc_to_bytes c body = Ok (qd_bytes q)
            \<and> vt_quote (vc_transport c) (vc_id c) (qd_bytes q) s = (Ok (qd_quotation q), s1))
     \<and> (\<forall>e. vc_to_bytes c body = Err e \<longrightarrow>
            client_quote c body s = (Err (ClientBody e), s)
            \<and> client_submit c body s = (Err (ClientBody e), s))
     \<and> client_status c [] s = (Err (ClientVenue VInvalidReceipt), s)
     \<and> client_cancel c [] s = (Err (ClientVenue VInvalidReceipt), s)
     \<and> client_observe c receipt s =
          (map_err ClientVenue (fst (vt_observe (vc_transport c) (vc_id c) receipt s)),
           snd (vt_observe (vc_transport c) (vc_id c) receipt s))"
  by (auto simp: client_quote_def client_submit_def Quoted_submit_def client_status_def
      client_cancel_def client_observe_def guard_receipt_def split: result.splits prod.splits)

definition sample_transport :: "nat VenueTransport" where
  "sample_transport =
     \<lparr>vt_quote = (\<lambda>v bs n. (Ok \<lparr>q_gives = \<lparr>asset = Native, amount = bs\<rparr>,
          q_wants = \<lparr>asset = Native, amount = []\<rparr>, q_fee = \<lparr>asset = Native, amount = []\<rparr>,
          q_valid_until_ms = 0\<rparr>, Suc n)),
      vt_submit = (\<lambda>v bs n. (Ok (Accepted bs), Suc n)),
      vt_observe = default_observe,
      vt_status = (\<lambda>v rc n. (Ok Open, Suc n)), vt_cancel = (\<lambda>v rc n. (Ok (), Suc n))\<rparr>"

theorem quoted_submission_is_the_quoted_body_witness:
  "let c = \<lparr>vc_id = SdkVenueId ''demo'', vc_to_bytes = Ok, vc_transport = sample_transport\<rparr>;
       (q, n) = client_quote c [1, 2] 0
   in n = 1 \<and> (\<exists>qd. q = Ok qd \<and> Quoted_submit c qd n = client_submit c [1, 2] n)"
proof -
  let ?c = "\<lparr>vc_id = SdkVenueId ''demo'', vc_to_bytes = Ok, vc_transport = sample_transport\<rparr>"
  obtain qd where "client_quote ?c [1, 2] 0 = (Ok qd, 1)"
    by (simp add: client_quote_def sample_transport_def)
  then show ?thesis
    using quoted_submission_is_the_quoted_body [of ?c "[1, 2]" 0 1] by (auto simp: Let_def)
qed

text \<open>
  A bounded fetch never waits longer than its bound in any phase, never longer than the
  caller asked, and exactly as long as one of the two.
\<close>

lemma bounded_fetch_clamps_every_phase:
  shows "let o' = BoundedFetch_fetch_with (\<lambda>_ options. options) bound request options
     in \<forall>phase\<in>{connect_timeout, first_byte_timeout, between_bytes_timeout}.
          duration_nanos (phase o') = min (duration_nanos (phase options)) (duration_nanos bound)
          \<and> phase o' \<in> {phase options, bound}"
  by (simp add: BoundedFetch_fetch_with_def duration_min_def Let_def)

lemma bounded_fetch_at_five_seconds:
  "let o' = BoundedFetch_fetch_with (\<lambda>_ options. options) (from_secs 5) ()
       \<lparr>connect_timeout = from_secs 60, first_byte_timeout = from_secs 1,
        between_bytes_timeout = from_secs 60\<rparr>
   in duration_nanos (connect_timeout o') = 5000000000
      \<and> duration_nanos (first_byte_timeout o') = 1000000000"
  using bounded_fetch_clamps_every_phase [of "from_secs 5" "()"
      "\<lparr>connect_timeout = from_secs 60, first_byte_timeout = from_secs 1,
        between_bytes_timeout = from_secs 60\<rparr>"]
  by (simp add: Let_def duration_nanos_def from_secs_def)

end
