(* ===== verification/Keeper.thy ===== *)
theory Keeper imports Sdk_Client
begin

text \<open>
  \<^verbatim>\<open>videre-sdk/src/keeper.rs\<close>: one sweep of a keeper over its stores. The stores
  (\<^verbatim>\<open>CommitmentSet\<close>, \<^verbatim>\<open>Gates\<close>, \<^verbatim>\<open>Retrier\<close>, \<^verbatim>\<open>Journal\<close>) and the poller come from the runtime's
  SDK, so they are the arguments of the record \<open>stores\<close> and of \<open>kp_poll\<close>; every one of
  their calls runs on one state \<open>'s\<close>, which holds the host's store and whatever the
  transport reaches, and may fail with the host's fault \<open>'f\<close>. A commitment reference is a
  \<open>'c\<close>. The await on the venue is one call of the transport; what a sweep stopped there
  leaves behind is the state before that call.
\<close>

section \<open>What the stores offer\<close>

type_synonym ('s, 'f, 'a) store_call = "'s \<Rightarrow> ('a, 'f) result \<times> 's"

record Tick =
  tk_chain_id :: u64
  tk_block :: u64
  tk_epoch_s :: u64

datatype Mark = MReserved | MCommitted

record Reservation =
  rv_key :: string
  rv_next_eligible :: u64
  rv_body :: bytes

datatype RetryAction = TryNextBlock | RetryBackoff u64 | RetryDrop

record ('s, 'c, 'f) stores =
  st_list :: "('s, 'f, string list) store_call"
  st_parse :: "string \<Rightarrow> 'c option"
  st_get :: "'c \<Rightarrow> ('s, 'f, bytes option) store_call"
  st_is_ready :: "'c \<Rightarrow> u64 \<Rightarrow> u64 \<Rightarrow> ('s, 'f, bool) store_call"
  st_mark :: "string \<Rightarrow> ('s, 'f, Mark option) store_call"
  st_reserve :: "string \<Rightarrow> bytes \<Rightarrow> ('s, 'f, unit) store_call"
  st_commit :: "string \<Rightarrow> ('s, 'f, unit) store_call"
  st_release :: "string \<Rightarrow> ('s, 'f, unit) store_call"
  st_park :: "string \<Rightarrow> bytes \<Rightarrow> u64 \<Rightarrow> ('s, 'f, unit) store_call"
  st_pending :: "('s, 'f, Reservation list) store_call"
  st_clear_refusal :: "'c \<Rightarrow> ('s, 'f, unit) store_call"
  st_apply :: "'c \<Rightarrow> RetryAction \<Rightarrow> Tick \<Rightarrow> ('s, 'f, unit) store_call"

section \<open>Outcomes and fault policies\<close>

datatype Outcome = OSubmit bytes | OWaitBlock | OBackoff u64 | ODrop

definition DEFAULT_RECONCILE_BUDGET :: nat where "DEFAULT_RECONCILE_BUDGET = 16"

fun retry_action :: "VenueFault \<Rightarrow> RetryAction" where
  "retry_action (VRateLimited (Some ms)) = RetryBackoff (u64_div_ceil ms 1000)"
| "retry_action (VRateLimited None) = TryNextBlock"
| "retry_action VTimeout = TryNextBlock"
| "retry_action (VUnavailable _) = TryNextBlock"
| "retry_action VUnknownVenue = RetryDrop"
| "retry_action (VInvalidBody _) = RetryDrop"
| "retry_action VUnsupported = RetryDrop"
| "retry_action (VDenied _) = RetryDrop"
| "retry_action VInvalidReceipt = RetryDrop"
| "retry_action VReceiptMismatch = RetryDrop"

text \<open>
  A policy is its two methods; \<open>is_terminal_of\<close> is the second's default body, which an
  implementation may override.
\<close>

record FaultPolicy =
  fp_action :: "VenueFault \<Rightarrow> RetryAction"
  fp_is_terminal :: "VenueFault \<Rightarrow> bool"

definition is_terminal_of :: "(VenueFault \<Rightarrow> RetryAction) \<Rightarrow> VenueFault \<Rightarrow> bool" where
  "is_terminal_of action fault \<longleftrightarrow> action fault = RetryDrop"

definition DefaultFaultPolicy :: FaultPolicy where
  "DefaultFaultPolicy =
     \<lparr>fp_action = retry_action, fp_is_terminal = is_terminal_of retry_action\<rparr>"

section \<open>The keeper and its reports\<close>

record ('s, 'c) Keeper =
  kp_poll :: "'c \<Rightarrow> bytes \<Rightarrow> Tick \<Rightarrow> 's \<Rightarrow> Outcome \<times> 's"
  kp_venues :: "'s VenueTransport"
  kp_venue :: SdkVenueId
  kp_max_per_tick :: nat
  kp_fault_policy :: FaultPolicy

definition Keeper_new ::
  "('c \<Rightarrow> bytes \<Rightarrow> Tick \<Rightarrow> 's \<Rightarrow> Outcome \<times> 's) \<Rightarrow> 's VenueTransport \<Rightarrow> SdkVenueId \<Rightarrow> ('s, 'c) Keeper" where
  "Keeper_new source venues venue =
     \<lparr>kp_poll = source, kp_venues = venues, kp_venue = venue,
      kp_max_per_tick = DEFAULT_RECONCILE_BUDGET, kp_fault_policy = DefaultFaultPolicy\<rparr>"

definition with_fault_policy :: "FaultPolicy \<Rightarrow> ('s, 'c) Keeper \<Rightarrow> ('s, 'c) Keeper" where
  "with_fault_policy p k = k\<lparr>kp_fault_policy := p\<rparr>"

definition with_reconcile_budget :: "nat \<Rightarrow> ('s, 'c) Keeper \<Rightarrow> ('s, 'c) Keeper" where
  "with_reconcile_budget n k = k\<lparr>kp_max_per_tick := n\<rparr>"

record ReconcileReport =
  rc_committed :: nat
  rc_released :: nat
  rc_pending :: nat
  rc_gated :: nat
  rc_unsigned :: "UnsignedTx list"

definition ReconcileReport_default :: ReconcileReport where
  "ReconcileReport_default =
     \<lparr>rc_committed = 0, rc_released = 0, rc_pending = 0, rc_gated = 0, rc_unsigned = []\<rparr>"

record RunReport =
  rr_polled :: nat
  rr_gated :: nat
  rr_skipped :: nat
  rr_submitted :: nat
  rr_duplicates :: nat
  rr_retried :: nat
  rr_dropped :: nat
  rr_reconciled_committed :: nat
  rr_reconciled_released :: nat
  rr_reconciled_pending :: nat
  rr_reconciled_gated :: nat
  rr_reconciled_unsigned :: nat
  rr_unsigned :: "UnsignedTx list"

definition RunReport_default :: RunReport where
  "RunReport_default =
     \<lparr>rr_polled = 0, rr_gated = 0, rr_skipped = 0, rr_submitted = 0, rr_duplicates = 0,
      rr_retried = 0, rr_dropped = 0, rr_reconciled_committed = 0, rr_reconciled_released = 0,
      rr_reconciled_pending = 0, rr_reconciled_gated = 0, rr_reconciled_unsigned = 0,
      rr_unsigned = []\<rparr>"

text \<open>\<open>digest\<close> is the prefixed hexadecimal keccak-256 of the body, from the runtime's SDK.\<close>

definition submission_key :: "(bytes \<Rightarrow> string) \<Rightarrow> SdkVenueId \<Rightarrow> bytes \<Rightarrow> string" where
  "submission_key digest venue body = id_str venue @ '':'' @ digest body"

section \<open>The reconcile pass\<close>

fun reconcile_loop ::
  "SdkVenueId \<Rightarrow> 's VenueTransport \<Rightarrow> ('s, 'c, 'f) stores \<Rightarrow> Tick \<Rightarrow> nat \<Rightarrow> FaultPolicy \<Rightarrow>
   nat \<Rightarrow> ReconcileReport \<Rightarrow> Reservation list \<Rightarrow> ('s, 'f, ReconcileReport) store_call" where
  "reconcile_loop venue venues st tick budget policy spent report [] s = (Ok report, s)"
| "reconcile_loop venue venues st tick budget policy spent report (rv # rest) s =
     (if tk_epoch_s tick < rv_next_eligible rv
      then reconcile_loop venue venues st tick budget policy spent
             (report\<lparr>rc_gated := rc_gated report + 1\<rparr>) rest s
      else if budget \<le> spent then (Ok report, s)
      else
        (case vt_submit venues venue (rv_body rv) s of
           (Ok (Accepted _), s1) \<Rightarrow>
             (case st_commit st (rv_key rv) s1 of
                (Err f, s2) \<Rightarrow> (Err f, s2)
              | (Ok _, s2) \<Rightarrow> reconcile_loop venue venues st tick budget policy (spent + 1)
                  (report\<lparr>rc_committed := rc_committed report + 1\<rparr>) rest s2)
         | (Ok (RequiresSigning tx), s1) \<Rightarrow>
             (case st_release st (rv_key rv) s1 of
                (Err f, s2) \<Rightarrow> (Err f, s2)
              | (Ok _, s2) \<Rightarrow> reconcile_loop venue venues st tick budget policy (spent + 1)
                  (report\<lparr>rc_unsigned := rc_unsigned report @ [tx]\<rparr>) rest s2)
         | (Err fault, s1) \<Rightarrow>
             if fp_is_terminal policy fault then
               (case st_release st (rv_key rv) s1 of
                  (Err f, s2) \<Rightarrow> (Err f, s2)
                | (Ok _, s2) \<Rightarrow> reconcile_loop venue venues st tick budget policy (spent + 1)
                    (report\<lparr>rc_released := rc_released report + 1\<rparr>) rest s2)
             else
               (case fault of
                  VRateLimited (Some ms) \<Rightarrow>
                    (case st_park st (rv_key rv) (rv_body rv)
                            (u64_saturating_add (tk_epoch_s tick) (u64_div_ceil ms 1000)) s1 of
                       (Err f, s2) \<Rightarrow> (Err f, s2)
                     | (Ok _, s2) \<Rightarrow> reconcile_loop venue venues st tick budget policy (spent + 1)
                         (report\<lparr>rc_pending := rc_pending report + 1\<rparr>) rest s2)
                | _ \<Rightarrow> reconcile_loop venue venues st tick budget policy (spent + 1)
                         (report\<lparr>rc_pending := rc_pending report + 1\<rparr>) rest s1)))"

definition reconcile ::
  "SdkVenueId \<Rightarrow> 's VenueTransport \<Rightarrow> ('s, 'c, 'f) stores \<Rightarrow> Tick \<Rightarrow> nat \<Rightarrow> FaultPolicy \<Rightarrow>
   ('s, 'f, ReconcileReport) store_call" where
  "reconcile venue venues st tick max_per_tick policy s =
     (case st_pending st s of
        (Err f, s1) \<Rightarrow> (Err f, s1)
      | (Ok reservations, s1) \<Rightarrow>
          reconcile_loop venue venues st tick max_per_tick policy 0 ReconcileReport_default
            reservations s1)"

section \<open>The run\<close>

text \<open>
  What the submit arm does with a body: finish the iteration with a report (a \<open>continue\<close> of
  the source), or fold a refusal into a retry action.
\<close>

datatype arm_end = Done RunReport | Act RetryAction

definition submit_arm ::
  "('s, 'c) Keeper \<Rightarrow> ('s, 'c, 'f) stores \<Rightarrow> (bytes \<Rightarrow> string) \<Rightarrow> 'c \<Rightarrow> bytes \<Rightarrow> RunReport \<Rightarrow>
   ('s, 'f, arm_end) store_call" where
  "submit_arm k st digest commitment body report s =
     (let key = submission_key digest (kp_venue k) body in
      case st_mark st key s of
        (Err f, s1) \<Rightarrow> (Err f, s1)
      | (Ok (Some MCommitted), s1) \<Rightarrow>
          (Ok (Done (report\<lparr>rr_duplicates := rr_duplicates report + 1\<rparr>)), s1)
      | (Ok (Some MReserved), s1) \<Rightarrow>
          (Ok (Done (report\<lparr>rr_retried := rr_retried report + 1\<rparr>)), s1)
      | (Ok None, s1) \<Rightarrow>
          (case st_reserve st key body s1 of
             (Err f, s2) \<Rightarrow> (Err f, s2)
           | (Ok _, s2) \<Rightarrow>
               (case vt_submit (kp_venues k) (kp_venue k) body s2 of
                  (Ok (Accepted _), s3) \<Rightarrow>
                    (let s4 = snd (st_commit st key s3);
                         s5 = snd (st_clear_refusal st commitment s4)
                     in (Ok (Done (report\<lparr>rr_submitted := rr_submitted report + 1\<rparr>)), s5))
                | (Ok (RequiresSigning tx), s3) \<Rightarrow>
                    (case st_release st key s3 of
                       (Err f, s4) \<Rightarrow> (Err f, s4)
                     | (Ok _, s4) \<Rightarrow>
                         (Ok (Done (report\<lparr>rr_unsigned := rr_unsigned report @ [tx]\<rparr>)), s4))
                | (Err fault, s3) \<Rightarrow>
                    (case st_release st key s3 of
                       (Err f, s4) \<Rightarrow> (Err f, s4)
                     | (Ok _, s4) \<Rightarrow> (Ok (Act (fp_action (kp_fault_policy k) fault)), s4)))))"

text \<open>The end of an iteration that did not continue: apply the action, bucket by its effect.\<close>

definition apply_action ::
  "('s, 'c, 'f) stores \<Rightarrow> Tick \<Rightarrow> 'c \<Rightarrow> RetryAction \<Rightarrow> RunReport \<Rightarrow> ('s, 'f, RunReport) store_call" where
  "apply_action st tick commitment action report s =
     (case st_apply st commitment action tick s of
        (Err f, s1) \<Rightarrow> (Err f, s1)
      | (Ok _, s1) \<Rightarrow>
          (let (row, s2) = st_get st commitment s1;
               present = (case row of Ok r \<Rightarrow> r \<noteq> None | Err _ \<Rightarrow> action \<noteq> RetryDrop)
           in (Ok (if present then report\<lparr>rr_retried := rr_retried report + 1\<rparr>
                   else report\<lparr>rr_dropped := rr_dropped report + 1\<rparr>), s2)))"

definition poll_commitment ::
  "('s, 'c) Keeper \<Rightarrow> ('s, 'c, 'f) stores \<Rightarrow> (bytes \<Rightarrow> string) \<Rightarrow> Tick \<Rightarrow> 'c \<Rightarrow> bytes \<Rightarrow> RunReport \<Rightarrow>
   ('s, 'f, RunReport) store_call" where
  "poll_commitment k st digest tick commitment params report s =
     (case kp_poll k commitment params tick s of
        (OSubmit body, s1) \<Rightarrow>
          (case submit_arm k st digest commitment body report s1 of
             (Err f, s2) \<Rightarrow> (Err f, s2)
           | (Ok (Done report'), s2) \<Rightarrow> (Ok report', s2)
           | (Ok (Act action), s2) \<Rightarrow> apply_action st tick commitment action report s2)
      | (OWaitBlock, s1) \<Rightarrow> apply_action st tick commitment TryNextBlock report s1
      | (OBackoff seconds, s1) \<Rightarrow> apply_action st tick commitment (RetryBackoff seconds) report s1
      | (ODrop, s1) \<Rightarrow> apply_action st tick commitment RetryDrop report s1)"

definition run_commitment ::
  "('s, 'c) Keeper \<Rightarrow> ('s, 'c, 'f) stores \<Rightarrow> (bytes \<Rightarrow> string) \<Rightarrow> Tick \<Rightarrow> string \<Rightarrow> RunReport \<Rightarrow>
   ('s, 'f, RunReport) store_call" where
  "run_commitment k st digest tick key report s =
     (case st_parse st key of
        None \<Rightarrow> (Ok (report\<lparr>rr_skipped := rr_skipped report + 1\<rparr>), s)
      | Some commitment \<Rightarrow>
          (case st_is_ready st commitment (tk_block tick) (tk_epoch_s tick) s of
             (Err f, s1) \<Rightarrow> (Err f, s1)
           | (Ok False, s1) \<Rightarrow> (Ok (report\<lparr>rr_gated := rr_gated report + 1\<rparr>), s1)
           | (Ok True, s1) \<Rightarrow>
               (case st_get st commitment s1 of
                  (Err f, s2) \<Rightarrow> (Err f, s2)
                | (Ok None, s2) \<Rightarrow> (Ok (report\<lparr>rr_skipped := rr_skipped report + 1\<rparr>), s2)
                | (Ok (Some params), s2) \<Rightarrow>
                    poll_commitment k st digest tick commitment params
                      (report\<lparr>rr_polled := rr_polled report + 1\<rparr>) s2)))"

fun run_loop ::
  "('s, 'c) Keeper \<Rightarrow> ('s, 'c, 'f) stores \<Rightarrow> (bytes \<Rightarrow> string) \<Rightarrow> Tick \<Rightarrow> string list \<Rightarrow> RunReport \<Rightarrow>
   ('s, 'f, RunReport) store_call" where
  "run_loop k st digest tick [] report s = (Ok report, s)"
| "run_loop k st digest tick (key # keys) report s =
     (case run_commitment k st digest tick key report s of
        (Err f, s1) \<Rightarrow> (Err f, s1)
      | (Ok report', s1) \<Rightarrow> run_loop k st digest tick keys report' s1)"

definition reconciled_report :: "ReconcileReport \<Rightarrow> RunReport" where
  "reconciled_report rec = RunReport_default
     \<lparr>rr_reconciled_committed := rc_committed rec,
      rr_reconciled_released := rc_released rec,
      rr_reconciled_pending := rc_pending rec,
      rr_reconciled_gated := rc_gated rec,
      rr_reconciled_unsigned := length (rc_unsigned rec),
      rr_unsigned := rc_unsigned rec\<rparr>"

definition keeper_run ::
  "('s, 'c) Keeper \<Rightarrow> ('s, 'c, 'f) stores \<Rightarrow> (bytes \<Rightarrow> string) \<Rightarrow> Tick \<Rightarrow> ('s, 'f, RunReport) store_call" where
  "keeper_run k st digest tick s =
     (case reconcile (kp_venue k) (kp_venues k) st tick (kp_max_per_tick k) (kp_fault_policy k) s of
        (Err f, s1) \<Rightarrow> (Err f, s1)
      | (Ok rec, s1) \<Rightarrow>
          (case st_list st s1 of
             (Err f, s2) \<Rightarrow> (Err f, s2)
           | (Ok keys, s2) \<Rightarrow> run_loop k st digest tick keys (reconciled_report rec) s2))"

end
