(* ===== verification/Keeper_Trace.thy ===== *)
theory Keeper_Trace imports Keeper
begin

text \<open>
  A sweep that is stopped part-way: its future dropped while it waits for the venue, or its
  process killed between two calls of the host. The same modelled sweep runs over stores, a
  poller and a transport that note the state after every call; the states noted are those it
  can be stopped in.
\<close>

section \<open>Noting every state\<close>

definition traced :: "('s \<Rightarrow> 'a \<times> 's) \<Rightarrow> 's \<times> 's list \<Rightarrow> 'a \<times> 's \<times> 's list" where
  "traced m p = (case p of (s, ss) \<Rightarrow> (case m s of (x, s1) \<Rightarrow> (x, s1, ss @ [s1])))"

definition traced_venues :: "'s VenueTransport \<Rightarrow> ('s \<times> 's list) VenueTransport" where
  "traced_venues vt =
     \<lparr>vt_quote = (\<lambda>v b. traced (vt_quote vt v b)), vt_submit = (\<lambda>v b. traced (vt_submit vt v b)),
      vt_observe = (\<lambda>v rc. traced (vt_observe vt v rc)),
      vt_status = (\<lambda>v rc. traced (vt_status vt v rc)),
      vt_cancel = (\<lambda>v rc. traced (vt_cancel vt v rc))\<rparr>"

definition traced_stores :: "('s, 'c, 'f) stores \<Rightarrow> ('s \<times> 's list, 'c, 'f) stores" where
  "traced_stores st =
     \<lparr>st_list = traced (st_list st), st_parse = st_parse st,
      st_get = (\<lambda>c. traced (st_get st c)),
      st_is_ready = (\<lambda>c bl ep. traced (st_is_ready st c bl ep)),
      st_mark = (\<lambda>key. traced (st_mark st key)),
      st_reserve = (\<lambda>key b. traced (st_reserve st key b)),
      st_commit = (\<lambda>key. traced (st_commit st key)),
      st_release = (\<lambda>key. traced (st_release st key)),
      st_park = (\<lambda>key b n. traced (st_park st key b n)),
      st_pending = traced (st_pending st),
      st_clear_refusal = (\<lambda>c. traced (st_clear_refusal st c)),
      st_apply = (\<lambda>c a tick. traced (st_apply st c a tick))\<rparr>"

definition traced_keeper :: "('s, 'c) Keeper \<Rightarrow> ('s \<times> 's list, 'c) Keeper" where
  "traced_keeper k =
     \<lparr>kp_poll = (\<lambda>c b tick. traced (kp_poll k c b tick)), kp_venues = traced_venues (kp_venues k),
      kp_venue = kp_venue k, kp_max_per_tick = kp_max_per_tick k,
      kp_fault_policy = kp_fault_policy k\<rparr>"

text \<open>The states a sweep passes through, in order, the one it starts in left out.\<close>

definition visited ::
  "('s, 'c) Keeper \<Rightarrow> ('s, 'c, 'f) stores \<Rightarrow> (bytes \<Rightarrow> string) \<Rightarrow> Tick \<Rightarrow> 's \<Rightarrow> 's list" where
  "visited k st digest tick s =
     snd (snd (keeper_run (traced_keeper k) (traced_stores st) digest tick (s, [])))"

lemma traced_pair [simp]: "traced m (s, ss) = (fst (m s), snd (m s), ss @ [snd (m s)])"
  by (simp add: traced_def split: prod.split)

lemma traced_fields [simp]:
  "vt_submit (traced_venues vt) v b = traced (vt_submit vt v b)"
  "st_list (traced_stores st) = traced (st_list st)"
  "st_parse (traced_stores st) = st_parse st"
  "st_get (traced_stores st) c = traced (st_get st c)"
  "st_is_ready (traced_stores st) c bl ep = traced (st_is_ready st c bl ep)"
  "st_mark (traced_stores st) key = traced (st_mark st key)"
  "st_reserve (traced_stores st) key b = traced (st_reserve st key b)"
  "st_commit (traced_stores st) key = traced (st_commit st key)"
  "st_release (traced_stores st) key = traced (st_release st key)"
  "st_park (traced_stores st) key b n = traced (st_park st key b n)"
  "st_pending (traced_stores st) = traced (st_pending st)"
  "st_clear_refusal (traced_stores st) c = traced (st_clear_refusal st c)"
  "st_apply (traced_stores st) c a tick = traced (st_apply st c a tick)"
  "kp_poll (traced_keeper k) c b tick = traced (kp_poll k c b tick)"
  "kp_venues (traced_keeper k) = traced_venues (kp_venues k)"
  "kp_venue (traced_keeper k) = kp_venue k"
  "kp_max_per_tick (traced_keeper k) = kp_max_per_tick k"
  "kp_fault_policy (traced_keeper k) = kp_fault_policy k"
  by (simp_all add: traced_venues_def traced_stores_def traced_keeper_def)

section \<open>Passing through states that keep a predicate\<close>

text \<open>
  From \<open>s\<close> to \<open>t\<close> only states with \<open>I\<close> were noted, the last of them \<open>t\<close> itself; and
  the traced computation came out as the plain one did.
\<close>

definition jotted :: "('s \<Rightarrow> bool) \<Rightarrow> 's \<Rightarrow> 's list \<Rightarrow> 's \<Rightarrow> 's list \<Rightarrow> bool" where
  "jotted I s ss t ss1 \<longleftrightarrow> (\<exists>vs. ss1 = ss @ vs \<and> list_all I vs \<and> t = last (s # vs))"

definition passes ::
  "('s \<Rightarrow> bool) \<Rightarrow> 's \<Rightarrow> 's list \<Rightarrow> 'a \<times> 's \<times> 's list \<Rightarrow> 'a \<times> 's \<Rightarrow> bool" where
  "passes I s ss out' out \<longleftrightarrow>
     (\<exists>ss1. out' = (fst out, snd out, ss1) \<and> jotted I s ss (snd out) ss1)"

lemma jotted_more [simp]: "jotted I s ss t (ss @ vs) \<longleftrightarrow> list_all I vs \<and> t = last (s # vs)"
  by (simp add: jotted_def)

lemma jotted_same [simp]: "jotted I s ss s ss"
  using jotted_more [of I s ss s "[]"] by simp

lemma passes_pair [simp]:
  "passes I s ss (x, t, ss1) (y, u) \<longleftrightarrow> x = y \<and> t = u \<and> jotted I s ss t ss1"
  by (auto simp: passes_def)

lemma passesE:
  assumes "passes I s ss out' (x, t)"
  obtains ss1 where "out' = (x, t, ss1)" "jotted I s ss t ss1"
  using assms unfolding passes_def by auto

lemma jotted_trans:
  assumes "jotted I s ss t ss1" and "jotted I t ss1 u ss2"
  shows "jotted I s ss u ss2"
proof -
  obtain vs where 1: "ss1 = ss @ vs" "list_all I vs" "t = last (s # vs)"
    using assms(1) unfolding jotted_def by blast
  obtain ws where 2: "ss2 = ss1 @ ws" "list_all I ws" "u = last (t # ws)"
    using assms(2) unfolding jotted_def by blast
  have "last (s # vs @ ws) = last (t # ws)" using 1(3) by (simp add: last_append)
  then show ?thesis
    unfolding jotted_def using 1 2 by (intro exI [of _ "vs @ ws"]) simp
qed

lemma passes_trans: "jotted I s ss t ss1 \<Longrightarrow> passes I t ss1 out' out \<Longrightarrow> passes I s ss out' out"
  unfolding passes_def using jotted_trans by fast

lemma passes_call: "I t \<Longrightarrow> passes I t (ss @ [t]) out' out \<Longrightarrow> passes I s ss out' out"
  by (rule passes_trans [of I s ss t "ss @ [t]"]) auto

lemma passes_keeps: "passes I s ss out' out \<Longrightarrow> I s \<Longrightarrow> I (snd out)"
  by (auto simp: passes_def jotted_def list_all_iff)

end
