(* ===== verification/Keeper_Contract.thy ===== *)
theory Keeper_Contract imports Keeper
begin

text \<open>
  What a sweep may rely on, and what it then keeps. \<open>submission_journal\<close> is the contract of
  the journal, over an abstract map from submission keys to entries; \<open>keeper_env\<close> adds the
  rest of the stores, the poller and the venue, with the bodies posted and accepted as two
  logs. A store call may fail; a failed write of the journal may or may not have landed.
\<close>

section \<open>The journal\<close>

datatype JEntry = JReserved u64 bytes | JCommitted

fun mark_of :: "JEntry \<Rightarrow> Mark" where
  "mark_of (JReserved _ _) = MReserved"
| "mark_of JCommitted = MCommitted"

text \<open>A write of the journal landed, or failed with or without landing.\<close>

definition writes :: "('a, 'f) result \<Rightarrow> 'm \<Rightarrow> 'm \<Rightarrow> ('m \<Rightarrow> bool) \<Rightarrow> bool" where
  "writes r old new Q \<longleftrightarrow> (is_ok r \<and> Q new) \<or> (\<not> is_ok r \<and> (new = old \<or> Q new))"

locale submission_journal =
  fixes st :: "('s, 'c, 'f) stores"
    and J :: "'s \<Rightarrow> string \<Rightarrow> JEntry option"
  assumes mark_reads: "st_mark st key s = (rm, s') \<Longrightarrow> J s' = J s
        \<and> (\<forall>m. rm = Ok m \<longrightarrow> m = map_option mark_of (J s key))"
    and pending_reads: "st_pending st s = (rp, s') \<Longrightarrow> J s' = J s
        \<and> (\<forall>rvs. rp = Ok rvs \<longrightarrow> distinct (map rv_key rvs)
            \<and> (\<forall>key n b. J s key = Some (JReserved n b) \<longleftrightarrow>
                 \<lparr>rv_key = key, rv_next_eligible = n, rv_body = b\<rparr> \<in> set rvs))"
    and reserve_writes: "st_reserve st key b s = (r, s') \<Longrightarrow>
        writes r (J s) (J s') (\<lambda>j. \<exists>n. j = (J s)(key \<mapsto> JReserved n b))"
    and commit_writes: "st_commit st key s = (r, s') \<Longrightarrow>
        writes r (J s) (J s') (\<lambda>j. j = (J s)(key \<mapsto> JCommitted))"
    and release_writes: "st_release st key s = (r, s') \<Longrightarrow>
        writes r (J s) (J s') (\<lambda>j. j = (J s)(key := None))"
    and park_writes: "st_park st key b n s = (r, s') \<Longrightarrow>
        writes r (J s) (J s') (\<lambda>j. j = (J s)(key \<mapsto> JReserved n b))"
begin

lemma pending_entry:
  assumes "st_pending st s = (Ok rvs, s')" and "rv \<in> set rvs"
  shows "J s (rv_key rv) = Some (JReserved (rv_next_eligible rv) (rv_body rv))"
  using pending_reads [OF assms(1)] assms(2) by (cases rv) simp

lemma write_frame:
  "st_reserve st key b s = (r, s') \<Longrightarrow> k \<noteq> key \<Longrightarrow> J s' k = J s k"
  "st_commit st key s = (r, s') \<Longrightarrow> k \<noteq> key \<Longrightarrow> J s' k = J s k"
  "st_release st key s = (r, s') \<Longrightarrow> k \<noteq> key \<Longrightarrow> J s' k = J s k"
  "st_park st key b n s = (r, s') \<Longrightarrow> k \<noteq> key \<Longrightarrow> J s' k = J s k"
  using reserve_writes [of key b s r s'] commit_writes [of key s r s']
    release_writes [of key s r s'] park_writes [of key b n s r s']
  by (auto simp: writes_def)

end

section \<open>Stores, poller and venue together\<close>

locale keeper_env = submission_journal st J
  for st :: "('s, 'c, 'f) stores" and J :: "'s \<Rightarrow> string \<Rightarrow> JEntry option" +
  fixes k :: "('s, 'c) Keeper"
    and posts :: "'s \<Rightarrow> bytes list"
    and accepted :: "'s \<Rightarrow> bytes list"
  assumes journal_off_wire:
      "posts (snd (st_mark st key s)) = posts s" "accepted (snd (st_mark st key s)) = accepted s"
      "posts (snd (st_pending st s)) = posts s" "accepted (snd (st_pending st s)) = accepted s"
      "posts (snd (st_reserve st key b s)) = posts s"
      "accepted (snd (st_reserve st key b s)) = accepted s"
      "posts (snd (st_commit st key s)) = posts s" "accepted (snd (st_commit st key s)) = accepted s"
      "posts (snd (st_release st key s)) = posts s"
      "accepted (snd (st_release st key s)) = accepted s"
      "posts (snd (st_park st key b n s)) = posts s"
      "accepted (snd (st_park st key b n s)) = accepted s"
    and others_keep_the_journal:
      "J (snd (st_list st s)) = J s" "J (snd (st_get st c s)) = J s"
      "J (snd (st_is_ready st c bl ep s)) = J s" "J (snd (st_clear_refusal st c s)) = J s"
      "J (snd (st_apply st c a tick s)) = J s" "J (snd (kp_poll k c b tick s)) = J s"
    and others_off_wire:
      "posts (snd (st_list st s)) = posts s" "posts (snd (st_get st c s)) = posts s"
      "posts (snd (st_is_ready st c bl ep s)) = posts s"
      "posts (snd (st_clear_refusal st c s)) = posts s"
      "posts (snd (st_apply st c a tick s)) = posts s" "posts (snd (kp_poll k c b tick s)) = posts s"
      "accepted (snd (st_list st s)) = accepted s" "accepted (snd (st_get st c s)) = accepted s"
      "accepted (snd (st_is_ready st c bl ep s)) = accepted s"
      "accepted (snd (st_clear_refusal st c s)) = accepted s"
      "accepted (snd (st_apply st c a tick s)) = accepted s"
      "accepted (snd (kp_poll k c b tick s)) = accepted s"
    and venue_logs:
      "vt_submit (kp_venues k) (kp_venue k) b s = (ro, s') \<Longrightarrow>
         J s' = J s \<and> posts s' = posts s @ [b]
         \<and> accepted s' = accepted s @ (case ro of Ok (Accepted _) \<Rightarrow> [b] | _ \<Rightarrow> [])"
begin

text \<open>Reads of the stores, and everything else that is neither journal nor venue.\<close>

definition unmoved :: "'s \<Rightarrow> 's \<Rightarrow> bool" where
  "unmoved s s' \<longleftrightarrow> J s' = J s \<and> posts s' = posts s \<and> accepted s' = accepted s"

lemma unmoved_refl [simp]: "unmoved s s"
  by (simp add: unmoved_def)

lemma unmoved_trans [trans]: "unmoved s t \<Longrightarrow> unmoved t u \<Longrightarrow> unmoved s u"
  by (simp add: unmoved_def)

lemma unmoved_calls:
  "st_mark st key s = (rm, s') \<Longrightarrow> unmoved s s'"
  "st_pending st s = (rp, s') \<Longrightarrow> unmoved s s'"
  "st_list st s = (rl, s') \<Longrightarrow> unmoved s s'"
  "st_get st c s = (rg, s') \<Longrightarrow> unmoved s s'"
  "st_is_ready st c bl ep s = (rr, s') \<Longrightarrow> unmoved s s'"
  "st_clear_refusal st c s = (rc, s') \<Longrightarrow> unmoved s s'"
  "st_apply st c a tick s = (ra, s') \<Longrightarrow> unmoved s s'"
  "kp_poll k c b tick s = (oc, s') \<Longrightarrow> unmoved s s'"
  using journal_off_wire others_off_wire others_keep_the_journal
    mark_reads [of key s rm s'] pending_reads [of s rp s']
  by (auto simp: unmoved_def dest!: arg_cong [where f = snd])

end

end
