(* ===== verification/Keeper_Safety.thy ===== *)
theory Keeper_Safety imports Keeper_Contract
begin

text \<open>
  What a sweep does to the journal and the venue. The commitment loop only adds entries: a
  body is posted under a key that had none, which is reserved first (\<open>fresh_step\<close>). The
  reconcile pass only touches the reservations it was given, each at most once.
\<close>

abbreviation accepts :: "(SubmitOutcome, VenueFault) result \<Rightarrow> bool" where
  "accepts r \<equiv> (case r of Ok (Accepted _) \<Rightarrow> True | _ \<Rightarrow> False)"

context keeper_env begin

definition skey :: "(bytes \<Rightarrow> string) \<Rightarrow> bytes \<Rightarrow> string" where
  "skey digest b = submission_key digest (kp_venue k) b"

text \<open>
  An accepted body's entry: still there, and committed if the store never fails a commit.
\<close>

definition reliable :: bool where
  "reliable \<longleftrightarrow> (\<forall>key s. is_ok (fst (st_commit st key s)))"

definition journalled :: "'s \<Rightarrow> string \<Rightarrow> bool" where
  "journalled s key \<longleftrightarrow> J s key \<noteq> None \<and> (reliable \<longrightarrow> J s key = Some JCommitted)"

lemma reliableD: "st_commit st key s = (rc, s') \<Longrightarrow> reliable \<Longrightarrow> is_ok rc"
  unfolding reliable_def by (metis fst_conv)

lemma journalledD: "journalled s key \<Longrightarrow> J s key \<noteq> None"
  by (simp add: journalled_def)

lemma journalled_cong: "J t key = J s key \<Longrightarrow> journalled t key \<longleftrightarrow> journalled s key"
  by (simp add: journalled_def)

text \<open>Reservations are filed under the key of the body they hold.\<close>

definition filed :: "(bytes \<Rightarrow> string) \<Rightarrow> 's \<Rightarrow> bool" where
  "filed digest s \<longleftrightarrow> (\<forall>key n b. J s key = Some (JReserved n b) \<longrightarrow> key = skey digest b)"

definition fresh_step :: "(bytes \<Rightarrow> string) \<Rightarrow> 's \<Rightarrow> 's \<Rightarrow> bool" where
  "fresh_step digest s s' \<longleftrightarrow> (\<exists>P N. posts s' = posts s @ P \<and> accepted s' = accepted s @ N
     \<and> (\<forall>key. J s key \<noteq> None \<longrightarrow> J s' key = J s key)
     \<and> (\<forall>b\<in>set P. J s (skey digest b) = None)
     \<and> set N \<subseteq> set P \<and> distinct (map (skey digest) N)
     \<and> (\<forall>b\<in>set N. journalled s' (skey digest b))
     \<and> (filed digest s \<longrightarrow> filed digest s'))"

lemma fresh_step_unmoved: "unmoved s s' \<Longrightarrow> fresh_step digest s s'"
  by (auto simp: unmoved_def fresh_step_def filed_def)

lemma fresh_step_trans:
  assumes "fresh_step digest s t" and "fresh_step digest t u"
  shows "fresh_step digest s u"
proof -
  obtain P N where 1: "posts t = posts s @ P" "accepted t = accepted s @ N"
    "\<And>key. J s key \<noteq> None \<Longrightarrow> J t key = J s key" "\<And>b. b \<in> set P \<Longrightarrow> J s (skey digest b) = None"
    "set N \<subseteq> set P" "distinct (map (skey digest) N)"
    "\<And>b. b \<in> set N \<Longrightarrow> journalled t (skey digest b)" "filed digest s \<longrightarrow> filed digest t"
    using assms(1) unfolding fresh_step_def by blast
  obtain P' N' where 2: "posts u = posts t @ P'" "accepted u = accepted t @ N'"
    "\<And>key. J t key \<noteq> None \<Longrightarrow> J u key = J t key" "\<And>b. b \<in> set P' \<Longrightarrow> J t (skey digest b) = None"
    "set N' \<subseteq> set P'" "distinct (map (skey digest) N')"
    "\<And>b. b \<in> set N' \<Longrightarrow> journalled u (skey digest b)" "filed digest t \<longrightarrow> filed digest u"
    using assms(2) unfolding fresh_step_def by blast
  have posted: "J s (skey digest b) = None" if "b \<in> set (P @ P')" for b
    using that 1(3,4) 2(4) by (metis Un_iff set_append)
  have disj: "skey digest b \<noteq> skey digest b'" if "b \<in> set N" "b' \<in> set N'" for b b'
    using that journalledD [OF 1(7)] 2(4,5) by (metis subsetD)
  have kept: "journalled u (skey digest b)" if "b \<in> set (N @ N')" for b
    using that 1(7) 2(7) journalled_cong [OF 2(3) [OF journalledD [OF 1(7)]]] by auto
  show ?thesis
    unfolding fresh_step_def
  proof (intro exI conjI ballI allI impI)
    show "posts u = posts s @ (P @ P')" "accepted u = accepted s @ (N @ N')"
      using 1(1,2) 2(1,2) by simp_all
    show "J u key = J s key" if "J s key \<noteq> None" for key
      using that 1(3) 2(3) by simp
    show "set (N @ N') \<subseteq> set (P @ P')" using 1(5) 2(5) by auto
    show "distinct (map (skey digest) (N @ N'))" using 1(6) 2(6) disj by auto
    show "filed digest u" if "filed digest s" using that 1(8) 2(8) by simp
    show "J s (skey digest b) = None" if "b \<in> set (P @ P')" for b
      using that by (rule posted)
    show "journalled u (skey digest b)" if "b \<in> set (N @ N')" for b
      using that by (rule kept)
  qed
qed

lemma venue_post:
  assumes "vt_submit (kp_venues k) (kp_venue k) b s = (ro, s')"
  shows "J s' = J s" "posts s' = posts s @ [b]"
    "accepted s' = accepted s @ (if accepts ro then [b] else [])"
  using venue_logs [OF assms] by (auto split: result.splits SubmitOutcome.splits)

lemma journal_off_wire':
  "st_reserve st key b s = (r, s') \<Longrightarrow> posts s' = posts s \<and> accepted s' = accepted s"
  "st_commit st key s = (r, s') \<Longrightarrow> posts s' = posts s \<and> accepted s' = accepted s"
  "st_release st key s = (r, s') \<Longrightarrow> posts s' = posts s \<and> accepted s' = accepted s"
  "st_park st key b n s = (r, s') \<Longrightarrow> posts s' = posts s \<and> accepted s' = accepted s"
     apply (metis journal_off_wire(5,6) snd_conv)
    apply (metis journal_off_wire(7,8) snd_conv)
   apply (metis journal_off_wire(9,10) snd_conv)
  apply (metis journal_off_wire(11,12) snd_conv)
  done

text \<open>
  One body of the commitment loop: reserved, posted, and then the entry under its key is
  either gone again (a refusal, nothing accepted) or still there.
\<close>

lemma fresh_step_post:
  assumes none: "J s (skey digest b) = None"
    and res: "J s2 = (J s)(skey digest b \<mapsto> JReserved n b)" "posts s2 = posts s" "accepted s2 = accepted s"
    and post: "vt_submit (kp_venues k) (kp_venue k) b s2 = (ro, s3)"
    and after: "\<And>key. key \<noteq> skey digest b \<Longrightarrow> J s' key = J s3 key"
    and entry: "J s' (skey digest b) = None \<and> \<not> accepts ro
        \<or> J s' (skey digest b) = Some (JReserved n b) \<and> \<not> (accepts ro \<and> reliable)
        \<or> J s' (skey digest b) = Some JCommitted"
    and logs: "posts s' = posts s3" "accepted s' = accepted s3"
  shows "fresh_step digest s s'"
  unfolding fresh_step_def
proof (intro exI conjI ballI allI impI)
  note v = venue_post [OF post]
  show "posts s' = posts s @ [b]" using logs v res by simp
  show "accepted s' = accepted s @ (if accepts ro then [b] else [])" using logs v res by simp
  show "J s' key = J s key" if "J s key \<noteq> None" for key
    using that none after [of key] v(1) res(1) by (cases "key = skey digest b") auto
  show "J s (skey digest b') = None" if "b' \<in> set [b]" for b'
    using that none by simp
  show "journalled s' (skey digest b')" if "b' \<in> set (if accepts ro then [b] else [])" for b'
    using that entry by (auto simp: journalled_def split: if_splits)
  show "filed digest s'" if "filed digest s"
    unfolding filed_def
  proof (intro allI impI)
    fix key m b'
    assume e: "J s' key = Some (JReserved m b')"
    show "key = skey digest b'"
    proof (cases "key = skey digest b")
      case True
      with e entry show ?thesis by auto
    next
      case False
      with e after [of key] v(1) res(1) that show ?thesis by (simp add: filed_def)
    qed
  qed
qed (auto split: if_splits)

lemma submit_arm_fresh:
  assumes arm: "submit_arm k st digest c b report s = (r, s')"
  shows "fresh_step digest s s'"
proof -
  obtain rm s1 where m: "st_mark st (skey digest b) s = (rm, s1)" by fastforce
  note u1 = unmoved_calls(1) [OF m]
  show ?thesis
  proof (cases "rm = Ok None")
    case False
    then have "s' = s1"
      using arm m by (auto simp: submit_arm_def skey_def Let_def
          split: result.splits option.splits Mark.splits)
    then show ?thesis using u1 by (simp add: fresh_step_unmoved)
  next
    case True
    then have none: "J s1 (skey digest b) = None"
      using mark_reads [OF m] by (cases "J s (skey digest b)") auto
    obtain rr s2 where res: "st_reserve st (skey digest b) b s1 = (rr, s2)" by fastforce
    note w = reserve_writes [OF res] and l2 = journal_off_wire'(1) [OF res]
    have step: "fresh_step digest s1 s'"
    proof (cases rr)
      case (Err f)
      then have "s' = s2" using arm m True res by (simp add: submit_arm_def skey_def Let_def)
      moreover have "J s2 = J s1 \<or> (\<exists>n. J s2 = (J s1)(skey digest b \<mapsto> JReserved n b))"
        using w Err by (simp add: writes_def)
      ultimately show ?thesis
        using l2 none by (auto simp: fresh_step_def filed_def split: if_splits)
    next
      case (Ok x)
      then obtain n where J2: "J s2 = (J s1)(skey digest b \<mapsto> JReserved n b)"
        using w by (auto simp: writes_def)
      obtain ro s3 where post: "vt_submit (kp_venues k) (kp_venue k) b s2 = (ro, s3)" by fastforce
      have J3: "J s3 (skey digest b) = Some (JReserved n b)"
        using venue_post(1) [OF post] J2 by simp
      note def = arm [unfolded submit_arm_def, folded skey_def] m True res Ok post
      show ?thesis
      proof (cases "accepts ro")
        case True
        then obtain receipt where ro: "ro = Ok (Accepted receipt)"
          by (auto split: result.splits SubmitOutcome.splits)
        obtain rc s4 where com: "st_commit st (skey digest b) s3 = (rc, s4)" by fastforce
        obtain rf s5 where clr: "st_clear_refusal st c s4 = (rf, s5)" by fastforce
        have s': "s' = s5" using def ro com clr by (simp add: Let_def)
        show ?thesis
        proof (rule fresh_step_post [OF none J2 _ _ post])
          show "J s' key = J s3 key" if "key \<noteq> skey digest b" for key
            using write_frame(2) [OF com that] unmoved_calls(6) [OF clr] s' by (simp add: unmoved_def)
          show "J s' (skey digest b) = None \<and> \<not> accepts ro
              \<or> J s' (skey digest b) = Some (JReserved n b) \<and> \<not> (accepts ro \<and> reliable)
              \<or> J s' (skey digest b) = Some JCommitted"
            using reliableD [OF com] commit_writes [OF com] J3 unmoved_calls(6) [OF clr] s'
            by (auto simp: writes_def unmoved_def)
        qed (use l2 journal_off_wire'(2) [OF com] unmoved_calls(6) [OF clr] s' in
            \<open>simp_all add: unmoved_def\<close>)
      next
        case False
        obtain rc s4 where rel: "st_release st (skey digest b) s3 = (rc, s4)" by fastforce
        have s': "s' = s4"
          using def False rel
          by (auto simp: Let_def split: result.splits SubmitOutcome.splits)
        show ?thesis
        proof (rule fresh_step_post [OF none J2 _ _ post])
          show "J s' key = J s3 key" if "key \<noteq> skey digest b" for key
            using write_frame(3) [OF rel that] s' by simp
          show "J s' (skey digest b) = None \<and> \<not> accepts ro
              \<or> J s' (skey digest b) = Some (JReserved n b) \<and> \<not> (accepts ro \<and> reliable)
              \<or> J s' (skey digest b) = Some JCommitted"
            using release_writes [OF rel] J3 s' False by (auto simp: writes_def)
        qed (use l2 journal_off_wire'(3) [OF rel] s' in simp_all)
      qed
    qed
    then show ?thesis using fresh_step_trans [OF fresh_step_unmoved [OF u1]] by blast
  qed
qed

lemma apply_action_unmoved: "apply_action st tick c a report s = (r, s') \<Longrightarrow> unmoved s s'"
  by (auto simp: apply_action_def Let_def split: prod.splits result.splits
      dest!: unmoved_calls(4,7) intro: unmoved_trans)

lemma poll_commitment_fresh:
  assumes "poll_commitment k st digest tick c params report s = (r, s')"
  shows "fresh_step digest s s'"
proof -
  obtain oc s1 where p: "kp_poll k c params tick s = (oc, s1)" by fastforce
  have act: "fresh_step digest s s'" if "apply_action st tick c a rep s1 = (ra, s')" for a rep ra
    using unmoved_trans [OF unmoved_calls(8) [OF p] apply_action_unmoved [OF that]]
    by (rule fresh_step_unmoved)
  show ?thesis
  proof (cases oc)
    case (OSubmit b)
    obtain rs s2 where a: "submit_arm k st digest c b report s1 = (rs, s2)" by fastforce
    have 12: "fresh_step digest s s2"
      by (rule fresh_step_trans [OF fresh_step_unmoved [OF unmoved_calls(8) [OF p]]
          submit_arm_fresh [OF a]])
    have "s' = s2 \<or> (\<exists>x. apply_action st tick c x report s2 = (r, s'))"
      using assms p OSubmit a
      by (auto simp: poll_commitment_def split: result.splits arm_end.splits)
    then show ?thesis
      using 12 fresh_step_trans [OF 12 fresh_step_unmoved [OF apply_action_unmoved]] by blast
  qed (use assms p act in \<open>auto simp: poll_commitment_def\<close>)
qed

lemma run_commitment_fresh:
  assumes "run_commitment k st digest tick key report s = (r, s')"
  shows "fresh_step digest s s'"
proof (cases "st_parse st key")
  case None
  with assms show ?thesis by (simp add: run_commitment_def fresh_step_unmoved)
next
  case (Some c)
  obtain rr s1 where g: "st_is_ready st c (tk_block tick) (tk_epoch_s tick) s = (rr, s1)" by fastforce
  obtain rg s2 where t: "st_get st c s1 = (rg, s2)" by fastforce
  note u = unmoved_calls(5) [OF g] unmoved_trans [OF unmoved_calls(5) [OF g] unmoved_calls(4) [OF t]]
  have "s' = s1 \<or> s' = s2 \<or> (\<exists>params rep. poll_commitment k st digest tick c params rep s2 = (r, s'))"
    using assms Some g t
    by (auto simp: run_commitment_def split: result.splits bool.splits option.splits)
  then show ?thesis
    using fresh_step_unmoved u fresh_step_trans [OF fresh_step_unmoved [OF u(2)] poll_commitment_fresh]
    by blast
qed

lemma run_loop_fresh:
  "run_loop k st digest tick keys report s = (r, s') \<Longrightarrow> fresh_step digest s s'"
proof (induction keys arbitrary: report s)
  case (Cons key keys)
  obtain rr s1 where c: "run_commitment k st digest tick key report s = (rr, s1)" by fastforce
  have "s' = s1 \<or> (\<exists>rep. run_loop k st digest tick keys rep s1 = (r, s'))"
    using Cons.prems c by (auto split: result.splits)
  then show ?case
    using run_commitment_fresh [OF c] fresh_step_trans [OF run_commitment_fresh [OF c]] Cons.IH
    by blast
qed (simp add: fresh_step_unmoved)

section \<open>The reconcile pass\<close>

abbreviation rloop where
  "rloop tick \<equiv> reconcile_loop (kp_venue k) (kp_venues k) st tick (kp_max_per_tick k) (kp_fault_policy k)"

text \<open>One eligible reservation: posted once, and then only its own entry has moved.\<close>

definition resolved :: "Reservation \<Rightarrow> 's \<Rightarrow> 's \<Rightarrow> bool" where
  "resolved rv s s2 \<longleftrightarrow> (\<exists>ro. ro = fst (vt_submit (kp_venues k) (kp_venue k) (rv_body rv) s)
     \<and> posts s2 = posts s @ [rv_body rv]
     \<and> accepted s2 = accepted s @ (if accepts ro then [rv_body rv] else [])
     \<and> (\<forall>key. key \<noteq> rv_key rv \<longrightarrow> J s2 key = J s key)
     \<and> (accepts ro \<longrightarrow> J s (rv_key rv) \<noteq> None \<longrightarrow> journalled s2 (rv_key rv))
     \<and> (\<forall>n b. J s2 (rv_key rv) = Some (JReserved n b) \<longrightarrow>
          b = rv_body rv \<or> J s (rv_key rv) = Some (JReserved n b)))"

lemma resolvedI:
  assumes "vt_submit (kp_venues k) (kp_venue k) (rv_body rv) s = (ro, s1)"
    and "posts s2 = posts s1" "accepted s2 = accepted s1"
    and "\<And>key. key \<noteq> rv_key rv \<Longrightarrow> J s2 key = J s1 key"
    and "accepts ro \<Longrightarrow> J s1 (rv_key rv) \<noteq> None \<Longrightarrow> journalled s2 (rv_key rv)"
    and "\<And>n b. J s2 (rv_key rv) = Some (JReserved n b) \<Longrightarrow>
          b = rv_body rv \<or> J s1 (rv_key rv) = Some (JReserved n b)"
  shows "resolved rv s s2"
  using assms venue_post [OF assms(1)] unfolding resolved_def by (intro exI [of _ ro]) auto

lemma resolved_by:
  assumes post: "vt_submit (kp_venues k) (kp_venue k) (rv_body rv) s = (ro, s1)"
  shows "st_commit st (rv_key rv) s1 = (r, s2) \<Longrightarrow> resolved rv s s2"
    and "st_release st (rv_key rv) s1 = (r, s2) \<Longrightarrow> \<not> accepts ro \<Longrightarrow> resolved rv s s2"
    and "st_park st (rv_key rv) (rv_body rv) n s1 = (r, s2) \<Longrightarrow> \<not> accepts ro \<Longrightarrow> resolved rv s s2"
    and "\<not> accepts ro \<Longrightarrow> resolved rv s s1"
proof -
  show "resolved rv s s2" if w: "st_commit st (rv_key rv) s1 = (r, s2)"
    using journal_off_wire'(2) [OF w] write_frame(2) [OF w] commit_writes [OF w] reliableD [OF w]
    by (intro resolvedI [OF post]) (auto simp: writes_def journalled_def)
  show "resolved rv s s2" if w: "st_release st (rv_key rv) s1 = (r, s2)" and "\<not> accepts ro"
    using journal_off_wire'(3) [OF w] write_frame(3) [OF w] release_writes [OF w] that(2)
    by (intro resolvedI [OF post]) (auto simp: writes_def)
  show "resolved rv s s2" if w: "st_park st (rv_key rv) (rv_body rv) n s1 = (r, s2)" and "\<not> accepts ro"
    using journal_off_wire'(4) [OF w] write_frame(4) [OF w] park_writes [OF w] that(2)
    by (intro resolvedI [OF post]) (auto simp: writes_def)
  show "resolved rv s s1" if "\<not> accepts ro"
    using that by (intro resolvedI [OF post]) auto
qed

lemma reconcile_loop_Cons:
  assumes "rloop tick spent report (rv # rest) s = (r, s')"
  obtains (gated) rep where "tk_epoch_s tick < rv_next_eligible rv" "rloop tick spent rep rest s = (r, s')"
  | (budget) "s' = s" "kp_max_per_tick k \<le> spent"
  | (posted) s2 where "resolved rv s s2" "spent < kp_max_per_tick k"
      "s' = s2 \<or> (\<exists>rep. rloop tick (spent + 1) rep rest s2 = (r, s'))"
proof (cases "tk_epoch_s tick < rv_next_eligible rv \<or> kp_max_per_tick k \<le> spent")
  case True
  with assms that(1,2) show ?thesis by (auto split: if_splits)
next
  case False
  obtain ro s1 where post: "vt_submit (kp_venues k) (kp_venue k) (rv_body rv) s = (ro, s1)" by fastforce
  obtain rc sc where com: "st_commit st (rv_key rv) s1 = (rc, sc)" by fastforce
  obtain rl sl where rel: "st_release st (rv_key rv) s1 = (rl, sl)" by fastforce
  note c = resolved_by(1) [OF post com] and l = resolved_by(2) [OF post rel]
    and p = resolved_by(3) [OF post] and n = resolved_by(4) [OF post]
  note def = assms False post com rel
  show ?thesis
  proof (cases ro)
    case (Ok out)
    then show ?thesis
      using def c l that(3) by (cases out) (auto split: result.splits)
  next
    case (Err fault)
    then have na: "\<not> accepts ro" by simp
    show ?thesis
    proof (cases "fp_is_terminal (kp_fault_policy k) fault")
      case True
      with Err show ?thesis
        using def l [OF na] that(3) by (auto split: result.splits)
    next
      case nt: False
      show ?thesis
      proof (cases "\<exists>ms. fault = VRateLimited (Some ms)")
        case True
        then obtain ms where ms: "fault = VRateLimited (Some ms)" by blast
        obtain rp sp where park: "st_park st (rv_key rv) (rv_body rv)
            (u64_saturating_add (tk_epoch_s tick) (u64_div_ceil ms 1000)) s1 = (rp, sp)" by fastforce
        show ?thesis
          using def Err nt ms park p [OF park na] that(3) by (auto split: result.splits)
      next
        case nr: False
        then have "rloop tick (spent + 1) (report\<lparr>rc_pending := rc_pending report + 1\<rparr>) rest s1 = (r, s')"
          using def Err nt by (cases fault) (auto split: option.splits)
        then show ?thesis using that(3) n [OF na] False by auto
      qed
    qed
  qed
qed

text \<open>
  What the pass does as a whole: it posts within its budget, each reservation at most once,
  and moves no entry but those of the reservations it was given.
\<close>

definition owned_step :: "(bytes \<Rightarrow> string) \<Rightarrow> string set \<Rightarrow> nat \<Rightarrow> 's \<Rightarrow> 's \<Rightarrow> bool" where
  "owned_step digest keys budget s s' \<longleftrightarrow> (\<exists>P N. posts s' = posts s @ P \<and> accepted s' = accepted s @ N
     \<and> length P \<le> budget \<and> skey digest ` set P \<subseteq> keys \<and> distinct (map (skey digest) P)
     \<and> (\<forall>key. key \<notin> keys \<longrightarrow> J s' key = J s key)
     \<and> set N \<subseteq> set P \<and> distinct (map (skey digest) N)
     \<and> (\<forall>b\<in>set N. journalled s' (skey digest b)) \<and> (filed digest s \<longrightarrow> filed digest s'))"

lemma owned_step_refl: "owned_step digest keys budget s s"
  by (auto simp: owned_step_def)

lemma owned_step_mono:
  assumes "owned_step digest keys budget s s'" and "keys \<subseteq> keys'" and "budget \<le> budget'"
  shows "owned_step digest keys' budget' s s'"
proof -
  obtain P N where "posts s' = posts s @ P" "accepted s' = accepted s @ N"
    "length P \<le> budget" "skey digest ` set P \<subseteq> keys" "distinct (map (skey digest) P)"
    "\<forall>key. key \<notin> keys \<longrightarrow> J s' key = J s key" "set N \<subseteq> set P" "distinct (map (skey digest) N)"
    "\<forall>b\<in>set N. journalled s' (skey digest b)" "filed digest s \<longrightarrow> filed digest s'"
    using assms(1) unfolding owned_step_def by blast
  with assms(2,3) show ?thesis
    unfolding owned_step_def by (intro exI [of _ P] exI [of _ N]) auto
qed

lemma owned_step_resolved:
  assumes res: "resolved rv s s2" and key: "rv_key rv = skey digest (rv_body rv)"
    and entry: "J s (rv_key rv) \<noteq> None" and nin: "rv_key rv \<notin> keys" and pos: "0 < budget"
    and rest: "owned_step digest keys (budget - 1) s2 s'"
  shows "owned_step digest (insert (rv_key rv) keys) budget s s'"
proof -
  let ?b = "rv_body rv"
  obtain ro where 1: "posts s2 = posts s @ [?b]"
    "accepted s2 = accepted s @ (if accepts ro then [?b] else [])"
    "\<And>key. key \<noteq> rv_key rv \<Longrightarrow> J s2 key = J s key"
    "accepts ro \<Longrightarrow> journalled s2 (rv_key rv)"
    "\<And>n b. J s2 (rv_key rv) = Some (JReserved n b) \<Longrightarrow>
        b = ?b \<or> J s (rv_key rv) = Some (JReserved n b)"
    using res entry unfolding resolved_def by blast
  obtain P N where 2: "posts s' = posts s2 @ P" "accepted s' = accepted s2 @ N"
    "length P \<le> budget - 1" "skey digest ` set P \<subseteq> keys" "distinct (map (skey digest) P)"
    "\<And>key. key \<notin> keys \<Longrightarrow> J s' key = J s2 key" "set N \<subseteq> set P" "distinct (map (skey digest) N)"
    "\<And>b. b \<in> set N \<Longrightarrow> journalled s' (skey digest b)" "filed digest s2 \<longrightarrow> filed digest s'"
    using rest unfolding owned_step_def by blast
  have notin: "skey digest ?b \<notin> skey digest ` set P" "skey digest ?b \<notin> skey digest ` set N"
    using 2(4,7) nin key by auto
  have f2: "filed digest s2" if "filed digest s"
    unfolding filed_def
  proof (intro allI impI)
    fix key' n b
    assume "J s2 key' = Some (JReserved n b)"
    then show "key' = skey digest b"
      using 1(3,5) that key unfolding filed_def by (cases "key' = rv_key rv") auto
  qed
  show ?thesis
    unfolding owned_step_def
  proof (intro exI conjI ballI allI impI)
    show "posts s' = posts s @ (?b # P)" using 1 2 by simp
    show "accepted s' = accepted s @ ((if accepts ro then [?b] else []) @ N)" using 1 2 by simp
    show "length (?b # P) \<le> budget" using 2(3) pos by simp
    show "skey digest ` set (?b # P) \<subseteq> insert (rv_key rv) keys" using 2(4) key by auto
    show "distinct (map (skey digest) (?b # P))" using 2(5) notin by simp
    show "J s' key' = J s key'" if "key' \<notin> insert (rv_key rv) keys" for key'
      using that 1(3) 2(6) by simp
    show "set ((if accepts ro then [?b] else []) @ N) \<subseteq> set (?b # P)" using 2(7) by auto
    show "distinct (map (skey digest) ((if accepts ro then [?b] else []) @ N))"
      using 2(8) notin by simp
    show "journalled s' (skey digest b)" if "b \<in> set ((if accepts ro then [?b] else []) @ N)" for b
      using that 1(4) 2(9) journalled_cong [OF 2(6) [OF nin]] key by (auto split: if_splits)
    show "filed digest s'" if "filed digest s" using f2 [OF that] 2(10) by simp
  qed
qed

text \<open>The reservations still to go: as the journal has them, filed under their body's key.\<close>

definition queued :: "(bytes \<Rightarrow> string) \<Rightarrow> Reservation list \<Rightarrow> 's \<Rightarrow> bool" where
  "queued digest rvs s \<longleftrightarrow> distinct (map rv_key rvs) \<and> (\<forall>rv\<in>set rvs. rv_key rv = skey digest (rv_body rv)
     \<and> J s (rv_key rv) = Some (JReserved (rv_next_eligible rv) (rv_body rv)))"

lemma queued_ConsD:
  assumes "queued digest (rv # rest) s"
  shows "queued digest rest s" "rv_key rv \<notin> rv_key ` set rest"
    "rv_key rv = skey digest (rv_body rv)"
    "J s (rv_key rv) = Some (JReserved (rv_next_eligible rv) (rv_body rv))"
  using assms unfolding queued_def list.map distinct.simps list.set set_map by blast+

lemma queuedD:
  assumes "queued digest rvs s" and "rv \<in> set rvs"
  shows "rv_key rv = skey digest (rv_body rv)"
    "J s (rv_key rv) = Some (JReserved (rv_next_eligible rv) (rv_body rv))"
  using assms unfolding queued_def by blast+

lemma queued_resolved:
  assumes "queued digest (rv # rest) s" and "resolved rv s s2"
  shows "queued digest rest s2"
proof -
  note q = queuedD [OF queued_ConsD(1) [OF assms(1)]]
  note nin = queued_ConsD(2) [OF assms(1)]
  have d: "distinct (map rv_key rest)"
    using queued_ConsD(1) [OF assms(1)] unfolding queued_def by blast
  have f: "key \<noteq> rv_key rv \<Longrightarrow> J s2 key = J s key" for key
    using assms(2) unfolding resolved_def by blast
  show ?thesis
    unfolding queued_def
  proof (intro conjI ballI d)
    fix rv'
    assume r: "rv' \<in> set rest"
    show "rv_key rv' = skey digest (rv_body rv')" by (rule q(1) [OF r])
    have "rv_key rv' \<noteq> rv_key rv" using nin r by (metis imageI)
    from f [OF this] q(2) [OF r]
    show "J s2 (rv_key rv') = Some (JReserved (rv_next_eligible rv') (rv_body rv'))" by simp
  qed
qed

lemma reconcile_loop_owned:
  "rloop tick spent report rvs s = (r, s') \<Longrightarrow> queued digest rvs s \<Longrightarrow>
     owned_step digest (rv_key ` set rvs) (kp_max_per_tick k - spent) s s'"
proof (induction rvs arbitrary: spent report s)
  case (Cons rv rest)
  note q = queued_ConsD(1) [OF Cons.prems(2)] and nin = queued_ConsD(2) [OF Cons.prems(2)]
    and key = queued_ConsD(3) [OF Cons.prems(2)]
  have entry: "J s (rv_key rv) \<noteq> None"
    using queued_ConsD(4) [OF Cons.prems(2)] by simp
  from Cons.prems(1) show ?case
  proof (cases rule: reconcile_loop_Cons)
    case (gated rep)
    then show ?thesis
      by (intro owned_step_mono [OF Cons.IH [OF _ q]]) auto
  next
    case budget
    then show ?thesis by (simp add: owned_step_refl)
  next
    case (posted s2)
    have "owned_step digest (rv_key ` set rest) (kp_max_per_tick k - spent - 1) s2 s'"
      using posted(3) owned_step_refl Cons.IH [OF _ queued_resolved [OF Cons.prems(2) posted(1)]]
      by auto
    then show ?thesis
      using owned_step_resolved [OF posted(1) key entry nin] posted(2) by simp
  qed
qed (simp add: owned_step_refl)

lemma reconcile_owned:
  assumes "reconcile (kp_venue k) (kp_venues k) st tick (kp_max_per_tick k) (kp_fault_policy k) s = (r, s')"
    and "filed digest s"
  shows "\<exists>keys. owned_step digest keys (kp_max_per_tick k) s s'
     \<and> (\<forall>key\<in>keys. \<exists>n b. J s key = Some (JReserved n b))"
proof -
  obtain rp s1 where p: "st_pending st s = (rp, s1)" by fastforce
  note u = unmoved_calls(2) [OF p]
  show ?thesis
  proof (cases rp)
    case (Err f)
    then have "s' = s1" using assms p by (simp add: reconcile_def)
    then show ?thesis
      using u by (intro exI [of _ "{}"]) (auto simp: owned_step_def unmoved_def filed_def)
  next
    case (Ok rvs)
    have res: "J s1 (rv_key rv) = Some (JReserved (rv_next_eligible rv) (rv_body rv))"
      if "rv \<in> set rvs" for rv
      using pending_entry [OF p [unfolded Ok] that] u by (simp add: unmoved_def)
    have f1: "filed digest s1" using assms(2) u by (simp add: filed_def unmoved_def)
    then have "queued digest rvs s1"
      using pending_reads [OF p] Ok res unfolding queued_def filed_def by blast
    moreover have "rloop tick 0 ReconcileReport_default rvs s1 = (r, s')"
      using assms(1) p Ok by (simp add: reconcile_def)
    ultimately have "owned_step digest (rv_key ` set rvs) (kp_max_per_tick k) s1 s'"
      using reconcile_loop_owned by fastforce
    then have "owned_step digest (rv_key ` set rvs) (kp_max_per_tick k) s s'"
      using u f1 unfolding owned_step_def unmoved_def by auto
    then show ?thesis using res u by (auto simp: unmoved_def)
  qed
qed

text \<open>The whole run.\<close>

lemma run_steps:
  assumes "keeper_run k st digest tick s = (r, s')" and "filed digest s"
  obtains keys t where "owned_step digest keys (kp_max_per_tick k) s t"
    "\<forall>key\<in>keys. \<exists>n b. J s key = Some (JReserved n b)" "fresh_step digest t s'"
proof -
  obtain rr t where rc: "reconcile (kp_venue k) (kp_venues k) st tick (kp_max_per_tick k)
      (kp_fault_policy k) s = (rr, t)" by fastforce
  obtain rl t1 where l: "st_list st t = (rl, t1)" by fastforce
  have "s' = t \<or> s' = t1 \<or> (\<exists>keys rep. run_loop k st digest tick keys rep t1 = (r, s'))"
    using assms(1) rc l by (auto simp: keeper_run_def split: result.splits)
  then have "fresh_step digest t s'"
    using fresh_step_unmoved unmoved_refl unmoved_calls(3) [OF l]
      fresh_step_trans [OF fresh_step_unmoved [OF unmoved_calls(3) [OF l]] run_loop_fresh] by blast
  with reconcile_owned [OF rc assms(2)] that show ?thesis by blast
qed

end

end
