(* ===== verification/Keeper_Histories.thy ===== *)
theory Keeper_Histories imports Keeper_Safety
begin

text \<open>
  Sweeps one after the other. A history is any sequence of sweeps, each ending with a report
  or a store fault, with moves in between that leave the journal and the venue alone.
\<close>

text \<open>What happens between two sweeps: the stores and the world may move, not the journal.\<close>

definition idle_step ::
  "('s \<Rightarrow> string \<Rightarrow> JEntry option) \<Rightarrow> ('s \<Rightarrow> bytes list) \<Rightarrow> ('s \<Rightarrow> bytes list) \<Rightarrow> 's \<Rightarrow> 's \<Rightarrow> bool" where
  "idle_step J posts accepted s s' \<longleftrightarrow> J s' = J s \<and> posts s' = posts s \<and> accepted s' = accepted s"

inductive sweeps ::
  "('s, 'c) Keeper \<Rightarrow> ('s, 'c, 'f) stores \<Rightarrow> (bytes \<Rightarrow> string) \<Rightarrow> ('s \<Rightarrow> 's \<Rightarrow> bool) \<Rightarrow> 's \<Rightarrow> 's \<Rightarrow> bool"
  for k st digest idle s0 where
  start: "sweeps k st digest idle s0 s0"
| sweep: "sweeps k st digest idle s0 s \<Longrightarrow> keeper_run k st digest tick s = (r, s') \<Longrightarrow>
     sweeps k st digest idle s0 s'"
| idle: "sweeps k st digest idle s0 s \<Longrightarrow> idle s s' \<Longrightarrow> sweeps k st digest idle s0 s'"

text \<open>Every reservation is filed under the key of the body it holds.\<close>

definition well_filed ::
  "('s \<Rightarrow> string \<Rightarrow> JEntry option) \<Rightarrow> (bytes \<Rightarrow> string) \<Rightarrow> SdkVenueId \<Rightarrow> 's \<Rightarrow> bool" where
  "well_filed J digest venue s \<longleftrightarrow>
     (\<forall>key n b. J s key = Some (JReserved n b) \<longrightarrow> key = submission_key digest venue b)"

context keeper_env begin

lemma filed_eq: "filed digest s \<longleftrightarrow> well_filed J digest (kp_venue k) s"
  by (simp add: filed_def well_filed_def skey_def)

lemma run_facts:
  assumes "keeper_run k st digest tick s = (r, s')" and "filed digest s"
  obtains P Q N where "posts s' = posts s @ P @ Q" "accepted s' = accepted s @ N"
    "length P \<le> kp_max_per_tick k" "distinct (map (skey digest) P)"
    "\<And>b. b \<in> set P \<Longrightarrow> \<exists>n b'. J s (skey digest b) = Some (JReserved n b')"
    "\<And>b. b \<in> set Q \<Longrightarrow> J s (skey digest b) \<noteq> Some JCommitted"
    "set N \<subseteq> set P \<union> set Q" "distinct (map (skey digest) N)"
    "\<And>b. b \<in> set N \<Longrightarrow> journalled s' (skey digest b)"
    "\<And>key. J s key = Some JCommitted \<Longrightarrow> J s' key = Some JCommitted" "filed digest s'"
proof -
  obtain keys t where o: "owned_step digest keys (kp_max_per_tick k) s t"
    and keys: "\<forall>key\<in>keys. \<exists>n b. J s key = Some (JReserved n b)" and f: "fresh_step digest t s'"
    using run_steps [OF assms] by metis
  obtain P N where 1: "posts t = posts s @ P" "accepted t = accepted s @ N"
    "length P \<le> kp_max_per_tick k" "skey digest ` set P \<subseteq> keys" "distinct (map (skey digest) P)"
    "\<And>key. key \<notin> keys \<Longrightarrow> J t key = J s key" "set N \<subseteq> set P" "distinct (map (skey digest) N)"
    "\<And>b. b \<in> set N \<Longrightarrow> journalled t (skey digest b)" "filed digest s \<longrightarrow> filed digest t"
    using o unfolding owned_step_def by blast
  obtain Q N' where 2: "posts s' = posts t @ Q" "accepted s' = accepted t @ N'"
    "\<And>key. J t key \<noteq> None \<Longrightarrow> J s' key = J t key" "\<And>b. b \<in> set Q \<Longrightarrow> J t (skey digest b) = None"
    "set N' \<subseteq> set Q" "distinct (map (skey digest) N')"
    "\<And>b. b \<in> set N' \<Longrightarrow> journalled s' (skey digest b)" "filed digest t \<longrightarrow> filed digest s'"
    using f unfolding fresh_step_def by blast
  have kept: "J t key = Some JCommitted" if "J s key = Some JCommitted" for key
    using that keys 1(6) [of key] by force
  have disj: "skey digest b \<noteq> skey digest b'" if "b \<in> set N" "b' \<in> set N'" for b b'
    using that journalledD [OF 1(9)] 2(4,5) by (metis subsetD)
  show thesis
  proof (rule that [of P Q "N @ N'"])
    show "\<exists>n b'. J s (skey digest b) = Some (JReserved n b')" if "b \<in> set P" for b
      using that 1(4) keys by blast
    show "J s (skey digest b) \<noteq> Some JCommitted" if "b \<in> set Q" for b
      using 2(4) [OF that] kept by force
    show "distinct (map (skey digest) (N @ N'))" using 1(8) 2(6) disj by auto
    show "journalled s' (skey digest b)" if "b \<in> set (N @ N')" for b
      using that 1(9) 2(7) journalled_cong [OF 2(3) [OF journalledD [OF 1(9)]]] by auto
    show "J s' key = Some JCommitted" if "J s key = Some JCommitted" for key
      using kept [OF that] 2(3) [of key] by simp
    show "filed digest s'" using assms(2) 1(10) 2(8) by simp
    show "set (N @ N') \<subseteq> set P \<union> set Q" using 1(7) 2(5) by auto
  qed (use 1(1-3,5) 2(1,2) in simp_all)
qed

text \<open>The same in terms of submission keys.\<close>

lemma run_safe:
  assumes "keeper_run k st digest tick s = (r, s')" and "well_filed J digest (kp_venue k) s"
  shows "\<exists>reposts fresh new. posts s' = posts s @ reposts @ fresh \<and> accepted s' = accepted s @ new
     \<and> length reposts \<le> kp_max_per_tick k
     \<and> distinct (map (submission_key digest (kp_venue k)) reposts)
     \<and> (\<forall>b\<in>set reposts. \<exists>n b'. J s (submission_key digest (kp_venue k) b) = Some (JReserved n b'))
     \<and> (\<forall>b\<in>set fresh. J s (submission_key digest (kp_venue k) b) \<noteq> Some JCommitted)
     \<and> set new \<subseteq> set reposts \<union> set fresh
     \<and> distinct (map (submission_key digest (kp_venue k)) new)
     \<and> (\<forall>b\<in>set new. J s' (submission_key digest (kp_venue k) b) \<noteq> None)
     \<and> (\<forall>key. J s key = Some JCommitted \<longrightarrow> J s' key = Some JCommitted)
     \<and> well_filed J digest (kp_venue k) s'"
proof -
  obtain P Q N where 1: "posts s' = posts s @ P @ Q" "accepted s' = accepted s @ N"
    "length P \<le> kp_max_per_tick k" "distinct (map (skey digest) P)"
    "\<And>b. b \<in> set P \<Longrightarrow> \<exists>n b'. J s (skey digest b) = Some (JReserved n b')"
    "\<And>b. b \<in> set Q \<Longrightarrow> J s (skey digest b) \<noteq> Some JCommitted"
    "set N \<subseteq> set P \<union> set Q" "distinct (map (skey digest) N)"
    "\<And>b. b \<in> set N \<Longrightarrow> journalled s' (skey digest b)"
    "\<And>key. J s key = Some JCommitted \<Longrightarrow> J s' key = Some JCommitted" "filed digest s'"
    using run_facts [OF assms(1), folded filed_eq, OF assms(2) [folded filed_eq]] by metis
  have k: "skey digest = submission_key digest (kp_venue k)"
    by (simp add: skey_def fun_eq_iff)
  show ?thesis
    using 1(1-4,7,8)
    by (intro exI [of _ P] exI [of _ Q] exI [of _ N])
      (simp add: 1(5,6,10) 1(11) [unfolded filed_eq] journalledD [OF 1(9)] flip: k)
qed

text \<open>
  With a store that never fails a commit: what was accepted is committed, each key once.
\<close>

lemma sweeps_reliable:
  assumes "sweeps k st digest (idle_step J posts accepted) s0 s" and reliable
    and "filed digest s0" and "accepted s0 = []"
  shows "filed digest s \<and> distinct (map (skey digest) (accepted s))
     \<and> (\<forall>b\<in>set (accepted s). J s (skey digest b) = Some JCommitted)"
  using assms(1)
proof (induction rule: sweeps.induct)
  case start
  with assms show ?case by simp
next
  case (sweep s tick r s')
  obtain P Q N where n: "accepted s' = accepted s @ N"
    "\<And>b. b \<in> set P \<Longrightarrow> \<exists>n b'. J s (skey digest b) = Some (JReserved n b')"
    "\<And>b. b \<in> set Q \<Longrightarrow> J s (skey digest b) \<noteq> Some JCommitted"
    "set N \<subseteq> set P \<union> set Q" "distinct (map (skey digest) N)"
    "\<And>b. b \<in> set N \<Longrightarrow> journalled s' (skey digest b)"
    "\<And>key. J s key = Some JCommitted \<Longrightarrow> J s' key = Some JCommitted" "filed digest s'"
    using run_facts [OF sweep.hyps(2)] sweep.IH by metis
  have "skey digest b \<noteq> skey digest b'" if "b \<in> set (accepted s)" "b' \<in> set N" for b b'
  proof -
    have "J s (skey digest b') \<noteq> Some JCommitted"
      using that(2) n(2-4) by fastforce
    then show ?thesis using that(1) sweep.IH by metis
  qed
  then have "distinct (map (skey digest) (accepted s'))"
    using sweep.IH n(1,5) by auto
  moreover have "J s' (skey digest b) = Some JCommitted" if "b \<in> set (accepted s')" for b
    using that n(1,6,7) sweep.IH assms(2) by (auto simp: journalled_def)
  ultimately show ?case using n(8) by blast
next
  case (idle s s')
  then show ?case by (simp add: idle_step_def filed_def)
qed

end

section \<open>An idempotent venue\<close>

text \<open>A venue that holds an order accepts it again, whatever it would answer to a new one.\<close>

locale idempotent_env = keeper_env st J k posts accepted
  for st :: "('s, 'c, 'f) stores" and J :: "'s \<Rightarrow> string \<Rightarrow> JEntry option"
    and k :: "('s, 'c) Keeper" and posts :: "'s \<Rightarrow> bytes list" and accepted :: "'s \<Rightarrow> bytes list" +
  fixes digest :: "bytes \<Rightarrow> string"
  assumes reaccepts: "vt_submit (kp_venues k) (kp_venue k) b s = (ro, s') \<Longrightarrow> b' \<in> set (accepted s) \<Longrightarrow>
      submission_key digest (kp_venue k) b' = submission_key digest (kp_venue k) b \<Longrightarrow> accepts ro"
begin

definition all_journalled :: "'s \<Rightarrow> bool" where
  "all_journalled s \<longleftrightarrow> (\<forall>b\<in>set (accepted s). J s (skey digest b) \<noteq> None)"

end

end
