(* ===== verification/Keeper_Interrupted.thy ===== *)
theory Keeper_Interrupted imports Keeper_Trace Keeper_Histories
begin

text \<open>
  Sweeps that are stopped anywhere. Every state a sweep passes through files each reservation
  under its body's key and has each body the venue accepted in the journal, so a history may
  go on from any of them.
\<close>

context keeper_env begin

lemma queued_pending:
  assumes "filed digest s" and p: "st_pending st s = (Ok rvs, s1)"
  shows "queued digest rvs s1"
proof -
  have J: "J s1 = J s" using pending_reads [OF p] by simp
  have "J s1 (rv_key rv) = Some (JReserved (rv_next_eligible rv) (rv_body rv))" if "rv \<in> set rvs" for rv
    using pending_entry [OF p that] J by simp
  then show ?thesis
    using pending_reads [OF p] assms(1) J unfolding queued_def filed_def by metis
qed

lemma pending_filed:
  assumes p: "st_pending st s = (Ok rvs, s1)" and "well_filed J digest (kp_venue k) s" and "rv \<in> set rvs"
  shows "J s (submission_key digest (kp_venue k) (rv_body rv)) =
     Some (JReserved (rv_next_eligible rv) (rv_body rv))"
  using pending_entry [OF p assms(3)] assms(2) unfolding well_filed_def by metis

end

context idempotent_env begin

section \<open>What every state keeps\<close>

definition safe :: "'s \<Rightarrow> bool" where
  "safe s \<longleftrightarrow> filed digest s \<and> all_journalled s"

lemma safe_unmoved: "unmoved s s' \<Longrightarrow> safe s \<Longrightarrow> safe s'"
  by (simp add: safe_def filed_def all_journalled_def unmoved_def)

lemma safe_calls:
  "safe s \<Longrightarrow> safe (snd (st_mark st key s))" "safe s \<Longrightarrow> safe (snd (st_pending st s))"
  "safe s \<Longrightarrow> safe (snd (st_list st s))" "safe s \<Longrightarrow> safe (snd (st_get st c s))"
  "safe s \<Longrightarrow> safe (snd (st_is_ready st c bl ep s))" "safe s \<Longrightarrow> safe (snd (st_clear_refusal st c s))"
  "safe s \<Longrightarrow> safe (snd (st_apply st c a tick s))" "safe s \<Longrightarrow> safe (snd (kp_poll k c b tick s))"
  by (auto intro: safe_unmoved unmoved_calls [OF surjective_pairing])

text \<open>A write of the journal that keeps every entry an accepted body needs.\<close>

lemma safe_writes:
  assumes "safe s" and "writes r (J s) (J s') (\<lambda>j. j = (J s)(key := e))" and "accepted s' = accepted s"
    and "\<And>n b. e = Some (JReserved n b) \<Longrightarrow> key = skey digest b"
    and "e = None \<Longrightarrow> key \<notin> skey digest ` set (accepted s)"
  shows "safe s'"
proof -
  have J: "J s' = J s \<or> J s' = (J s)(key := e)" using assms(2) by (auto simp: writes_def)
  have "filed digest s'"
    using J assms(1,4) by (auto simp: safe_def filed_def split: if_splits)
  moreover have "all_journalled s'"
    using J assms(1,3,5) by (cases e) (auto simp: safe_def all_journalled_def)
  ultimately show ?thesis by (simp add: safe_def)
qed

lemma safe_reserve:
  assumes "safe s" and w: "st_reserve st (skey digest b) b s = (r, s')"
  shows "safe s'"
proof -
  obtain n where "writes r (J s) (J s') (\<lambda>j. j = (J s)(skey digest b \<mapsto> JReserved n b))"
    using reserve_writes [OF w] by (auto simp: writes_def)
  then show ?thesis
    by (rule safe_writes [OF assms(1)]) (use journal_off_wire'(1) [OF w] in auto)
qed

lemma safe_commit:
  assumes "safe s" and w: "st_commit st key s = (r, s')"
  shows "safe s'"
  by (rule safe_writes [OF assms(1) commit_writes [OF w]]) (use journal_off_wire'(2) [OF w] in auto)

lemma safe_park:
  assumes "safe s" and w: "st_park st (skey digest b) b n s = (r, s')"
  shows "safe s'"
  by (rule safe_writes [OF assms(1) park_writes [OF w]]) (use journal_off_wire'(4) [OF w] in auto)

lemma safe_release:
  assumes "safe s" and w: "st_release st key s = (r, s')" and "key \<notin> skey digest ` set (accepted s)"
  shows "safe s'"
  by (rule safe_writes [OF assms(1) release_writes [OF w]])
    (use journal_off_wire'(3) [OF w] assms(3) in auto)

lemma safe_post:
  assumes "safe s" and "vt_submit (kp_venues k) (kp_venue k) b s = (ro, s')" and "J s (skey digest b) \<noteq> None"
  shows "safe s'"
  using assms(1,3) venue_post [OF assms(2)] by (auto simp: safe_def filed_def all_journalled_def)

section \<open>The commitment loop\<close>

abbreviation through where
  "through s ss f' f \<equiv> passes safe s ss (f' (s, ss)) (f s)"

lemma submit_arm_passes:
  assumes "safe s"
  shows "through s ss (submit_arm (traced_keeper k) (traced_stores st) digest c b report)
     (submit_arm k st digest c b report)"
proof -
  let ?key = "skey digest b"
  obtain rm s1 where m: "st_mark st ?key s = (rm, s1)" by fastforce
  obtain rr s2 where res: "st_reserve st ?key b s1 = (rr, s2)" by fastforce
  obtain ro s3 where post: "vt_submit (kp_venues k) (kp_venue k) b s2 = (ro, s3)" by fastforce
  obtain rc s4 where com: "st_commit st ?key s3 = (rc, s4)" by fastforce
  obtain rf s5 where clr: "st_clear_refusal st c s4 = (rf, s5)" by fastforce
  obtain rl s6 where rel: "st_release st ?key s3 = (rl, s6)" by fastforce
  have 1: "safe s1" using safe_calls(1) [OF assms, of ?key] m by simp
  have 2: "safe s2" by (rule safe_reserve [OF 1 res])
  note eqs = submit_arm_def skey_def [symmetric] m res post com clr rel
  show ?thesis
  proof (cases "rm = Ok None \<and> is_ok rr")
    case False
    with 1 2 show ?thesis
      by (auto simp: eqs Let_def split: result.split option.split Mark.split)
  next
    case True
    then have none: "J s1 ?key = None" and res': "J s2 ?key \<noteq> None"
      using mark_reads [OF m] reserve_writes [OF res] by (auto simp: writes_def)
    have 3: "safe s3" by (rule safe_post [OF 2 post res'])
    have 4: "safe s4" by (rule safe_commit [OF 3 com])
    have 5: "safe s5" using safe_calls(6) [OF 4, of c] clr by simp
    show ?thesis
    proof (cases "accepts ro")
      case accepted: True
      with True 1 2 3 4 5 show ?thesis
        by (auto simp: eqs Let_def is_ok_iff split: result.splits SubmitOutcome.splits)
    next
      case False
      have "?key \<notin> skey digest ` set (accepted s1)"
        using 1 none by (auto simp: safe_def all_journalled_def)
      then have "safe s6"
        using False venue_post(3) [OF post] journal_off_wire'(1) [OF res]
        by (intro safe_release [OF 3 rel]) simp
      with True False 1 2 3 show ?thesis
        by (auto simp: eqs Let_def is_ok_iff split: result.splits SubmitOutcome.splits)
    qed
  qed
qed

lemma apply_action_passes:
  assumes "safe s"
  shows "through s ss (apply_action (traced_stores st) tick c action report)
     (apply_action st tick c action report)"
  using safe_calls(7) [OF assms, of c action tick] safe_calls(4) [OF safe_calls(7) [OF assms, of c action tick]]
  by (cases "fst (st_apply st c action tick s)") (auto simp: apply_action_def case_prod_unfold Let_def)

lemma poll_commitment_passes:
  assumes "safe s"
  shows "through s ss (poll_commitment (traced_keeper k) (traced_stores st) digest tick c params report)
     (poll_commitment k st digest tick c params report)"
proof -
  obtain oc s1 where p: "kp_poll k c params tick s = (oc, s1)" by fastforce
  have 1: "safe s1" using safe_calls(8) [OF assms, of c params tick] p by simp
  note act = apply_action_passes [OF 1, of "ss @ [s1]" tick c _ report]
  show ?thesis
  proof (cases oc)
    case (OSubmit b)
    obtain ra s2 where a: "submit_arm k st digest c b report s1 = (ra, s2)" by fastforce
    note t = submit_arm_passes [OF 1, of "ss @ [s1]" c b report, unfolded a]
    obtain ss2 where a': "submit_arm (traced_keeper k) (traced_stores st) digest c b report (s1, ss @ [s1])
        = (ra, s2, ss2)" and t2: "jotted safe s1 (ss @ [s1]) s2 ss2"
      by (rule passesE [OF t])
    have 2: "safe s2" using passes_keeps [OF t 1] by simp
    have 12: "jotted safe s ss s2 ss2" by (rule jotted_trans [OF _ t2]) (simp add: 1)
    then show ?thesis
      using passes_trans [OF 12 apply_action_passes [OF 2, of ss2 tick c _ report]]
      by (simp add: poll_commitment_def p OSubmit a a' split: result.split arm_end.split)
  qed (use act 1 in \<open>auto simp: poll_commitment_def p intro: passes_call\<close>)
qed

lemma run_commitment_passes:
  assumes "safe s"
  shows "through s ss (run_commitment (traced_keeper k) (traced_stores st) digest tick key report)
     (run_commitment k st digest tick key report)"
proof (cases "st_parse st key")
  case (Some c)
  obtain rr s1 where g: "st_is_ready st c (tk_block tick) (tk_epoch_s tick) s = (rr, s1)" by fastforce
  obtain rg s2 where t: "st_get st c s1 = (rg, s2)" by fastforce
  have 1: "safe s1" using safe_calls(5) [OF assms, of c "tk_block tick" "tk_epoch_s tick"] g by simp
  have 2: "safe s2" using safe_calls(4) [OF 1, of c] t by simp
  have "jotted safe s ss s2 (ss @ [s1, s2])" by (simp add: 1 2)
  note poll = passes_trans [OF this poll_commitment_passes [OF 2]]
  show ?thesis
    using 1 2 poll by (simp add: run_commitment_def Some g t split: result.split option.split bool.split)
qed (simp add: run_commitment_def)

lemma run_loop_passes:
  "safe s \<Longrightarrow> through s ss (run_loop (traced_keeper k) (traced_stores st) digest tick keys report)
     (run_loop k st digest tick keys report)"
proof (induction keys arbitrary: report s ss)
  case (Cons key keys)
  obtain rr s1 where c: "run_commitment k st digest tick key report s = (rr, s1)" by fastforce
  note t = run_commitment_passes [OF Cons.prems, of ss tick key report, unfolded c]
  obtain ss1 where c': "run_commitment (traced_keeper k) (traced_stores st) digest tick key report (s, ss)
      = (rr, s1, ss1)" and t1: "jotted safe s ss s1 ss1"
    by (rule passesE [OF t])
  have 1: "safe s1" using passes_keeps [OF t Cons.prems] by simp
  show ?case
    using t1 passes_trans [OF t1 Cons.IH [OF 1]] by (simp add: c c' split: result.split)
qed simp

section \<open>The reconcile pass\<close>

lemma reconcile_loop_passes:
  "safe s \<Longrightarrow> queued digest rvs s \<Longrightarrow>
     through s ss (reconcile_loop (kp_venue k) (traced_venues (kp_venues k)) (traced_stores st) tick
         (kp_max_per_tick k) (kp_fault_policy k) spent report rvs)
       (rloop tick spent report rvs)"
proof (induction rvs arbitrary: spent report s ss)
  case (Cons rv rest)
  note q = queued_ConsD [OF Cons.prems(2)]
  obtain ro s1 where post: "vt_submit (kp_venues k) (kp_venue k) (rv_body rv) s = (ro, s1)" by fastforce
  obtain rc sc where com: "st_commit st (rv_key rv) s1 = (rc, sc)" by fastforce
  obtain rl sl where rel: "st_release st (rv_key rv) s1 = (rl, sl)" by fastforce
  have 1: "safe s1" using safe_post [OF Cons.prems(1) post] q(3,4) by simp
  have c: "safe sc" by (rule safe_commit [OF 1 com])
  have free: "rv_key rv \<notin> skey digest ` set (accepted s1)" if na: "\<not> accepts ro"
  proof
    assume "rv_key rv \<in> skey digest ` set (accepted s1)"
    then obtain b where "b \<in> set (accepted s)" "skey digest b = skey digest (rv_body rv)"
      using na venue_post(3) [OF post] q(3) by auto
    with reaccepts [OF post] na show False by (simp add: skey_def)
  qed
  have l: "safe sl" if "\<not> accepts ro" by (rule safe_release [OF 1 rel free [OF that]])
  note left = queued_resolved [OF Cons.prems(2)] and by_call = resolved_by [OF post]
  have IH: "through s ss1 (reconcile_loop (kp_venue k) (traced_venues (kp_venues k)) (traced_stores st)
        tick (kp_max_per_tick k) (kp_fault_policy k) sp rep rest) (rloop tick sp rep rest)"
    if "safe s" "queued digest rest s" for s ss1 sp rep
    by (rule Cons.IH [OF that])
  show ?case
  proof (cases "tk_epoch_s tick < rv_next_eligible rv \<or> kp_max_per_tick k \<le> spent")
    case True
    then show ?thesis using IH [OF Cons.prems(1) q(1)] by auto
  next
    case False
    note def = False post com rel and j2 = jotted_more [of safe s ss _ "[s1, _]", THEN iffD2]
    show ?thesis
    proof (cases "accepts ro")
      case True
      then obtain receipt where ro: "ro = Ok (Accepted receipt)"
        by (auto split: result.splits SubmitOutcome.splits)
      note s_com = passes_trans [OF j2 IH [OF c left [OF by_call(1) [OF com]]]]
      show ?thesis using def ro 1 c s_com by (auto split: result.split)
    next
      case na: False
      note s_rel = passes_trans [OF j2 IH [OF l [OF na] left [OF by_call(2) [OF rel na]]]]
      show ?thesis
      proof (cases "\<exists>tx. ro = Ok (RequiresSigning tx)")
        case True
        then obtain tx where "ro = Ok (RequiresSigning tx)" by blast
        then show ?thesis using def 1 l [OF na] s_rel by (auto split: result.split)
      next
        case False
        then obtain fault where ro: "ro = Err fault" using na
          by (cases ro) (auto split: SubmitOutcome.splits)
        note s_same = passes_call [OF 1 IH [OF 1 left [OF by_call(4) [OF na]]]]
        consider (terminal) "fp_is_terminal (kp_fault_policy k) fault"
          | (parked) ms where "\<not> fp_is_terminal (kp_fault_policy k) fault" "fault = VRateLimited (Some ms)"
          | (kept) "\<not> fp_is_terminal (kp_fault_policy k) fault" "\<forall>ms. fault \<noteq> VRateLimited (Some ms)"
          by blast
        then show ?thesis
        proof cases
          case terminal
          then show ?thesis using def ro 1 l [OF na] s_rel by (auto split: result.split)
        next
          case (parked ms)
          obtain rp sp where park: "st_park st (rv_key rv) (rv_body rv)
              (u64_saturating_add (tk_epoch_s tick) (u64_div_ceil ms 1000)) s1 = (rp, sp)" by fastforce
          have p: "safe sp" using safe_park [OF 1] park q(3) by metis
          note s_park = passes_trans [OF j2 IH [OF p left [OF by_call(3) [OF park na]]]]
          show ?thesis using def ro parked park 1 p s_park by (auto split: result.split)
        next
          case kept
          then show ?thesis
            using def ro s_same by (cases fault) (auto split: option.split)
        qed
      qed
    qed
  qed
qed simp

lemma reconcile_passes:
  assumes "safe s"
  shows "through s ss (reconcile (kp_venue k) (traced_venues (kp_venues k)) (traced_stores st) tick
         (kp_max_per_tick k) (kp_fault_policy k))
       (reconcile (kp_venue k) (kp_venues k) st tick (kp_max_per_tick k) (kp_fault_policy k))"
proof -
  obtain rp s1 where p: "st_pending st s = (rp, s1)" by fastforce
  have 1: "safe s1" using safe_calls(2) [OF assms] p by simp
  show ?thesis
  proof (cases rp)
    case (Ok rvs)
    then have "queued digest rvs s1"
      using queued_pending [of digest s] p assms by (simp add: safe_def)
    with Ok 1 show ?thesis
      by (simp add: reconcile_def p passes_call [OF 1 reconcile_loop_passes])
  qed (simp add: reconcile_def p 1)
qed

section \<open>The sweep\<close>

lemma keeper_run_passes:
  assumes "safe s"
  shows "through s ss (keeper_run (traced_keeper k) (traced_stores st) digest tick)
     (keeper_run k st digest tick)"
proof -
  obtain rr s1 where r: "reconcile (kp_venue k) (kp_venues k) st tick (kp_max_per_tick k)
      (kp_fault_policy k) s = (rr, s1)" by fastforce
  note t = reconcile_passes [OF assms, of ss tick, unfolded r]
  obtain ss1 where r': "reconcile (kp_venue k) (traced_venues (kp_venues k)) (traced_stores st) tick
      (kp_max_per_tick k) (kp_fault_policy k) (s, ss) = (rr, s1, ss1)" and j: "jotted safe s ss s1 ss1"
    by (rule passesE [OF t])
  have 1: "safe s1" using passes_keeps [OF t assms] by simp
  obtain rl s2 where l: "st_list st s1 = (rl, s2)" by fastforce
  have 2: "safe s2" using safe_calls(3) [OF 1] l by simp
  have j2: "jotted safe s ss s2 (ss1 @ [s2])" by (rule jotted_trans [OF j]) (simp add: 2)
  show ?thesis
    using j j2 passes_trans [OF j2 run_loop_passes [OF 2]]
    by (simp add: keeper_run_def r r' l split: result.split)
qed

text \<open>Tracing changes nothing, and each state the sweep passes through is safe.\<close>

lemma visited_end:
  assumes "safe s"
  shows "fst (keeper_run (traced_keeper k) (traced_stores st) digest tick (s, [])) =
      fst (keeper_run k st digest tick s)"
    and "last (s # visited k st digest tick s) = snd (keeper_run k st digest tick s)"
  using keeper_run_passes [OF assms, of "[]" tick]
  by (auto simp: visited_def passes_def jotted_def)

lemma visited_safe: "safe s \<Longrightarrow> t \<in> set (visited k st digest tick s) \<Longrightarrow> safe t"
  using keeper_run_passes [of s "[]" tick]
  by (auto simp: visited_def passes_def jotted_def list_all_iff)

end

section \<open>Histories with interruptions\<close>

text \<open>
  Sweeps that ended, sweeps stopped in any state they passed through, and moves in between
  that leave the journal and the venue alone.
\<close>

inductive interrupted ::
  "('s, 'c) Keeper \<Rightarrow> ('s, 'c, 'f) stores \<Rightarrow> (bytes \<Rightarrow> string) \<Rightarrow> ('s \<Rightarrow> 's \<Rightarrow> bool) \<Rightarrow> 's \<Rightarrow> 's \<Rightarrow> bool"
  for k st digest idle s0 where
  start: "interrupted k st digest idle s0 s0"
| sweep: "interrupted k st digest idle s0 s \<Longrightarrow>
     interrupted k st digest idle s0 (snd (keeper_run k st digest tick s))"
| stopped: "interrupted k st digest idle s0 s \<Longrightarrow> t \<in> set (visited k st digest tick s) \<Longrightarrow>
     interrupted k st digest idle s0 t"
| idle: "interrupted k st digest idle s0 s \<Longrightarrow> idle s s' \<Longrightarrow> interrupted k st digest idle s0 s'"

context idempotent_env begin

lemma interrupted_safe:
  "interrupted k st digest (idle_step J posts accepted) s0 s \<Longrightarrow> safe s0 \<Longrightarrow> safe s"
proof (induction rule: interrupted.induct)
  case (sweep s tick)
  have s: "safe s" by (rule sweep.IH [OF sweep.prems])
  show ?case by (rule passes_keeps [OF keeper_run_passes [OF s, of "[]"] s])
next
  case (stopped s t tick)
  show ?case by (rule visited_safe [OF stopped.IH [OF stopped.prems] stopped.hyps(2)])
next
  case (idle s s')
  have "unmoved s s'" using idle.hyps(2) by (simp add: idle_step_def unmoved_def)
  then show ?case by (rule safe_unmoved) (rule idle.IH [OF idle.prems])
qed

end

section \<open>Recovery\<close>

context keeper_env begin

text \<open>
  A pass that finds the store and the venue well settles every reservation it was given. Well
  is a property \<open>up\<close> of the state the pass starts in, kept by the calls the pass makes: the
  store may have failed any number of commits before.
\<close>

definition stays_up :: "('s \<Rightarrow> bool) \<Rightarrow> bool" where
  "stays_up up \<longleftrightarrow> (\<forall>t. up t \<longrightarrow> up (snd (st_pending st t))
     \<and> (\<forall>key. is_ok (fst (st_commit st key t)) \<and> up (snd (st_commit st key t)))
     \<and> (\<forall>b. up (snd (vt_submit (kp_venues k) (kp_venue k) b t))))"

lemma stays_upD:
  assumes "stays_up up" and "up t"
  shows "st_pending st t = (rp, t') \<Longrightarrow> up t'"
    and "st_commit st key t = (rc, t') \<Longrightarrow> is_ok rc \<and> up t'"
    and "vt_submit (kp_venues k) (kp_venue k) b t = (ro, t') \<Longrightarrow> up t'"
  using assms unfolding stays_up_def by (metis fst_conv snd_conv)+

lemma reconcile_loop_heals:
  assumes "stays_up up"
  shows "up s \<Longrightarrow> queued digest rvs s \<Longrightarrow> \<forall>rv\<in>set rvs. rv_next_eligible rv \<le> tk_epoch_s tick \<Longrightarrow>
      spent + length rvs \<le> kp_max_per_tick k \<Longrightarrow>
      (\<And>rv t. rv \<in> set rvs \<Longrightarrow> up t \<Longrightarrow> prefix A (accepted t) \<Longrightarrow>
          accepts (fst (vt_submit (kp_venues k) (kp_venue k) (rv_body rv) t))) \<Longrightarrow>
      prefix A (accepted s) \<Longrightarrow>
      \<exists>s'. rloop tick spent report rvs s = (Ok (report\<lparr>rc_committed := rc_committed report + length rvs\<rparr>), s')
        \<and> J s' = (\<lambda>key. if key \<in> rv_key ` set rvs then Some JCommitted else J s key)
        \<and> posts s' = posts s @ map rv_body rvs \<and> accepted s' = accepted s @ map rv_body rvs"
proof (induction rvs arbitrary: spent report s)
  case (Cons rv rest)
  obtain ro s1 where post: "vt_submit (kp_venues k) (kp_venue k) (rv_body rv) s = (ro, s1)" by fastforce
  have acc: "accepts ro" using Cons.prems(5) [of rv s] Cons.prems(1,6) post by simp
  then obtain receipt where ro: "ro = Ok (Accepted receipt)"
    by (auto split: result.splits SubmitOutcome.splits)
  obtain rc s2 where com: "st_commit st (rv_key rv) s1 = (rc, s2)" by fastforce
  have up1: "up s1" by (rule stays_upD(3) [OF assms Cons.prems(1) post])
  then have "is_ok rc" and up2: "up s2"
    using stays_upD(2) [OF assms up1 com] by simp_all
  then have rc: "rc = Ok ()" by (cases rc) auto
  note q = queued_resolved [OF Cons.prems(2) resolved_by(1) [OF post com]]
  have "prefix (accepted s) (accepted s2)"
    using venue_post(3) [OF post] journal_off_wire'(2) [OF com] by simp
  then have A: "prefix A (accepted s2)" by (rule prefix_order.trans [OF Cons.prems(6)])
  have "spent + 1 + length rest \<le> kp_max_per_tick k" using Cons.prems(4) by simp
  then have "\<exists>s'. rloop tick (spent + 1) (report\<lparr>rc_committed := rc_committed report + 1\<rparr>) rest s2
      = (Ok (report\<lparr>rc_committed := rc_committed report + 1, rc_committed :=
            rc_committed (report\<lparr>rc_committed := rc_committed report + 1\<rparr>) + length rest\<rparr>), s')
      \<and> J s' = (\<lambda>key. if key \<in> rv_key ` set rest then Some JCommitted else J s2 key)
      \<and> posts s' = posts s2 @ map rv_body rest \<and> accepted s' = accepted s2 @ map rv_body rest"
    by (intro Cons.IH [OF up2 q]) (use Cons.prems(3,5) A in simp_all)
  then obtain s' where s': "rloop tick (spent + 1) (report\<lparr>rc_committed := rc_committed report + 1\<rparr>) rest s2
      = (Ok (report\<lparr>rc_committed := rc_committed report + 1 + length rest\<rparr>), s')"
    and J: "J s' = (\<lambda>key. if key \<in> rv_key ` set rest then Some JCommitted else J s2 key)"
    and logs: "posts s' = posts s2 @ map rv_body rest" "accepted s' = accepted s2 @ map rv_body rest"
    by auto
  have J2: "J s2 = (J s)(rv_key rv \<mapsto> JCommitted)"
    using commit_writes [OF com] rc venue_post(1) [OF post] by (simp add: writes_def)
  have "\<not> tk_epoch_s tick < rv_next_eligible rv" "\<not> kp_max_per_tick k \<le> spent"
    using Cons.prems(3,4) by (simp_all add: not_less)
  then have "rloop tick spent report (rv # rest) s
      = (Ok (report\<lparr>rc_committed := rc_committed report + length (rv # rest)\<rparr>), s')"
    using s' by (simp add: post ro com rc)
  moreover have "J s' = (\<lambda>key. if key \<in> rv_key ` set (rv # rest) then Some JCommitted else J s key)"
    by (auto simp: J J2 fun_eq_iff)
  moreover have "posts s' = posts s @ map rv_body (rv # rest)"
    "accepted s' = accepted s @ map rv_body (rv # rest)"
    using logs acc venue_post(2,3) [OF post] journal_off_wire'(2) [OF com] by simp_all
  ultimately show ?case by blast
qed auto

lemma reconcile_heals:
  assumes "stays_up up" and "up s" and "filed digest s" and p: "st_pending st s = (Ok rvs, s1)"
    and "\<forall>rv\<in>set rvs. rv_next_eligible rv \<le> tk_epoch_s tick" and "length rvs \<le> kp_max_per_tick k"
    and "\<And>rv t. rv \<in> set rvs \<Longrightarrow> up t \<Longrightarrow> prefix (accepted s) (accepted t) \<Longrightarrow>
          accepts (fst (vt_submit (kp_venues k) (kp_venue k) (rv_body rv) t))"
  shows "\<exists>rep s'. reconcile (kp_venue k) (kp_venues k) st tick (kp_max_per_tick k) (kp_fault_policy k) s
        = (Ok rep, s') \<and> rc_committed rep = length rvs
     \<and> J s' = (\<lambda>key. case J s key of Some (JReserved _ _) \<Rightarrow> Some JCommitted | e \<Rightarrow> e)
     \<and> posts s' = posts s @ map rv_body rvs \<and> accepted s' = accepted s @ map rv_body rvs"
proof -
  have u: "unmoved s s1" by (rule unmoved_calls(2) [OF p])
  have q: "queued digest rvs s1" by (rule queued_pending [OF assms(3) p])
  have up1: "up s1" by (rule stays_upD(1) [OF assms(1,2) p])
  obtain s' where s': "rloop tick 0 ReconcileReport_default rvs s1
      = (Ok (ReconcileReport_default\<lparr>rc_committed := length rvs\<rparr>), s')"
    "J s' = (\<lambda>key. if key \<in> rv_key ` set rvs then Some JCommitted else J s1 key)"
    "posts s' = posts s1 @ map rv_body rvs" "accepted s' = accepted s1 @ map rv_body rvs"
    using reconcile_loop_heals [OF assms(1) up1 q assms(5), of 0 "accepted s" ReconcileReport_default]
      assms(6,7) u
    by (auto simp: ReconcileReport_default_def unmoved_def)
  have "key \<in> rv_key ` set rvs \<longleftrightarrow> (\<exists>n b. J s key = Some (JReserved n b))" for key
    using pending_reads [OF p] pending_entry [OF p] by (force simp: image_iff)
  then have "J s' key = (case J s key of Some (JReserved _ _) \<Rightarrow> Some JCommitted | e \<Rightarrow> e)" for key
    using s'(2) u by (auto simp: unmoved_def split: option.split JEntry.split)
  then show ?thesis
    using s' u p by (auto simp: reconcile_def unmoved_def fun_eq_iff)
qed

end

end
