(* ===== verification/Keeper_Reserved.thy ===== *)
theory Keeper_Reserved imports Keeper_Safety
begin

text \<open>
  The sweep consults the venue only under a reservation: what the venue would answer for a
  body that is not reserved in the journal cannot be told from a run.
\<close>

context keeper_env begin

section \<open>The venue is consulted only under a reservation\<close>

text \<open>
  Two transports that answer alike wherever the body is reserved in the journal cannot be
  told apart by a sweep. So a sweep stopped at any await leaves the reservation behind.
\<close>

definition agrees_when_reserved :: "(bytes \<Rightarrow> string) \<Rightarrow> 's VenueTransport \<Rightarrow> bool" where
  "agrees_when_reserved digest vt \<longleftrightarrow> (\<forall>b s n. J s (skey digest b) = Some (JReserved n b) \<longrightarrow>
     vt_submit vt (kp_venue k) b s = vt_submit (kp_venues k) (kp_venue k) b s)"

lemma submit_arm_reserved:
  assumes "agrees_when_reserved digest vt"
  shows "submit_arm (k\<lparr>kp_venues := vt\<rparr>) st digest c b report s = submit_arm k st digest c b report s"
proof -
  have "vt_submit vt (kp_venue k) b s2 = vt_submit (kp_venues k) (kp_venue k) b s2"
    if "st_reserve st (skey digest b) b s1 = (Ok x, s2)" for s1 s2 x
    using reserve_writes [OF that] assms by (auto simp: writes_def agrees_when_reserved_def)
  then show ?thesis
    unfolding submit_arm_def by (auto simp: skey_def Let_def split: result.splits option.splits Mark.splits prod.splits)
qed

lemma run_loop_reserved:
  assumes "agrees_when_reserved digest vt"
  shows "run_loop (k\<lparr>kp_venues := vt\<rparr>) st digest tick keys report s = run_loop k st digest tick keys report s"
proof -
  have "poll_commitment (k\<lparr>kp_venues := vt\<rparr>) st digest tick c params report s =
      poll_commitment k st digest tick c params report s" for c params report s
    unfolding poll_commitment_def submit_arm_reserved [OF assms] by simp
  then have "run_commitment (k\<lparr>kp_venues := vt\<rparr>) st digest tick key report s =
      run_commitment k st digest tick key report s" for key report s
    by (simp only: run_commitment_def)
  then show ?thesis
    by (induction keys arbitrary: report s) (simp_all split: prod.split result.split)
qed

lemma reconcile_loop_reserved:
  assumes agree: "agrees_when_reserved digest vt"
  shows "queued digest rvs s \<Longrightarrow>
     reconcile_loop (kp_venue k) vt st tick (kp_max_per_tick k) (kp_fault_policy k) spent report rvs s =
     rloop tick spent report rvs s"
proof (induction rvs arbitrary: spent report s)
  case (Cons rv rest)
  note q = Cons.prems
  note IH0 = Cons.IH [OF queued_ConsD(1) [OF q]]
  have IH: "reconcile_loop (kp_venue k) vt st tick (kp_max_per_tick k) (kp_fault_policy k) sp rep rest s2 =
      rloop tick sp rep rest s2" if "resolved rv s s2" for sp rep s2
    by (rule Cons.IH [OF queued_resolved [OF q that]])
  have vt: "vt_submit vt (kp_venue k) (rv_body rv) s = vt_submit (kp_venues k) (kp_venue k) (rv_body rv) s"
    using agree queued_ConsD(3,4) [OF q] unfolding agrees_when_reserved_def by metis
  obtain ro s1 where post: "vt_submit (kp_venues k) (kp_venue k) (rv_body rv) s = (ro, s1)" by fastforce
  obtain rc sc where com: "st_commit st (rv_key rv) s1 = (rc, sc)" by fastforce
  obtain rl sl where rel: "st_release st (rv_key rv) s1 = (rl, sl)" by fastforce
  note R = IH [OF resolved_by(1) [OF post com]] IH [OF resolved_by(2) [OF post rel]]
    IH [OF resolved_by(3) [OF post]] IH [OF resolved_by(4) [OF post]]
  show ?case
  proof (cases ro)
    case (Ok out)
    then show ?thesis
      using R by (cases out) (simp_all add: IH0 vt post com rel split: result.split)
  next
    case (Err fault)
    show ?thesis
    proof (cases "fp_is_terminal (kp_fault_policy k) fault")
      case True
      then show ?thesis
        using R(2) Err by (simp add: IH0 vt post rel split: prod.split result.split)
    next
      case nt: False
      show ?thesis
      proof (cases "\<exists>ms. fault = VRateLimited (Some ms)")
        case True
        then obtain ms where ms: "fault = VRateLimited (Some ms)" by blast
        obtain rp sp where park: "st_park st (rv_key rv) (rv_body rv)
            (u64_saturating_add (tk_epoch_s tick) (u64_div_ceil ms 1000)) s1 = (rp, sp)" by fastforce
        show ?thesis
          using R(3) [OF park] by (simp add: IH0 vt post Err nt [unfolded ms] ms park split: prod.split result.split)
      next
        case False
        then show ?thesis
          using R(4) nt by (cases fault) (simp_all add: IH0 vt post Err split: option.split)
      qed
    qed
  qed
qed simp

lemma run_reserved:
  assumes "agrees_when_reserved digest vt" and f: "filed digest s"
  shows "keeper_run (k\<lparr>kp_venues := vt\<rparr>) st digest tick s = keeper_run k st digest tick s"
proof -
  obtain rp s1 where p: "st_pending st s = (rp, s1)" by fastforce
  have "reconcile (kp_venue k) vt st tick (kp_max_per_tick k) (kp_fault_policy k) s =
      reconcile (kp_venue k) (kp_venues k) st tick (kp_max_per_tick k) (kp_fault_policy k) s"
  proof (cases rp)
    case (Ok rvs)
    have "J s1 = J s" using unmoved_calls(2) [OF p] by (simp add: unmoved_def)
    then have "queued digest rvs s1"
      using pending_reads [OF p] pending_entry [OF p [unfolded Ok]] Ok f
      unfolding queued_def filed_def by metis
    then show ?thesis
      using p Ok by (simp add: reconcile_def reconcile_loop_reserved [OF assms(1)])
  qed (simp add: reconcile_def p)
  then show ?thesis
    by (simp add: keeper_run_def run_loop_reserved [OF assms(1)] split: prod.split result.split)
qed

end

end
