(* ===== verification/Keeper_Accounting.thy ===== *)
theory Keeper_Accounting imports Keeper
begin

text \<open>
  The books of a sweep. A reconcile pass settles exactly as many eligible reservations as its
  budget allows and counts each in one bucket; the commitment loop counts every key once by
  how far it got, and every polled commitment once by how it ended. No contract is needed.
\<close>

section \<open>The reconcile pass\<close>

definition eligible :: "Tick \<Rightarrow> Reservation \<Rightarrow> bool" where
  "eligible tick rv \<longleftrightarrow> rv_next_eligible rv \<le> tk_epoch_s tick"

definition settled :: "ReconcileReport \<Rightarrow> nat" where
  "settled rep = rc_committed rep + rc_released rep + rc_pending rep + length (rc_unsigned rep)"

lemma settled_simps [simp]:
  "settled (rep\<lparr>rc_committed := Suc (rc_committed rep)\<rparr>) = Suc (settled rep)"
  "settled (rep\<lparr>rc_released := Suc (rc_released rep)\<rparr>) = Suc (settled rep)"
  "settled (rep\<lparr>rc_pending := Suc (rc_pending rep)\<rparr>) = Suc (settled rep)"
  "settled (rep\<lparr>rc_unsigned := rc_unsigned rep @ [tx]\<rparr>) = Suc (settled rep)"
  "settled (rep\<lparr>rc_gated := n\<rparr>) = settled rep"
  "settled ReconcileReport_default = 0"
  by (simp_all add: settled_def ReconcileReport_default_def)

text \<open>One posted reservation ends the pass with a store fault or moves one count.\<close>

lemma reconcile_loop_posted:
  assumes "reconcile_loop venue vt st tick budget policy spent rep (rv # rest) s = (Ok rep', s')"
    and "eligible tick rv" and "spent < budget"
  obtains (more) rep1 s1 where "settled rep1 = settled rep + 1" "rc_gated rep1 = rc_gated rep"
    "reconcile_loop venue vt st tick budget policy (spent + 1) rep1 rest s1 = (Ok rep', s')"
proof -
  have live: "\<not> tk_epoch_s tick < rv_next_eligible rv" "\<not> budget \<le> spent"
    using assms(2,3) by (auto simp: eligible_def)
  obtain ro s1 where post: "vt_submit vt venue (rv_body rv) s = (ro, s1)" by fastforce
  note def = assms(1) live post
  have post1: thesis
    if "reconcile_loop venue vt st tick budget policy (Suc spent) rep1 rest s2 = (Ok rep', s')"
      and "settled rep1 = Suc (settled rep) \<and> rc_gated rep1 = rc_gated rep" for rep1 s2
    by (rule more [of rep1 s2]) (use that in simp_all)
  show ?thesis
  proof (cases ro)
    case (Ok out)
    then show ?thesis
      using def by (cases out) (auto split: prod.splits result.splits elim!: post1)
  next
    case (Err fault)
    show ?thesis
    proof (cases "fp_is_terminal policy fault \<or> (\<exists>ms. fault = VRateLimited (Some ms))")
      case True
      then show ?thesis
        using def Err by (auto split: prod.splits result.splits if_splits elim!: post1)
    next
      case False
      then have "reconcile_loop venue vt st tick budget policy (spent + 1)
          (rep\<lparr>rc_pending := rc_pending rep + 1\<rparr>) rest s1 = (Ok rep', s')"
        using def Err by (cases fault) (auto split: option.splits)
      from post1 [OF this [simplified]] show ?thesis by simp
    qed
  qed
qed

lemma reconcile_loop_settles:
  "reconcile_loop venue vt st tick budget policy spent rep rvs s = (Ok rep', s') \<Longrightarrow> spent \<le> budget \<Longrightarrow>
     settled rep' = settled rep + min (budget - spent) (length (filter (eligible tick) rvs))"
proof (induction rvs arbitrary: spent rep s)
  case (Cons rv rest)
  show ?case
  proof (cases "eligible tick rv")
    case False
    then have "tk_epoch_s tick < rv_next_eligible rv" by (simp add: eligible_def)
    with Cons.prems have "settled rep' = settled (rep\<lparr>rc_gated := rc_gated rep + 1\<rparr>)
        + min (budget - spent) (length (filter (eligible tick) rest))"
      by (intro Cons.IH) auto
    with False show ?thesis by simp
  next
    case el: True
    show ?thesis
    proof (cases "spent < budget")
      case True
      obtain rep1 s1 where 1: "settled rep1 = settled rep + 1"
        "reconcile_loop venue vt st tick budget policy (spent + 1) rep1 rest s1 = (Ok rep', s')"
        using reconcile_loop_posted [OF Cons.prems(1) el True] by metis
      show ?thesis
        using Cons.IH [OF 1(2)] 1(1) True el by simp
    next
      case False
      with Cons.prems el show ?thesis by (simp add: eligible_def split: if_splits)
    qed
  qed
qed simp

lemma reconcile_loop_gates:
  "reconcile_loop venue vt st tick budget policy spent rep rvs s = (Ok rep', s') \<Longrightarrow> spent \<le> budget \<Longrightarrow>
     length (filter (eligible tick) rvs) \<le> budget - spent \<Longrightarrow>
     rc_gated rep' = rc_gated rep + length (filter (\<lambda>rv. \<not> eligible tick rv) rvs)"
proof (induction rvs arbitrary: spent rep s)
  case (Cons rv rest)
  show ?case
  proof (cases "eligible tick rv")
    case False
    then have "tk_epoch_s tick < rv_next_eligible rv" by (simp add: eligible_def)
    with Cons.prems False have "rc_gated rep' = rc_gated (rep\<lparr>rc_gated := rc_gated rep + 1\<rparr>)
        + length (filter (\<lambda>rv. \<not> eligible tick rv) rest)"
      by (intro Cons.IH) auto
    with False show ?thesis by simp
  next
    case True
    with Cons.prems(3) have lt: "spent < budget" by simp
    obtain rep1 s1 where "rc_gated rep1 = rc_gated rep"
      "reconcile_loop venue vt st tick budget policy (spent + 1) rep1 rest s1 = (Ok rep', s')"
      using reconcile_loop_posted [OF Cons.prems(1) True lt] by metis
    with Cons.IH [OF this(2)] Cons.prems(3) lt True show ?thesis by simp
  qed
qed simp

section \<open>The commitment loop\<close>

definition seen :: "RunReport \<Rightarrow> nat" where
  "seen rep = rr_polled rep + rr_gated rep + rr_skipped rep"

definition ended :: "RunReport \<Rightarrow> nat" where
  "ended rep = rr_submitted rep + rr_duplicates rep + rr_retried rep + rr_dropped rep
     + length (rr_unsigned rep)"

lemma apply_action_books:
  "apply_action st tick c a rep s = (Ok rep', s') \<Longrightarrow>
     seen rep' = seen rep \<and> rr_polled rep' = rr_polled rep \<and> ended rep' = ended rep + 1"
  by (auto simp: apply_action_def seen_def ended_def Let_def split: prod.splits result.splits if_splits)

lemma submit_arm_books:
  "submit_arm k st digest c b rep s = (Ok (Done rep'), s') \<Longrightarrow>
     seen rep' = seen rep \<and> rr_polled rep' = rr_polled rep \<and> ended rep' = ended rep + 1"
  by (auto simp: submit_arm_def seen_def ended_def Let_def
      split: prod.splits result.splits option.splits Mark.splits SubmitOutcome.splits)

lemma poll_commitment_books:
  "poll_commitment k st digest tick c params rep s = (Ok rep', s') \<Longrightarrow>
     seen rep' = seen rep \<and> rr_polled rep' = rr_polled rep \<and> ended rep' = ended rep + 1"
  by (auto simp: poll_commitment_def split: prod.splits result.splits Outcome.splits arm_end.splits
      dest: apply_action_books submit_arm_books)

lemma run_commitment_books:
  assumes "run_commitment k st digest tick key rep s = (Ok rep', s')"
  shows "seen rep' = seen rep + 1 \<and> ended rep' + rr_polled rep = ended rep + rr_polled rep'"
proof -
  have *: "seen (rep\<lparr>rr_polled := rr_polled rep + 1\<rparr>) = seen rep + 1"
    "ended (rep\<lparr>rr_polled := rr_polled rep + 1\<rparr>) = ended rep"
    "seen (rep\<lparr>rr_gated := rr_gated rep + 1\<rparr>) = seen rep + 1"
    "ended (rep\<lparr>rr_gated := rr_gated rep + 1\<rparr>) = ended rep"
    "seen (rep\<lparr>rr_skipped := rr_skipped rep + 1\<rparr>) = seen rep + 1"
    "ended (rep\<lparr>rr_skipped := rr_skipped rep + 1\<rparr>) = ended rep"
    by (simp_all add: seen_def ended_def)
  show ?thesis
    using assms *
    by (auto simp: run_commitment_def split: prod.splits result.splits option.splits bool.splits
        dest!: poll_commitment_books)
qed

lemma run_loop_books:
  "run_loop k st digest tick keys rep s = (Ok rep', s') \<Longrightarrow>
     seen rep' = seen rep + length keys \<and> ended rep' + rr_polled rep = ended rep + rr_polled rep'"
proof (induction keys arbitrary: rep s)
  case (Cons key keys)
  obtain rep1 s1 where 1: "run_commitment k st digest tick key rep s = (Ok rep1, s1)"
    "run_loop k st digest tick keys rep1 s1 = (Ok rep', s')"
    using Cons.prems by (auto split: prod.splits result.splits)
  show ?case
    using run_commitment_books [OF 1(1)] Cons.IH [OF 1(2)] by simp
qed simp

text \<open>
  The commitment loop leaves the reconcile counts alone, and only appends to the unsigned list.
\<close>

definition carried :: "RunReport \<Rightarrow> RunReport \<Rightarrow> bool" where
  "carried rep rep' \<longleftrightarrow> rr_reconciled_committed rep' = rr_reconciled_committed rep
     \<and> rr_reconciled_released rep' = rr_reconciled_released rep
     \<and> rr_reconciled_pending rep' = rr_reconciled_pending rep
     \<and> rr_reconciled_gated rep' = rr_reconciled_gated rep
     \<and> rr_reconciled_unsigned rep' = rr_reconciled_unsigned rep
     \<and> (\<exists>more. rr_unsigned rep' = rr_unsigned rep @ more)"

lemma carried_refl: "carried rep rep"
  by (simp add: carried_def)

lemma carried_trans: "carried a b \<Longrightarrow> carried b c \<Longrightarrow> carried a c"
  by (auto simp: carried_def)

lemma apply_action_carries: "apply_action st tick c a rep s = (Ok rep', s') \<Longrightarrow> carried rep rep'"
  by (auto simp: apply_action_def carried_def Let_def split: prod.splits result.splits if_splits)

lemma submit_arm_carries:
  "submit_arm k st digest c b rep s = (Ok (Done rep'), s') \<Longrightarrow> carried rep rep'"
  by (auto simp: submit_arm_def carried_def Let_def
      split: prod.splits result.splits option.splits Mark.splits SubmitOutcome.splits)

lemma poll_commitment_carries:
  "poll_commitment k st digest tick c params rep s = (Ok rep', s') \<Longrightarrow> carried rep rep'"
  by (auto simp: poll_commitment_def split: prod.splits result.splits Outcome.splits arm_end.splits
      dest: apply_action_carries submit_arm_carries)

lemma run_commitment_carries:
  assumes "run_commitment k st digest tick key rep s = (Ok rep', s')"
  shows "carried rep rep'"
proof -
  have "carried rep rep'" if "carried (rep\<lparr>rr_polled := n\<rparr>) rep'" for n
    using that by (auto simp: carried_def)
  then show ?thesis
    using assms
    by (auto simp: run_commitment_def split: prod.splits result.splits option.splits bool.splits
        dest!: poll_commitment_carries) (auto simp: carried_def)
qed

lemma run_loop_carries:
  "run_loop k st digest tick keys rep s = (Ok rep', s') \<Longrightarrow> carried rep rep'"
proof (induction keys arbitrary: rep s)
  case (Cons key keys)
  obtain rep1 s1 where 1: "run_commitment k st digest tick key rep s = (Ok rep1, s1)"
    "run_loop k st digest tick keys rep1 s1 = (Ok rep', s')"
    using Cons.prems by (auto split: prod.splits result.splits)
  show ?case
    using run_commitment_carries [OF 1(1)] Cons.IH [OF 1(2)] by (rule carried_trans)
qed (simp add: carried_refl)

section \<open>The whole sweep\<close>

lemma keeper_run_books:
  assumes "keeper_run k st digest tick s = (Ok rep, s')"
  obtains rc s1 keys s2 where
    "reconcile (kp_venue k) (kp_venues k) st tick (kp_max_per_tick k) (kp_fault_policy k) s = (Ok rc, s1)"
    "st_list st s1 = (Ok keys, s2)" "seen rep = length keys"
    "ended rep = rr_polled rep + rr_reconciled_unsigned rep" "carried (reconciled_report rc) rep"
proof -
  obtain rc s1 keys s2 where 1:
    "reconcile (kp_venue k) (kp_venues k) st tick (kp_max_per_tick k) (kp_fault_policy k) s = (Ok rc, s1)"
    "st_list st s1 = (Ok keys, s2)"
    "run_loop k st digest tick keys (reconciled_report rc) s2 = (Ok rep, s')"
    using assms by (auto simp: keeper_run_def split: prod.splits result.splits)
  have "seen (reconciled_report rc) = 0" "rr_polled (reconciled_report rc) = 0"
    "ended (reconciled_report rc) = rr_reconciled_unsigned (reconciled_report rc)"
    by (simp_all add: seen_def ended_def reconciled_report_def RunReport_default_def)
  with run_loop_books [OF 1(3)] run_loop_carries [OF 1(3)] that [OF 1(1,2)] show ?thesis
    by (simp add: carried_def)
qed

end
