(* ===== verification/Keeper_Settled.thy ===== *)
theory Keeper_Settled imports Keeper_Reserved Keeper_Accounting
begin

text \<open>
  What a reconcile pass that reports has done to each reservation: the answers the venue gave
  to the ones it posted, in order, with the journal entry each of them left and the bucket it
  was counted in.
\<close>

section \<open>What one answer leaves\<close>

text \<open>The entry of a posted reservation once its answer has been written to the journal.\<close>

definition settled_entry ::
  "FaultPolicy \<Rightarrow> Tick \<Rightarrow> Reservation \<Rightarrow> (SubmitOutcome, VenueFault) result \<Rightarrow> JEntry option" where
  "settled_entry policy tick rv ro =
     (case ro of
        Ok (Accepted _) \<Rightarrow> Some JCommitted
      | Ok (RequiresSigning _) \<Rightarrow> None
      | Err fault \<Rightarrow>
          if fp_is_terminal policy fault then None
          else Some (JReserved
            (case fault of
               VRateLimited (Some ms) \<Rightarrow> u64_saturating_add (tk_epoch_s tick) (u64_div_ceil ms 1000)
             | _ \<Rightarrow> rv_next_eligible rv) (rv_body rv)))"

definition refused_for_good :: "FaultPolicy \<Rightarrow> (SubmitOutcome, VenueFault) result \<Rightarrow> bool" where
  "refused_for_good policy ro \<longleftrightarrow> (case ro of Err fault \<Rightarrow> fp_is_terminal policy fault | _ \<Rightarrow> False)"

definition refused_for_now :: "FaultPolicy \<Rightarrow> (SubmitOutcome, VenueFault) result \<Rightarrow> bool" where
  "refused_for_now policy ro \<longleftrightarrow> (case ro of Err fault \<Rightarrow> \<not> fp_is_terminal policy fault | _ \<Rightarrow> False)"

definition handed_back :: "(SubmitOutcome, VenueFault) result \<Rightarrow> UnsignedTx list" where
  "handed_back ro = (case ro of Ok (RequiresSigning tx) \<Rightarrow> [tx] | _ \<Rightarrow> [])"

text \<open>The report after the answers \<open>ros\<close>; the gated count is not theirs.\<close>

definition counted ::
  "FaultPolicy \<Rightarrow> (SubmitOutcome, VenueFault) result list \<Rightarrow> ReconcileReport \<Rightarrow> ReconcileReport \<Rightarrow> bool" where
  "counted policy ros rep rep' \<longleftrightarrow>
     rc_committed rep' = rc_committed rep + length (filter accepts ros)
     \<and> rc_released rep' = rc_released rep + length (filter (refused_for_good policy) ros)
     \<and> rc_pending rep' = rc_pending rep + length (filter (refused_for_now policy) ros)
     \<and> rc_unsigned rep' = rc_unsigned rep @ concat (map handed_back ros)"

lemma counted_Nil [simp]: "counted policy [] rep rep"
  by (simp add: counted_def)

lemma counted_gated [simp]: "counted policy ros (rep\<lparr>rc_gated := n\<rparr>) rep' = counted policy ros rep rep'"
  by (simp add: counted_def)

lemma counted_Cons: "counted policy [ro] rep rep1 \<Longrightarrow> counted policy ros rep1 rep' \<Longrightarrow>
    counted policy (ro # ros) rep rep'"
  by (simp add: counted_def)

lemmas answer_defs = settled_entry_def refused_for_good_def refused_for_now_def handed_back_def

text \<open>Every answer is in exactly one bucket.\<close>

lemma one_bucket:
  "length (filter accepts [ro]) + length (filter (refused_for_good policy) [ro])
     + length (filter (refused_for_now policy) [ro]) + length (concat (map handed_back [ro])) = 1"
  by (auto simp: answer_defs split: result.split SubmitOutcome.split)

section \<open>The pass\<close>

context keeper_env begin

text \<open>Reservations that the journal holds, each under its own key.\<close>

definition held_reservations :: "Reservation list \<Rightarrow> 's \<Rightarrow> bool" where
  "held_reservations rvs s \<longleftrightarrow> distinct (map rv_key rvs)
     \<and> (\<forall>rv\<in>set rvs. J s (rv_key rv) = Some (JReserved (rv_next_eligible rv) (rv_body rv)))"

lemma held_pending: "st_pending st s = (Ok rvs, s1) \<Longrightarrow> held_reservations rvs s1"
  using pending_reads [of s "Ok rvs" s1] pending_entry [of s rvs s1]
  by (simp add: held_reservations_def)

lemma reconcile_loop_answer:
  assumes run: "rloop tick spent rep (rv # rest) s = (Ok rep', s')"
    and live: "\<not> tk_epoch_s tick < rv_next_eligible rv" "\<not> kp_max_per_tick k \<le> spent"
    and held: "J s (rv_key rv) = Some (JReserved (rv_next_eligible rv) (rv_body rv))"
    and post: "vt_submit (kp_venues k) (kp_venue k) (rv_body rv) s = (ro, s1)"
  obtains rep1 s2 where "rloop tick (Suc spent) rep1 rest s2 = (Ok rep', s')"
    "counted (kp_fault_policy k) [ro] rep rep1"
    "J s2 = (J s)(rv_key rv := settled_entry (kp_fault_policy k) tick rv ro)"
    "posts s2 = posts s @ [rv_body rv]"
    "accepted s2 = accepted s @ (if accepts ro then [rv_body rv] else [])"
proof -
  note v = venue_post [OF post] and def = run live post and out = that
  have wrote: thesis
    if "rloop tick (Suc spent) rep1 rest s2 = (Ok rep', s')" "counted (kp_fault_policy k) [ro] rep rep1"
      and "J s2 = (J s)(rv_key rv := settled_entry (kp_fault_policy k) tick rv ro)"
      and "posts s2 = posts s1 \<and> accepted s2 = accepted s1" for rep1 s2
    using that(4) v by (intro out [OF that(1-3)]) simp_all
  show ?thesis
  proof (cases ro)
    case (Ok out)
    show ?thesis
    proof (cases out)
      case (Accepted receipt)
      obtain s2 where w: "st_commit st (rv_key rv) s1 = (Ok (), s2)"
        "rloop tick (Suc spent) (rep\<lparr>rc_committed := Suc (rc_committed rep)\<rparr>) rest s2 = (Ok rep', s')"
        using def Ok Accepted by (auto split: prod.splits result.splits)
      show ?thesis
        by (rule wrote [OF w(2)]) (use commit_writes [OF w(1)] journal_off_wire'(2) [OF w(1)] v(1) in
            \<open>simp_all add: Ok Accepted counted_def answer_defs writes_def\<close>)
    next
      case (RequiresSigning tx)
      obtain s2 where w: "st_release st (rv_key rv) s1 = (Ok (), s2)"
        "rloop tick (Suc spent) (rep\<lparr>rc_unsigned := rc_unsigned rep @ [tx]\<rparr>) rest s2 = (Ok rep', s')"
        using def Ok RequiresSigning by (auto split: prod.splits result.splits)
      show ?thesis
        by (rule wrote [OF w(2)]) (use release_writes [OF w(1)] journal_off_wire'(3) [OF w(1)] v(1) in
            \<open>simp_all add: Ok RequiresSigning counted_def answer_defs writes_def\<close>)
    qed
  next
    case (Err fault)
    consider (gone) "fp_is_terminal (kp_fault_policy k) fault"
      | (parked) ms where "\<not> fp_is_terminal (kp_fault_policy k) fault" "fault = VRateLimited (Some ms)"
      | (kept) "\<not> fp_is_terminal (kp_fault_policy k) fault" "\<forall>ms. fault \<noteq> VRateLimited (Some ms)"
      by blast
    then show ?thesis
    proof cases
      case gone
      obtain s2 where w: "st_release st (rv_key rv) s1 = (Ok (), s2)"
        "rloop tick (Suc spent) (rep\<lparr>rc_released := Suc (rc_released rep)\<rparr>) rest s2 = (Ok rep', s')"
        using def Err gone by (auto split: prod.splits result.splits)
      show ?thesis
        by (rule wrote [OF w(2)]) (use release_writes [OF w(1)] journal_off_wire'(3) [OF w(1)] v(1) gone in
            \<open>simp_all add: Err counted_def answer_defs writes_def\<close>)
    next
      case (parked ms)
      obtain s2 where w: "st_park st (rv_key rv) (rv_body rv)
            (u64_saturating_add (tk_epoch_s tick) (u64_div_ceil ms 1000)) s1 = (Ok (), s2)"
        "rloop tick (Suc spent) (rep\<lparr>rc_pending := Suc (rc_pending rep)\<rparr>) rest s2 = (Ok rep', s')"
        using def Err parked by (auto split: prod.splits result.splits)
      show ?thesis
        by (rule wrote [OF w(2)]) (use park_writes [OF w(1)] journal_off_wire'(4) [OF w(1)] v(1) parked in
            \<open>simp_all add: Err counted_def answer_defs writes_def\<close>)
    next
      case kept
      then have w: "rloop tick (Suc spent) (rep\<lparr>rc_pending := Suc (rc_pending rep)\<rparr>) rest s1 = (Ok rep', s')"
        using def Err by (cases fault) (auto split: option.splits)
      show ?thesis
        by (rule wrote [OF w]) (use kept v(1) held in
            \<open>auto simp: Err counted_def answer_defs fun_eq_iff split: VenueFault.splits option.splits\<close>)
    qed
  qed
qed

text \<open>
  The answers of a pass over \<open>rvs\<close> that started in \<open>s\<close> and ended in \<open>s'\<close>: \<open>as\<close> pairs each
  reservation it handled, in order, with what the venue answered for it while its
  reservation was in the journal and the earlier ones had been posted.
\<close>

definition answered_in_order :: "(Reservation \<times> (SubmitOutcome, VenueFault) result) list \<Rightarrow> 's \<Rightarrow> bool" where
  "answered_in_order as s \<longleftrightarrow> (\<forall>i<length as. \<exists>t.
     posts t = posts s @ map (rv_body \<circ> fst) (take i as)
     \<and> J t (rv_key (fst (as ! i))) =
         Some (JReserved (rv_next_eligible (fst (as ! i))) (rv_body (fst (as ! i))))
     \<and> snd (as ! i) = fst (vt_submit (kp_venues k) (kp_venue k) (rv_body (fst (as ! i))) t))"

definition passed_over ::
  "Tick \<Rightarrow> (Reservation \<times> (SubmitOutcome, VenueFault) result) list \<Rightarrow> 's \<Rightarrow> 's \<Rightarrow> bool" where
  "passed_over tick as s s' \<longleftrightarrow> answered_in_order as s
     \<and> posts s' = posts s @ map (rv_body \<circ> fst) as
     \<and> accepted s' = accepted s @ map (rv_body \<circ> fst) (filter (accepts \<circ> snd) as)
     \<and> (\<forall>(rv, ro)\<in>set as. J s' (rv_key rv) = settled_entry (kp_fault_policy k) tick rv ro)
     \<and> (\<forall>key. key \<notin> (rv_key \<circ> fst) ` set as \<longrightarrow> J s' key = J s key)"

lemma passed_over_Nil [simp]: "passed_over tick [] s s"
  by (simp add: passed_over_def answered_in_order_def)

lemma passed_over_Cons:
  assumes "passed_over tick as s2 s'" and "rv_key rv \<notin> (rv_key \<circ> fst) ` set as"
    and "ro = fst (vt_submit (kp_venues k) (kp_venue k) (rv_body rv) s)"
    and "J s (rv_key rv) = Some (JReserved (rv_next_eligible rv) (rv_body rv))"
    and "J s2 = (J s)(rv_key rv := settled_entry (kp_fault_policy k) tick rv ro)"
    and "posts s2 = posts s @ [rv_body rv]"
    and "accepted s2 = accepted s @ (if accepts ro then [rv_body rv] else [])"
  shows "passed_over tick ((rv, ro) # as) s s'"
proof -
  have "answered_in_order ((rv, ro) # as) s"
    unfolding answered_in_order_def
  proof (intro allI impI)
    fix i
    assume i: "i < length ((rv, ro) # as)"
    show "\<exists>t. posts t = posts s @ map (rv_body \<circ> fst) (take i ((rv, ro) # as))
       \<and> J t (rv_key (fst (((rv, ro) # as) ! i))) = Some (JReserved
           (rv_next_eligible (fst (((rv, ro) # as) ! i))) (rv_body (fst (((rv, ro) # as) ! i))))
       \<and> snd (((rv, ro) # as) ! i) =
           fst (vt_submit (kp_venues k) (kp_venue k) (rv_body (fst (((rv, ro) # as) ! i))) t)"
      using assms i by (cases i) (auto simp: passed_over_def answered_in_order_def)
  qed
  moreover have "posts s' = posts s @ map (rv_body \<circ> fst) ((rv, ro) # as)"
    "accepted s' = accepted s @ map (rv_body \<circ> fst) (filter (accepts \<circ> snd) ((rv, ro) # as))"
    using assms(1,6,7) by (simp_all add: passed_over_def)
  moreover have f: "J s' key = J s2 key" if "key \<notin> (rv_key \<circ> fst) ` set as" for key
    using assms(1) that unfolding passed_over_def by blast
  moreover have "J s' (rv_key rv) = settled_entry (kp_fault_policy k) tick rv ro"
    using f [OF assms(2)] assms(5) by simp
  moreover have "\<forall>(x, y)\<in>set as. J s' (rv_key x) = settled_entry (kp_fault_policy k) tick x y"
    using assms(1) unfolding passed_over_def by blast
  ultimately show ?thesis
    unfolding passed_over_def using assms(5) by simp
qed

lemma reconcile_loop_answers:
  "rloop tick spent rep rvs s = (Ok rep', s') \<Longrightarrow> held_reservations rvs s \<Longrightarrow> spent \<le> kp_max_per_tick k \<Longrightarrow>
   \<exists>as. map fst as = take (kp_max_per_tick k - spent) (filter (eligible tick) rvs)
      \<and> passed_over tick as s s' \<and> counted (kp_fault_policy k) (map snd as) rep rep'"
proof (induction rvs arbitrary: spent rep s)
  case Nil
  then show ?case by auto
next
  case (Cons rv rest)
  have held: "held_reservations rest s" and nin: "rv_key rv \<notin> rv_key ` set rest"
    and here: "J s (rv_key rv) = Some (JReserved (rv_next_eligible rv) (rv_body rv))"
    using Cons.prems(2) by (auto simp: held_reservations_def)
  show ?case
  proof (cases "tk_epoch_s tick < rv_next_eligible rv \<or> kp_max_per_tick k \<le> spent")
    case skipped: True
    show ?thesis
    proof (cases "tk_epoch_s tick < rv_next_eligible rv")
      case True
      with Cons.prems(1) have gate: "rloop tick spent (rep\<lparr>rc_gated := rc_gated rep + 1\<rparr>) rest s = (Ok rep', s')"
        by simp
      from True have "\<not> eligible tick rv" by (simp add: eligible_def)
      with Cons.IH [OF gate held Cons.prems(3)] show ?thesis by simp
    next
      case False
      with Cons.prems(1,3) skipped show ?thesis by simp
    qed
  next
    case False
    obtain ro s1 where post: "vt_submit (kp_venues k) (kp_venue k) (rv_body rv) s = (ro, s1)" by fastforce
    from False have live: "\<not> tk_epoch_s tick < rv_next_eligible rv" "\<not> kp_max_per_tick k \<le> spent" by simp_all
    obtain rep1 s2 where more: "rloop tick (Suc spent) rep1 rest s2 = (Ok rep', s')"
      and c: "counted (kp_fault_policy k) [ro] rep rep1"
      and moved: "J s2 = (J s)(rv_key rv := settled_entry (kp_fault_policy k) tick rv ro)"
        "posts s2 = posts s @ [rv_body rv]"
        "accepted s2 = accepted s @ (if accepts ro then [rv_body rv] else [])"
      by (rule reconcile_loop_answer [OF Cons.prems(1) live here post])
    have "rv_key x \<noteq> rv_key rv" if "x \<in> set rest" for x using nin that by (metis imageI)
    then have held2: "held_reservations rest s2"
      using held by (simp add: held_reservations_def moved(1))
    obtain as where as: "map fst as = take (kp_max_per_tick k - Suc spent) (filter (eligible tick) rest)"
      "passed_over tick as s2 s'" "counted (kp_fault_policy k) (map snd as) rep1 rep'"
      using Cons.IH [OF more held2] live(2) by auto
    have "fst ` set as \<subseteq> set rest"
      using arg_cong [OF as(1), of set] set_take_subset [of _ "filter (eligible tick) rest"]
      by (auto simp del: take_all_iff)
    with nin have "rv_key rv \<notin> (rv_key \<circ> fst) ` set as" by (auto simp: image_comp [symmetric])
    from passed_over_Cons [OF as(2) this _ here moved] post
    have "passed_over tick ((rv, ro) # as) s s'" by simp
    moreover have "map fst ((rv, ro) # as) = take (kp_max_per_tick k - spent) (filter (eligible tick) (rv # rest))"
      using live as(1) by (simp add: eligible_def not_less Suc_diff_Suc [symmetric])
    ultimately show ?thesis
      using counted_Cons [OF c as(3)] by (intro exI [of _ "(rv, ro) # as"]) simp
  qed
qed

lemma reconcile_answers:
  assumes "reconcile (kp_venue k) (kp_venues k) st tick (kp_max_per_tick k) (kp_fault_policy k) s = (Ok rep, s')"
    and p: "st_pending st s = (Ok rvs, s1)"
  shows "\<exists>as. map fst as = take (kp_max_per_tick k) (filter (eligible tick) rvs)
     \<and> passed_over tick as s s' \<and> counted (kp_fault_policy k) (map snd as) ReconcileReport_default rep"
proof -
  have l: "rloop tick 0 ReconcileReport_default rvs s1 = (Ok rep, s')"
    using assms by (simp add: reconcile_def)
  have u: "unmoved s s1" by (rule unmoved_calls(2) [OF p])
  from reconcile_loop_answers [OF l held_pending [OF p]] u show ?thesis
    by (auto simp: passed_over_def answered_in_order_def unmoved_def)
qed

end

end
