(* ===== verification/Keeper_Store.thy ===== *)
theory Keeper_Store imports Keeper_Interrupted Keeper_Settled "HOL-Library.AList"
begin

text \<open>
  A host for a keeper: the in-memory stores its sweeps run on in the crate's tests, and the
  programmed pollers, venues, fault policy and the store with a failing commit those
  tests define in \<^verbatim>\<open>videre-sdk/src/keeper.rs\<close>. The stores themselves belong to the runtime
  SDK; here they are one concrete choice that keeps the contract of \<open>submission_journal\<close>.
\<close>

section \<open>The state of a test\<close>

text \<open>
  \<open>cv_preloaded\<close> and \<open>cv_accepted\<close> hold what the counting venue's one set holds: the bodies
  it was given up front and those it accepted, the latter in order.
\<close>

record keeper_world =
  kw_journal :: "(string \<times> JEntry) list"
  kw_commitments :: "(string \<times> bytes) list"
  kw_next_block :: "string \<Rightarrow> u64"
  kw_next_epoch :: "string \<Rightarrow> u64"
  kw_refused :: "string list"
  kw_arm :: bool
  kw_script :: "Outcome list"
  cv_outcome :: "(SubmitOutcome, VenueFault) result"
  cv_posts :: "bytes list"
  cv_preloaded :: "bytes list"
  cv_accepted :: "bytes list"

datatype store_fault = Store_Unavailable string

definition kw_map :: "keeper_world \<Rightarrow> string \<Rightarrow> JEntry option" where
  "kw_map s = map_of (kw_journal s)"

definition reservations_of :: "(string \<times> JEntry) list \<Rightarrow> Reservation list" where
  "reservations_of j = List.map_filter
     (\<lambda>key. case map_of j key of
        Some (JReserved n b) \<Rightarrow> Some \<lparr>rv_key = key, rv_next_eligible = n, rv_body = b\<rparr>
      | _ \<Rightarrow> None) (remdups (map fst j))"

definition put_journal :: "string \<Rightarrow> JEntry \<Rightarrow> keeper_world \<Rightarrow> keeper_world" where
  "put_journal key e s = s\<lparr>kw_journal := AList.update key e (kw_journal s)\<rparr>"

fun retrier_apply :: "string \<Rightarrow> RetryAction \<Rightarrow> Tick \<Rightarrow> keeper_world \<Rightarrow> keeper_world" where
  "retrier_apply c TryNextBlock tick s = s"
| "retrier_apply c (RetryBackoff seconds) tick s =
     s\<lparr>kw_next_epoch := (kw_next_epoch s)(c := u64_saturating_add (tk_epoch_s tick) seconds)\<rparr>"
| "retrier_apply c RetryDrop tick s = s\<lparr>kw_commitments := AList.delete c (kw_commitments s)\<rparr>"

definition mem_stores :: "(keeper_world, string, store_fault) stores" where
  "mem_stores =
     \<lparr>st_list = (\<lambda>s. (Ok (map fst (kw_commitments s)), s)),
      st_parse = (\<lambda>key. if key = [] then None else Some key),
      st_get = (\<lambda>c s. (Ok (map_of (kw_commitments s) c), s)),
      st_is_ready = (\<lambda>c bl ep s. (Ok (kw_next_block s c \<le> bl \<and> kw_next_epoch s c \<le> ep), s)),
      st_mark = (\<lambda>key s. (Ok (map_option mark_of (kw_map s key)), s)),
      st_reserve = (\<lambda>key b s. (Ok (), put_journal key (JReserved 0 b) s)),
      st_commit = (\<lambda>key s. (Ok (), put_journal key JCommitted s)),
      st_release = (\<lambda>key s. (Ok (), s\<lparr>kw_journal := AList.delete key (kw_journal s)\<rparr>)),
      st_park = (\<lambda>key b n s. (Ok (), put_journal key (JReserved n b) s)),
      st_pending = (\<lambda>s. (Ok (reservations_of (kw_journal s)), s)),
      st_clear_refusal = (\<lambda>c s. (Ok (), s\<lparr>kw_refused := removeAll c (kw_refused s)\<rparr>)),
      st_apply = (\<lambda>c a tick s. (Ok (), retrier_apply c a tick s))\<rparr>"

section \<open>The test doubles\<close>

text \<open>\<^verbatim>\<open>FlakyCommit\<close>: the first commit after arming fails and changes nothing else.\<close>

definition FlakyCommit ::
  "(keeper_world, string, store_fault) stores \<Rightarrow> (keeper_world, string, store_fault) stores" where
  "FlakyCommit inner = inner\<lparr>st_commit := (\<lambda>key s.
     if kw_arm s then (Err (Store_Unavailable ''commit write faulted''), s\<lparr>kw_arm := False\<rparr>)
     else st_commit inner key s)\<rparr>"

definition StubSource :: "Outcome \<Rightarrow> 'c \<Rightarrow> bytes \<Rightarrow> Tick \<Rightarrow> keeper_world \<Rightarrow> Outcome \<times> keeper_world" where
  "StubSource outcome commitment params tick s = (outcome, s)"

definition SeqSource :: "'c \<Rightarrow> bytes \<Rightarrow> Tick \<Rightarrow> keeper_world \<Rightarrow> Outcome \<times> keeper_world" where
  "SeqSource commitment params tick s =
     (if kw_script s = [] then (OWaitBlock, s)
      else (last (kw_script s), s\<lparr>kw_script := butlast (kw_script s)\<rparr>))"

definition RetiringSource :: "string \<Rightarrow> bytes \<Rightarrow> Tick \<Rightarrow> keeper_world \<Rightarrow> Outcome \<times> keeper_world" where
  "RetiringSource commitment params tick s =
     (OWaitBlock, s\<lparr>kw_commitments := AList.delete commitment (kw_commitments s)\<rparr>)"

text \<open>Calls a double does not exercise panic in the source; here they answer \<open>VUnsupported\<close>.\<close>

definition only_submit :: "(SdkVenueId \<Rightarrow> bytes \<Rightarrow> ('s, SubmitOutcome) venue_call) \<Rightarrow> 's VenueTransport" where
  "only_submit m =
     \<lparr>vt_quote = (\<lambda>_ _ s. (Err VUnsupported, s)), vt_submit = m, vt_observe = default_observe,
      vt_status = (\<lambda>_ _ s. (Err VUnsupported, s)), vt_cancel = (\<lambda>_ _ s. (Err VUnsupported, s))\<rparr>"

definition log_answer ::
  "bytes \<Rightarrow> (SubmitOutcome, VenueFault) result \<Rightarrow> keeper_world
    \<Rightarrow> (SubmitOutcome, VenueFault) result \<times> keeper_world" where
  "log_answer body answer s = (answer,
     (case answer of
        Ok (Accepted _) \<Rightarrow> s\<lparr>cv_accepted := cv_accepted s @ [body]\<rparr> | _ \<Rightarrow> s))"

definition StubVenue :: "keeper_world VenueTransport" where
  "StubVenue = only_submit (\<lambda>_ body s.
     log_answer body (cv_outcome s) (s\<lparr>cv_posts := cv_posts s @ [body]\<rparr>))"

definition held :: "keeper_world \<Rightarrow> bytes set" where
  "held s = set (cv_preloaded s) \<union> set (cv_accepted s)"

definition CountingVenue :: "keeper_world VenueTransport" where
  "CountingVenue = only_submit (\<lambda>_ body s.
     (let s1 = s\<lparr>cv_posts := cv_posts s @ [body]\<rparr>
      in if body \<in> held s1 then log_answer body (Ok (Accepted [0xAB])) s1
         else log_answer body (cv_outcome s1) s1))"

definition preload :: "bytes \<Rightarrow> keeper_world \<Rightarrow> keeper_world" where
  "preload body s = s\<lparr>cv_preloaded := body # cv_preloaded s\<rparr>"

definition Idempotent :: FaultPolicy where
  "Idempotent =
     (let action = (\<lambda>fault. case fault of VReceiptMismatch \<Rightarrow> RetryBackoff 300 | other \<Rightarrow> retry_action other)
      in \<lparr>fp_action = action, fp_is_terminal = is_terminal_of action\<rparr>)"

definition TICK :: Tick where
  "TICK = \<lparr>tk_chain_id = 1, tk_block = 100, tk_epoch_s = 1000\<rparr>"

definition STUB :: string where "STUB = ''stub''"

definition stub_key :: "(bytes \<Rightarrow> string) \<Rightarrow> bytes \<Rightarrow> string" where
  "stub_key digest body = submission_key digest (SdkVenueId_from_static STUB) body"

definition seed_reserved :: "(bytes \<Rightarrow> string) \<Rightarrow> bytes \<Rightarrow> keeper_world \<Rightarrow> keeper_world" where
  "seed_reserved digest body s = snd (st_reserve mem_stores (stub_key digest body) body s)"

definition idle_keeper :: "(keeper_world, string) Keeper" where
  "idle_keeper = Keeper_new (StubSource OWaitBlock) CountingVenue (SdkVenueId_from_static STUB)"

section \<open>The contracts hold\<close>

lemma in_map_filter: "y \<in> set (List.map_filter f xs) \<longleftrightarrow> (\<exists>x\<in>set xs. f x = Some y)"
  by (induction xs) (auto simp: map_filter_simps split: option.splits)

lemma reservation_at:
  "(case e of Some (JReserved n b) \<Rightarrow> Some \<lparr>rv_key = key, rv_next_eligible = n, rv_body = b\<rparr> | _ \<Rightarrow> None) = Some rv
     \<longleftrightarrow> key = rv_key rv \<and> e = Some (JReserved (rv_next_eligible rv) (rv_body rv))"
proof (cases e)
  case (Some x)
  then show ?thesis by (cases x; cases rv) auto
qed simp

lemma set_reservations_of:
  "rv \<in> set (reservations_of j) \<longleftrightarrow> map_of j (rv_key rv) = Some (JReserved (rv_next_eligible rv) (rv_body rv))"
proof -
  have "rv \<in> set (reservations_of j) \<longleftrightarrow> rv_key rv \<in> fst ` set j
      \<and> map_of j (rv_key rv) = Some (JReserved (rv_next_eligible rv) (rv_body rv))"
    by (auto simp: reservations_of_def in_map_filter reservation_at)
  moreover have "rv_key rv \<in> fst ` set j" if "map_of j (rv_key rv) = Some e" for e
    using that by (metis domI dom_map_of_conv_image_fst)
  ultimately show ?thesis by blast
qed

lemma keys_map_filter:
  "(\<And>k y. f k = Some y \<Longrightarrow> rv_key y = k) \<Longrightarrow> map rv_key (List.map_filter f ks) = filter (\<lambda>k. f k \<noteq> None) ks"
  by (induction ks) (auto simp: map_filter_simps split: option.split)

lemma distinct_reservations_of: "distinct (map rv_key (reservations_of j))"
  unfolding reservations_of_def
  by (subst keys_map_filter) (auto split: option.splits JEntry.splits)

lemma put_journal_map [simp]: "kw_map (put_journal key e s) = (kw_map s)(key \<mapsto> e)"
  by (simp add: kw_map_def put_journal_def update_conv')

lemma delete_journal_map [simp]:
  "kw_map (s\<lparr>kw_journal := AList.delete key (kw_journal s)\<rparr>) = (kw_map s)(key := None)"
  by (simp add: kw_map_def delete_conv')

lemma put_journal_venue [simp]:
  "cv_posts (put_journal key e s) = cv_posts s" "cv_accepted (put_journal key e s) = cv_accepted s"
  by (simp_all add: put_journal_def)

lemma kw_map_off_journal [simp]:
  "kw_map (s\<lparr>kw_arm := x\<rparr>) = kw_map s" "kw_map (s\<lparr>kw_refused := r\<rparr>) = kw_map s"
  "kw_map (s\<lparr>cv_posts := ps\<rparr>) = kw_map s" "kw_map (s\<lparr>cv_accepted := ac\<rparr>) = kw_map s"
  "kw_map (s\<lparr>kw_commitments := cs\<rparr>) = kw_map s" "kw_map (s\<lparr>kw_next_block := nb\<rparr>) = kw_map s"
  "kw_map (s\<lparr>kw_next_epoch := ne\<rparr>) = kw_map s" "kw_map (s\<lparr>kw_script := sc\<rparr>) = kw_map s"
  by (simp_all add: kw_map_def)

lemma retrier_apply_frame [simp]:
  "kw_map (retrier_apply c a tick s) = kw_map s" "cv_posts (retrier_apply c a tick s) = cv_posts s"
  "cv_accepted (retrier_apply c a tick s) = cv_accepted s"
  by (cases a; simp)+

interpretation journal: submission_journal "FlakyCommit mem_stores" kw_map
  by unfold_locales
    (auto simp: FlakyCommit_def mem_stores_def writes_def set_reservations_of kw_map_def [symmetric]
      distinct_reservations_of split: if_splits simp flip: kw_map_def)

interpretation plain_journal: submission_journal mem_stores kw_map
  by unfold_locales
    (auto simp: mem_stores_def writes_def set_reservations_of distinct_reservations_of
      simp flip: kw_map_def)

lemma log_answer_logs:
  "log_answer b answer s = (ro, s') \<Longrightarrow> kw_map s' = kw_map s \<and> cv_posts s' = cv_posts s
     \<and> cv_accepted s' = cv_accepted s @ (case ro of Ok (Accepted _) \<Rightarrow> [b] | _ \<Rightarrow> [])"
  by (auto simp: log_answer_def split: result.splits SubmitOutcome.splits)

lemma counting_logs:
  "vt_submit CountingVenue venue b s = (ro, s') \<Longrightarrow> kw_map s' = kw_map s \<and> cv_posts s' = cv_posts s @ [b]
     \<and> cv_accepted s' = cv_accepted s @ (case ro of Ok (Accepted _) \<Rightarrow> [b] | _ \<Rightarrow> [])"
  by (auto simp: CountingVenue_def only_submit_def Let_def split: if_splits dest!: log_answer_logs)

text \<open>Any keeper over the counting venue whose poller stays off the journal and the venue.\<close>

definition quiet_source :: "('c \<Rightarrow> bytes \<Rightarrow> Tick \<Rightarrow> keeper_world \<Rightarrow> Outcome \<times> keeper_world) \<Rightarrow> bool" where
  "quiet_source src \<longleftrightarrow> (\<forall>c b tick s. kw_map (snd (src c b tick s)) = kw_map s
     \<and> cv_posts (snd (src c b tick s)) = cv_posts s \<and> cv_accepted (snd (src c b tick s)) = cv_accepted s)"

lemma quiet_sources: "quiet_source (StubSource outcome)" "quiet_source SeqSource" "quiet_source RetiringSource"
  by (simp_all add: quiet_source_def StubSource_def SeqSource_def RetiringSource_def)

definition counting_keeper ::
  "(string \<Rightarrow> bytes \<Rightarrow> Tick \<Rightarrow> keeper_world \<Rightarrow> Outcome \<times> keeper_world) \<Rightarrow> nat \<Rightarrow> FaultPolicy
    \<Rightarrow> (keeper_world, string) Keeper" where
  "counting_keeper src budget policy = with_reconcile_budget budget
     (with_fault_policy policy (Keeper_new src CountingVenue (SdkVenueId_from_static STUB)))"

lemma counting_keeper_simps [simp]:
  "kp_poll (counting_keeper src budget policy) = src"
  "kp_venues (counting_keeper src budget policy) = CountingVenue"
  "kp_venue (counting_keeper src budget policy) = SdkVenueId STUB"
  "kp_max_per_tick (counting_keeper src budget policy) = budget"
  "kp_fault_policy (counting_keeper src budget policy) = policy"
  by (simp_all add: counting_keeper_def with_reconcile_budget_def with_fault_policy_def Keeper_new_def
      SdkVenueId_from_static_def)

lemma counting_env:
  assumes "quiet_source src"
  shows "keeper_env (FlakyCommit mem_stores) kw_map (counting_keeper src budget policy) cv_posts cv_accepted"
  using assms counting_logs
  by unfold_locales (auto simp: FlakyCommit_def mem_stores_def quiet_source_def split: if_splits)

lemma counting_env_plain:
  assumes "quiet_source src"
  shows "keeper_env mem_stores kw_map (counting_keeper src budget policy) cv_posts cv_accepted"
  using assms counting_logs
  by unfold_locales (auto simp: mem_stores_def quiet_source_def)

text \<open>Digests that tell bodies apart: here the bytes themselves.\<close>

definition plain_digest :: "bytes \<Rightarrow> string" where
  "plain_digest b = bytes_str b"

lemma plain_digest_inj: "plain_digest b = plain_digest b' \<Longrightarrow> b = b'"
  unfolding plain_digest_def by (metis str_bytes_bytes_str)

lemma counting_reaccepts:
  assumes "vt_submit CountingVenue venue b s = (ro, s')" and "b \<in> set (cv_accepted s)"
  shows "accepts ro"
  using assms by (auto simp: CountingVenue_def only_submit_def Let_def log_answer_def held_def)

lemma counting_idempotent:
  assumes "quiet_source src"
  shows "idempotent_env (FlakyCommit mem_stores) kw_map (counting_keeper src budget policy)
     cv_posts cv_accepted plain_digest"
  unfolding idempotent_env_def idempotent_env_axioms_def
  using counting_env [OF assms] counting_reaccepts
  by (auto simp: submission_key_def dest!: plain_digest_inj)

lemma counting_idempotent_plain:
  assumes "quiet_source src"
  shows "idempotent_env mem_stores kw_map (counting_keeper src budget policy)
     cv_posts cv_accepted plain_digest"
  unfolding idempotent_env_def idempotent_env_axioms_def
  using counting_env_plain [OF assms] counting_reaccepts
  by (auto simp: submission_key_def dest!: plain_digest_inj)

interpretation stub_env: keeper_env "FlakyCommit mem_stores" kw_map
    "counting_keeper (StubSource outcome) budget policy" cv_posts cv_accepted for outcome budget policy
  by (rule counting_env) (rule quiet_sources)

interpretation stub_idempotent: idempotent_env "FlakyCommit mem_stores" kw_map
    "counting_keeper (StubSource outcome) budget policy" cv_posts cv_accepted plain_digest
    for outcome budget policy
  by (rule counting_idempotent) (rule quiet_sources)

end
