(* ===== verification/Keeper_Tests.thy ===== *)
theory Keeper_Tests imports Keeper_Store Test_Assertions
begin

text \<open>
  The unit tests of \<^verbatim>\<open>videre-sdk/src/keeper.rs\<close> replayed on the in-memory stores of
  \<open>Keeper_Store\<close>, over any digest that tells bodies apart. Not replayed: the tests of
  \<^verbatim>\<open>Journal::guard\<close> and of paged enumeration, which exercise the runtime's SDK, and the
  torn-write test, whose claim \<open>interrupted_sweeps_are_recovered\<close> proves of every sweep
  and every place to stop it.
\<close>

section \<open>Set-ups\<close>

type_synonym keeper_test = "(bytes \<Rightarrow> string) \<Rightarrow> bool"

text \<open>An empty store, and a venue programmed with its answer.\<close>

definition host :: "(SubmitOutcome, VenueFault) result \<Rightarrow> keeper_world" where
  "host outcome =
     \<lparr>kw_journal = [], kw_commitments = [], kw_next_block = (\<lambda>_. 0), kw_next_epoch = (\<lambda>_. 0),
      kw_refused = [], kw_arm = False, kw_script = [], cv_outcome = outcome, cv_posts = [],
      cv_preloaded = [], cv_accepted = []\<rparr>"

abbreviation accepting :: keeper_world where
  "accepting \<equiv> host (Ok (Accepted [0xAB]))"

definition the_commitment :: string where "the_commitment = ''commitment''"

definition put_commitment :: "keeper_world \<Rightarrow> keeper_world" where
  "put_commitment s =
     s\<lparr>kw_commitments := AList.update the_commitment (str_bytes ''params'') (kw_commitments s)\<rparr>"

definition a_keeper :: "Outcome \<Rightarrow> (keeper_world, string) Keeper" where
  "a_keeper outcome = Keeper_new (StubSource outcome) StubVenue (SdkVenueId_from_static STUB)"

definition counting :: "Outcome \<Rightarrow> (keeper_world, string) Keeper" where
  "counting outcome = Keeper_new (StubSource outcome) CountingVenue (SdkVenueId_from_static STUB)"

abbreviation submits :: "string \<Rightarrow> Outcome" where
  "submits b \<equiv> OSubmit (str_bytes b)"

abbreviation mark :: "(bytes \<Rightarrow> string) \<Rightarrow> string \<Rightarrow> keeper_world \<Rightarrow> Mark option" where
  "mark d b s \<equiv> map_option mark_of (kw_map s (stub_key d (str_bytes b)))"

definition post_count :: "keeper_world \<Rightarrow> nat" where "post_count s = length (cv_posts s)"

definition held_count :: "keeper_world \<Rightarrow> nat" where "held_count s = card (held s)"

definition pending :: "keeper_world \<Rightarrow> Reservation list" where
  "pending s = reservations_of (kw_journal s)"

definition at_epoch :: "u64 \<Rightarrow> Tick" where
  "at_epoch n = TICK\<lparr>tk_epoch_s := tk_epoch_s TICK + n\<rparr>"

text \<open>
  A store whose refusal markers fault, and a poller that arms a fault of the commitment rows
  before it asks for a retry.
\<close>

definition refusals_fault :: "(keeper_world, string, store_fault) stores" where
  "refusals_fault =
     mem_stores\<lparr>st_clear_refusal := (\<lambda>_ s. (Err (Store_Unavailable ''store down''), s))\<rparr>"

definition FaultArmingSource :: "string \<Rightarrow> bytes \<Rightarrow> Tick \<Rightarrow> keeper_world \<Rightarrow> Outcome \<times> keeper_world" where
  "FaultArmingSource commitment params tick s = (OWaitBlock, s\<lparr>kw_arm := True\<rparr>)"

definition armed_rows :: "(keeper_world, string, store_fault) stores" where
  "armed_rows =
     mem_stores\<lparr>st_get := (\<lambda>c s. if kw_arm s then (Err (Store_Unavailable ''store down''), s)
       else st_get mem_stores c s)\<rparr>"

abbreviation unsigned_tx :: UnsignedTx where
  "unsigned_tx \<equiv> \<lparr>tx_chain = 1, tx_to = replicate 20 0x11, tx_value = [], tx_data = [0xFE]\<rparr>"

abbreviation run :: "(keeper_world, string) Keeper \<Rightarrow> (bytes \<Rightarrow> string) \<Rightarrow> Tick \<Rightarrow> keeper_world
    \<Rightarrow> (RunReport, store_fault) result \<times> keeper_world" where
  "run k d tick s \<equiv> keeper_run k mem_stores d tick s"

section \<open>The commitment loop\<close>

definition accepted_body_is_journalled_and_never_resubmitted :: keeper_test where
  "accepted_body_is_journalled_and_never_resubmitted d =
     (let k = a_keeper (submits ''body'') in
      expect (run k d TICK (put_commitment (host (Ok (Accepted [0xA5, 0x5A]))))) (\<lambda>r1 s1.
      expect (run k d TICK s1) (\<lambda>r2 s2.
        rr_polled r1 = 1 \<and> rr_submitted r1 = 1 \<and> cv_posts s1 = [str_bytes ''body'']
        \<and> mark d ''body'' s1 \<noteq> None \<and> length (kw_commitments s1) = 1
        \<and> rr_submitted r2 = 0 \<and> rr_duplicates r2 = 1 \<and> length (cv_posts s2) = 1)))"

definition accepted_body_clears_the_refusal_marker :: keeper_test where
  "accepted_body_clears_the_refusal_marker d =
     expect (run (a_keeper (submits ''body'')) d TICK
        ((put_commitment (host (Ok (Accepted [1]))))\<lparr>kw_refused := [the_commitment]\<rparr>)) (\<lambda>r s.
       rr_submitted r = 1 \<and> the_commitment \<notin> set (kw_refused s))"

definition refusal_marker_clear_fault_does_not_abort_a_journalled_acceptance :: keeper_test where
  "refusal_marker_clear_fault_does_not_abort_a_journalled_acceptance d =
     expect (keeper_run (a_keeper (submits ''body'')) refusals_fault d TICK
        (put_commitment (host (Ok (Accepted [1]))))) (\<lambda>r s.
       rr_submitted r = 1 \<and> mark d ''body'' s \<noteq> None)"

definition a_changed_body_submits_afresh :: keeper_test where
  "a_changed_body_submits_afresh d =
     (let k = Keeper_new SeqSource StubVenue (SdkVenueId_from_static STUB);
          s0 = (put_commitment (host (Ok (Accepted [1]))))\<lparr>kw_script := [submits ''two'', submits ''one'']\<rparr>
      in expect (run k d TICK s0) (\<lambda>r1 s1.
         expect (run k d TICK s1) (\<lambda>r2 s2.
           rr_submitted r1 = 1 \<and> rr_submitted r2 = 1
           \<and> cv_posts s2 = [str_bytes ''one'', str_bytes ''two''])))"

definition requires_signing_hands_the_transaction_to_the_caller :: keeper_test where
  "requires_signing_hands_the_transaction_to_the_caller d =
     (let k = a_keeper (submits ''body'') in
      expect (run k d TICK (put_commitment (host (Ok (RequiresSigning unsigned_tx))))) (\<lambda>r1 s1.
      expect (run k d TICK s1) (\<lambda>r2 _.
        rr_unsigned r1 = [unsigned_tx] \<and> rr_submitted r1 = 0 \<and> rr_unsigned r2 = [unsigned_tx])))"

definition gated_commitment_is_not_polled :: keeper_test where
  "gated_commitment_is_not_polled d =
     (let s0 = put_commitment (host (Ok (Accepted [1])));
          s0 = s0\<lparr>kw_next_block := (kw_next_block s0)(the_commitment := tk_block TICK + 1)\<rparr>
      in expect (run (a_keeper (submits ''body'')) d TICK s0) (\<lambda>r s.
           rr_gated r = 1 \<and> rr_polled r = 0 \<and> cv_posts s = []))"

definition drop_outcome_removes_the_commitment :: keeper_test where
  "drop_outcome_removes_the_commitment d =
     expect (run (a_keeper ODrop) d TICK (put_commitment (host (Ok (Accepted [1]))))) (\<lambda>r s.
       rr_dropped r = 1 \<and> kw_commitments s = [])"

definition a_retired_commitment_counts_as_dropped_not_retried :: keeper_test where
  "a_retired_commitment_counts_as_dropped_not_retried d =
     expect (run (Keeper_new RetiringSource StubVenue (SdkVenueId_from_static STUB)) d TICK
        (put_commitment (host (Ok (Accepted [1]))))) (\<lambda>r s.
       rr_dropped r = 1 \<and> rr_retried r = 0 \<and> cv_posts s = [] \<and> kw_commitments s = [])"

definition a_bucketing_read_fault_falls_back_to_the_action :: keeper_test where
  "a_bucketing_read_fault_falls_back_to_the_action d =
     expect (keeper_run (Keeper_new FaultArmingSource StubVenue (SdkVenueId_from_static STUB)) armed_rows d
        TICK (put_commitment (host (Ok (Accepted [1]))))) (\<lambda>r _.
       rr_retried r = 1 \<and> rr_dropped r = 0)"

definition backoff_outcome_gates_the_commitment_on_the_epoch_clock :: keeper_test where
  "backoff_outcome_gates_the_commitment_on_the_epoch_clock d =
     (let k = a_keeper (OBackoff 30) in
      expect (run k d TICK (put_commitment (host (Ok (Accepted [1]))))) (\<lambda>r1 s1.
      expect (run k d TICK s1) (\<lambda>r2 s2.
      expect (run k d (at_epoch 30) s2) (\<lambda>r3 _.
        rr_retried r1 = 1 \<and> rr_gated r2 = 1 \<and> rr_polled r3 = 1))))"

definition rate_limited_refusal_backs_off_by_the_venue_hint :: keeper_test where
  "rate_limited_refusal_backs_off_by_the_venue_hint d =
     (let k = a_keeper (submits ''body'') in
      expect (run k d TICK (put_commitment (host (Err (VRateLimited (Some 2500)))))) (\<lambda>r1 s1.
      expect (run k d (at_epoch 2) s1) (\<lambda>r2 s2.
      expect (run k d (at_epoch 3) s2) (\<lambda>r3 _.
        rr_retried r1 = 1 \<and> rr_gated r2 = 1 \<and> rr_polled r3 = 1))))"

definition non_retryable_refusal_drops_the_commitment :: keeper_test where
  "non_retryable_refusal_drops_the_commitment d =
     expect (run (a_keeper (submits ''body'')) d TICK
        (put_commitment (host (Err (VDenied ''blocked''))))) (\<lambda>r s.
       rr_dropped r = 1 \<and> kw_commitments s = [])"

definition transient_refusal_leaves_the_commitment_for_the_next_tick :: keeper_test where
  "transient_refusal_leaves_the_commitment_for_the_next_tick d =
     (let k = a_keeper (submits ''body'') in
      expect (run k d TICK (put_commitment (host (Err (VUnavailable ''down''))))) (\<lambda>r1 s1.
      expect (run k d TICK s1) (\<lambda>r2 _. rr_retried r1 = 1 \<and> rr_polled r2 = 1)))"

definition empty_commitment_set_reports_nothing :: keeper_test where
  "empty_commitment_set_reports_nothing d =
     expect (run (a_keeper OWaitBlock) d TICK (host (Ok (Accepted [1])))) (\<lambda>r _. r = RunReport_default)"

section \<open>Reserve, commit and reconcile\<close>

definition reserve_commit_happy_path_then_idempotent_skip :: keeper_test where
  "reserve_commit_happy_path_then_idempotent_skip d =
     (let k = counting (submits ''body'') in
      expect (run k d TICK (put_commitment accepting)) (\<lambda>r1 s1.
      expect (run k d TICK s1) (\<lambda>r2 s2.
        rr_submitted r1 = 1 \<and> post_count s1 = 1 \<and> mark d ''body'' s1 = Some MCommitted
        \<and> rr_duplicates r2 = 1 \<and> rr_submitted r2 = 0 \<and> post_count s2 = 1)))"

definition w1_reserved_but_venue_never_saw_post_reconciles :: keeper_test where
  "w1_reserved_but_venue_never_saw_post_reconciles d =
     expect (run idle_keeper d TICK (seed_reserved d (str_bytes ''order'') accepting)) (\<lambda>r s.
       rr_reconciled_committed r = 1 \<and> post_count s = 1 \<and> held_count s = 1
       \<and> mark d ''order'' s = Some MCommitted)"

definition w2_accepted_but_commit_faults_reconciles_without_double_holding :: keeper_test where
  "w2_accepted_but_commit_faults_reconciles_without_double_holding d =
     (let k = counting (submits ''order''); flaky = FlakyCommit mem_stores in
      expect (keeper_run k flaky d TICK (put_commitment (accepting\<lparr>kw_arm := True\<rparr>))) (\<lambda>r1 s1.
      expect (keeper_run k flaky d TICK s1) (\<lambda>r2 s2.
        rr_submitted r1 = 1 \<and> mark d ''order'' s1 = Some MReserved
        \<and> rr_reconciled_committed r2 = 1 \<and> post_count s2 = 2 \<and> held_count s2 = 1
        \<and> mark d ''order'' s2 = Some MCommitted)))"

definition w3_cancelled_during_submit_reconciles_both_ways :: keeper_test where
  "w3_cancelled_during_submit_reconciles_both_ways d =
     expect (run idle_keeper d TICK
        (preload (str_bytes ''order'') (seed_reserved d (str_bytes ''order'') accepting))) (\<lambda>r s.
       rr_reconciled_committed r = 1 \<and> post_count s = 1 \<and> held_count s = 1
       \<and> mark d ''order'' s = Some MCommitted)"

definition reconcile_requires_signing_releases_and_never_re_enumerates :: keeper_test where
  "reconcile_requires_signing_releases_and_never_re_enumerates d =
     expect (run idle_keeper d TICK
        (seed_reserved d (str_bytes ''order'') (host (Ok (RequiresSigning unsigned_tx))))) (\<lambda>r s.
     rr_reconciled_unsigned r = 1 \<and> rr_unsigned r = [unsigned_tx] \<and> mark d ''order'' s = None
     \<and> expect (run idle_keeper d TICK s) (\<lambda>r1 s1.
        expect (run idle_keeper d TICK s1) (\<lambda>r2 s2.
        expect (run idle_keeper d TICK s2) (\<lambda>r3 s3.
          rr_reconciled_unsigned r1 = 0 \<and> pending s1 = [] \<and> rr_reconciled_unsigned r2 = 0
          \<and> pending s2 = [] \<and> rr_reconciled_unsigned r3 = 0 \<and> pending s3 = []
          \<and> post_count s3 = 1))))"

definition reconcile_rate_limit_parks_then_reposts_after_the_window :: keeper_test where
  "reconcile_rate_limit_parks_then_reposts_after_the_window d =
     expect (run idle_keeper d TICK
        (seed_reserved d (str_bytes ''order'') (host (Err (VRateLimited (Some 2000)))))) (\<lambda>r1 s1.
     expect (run idle_keeper d (at_epoch 1) s1) (\<lambda>r2 s2.
     expect (run idle_keeper d (at_epoch 2) s2) (\<lambda>_ s3.
       rr_reconciled_pending r1 = 1 \<and> post_count s1 = 1
       \<and> rr_reconciled_gated r2 = 1 \<and> post_count s2 = 1 \<and> post_count s3 = 2)))"

definition reconcile_terminal_refusal_releases_and_stays_gone :: keeper_test where
  "reconcile_terminal_refusal_releases_and_stays_gone d =
     expect (run idle_keeper d TICK
        (seed_reserved d (str_bytes ''order'') (host (Err (VDenied ''blocked''))))) (\<lambda>r1 s1.
     expect (run idle_keeper d TICK s1) (\<lambda>r2 s2.
       rr_reconciled_released r1 = 1 \<and> mark d ''order'' s1 = None \<and> post_count s1 = 1
       \<and> rr_reconciled_released r2 = 0 \<and> post_count s2 = 1))"

definition reconcile_transient_refusal_keeps_the_marker_reserved :: keeper_test where
  "reconcile_transient_refusal_keeps_the_marker_reserved d =
     expect (run idle_keeper d TICK
        (seed_reserved d (str_bytes ''order'') (host (Err (VUnavailable ''down''))))) (\<lambda>r1 s1.
     expect (run idle_keeper d TICK s1) (\<lambda>r2 s2.
       rr_reconciled_pending r1 = 1 \<and> mark d ''order'' s1 = Some MReserved \<and> post_count s1 = 1
       \<and> rr_reconciled_pending r2 = 1 \<and> post_count s2 = 2))"

definition reconcile_budget_bounds_the_pass_but_not_the_fresh_commitment :: keeper_test where
  "reconcile_budget_bounds_the_pass_but_not_the_fresh_commitment d =
     (let s0 = fold (seed_reserved d) [str_bytes ''o1'', str_bytes ''o2'', str_bytes ''o3''] accepting;
          k = with_reconcile_budget 2 (counting (submits ''fresh''))
      in expect (run k d TICK (put_commitment s0)) (\<lambda>r1 s1.
         expect (run k d TICK s1) (\<lambda>r2 s2.
           rr_reconciled_committed r1 = 2 \<and> rr_submitted r1 = 1 \<and> length (pending s1) = 1
           \<and> rr_reconciled_committed r2 = 1 \<and> pending s2 = [])))"

definition anti_572_reserved_marker_drives_a_reconcile_post_not_a_duplicate_skip :: keeper_test where
  "anti_572_reserved_marker_drives_a_reconcile_post_not_a_duplicate_skip d =
     expect (run idle_keeper d TICK (seed_reserved d (str_bytes ''order'') accepting)) (\<lambda>r s.
       rr_duplicates r = 0 \<and> 1 \<le> post_count s \<and> rr_reconciled_committed r = 1
       \<and> mark d ''order'' s = Some MCommitted)"

definition anti_572_crash_between_submit_and_commit_leaves_reserved_not_none :: keeper_test where
  "anti_572_crash_between_submit_and_commit_leaves_reserved_not_none d =
     expect (keeper_run (counting (submits ''order'')) (FlakyCommit mem_stores) d TICK
        (put_commitment (accepting\<lparr>kw_arm := True\<rparr>))) (\<lambda>_ s.
       mark d ''order'' s = Some MReserved \<and> mark d ''order'' s \<noteq> None)"

section \<open>The fault policy\<close>

definition the_default_policy_removes_what_it_cannot_attribute :: keeper_test where
  "the_default_policy_removes_what_it_cannot_attribute d =
     list_all (\<lambda>fault. retry_action fault = RetryDrop \<and> fp_is_terminal DefaultFaultPolicy fault)
       [VReceiptMismatch, VInvalidReceipt, VUnknownVenue, VInvalidBody ''bad'', VUnsupported]"

definition the_default_policy_retries_an_availability_fault :: keeper_test where
  "the_default_policy_retries_an_availability_fault d =
     list_all (\<lambda>fault. retry_action fault = TryNextBlock)
       [VTimeout, VUnavailable ''down'', VRateLimited None]"

definition a_venue_policy_carries_is_terminal_with_it :: keeper_test where
  "a_venue_policy_carries_is_terminal_with_it d =
     (fp_action Idempotent VReceiptMismatch = RetryBackoff 300
      \<and> \<not> fp_is_terminal Idempotent VReceiptMismatch
      \<and> fp_is_terminal DefaultFaultPolicy VReceiptMismatch)"

definition reconcile_with ::
  "FaultPolicy \<Rightarrow> (ReconcileReport \<Rightarrow> bool \<Rightarrow> bool) \<Rightarrow> bool" where
  "reconcile_with policy k =
     (let s = snd (st_reserve mem_stores ''k'' (str_bytes ''body'') (host (Err VReceiptMismatch))) in
      expect (reconcile (SdkVenueId_from_static STUB) StubVenue mem_stores TICK
          DEFAULT_RECONCILE_BUDGET policy s) (\<lambda>report s. k report (pending s \<noteq> [])))"

definition reconcile_releases_or_keeps_by_the_policy_it_is_given :: keeper_test where
  "reconcile_releases_or_keeps_by_the_policy_it_is_given d =
     (reconcile_with DefaultFaultPolicy (\<lambda>r still_held. rc_released r = 1 \<and> \<not> still_held)
      \<and> reconcile_with Idempotent (\<lambda>r still_held.
            rc_released r = 0 \<and> rc_pending r = 1 \<and> still_held))"

section \<open>They all pass\<close>

definition commitment_tests :: "keeper_test list" where
  "commitment_tests =
    [accepted_body_is_journalled_and_never_resubmitted,
     accepted_body_clears_the_refusal_marker,
     refusal_marker_clear_fault_does_not_abort_a_journalled_acceptance,
     a_changed_body_submits_afresh,
     requires_signing_hands_the_transaction_to_the_caller,
     gated_commitment_is_not_polled,
     drop_outcome_removes_the_commitment,
     a_retired_commitment_counts_as_dropped_not_retried,
     a_bucketing_read_fault_falls_back_to_the_action,
     backoff_outcome_gates_the_commitment_on_the_epoch_clock,
     rate_limited_refusal_backs_off_by_the_venue_hint,
     non_retryable_refusal_drops_the_commitment,
     transient_refusal_leaves_the_commitment_for_the_next_tick,
     empty_commitment_set_reports_nothing]"

definition journal_tests :: "keeper_test list" where
  "journal_tests =
    [reserve_commit_happy_path_then_idempotent_skip,
     w1_reserved_but_venue_never_saw_post_reconciles,
     w2_accepted_but_commit_faults_reconciles_without_double_holding,
     w3_cancelled_during_submit_reconciles_both_ways,
     reconcile_requires_signing_releases_and_never_re_enumerates,
     reconcile_rate_limit_parks_then_reposts_after_the_window,
     reconcile_terminal_refusal_releases_and_stays_gone,
     reconcile_transient_refusal_keeps_the_marker_reserved,
     reconcile_budget_bounds_the_pass_but_not_the_fresh_commitment,
     anti_572_reserved_marker_drives_a_reconcile_post_not_a_duplicate_skip,
     anti_572_crash_between_submit_and_commit_leaves_reserved_not_none]"

definition policy_tests :: "keeper_test list" where
  "policy_tests =
    [the_default_policy_removes_what_it_cannot_attribute,
     the_default_policy_retries_an_availability_fault,
     a_venue_policy_carries_is_terminal_with_it,
     reconcile_releases_or_keeps_by_the_policy_it_is_given]"

lemma test_key_eq: "inj d \<Longrightarrow> stub_key d b = stub_key d b' \<longleftrightarrow> b = b'"
  by (auto simp: stub_key_def submission_key_def dest: injD)

lemma stub_key_fold: "submission_key d (SdkVenueId STUB) b = stub_key d b"
  by (simp add: stub_key_def SdkVenueId_from_static_def)

lemmas sweep_eval = host_def the_commitment_def put_commitment_def a_keeper_def counting_def
  post_count_def held_count_def pending_def at_epoch_def refusals_fault_def FaultArmingSource_def
  armed_rows_def Keeper_new_def SdkVenueId_from_static_def TICK_def keeper_run_def reconcile_def
  FlakyCommit_def mem_stores_def reservations_of_def map_filter_simps run_commitment_def
  poll_commitment_def StubSource_def SeqSource_def RetiringSource_def submit_arm_def Let_def
  kw_map_def put_journal_def CountingVenue_def StubVenue_def only_submit_def held_def
  log_answer_def apply_action_def idle_keeper_def seed_reserved_def preload_def
  with_reconcile_budget_def DEFAULT_RECONCILE_BUDGET_def RunReport_default_def
  ReconcileReport_default_def reconciled_report_def DefaultFaultPolicy_def Idempotent_def
  is_terminal_of_def reconcile_with_def u64_div_ceil_def u64_saturating_add_def
  stub_key_fold test_key_eq str_bytes_def

lemmas commitment_test_defs =
  commitment_tests_def
  accepted_body_is_journalled_and_never_resubmitted_def
  accepted_body_clears_the_refusal_marker_def
  refusal_marker_clear_fault_does_not_abort_a_journalled_acceptance_def
  a_changed_body_submits_afresh_def
  requires_signing_hands_the_transaction_to_the_caller_def
  gated_commitment_is_not_polled_def
  drop_outcome_removes_the_commitment_def
  a_retired_commitment_counts_as_dropped_not_retried_def
  a_bucketing_read_fault_falls_back_to_the_action_def
  backoff_outcome_gates_the_commitment_on_the_epoch_clock_def
  rate_limited_refusal_backs_off_by_the_venue_hint_def
  non_retryable_refusal_drops_the_commitment_def
  transient_refusal_leaves_the_commitment_for_the_next_tick_def
  empty_commitment_set_reports_nothing_def

lemmas journal_test_defs =
  journal_tests_def
  reserve_commit_happy_path_then_idempotent_skip_def
  w1_reserved_but_venue_never_saw_post_reconciles_def
  w2_accepted_but_commit_faults_reconciles_without_double_holding_def
  w3_cancelled_during_submit_reconciles_both_ways_def
  reconcile_requires_signing_releases_and_never_re_enumerates_def
  reconcile_rate_limit_parks_then_reposts_after_the_window_def
  reconcile_terminal_refusal_releases_and_stays_gone_def
  reconcile_transient_refusal_keeps_the_marker_reserved_def
  reconcile_budget_bounds_the_pass_but_not_the_fresh_commitment_def
  anti_572_reserved_marker_drives_a_reconcile_post_not_a_duplicate_skip_def
  anti_572_crash_between_submit_and_commit_leaves_reserved_not_none_def

lemmas policy_test_defs =
  policy_tests_def
  the_default_policy_removes_what_it_cannot_attribute_def
  the_default_policy_retries_an_availability_fault_def
  a_venue_policy_carries_is_terminal_with_it_def
  reconcile_releases_or_keeps_by_the_policy_it_is_given_def

lemma commitment_tests_pass: "inj d \<Longrightarrow> list_all (\<lambda>test. test d) commitment_tests"
  by (simp add: commitment_test_defs sweep_eval)

lemma journal_tests_pass: "inj d \<Longrightarrow> list_all (\<lambda>test. test d) journal_tests"
  by (simp add: journal_test_defs sweep_eval)

lemma policy_tests_pass: "inj d \<Longrightarrow> list_all (\<lambda>test. test d) policy_tests"
  by (simp add: policy_test_defs sweep_eval)

end
