(* ===== verification/Status_Body_Tests.thy ===== *)
theory Status_Body_Tests imports Borsh_Layout Test_Assertions
begin

text \<open>
  The unit tests of \<^verbatim>\<open>videre-status-body/src/lib.rs\<close> over the modelled borsh layout: the
  golden framings of body and envelope, their round trips, and the refusal of every empty,
  skewed, untagged, truncated and padded spelling. One definition per
  test.
\<close>

section \<open>Helpers\<close>

definition bare_body :: "Lifecycle \<Rightarrow> StatusBody" where
  "bare_body st = \<lparr>sb_status = st, sb_proof = None, sb_reason = None\<rparr>"

abbreviation enc_body :: "StatusBody \<Rightarrow> (bytes, EncodeError) result" where
  "enc_body \<equiv> StatusBody_encode put_StatusBody"

abbreviation dec_body :: "bytes \<Rightarrow> (StatusBody, DecodeError) result" where
  "dec_body \<equiv> StatusBody_decode borsh_StatusBody"

abbreviation enc_envelope :: "IntentStatusUpdate \<Rightarrow> (bytes, EncodeError) result" where
  "enc_envelope \<equiv> IntentStatusUpdate_encode put_IntentStatusUpdate"

abbreviation dec_envelope :: "bytes \<Rightarrow> (IntentStatusUpdate, EnvelopeError) result" where
  "dec_envelope \<equiv> IntentStatusUpdate_decode borsh_IntentStatusUpdate"

definition envelope :: "string \<Rightarrow> (IntentStatusUpdate \<Rightarrow> bool) \<Rightarrow> bool" where
  "envelope venue k = expected (enc_body (bare_body LOpen)) (\<lambda>st.
     k \<lparr>upd_venue = venue, upd_receipt = str_bytes ''receipt'', upd_status = st\<rparr>)"

definition malformed_envelope :: "bytes \<Rightarrow> bool" where
  "malformed_envelope bs =
     (case dec_envelope bs of Err (EnvMalformed v _) \<Rightarrow> v = ENVELOPE_VERSION_V1 | _ \<Rightarrow> False)"

definition malformed_body :: "bytes \<Rightarrow> bool" where
  "malformed_body bs =
     (case dec_body bs of Err (DecMalformed v _) \<Rightarrow> v = VERSION_V1 | _ \<Rightarrow> False)"

section \<open>The envelope\<close>

definition envelope_leads_with_its_version_tag :: bool where
  "envelope_leads_with_its_version_tag =
     envelope ''cow'' (\<lambda>u. expected (enc_envelope u) (\<lambda>bs. hd bs = ENVELOPE_VERSION_V1))"

definition golden_envelope :: bool where
  "golden_envelope = envelope ''cow'' (\<lambda>u. expected (enc_envelope u) (\<lambda>bs.
     bs = concat [[ENVELOPE_VERSION_V1, 3, 0, 0, 0], str_bytes ''cow'', [7, 0, 0, 0],
        str_bytes ''receipt'', [4, 0, 0, 0, VERSION_V1, 1, 0, 0]]))"

definition envelope_round_trips :: bool where
  "envelope_round_trips = envelope ''cow'' (\<lambda>u. expected (enc_envelope u) (\<lambda>bs.
     dec_envelope bs = Ok u))"

definition empty_envelope_fails_typedly :: bool where
  "empty_envelope_fails_typedly = (dec_envelope [] = Err EnvEmpty)"

definition future_envelope_version_fails_closed :: bool where
  "future_envelope_version_fails_closed =
     envelope ''cow'' (\<lambda>u. expected (enc_envelope u) (\<lambda>bs.
       dec_envelope (bs[0 := ENVELOPE_VERSION_V1 + 1])
         = Err (EnvUnknownVersion (ENVELOPE_VERSION_V1 + 1))))"

definition untagged_envelope_never_decodes :: bool where
  "untagged_envelope_never_decodes =
     list_all (\<lambda>venue. envelope venue (\<lambda>u. expected (put_IntentStatusUpdate u) (\<lambda>untagged.
         case dec_envelope untagged of Ok _ \<Rightarrow> False | Err _ \<Rightarrow> True)))
       [''c'', ''cow'', ''a longer venue id'']"

definition envelope_trailing_bytes_are_malformed :: bool where
  "envelope_trailing_bytes_are_malformed =
     envelope ''cow'' (\<lambda>u. expected (enc_envelope u) (\<lambda>bs. malformed_envelope (bs @ [0])))"

definition truncated_envelope_is_malformed :: bool where
  "truncated_envelope_is_malformed =
     envelope ''cow'' (\<lambda>u. expected (enc_envelope u) (\<lambda>bs.
       malformed_envelope (take (length bs - 1) bs)))"

definition envelope_and_body_versions_are_independent :: bool where
  "envelope_and_body_versions_are_independent =
     envelope ''cow'' (\<lambda>u. let u = u\<lparr>upd_status := (upd_status u)[0 := VERSION_V1 + 1]\<rparr> in
       expected (enc_envelope u) (\<lambda>bs. expected (dec_envelope bs) (\<lambda>decoded.
         dec_body (upd_status decoded) = Err (DecUnknownVersion (VERSION_V1 + 1)))))"

section \<open>The body\<close>

definition golden_minimal_open :: bool where
  "golden_minimal_open = expected (enc_body (bare_body LOpen)) (\<lambda>bs. bs = [VERSION_V1, 1, 0, 0])"

definition fulfilled_with_proof_is_pinned :: bool where
  "fulfilled_with_proof_is_pinned =
     expected (enc_body \<lparr>sb_status = LFulfilled, sb_proof = Some [170, 187], sb_reason = None\<rparr>)
       (\<lambda>bs. bs = [VERSION_V1, 2, 1, 2, 0, 0, 0, 170, 187, 0])"

definition terminal_failure_is_pinned :: bool where
  "terminal_failure_is_pinned =
     expected (enc_body \<lparr>sb_status = LCancelled, sb_proof = None,
        sb_reason = Some \<lparr>code = ''oc'', detail = ''od''\<rparr>\<rparr>)
       (\<lambda>bs. bs = [VERSION_V1, 3, 0, 1, 2, 0, 0, 0, 111, 99, 2, 0, 0, 0, 111, 100])"

definition round_trips_every_status :: bool where
  "round_trips_every_status =
     list_all (\<lambda>st.
       let original = \<lparr>sb_status = st, sb_proof = Some (str_bytes ''proof''),
             sb_reason = Some \<lparr>code = ''code'', detail = ''detail''\<rparr>\<rparr>
       in expected (enc_body original) (\<lambda>bs. dec_body bs = Ok original))
       [LPending, LOpen, LFulfilled, LCancelled, LExpired]"

definition a_body_is_never_empty :: bool where
  "a_body_is_never_empty = expected (enc_body (bare_body LPending)) (\<lambda>bs. 2 \<le> length bs)"

definition empty_bytes_fail_typedly :: bool where
  "empty_bytes_fail_typedly = (dec_body [] = Err DecEmpty)"

definition unknown_version_fails_closed :: bool where
  "unknown_version_fails_closed = (dec_body [2, 1, 0, 0] = Err (DecUnknownVersion 2))"

definition unknown_status_discriminant_is_malformed :: bool where
  "unknown_status_discriminant_is_malformed = malformed_body [VERSION_V1, 5, 0, 0]"

definition trailing_bytes_are_malformed :: bool where
  "trailing_bytes_are_malformed =
     expected (enc_body (bare_body LOpen)) (\<lambda>bs. malformed_body (bs @ [0]))"

definition truncated_payload_is_malformed :: bool where
  "truncated_payload_is_malformed = malformed_body [VERSION_V1, 1, 0]"

section \<open>They all pass\<close>

definition envelope_tests :: "bool list" where
  "envelope_tests =
    [envelope_leads_with_its_version_tag,
     golden_envelope,
     envelope_round_trips,
     empty_envelope_fails_typedly,
     future_envelope_version_fails_closed,
     untagged_envelope_never_decodes,
     envelope_trailing_bytes_are_malformed,
     truncated_envelope_is_malformed,
     envelope_and_body_versions_are_independent]"

definition body_tests :: "bool list" where
  "body_tests =
    [golden_minimal_open,
     fulfilled_with_proof_is_pinned,
     terminal_failure_is_pinned,
     round_trips_every_status,
     a_body_is_never_empty,
     empty_bytes_fail_typedly,
     unknown_version_fails_closed,
     unknown_status_discriminant_is_malformed,
     trailing_bytes_are_malformed,
     truncated_payload_is_malformed]"

lemmas read_eval = from_slice_def get_conv_def get_pair_def get_vec_def get_int_def get_string_def
  layout_eval bytes_str_def expected_def bare_body_def envelope_def malformed_envelope_def
  malformed_body_def char_of_def bit_0

lemma envelope_tests_pass: "list_all id envelope_tests"
  by (simp add: envelope_tests_def read_eval
      envelope_leads_with_its_version_tag_def
      golden_envelope_def
      envelope_round_trips_def
      empty_envelope_fails_typedly_def
      future_envelope_version_fails_closed_def
      untagged_envelope_never_decodes_def
      envelope_trailing_bytes_are_malformed_def
      truncated_envelope_is_malformed_def
      envelope_and_body_versions_are_independent_def)

lemma body_tests_pass: "list_all id body_tests"
  by (simp add: body_tests_def read_eval
      golden_minimal_open_def
      fulfilled_with_proof_is_pinned_def
      terminal_failure_is_pinned_def
      round_trips_every_status_def
      a_body_is_never_empty_def
      empty_bytes_fail_typedly_def
      unknown_version_fails_closed_def
      unknown_status_discriminant_is_malformed_def
      trailing_bytes_are_malformed_def
      truncated_payload_is_malformed_def)

end
