(* ===== verification/Sdk_Tests.thy ===== *)
theory Sdk_Tests imports Sdk_Client Value_Flow Status_Body_Tests
begin

text \<open>
  The unit tests of \<^verbatim>\<open>videre-sdk\<close> outside its keeper: the venue ids
  of \<^verbatim>\<open>client.rs\<close>, the receipt guard of \<^verbatim>\<open>adapter.rs\<close>, the event recovery of
  \<^verbatim>\<open>event.rs\<close>, the folds of \<^verbatim>\<open>faults.rs\<close>, the clamped fetch of \<^verbatim>\<open>transport.rs\<close> and
  the integer codec of \<^verbatim>\<open>value_flow.rs\<close>. One definition per test. The 256-bit integer and
  the rendering of a fetch error belong to other crates, so tests that use one take it as an
  argument. The two tests of the single-step poll are not replayed: a future is a function of
  the state here, so a ready one and a suspended one are what they are by definition.
\<close>

definition is_err :: "('a, 'e) result \<Rightarrow> bool" where
  "is_err r = (\<not> is_ok r)"

section \<open>\<^verbatim>\<open>client.rs\<close> and \<^verbatim>\<open>adapter.rs\<close>\<close>

definition blank_venue_id_is_rejected_at_construction :: bool where
  "blank_venue_id_is_rejected_at_construction =
     (is_err (SdkVenueId_from_str []) \<and> is_err (SdkVenueId_from_str ''  '')
      \<and> is_err (SdkVenueId_new ([CHR 0x09, CHR 0x0A]))
      \<and> expected (SdkVenueId_from_str ''demo'') (\<lambda>v. id_str v = ''demo'')
      \<and> expected (SdkVenueId_from_str ''demo:11155111'') (\<lambda>v. id_str v = ''demo:11155111''))"

text \<open>Characters outside ASCII are their UTF-8 bytes.\<close>

definition padded_venue_id_is_rejected_at_construction :: bool where
  "padded_venue_id_is_rejected_at_construction =
     (is_err (SdkVenueId_from_str ''demo '') \<and> is_err (SdkVenueId_from_str '' demo'')
      \<and> is_err (SdkVenueId_try_from (''demo'' @ [CHR 0x0A]))
      \<and> is_err (SdkVenueId_try_from_String (CHR 0x09 # ''demo''))
      \<and> list_all (\<lambda>ws. is_err (SdkVenueId_new (ws @ ''demo'')) \<and> is_err (SdkVenueId_new (''demo'' @ ws))
            \<and> is_err (SdkVenueId_new ws))
          ['' '', [CHR 0xC2, CHR 0xA0], [CHR 0xE2, CHR 0x80, CHR 0xA8], [CHR 0xE3, CHR 0x80, CHR 0x80]]
      \<and> list_all (\<lambda>c. is_ok (SdkVenueId_new (c @ ''demo'' @ c)) \<and> is_ok (SdkVenueId_new c))
          [''A'', [CHR 0xC3, CHR 0x80], [CHR 0xE4, CHR 0xB8, CHR 0x80],
           [CHR 0xF0, CHR 0x9F, CHR 0x98, CHR 0x80]]
      \<and> is_ok (SdkVenueId_new ''demo venue'')
      \<and> SdkVenueId_new '' demo '' = Err (SdkInvalidVenueId '' demo ''))"

definition valid_ids_construct_through_every_path :: bool where
  "valid_ids_construct_through_every_path =
     (id_str (SdkVenueId_from_static ''demo'') = ''demo''
      \<and> expected (SdkVenueId_new ''demo'') (\<lambda>v. id_str v = ''demo'')
      \<and> expected (SdkVenueId_try_from ''demo'') (\<lambda>v. SdkVenueId_to_string v = ''demo'')
      \<and> SdkVenueId_as_ref (SdkVenueId_from_static ''demo'') = ''demo'')"

definition empty_receipt_is_rejected_as_invalid_receipt :: bool where
  "empty_receipt_is_rejected_as_invalid_receipt =
     (guard_receipt [] = Err InvalidReceipt \<and> is_ok (guard_receipt [1]))"

section \<open>\<^verbatim>\<open>event.rs\<close>\<close>

definition event_envelope :: "(bytes \<Rightarrow> bool) \<Rightarrow> bool" where
  "event_envelope k = expected (enc_body (bare_body LFulfilled)) (\<lambda>st.
     expected (enc_envelope
       \<lparr>upd_venue = ''cow'', upd_receipt = str_bytes ''receipt'', upd_status = st\<rparr>) k)"

abbreviation recover :: "string \<Rightarrow> bytes \<Rightarrow> (IntentStatusUpdate, EnvelopeError) result option" where
  "recover \<equiv> intent_status_update borsh_IntentStatusUpdate"

definition recovers_a_matching_kind :: bool where
  "recovers_a_matching_kind = event_envelope (\<lambda>payload.
     case recover INTENT_STATUS_KIND payload of
       Some (Ok u) \<Rightarrow> upd_venue u = ''cow'' \<and> upd_receipt u = str_bytes ''receipt''
     | _ \<Rightarrow> False)"

definition ignores_a_foreign_kind :: bool where
  "ignores_a_foreign_kind = event_envelope (\<lambda>payload. recover ''other-kind'' payload = None)"

definition reports_a_skewed_envelope_version :: bool where
  "reports_a_skewed_envelope_version = event_envelope (\<lambda>payload.
     case recover INTENT_STATUS_KIND (payload[0 := ENVELOPE_VERSION_V1 + 1]) of
       Some (Err (EnvUnknownVersion _)) \<Rightarrow> True
     | _ \<Rightarrow> False)"

definition reports_a_malformed_payload :: bool where
  "reports_a_malformed_payload =
     (case recover INTENT_STATUS_KIND [ENVELOPE_VERSION_V1, 255] of
        Some (Err (EnvMalformed _ _)) \<Rightarrow> True
      | _ \<Rightarrow> False)"

section \<open>\<^verbatim>\<open>faults.rs\<close>\<close>

definition wire_fault_round_trips_through_sdk :: "('o HostFault \<Rightarrow> string) \<Rightarrow> bool" where
  "wire_fault_round_trips_through_sdk display =
     list_all (\<lambda>c. WireFault_from_HostFault display (fault_into_sdk c) = c)
       [FUnsupported ''u'', FUnavailable ''u'', FDenied ''d'', FRateLimited, FTimeout,
        FInvalidInput ''i'', FInternal ''i'']"

definition transport_fault_folds_to_venue_error_by_shape :: "('o HostFault \<Rightarrow> string) \<Rightarrow> bool" where
  "transport_fault_folds_to_venue_error_by_shape display =
     (VenueError_from_HostFault display (HDenied ''nope'') = Denied ''nope''
      \<and> VenueError_from_HostFault display HTimeout = Timeout
      \<and> (case VenueError_from_HostFault display HRateLimited of
           RateLimited rl \<Rightarrow> retry_after_ms rl = None | _ \<Rightarrow> False)
      \<and> (case VenueError_from_HostFault display (HInvalidInput ''bug'') of
           Unavailable _ \<Rightarrow> True | _ \<Rightarrow> False))"

text \<open>
  \<^verbatim>\<open>Transport("reset")\<close> and \<^verbatim>\<open>InvalidRequest("bad url")\<close> are two of the cases that are
  neither a denial nor a timeout.
\<close>

definition fetch_error_folds_to_venue_error_by_shape :: "(string FetchError \<Rightarrow> string) \<Rightarrow> bool" where
  "fetch_error_folds_to_venue_error_by_shape display =
     ((case VenueError_from_FetchError display FetchDenied of Denied _ \<Rightarrow> True | _ \<Rightarrow> False)
      \<and> (case VenueError_from_FetchError display (FetchElse ''reset'') of
           Unavailable _ \<Rightarrow> True | _ \<Rightarrow> False)
      \<and> (case VenueError_from_FetchError display (FetchElse ''bad url'') of
           Unavailable _ \<Rightarrow> True | _ \<Rightarrow> False))"

section \<open>\<^verbatim>\<open>transport.rs\<close>\<close>

text \<open>
  The spy answers with the options it saw. (A plain \<^verbatim>\<open>fetch\<close> goes out with default options
  the runtime's SDK chooses, so its test is left out.)
\<close>

definition spied :: "Duration \<Rightarrow> FetchOptions \<Rightarrow> FetchOptions" where
  "spied bound options = BoundedFetch_fetch_with (\<lambda>_ seen. seen) bound () options"

definition caller_options_clamp_to_the_bound_but_tighter_ones_pass :: bool where
  "caller_options_clamp_to_the_bound_but_tighter_ones_pass =
     (let seen = spied (from_secs 5)
        \<lparr>connect_timeout = from_secs 60, first_byte_timeout = from_secs 1,
         between_bytes_timeout = from_secs 60\<rparr>
      in connect_timeout seen = from_secs 5 \<and> first_byte_timeout seen = from_secs 1
         \<and> between_bytes_timeout seen = from_secs 5)"

section \<open>\<^verbatim>\<open>value_flow.rs\<close>\<close>

type_synonym uint_test = "(u256 \<Rightarrow> bytes) \<Rightarrow> (bytes \<Rightarrow> u256) \<Rightarrow> bool"

definition U256_MAX :: u256 where "U256_MAX = - 1"

definition encode_is_minimal_and_zero_is_empty :: uint_test where
  "encode_is_minimal_and_zero_is_empty trimmed from_be =
     (encode_uint trimmed 0 = [] \<and> encode_uint trimmed 1 = [1]
      \<and> encode_uint trimmed 256 = [1, 0] \<and> encode_uint trimmed U256_MAX = replicate 32 255)"

definition decode_round_trips_the_canonical_forms :: uint_test where
  "decode_round_trips_the_canonical_forms trimmed from_be =
     list_all (\<lambda>v. decode_uint from_be (encode_uint trimmed v) = Ok v) [0, 1, 256, U256_MAX]"

definition decode_rejects_a_leading_zero_byte :: uint_test where
  "decode_rejects_a_leading_zero_byte trimmed from_be =
     (decode_uint from_be [0] = Err LeadingZero \<and> decode_uint from_be [0, 1] = Err LeadingZero)"

definition decode_rejects_more_than_a_word :: uint_test where
  "decode_rejects_more_than_a_word trimmed from_be =
     (decode_uint from_be (1 # replicate 32 0) = Err (Overflow 33)
      \<and> decode_uint from_be (replicate 40 0) = Err (Overflow 40))"

definition the_constructors_encode_canonically :: uint_test where
  "the_constructors_encode_canonically trimmed from_be =
     ((let native = AssetAmount_native trimmed 256
       in asset native = Native \<and> amount native = [1, 0]
          \<and> AssetAmount_value from_be native = Ok 256)
      \<and> (let none = AssetAmount_native trimmed 0
         in amount none = [] \<and> AssetAmount_value from_be none = Ok 0)
      \<and> (let erc20 = AssetAmount_erc20 trimmed (replicate 20 0) 1
         in amount erc20 = [1] \<and> AssetAmount_value from_be erc20 = Ok 1))"

definition a_padded_amount_fails_to_read_back :: uint_test where
  "a_padded_amount_fails_to_read_back trimmed from_be =
     (AssetAmount_value from_be \<lparr>asset = Native, amount = [0, 1]\<rparr> = Err LeadingZero)"

section \<open>They pass\<close>

definition client_tests :: "bool list" where
  "client_tests =
     [blank_venue_id_is_rejected_at_construction,
      padded_venue_id_is_rejected_at_construction,
      valid_ids_construct_through_every_path,
      empty_receipt_is_rejected_as_invalid_receipt]"

definition event_tests :: "bool list" where
  "event_tests =
     [recovers_a_matching_kind, ignores_a_foreign_kind, reports_a_skewed_envelope_version,
      reports_a_malformed_payload, caller_options_clamp_to_the_bound_but_tighter_ones_pass]"

definition fold_tests :: "((string HostFault \<Rightarrow> string) \<Rightarrow> bool) list" where
  "fold_tests =
     [wire_fault_round_trips_through_sdk, transport_fault_folds_to_venue_error_by_shape]"

definition uint_tests :: "uint_test list" where
  "uint_tests =
     [encode_is_minimal_and_zero_is_empty, decode_round_trips_the_canonical_forms,
      decode_rejects_a_leading_zero_byte, decode_rejects_more_than_a_word,
      the_constructors_encode_canonically, a_padded_amount_fails_to_read_back]"

lemma SdkVenueId_new_eq:
  "SdkVenueId_new i =
     (if i = [] \<or> starts_with_ws i \<or> ends_with_ws i then Err (SdkInvalidVenueId i)
      else Ok (SdkVenueId i))"
  using str_trim_fixpoint [of i] by (auto simp: SdkVenueId_new_def)

text \<open>The white space as character literals.\<close>

lemma whitespace_chars:
  "whitespace =
     [[CHR 0x09], [CHR 0x0A], [CHR 0x0B], [CHR 0x0C], [CHR 0x0D], '' '', [CHR 0xC2, CHR 0x85],
      [CHR 0xC2, CHR 0xA0], [CHR 0xE1, CHR 0x9A, CHR 0x80]]
     @ map (\<lambda>c. [CHR 0xE2, CHR 0x80, c])
         [CHR 0x80, CHR 0x81, CHR 0x82, CHR 0x83, CHR 0x84, CHR 0x85, CHR 0x86, CHR 0x87, CHR 0x88,
          CHR 0x89, CHR 0x8A, CHR 0xA8, CHR 0xA9, CHR 0xAF]
     @ [[CHR 0xE2, CHR 0x81, CHR 0x9F], [CHR 0xE3, CHR 0x80, CHR 0x80]]"
  by (simp add: whitespace_def byte_str_def char_of_def bit_0)

lemmas id_eval = SdkVenueId_new_eq starts_with_ws_def ends_with_ws_def whitespace_chars
  suffix_to_prefix is_err_def

lemma blank_id_test_passes: "blank_venue_id_is_rejected_at_construction"
  by (simp add: blank_venue_id_is_rejected_at_construction_def venue_id_paths id_eval)

lemma padded_id_test_passes: "padded_venue_id_is_rejected_at_construction"
  by (simp add: padded_venue_id_is_rejected_at_construction_def venue_id_paths id_eval)

lemma client_tests_pass: "list_all id client_tests"
  by (simp add: client_tests_def blank_id_test_passes padded_id_test_passes
      valid_ids_construct_through_every_path_def SdkVenueId_from_static_def venue_id_paths id_eval
      empty_receipt_is_rejected_as_invalid_receipt_def guard_receipt_def)

lemma event_tests_pass: "list_all id event_tests"
  by (simp add: event_tests_def read_eval event_envelope_def intent_status_update_def
      INTENT_STATUS_KIND_def recovers_a_matching_kind_def ignores_a_foreign_kind_def
      reports_a_skewed_envelope_version_def reports_a_malformed_payload_def
      caller_options_clamp_to_the_bound_but_tighter_ones_pass_def spied_def
      BoundedFetch_fetch_with_def duration_min_def duration_nanos_def from_secs_def)

lemma fold_tests_pass: "list_all (\<lambda>test. test display) fold_tests"
  by (simp add: fold_tests_def wire_fault_round_trips_through_sdk_def wire_fault_round_trips
      transport_fault_folds_to_venue_error_by_shape_def)

lemma fetch_fold_test_passes: "fetch_error_folds_to_venue_error_by_shape display"
  by (simp add: fetch_error_folds_to_venue_error_by_shape_def)

text \<open>What a lawful 256-bit integer writes is read off the value of the bytes.\<close>

lemma trimmed_is:
  assumes "u256_bytes trimmed from_be" and "minimal bs" and "be_value bs = unat v"
  shows "trimmed v = bs"
  using assms by (intro minimal_unique)
    (simp_all add: u256_bytes.trimmed_minimal u256_bytes.trimmed_value)

lemma be_value_ones: "Suc (be_value (replicate n 255)) = 256 ^ n"
proof (induction n)
  case (Suc n)
  have "unat (255 :: u8) = 255" by simp
  with Suc show ?case by (simp add: be_value_Cons del: unsigned_numeral)
qed (simp add: be_value_Nil)

lemma largest_word:
  assumes "u256_bytes trimmed from_be"
  shows "trimmed (- 1) = replicate 32 255"
proof (rule trimmed_is [OF assms])
  show "minimal (replicate 32 255)"
    using replicate_Suc [of 31 "255 :: u8"] by (simp add: minimal_def)
  show "be_value (replicate 32 255) = unat (- 1 :: u256)"
    using be_value_ones [of 32] by (simp add: unsigned_minus_1_eq_mask mask_eq_exp_minus_1)
qed

lemma uint_tests_pass:
  assumes "u256_bytes trimmed from_be"
  shows "list_all (\<lambda>test. test trimmed from_be) uint_tests"
proof -
  have digits: "trimmed 0 = []" "trimmed 1 = [1]" "trimmed 256 = [1, 0]"
    using trimmed_is [OF assms] by (simp_all add: minimal_def be_value_Cons be_value_Nil)
  have readback: "decode_uint from_be (trimmed v) = Ok v" for v
    using decode_encode_uint [OF assms] by (simp add: encode_uint_def)
  have refused: "decode_uint from_be [0] = Err LeadingZero" "decode_uint from_be [0, 1] = Err LeadingZero"
      "decode_uint from_be (1 # replicate 32 0) = Err (Overflow 33)"
      "decode_uint from_be (replicate 40 0) = Err (Overflow 40)"
    by (simp_all add: decode_uint_def)
  show ?thesis
    using readback [of 0] readback [of 1] readback [of 256] readback [of "- 1"]
    by (simp add: digits U256_MAX_def largest_word [OF assms] refused uint_tests_def encode_is_minimal_and_zero_is_empty_def
        decode_round_trips_the_canonical_forms_def decode_rejects_a_leading_zero_byte_def
        decode_rejects_more_than_a_word_def the_constructors_encode_canonically_def
        a_padded_amount_fails_to_read_back_def AssetAmount_native_def AssetAmount_erc20_def
        AssetAmount_value_def encode_uint_def)
qed

end
