(* ===== verification/Serde_Model.thy ===== *)
theory Serde_Model imports Videre_Prelude
begin

text \<open>
  How serde reads a document into the types this program derives \<^verbatim>\<open>Deserialize\<close> for, after its
  documented data model: a struct is an object of its fields in declaration order, or the
  sequence of them; an enum is externally tagged; a missing field is an error unless it has a
  default; a repeated one is an error, and an unknown one is where the type says
  \<^verbatim>\<open>deny_unknown_fields\<close>. A document is a JSON value, or the toml value of a manifest section,
  whose table is the object. Error details abbreviate serde's.
\<close>

section \<open>Documents\<close>

text \<open>\<open>JOther\<close> is any number that is not a natural one; no field here takes it.\<close>

datatype Json =
    JNull
  | JBool bool
  | JNum nat
  | JOther string
  | JStr string
  | JArr "Json list"
  | JObj "(string \<times> Json) list"

section \<open>The data model of the derives\<close>

type_synonym 'a reader = "Json \<Rightarrow> ('a, string) result"
type_synonym read_fields = "string \<Rightarrow> Json option"

definition read_struct :: "bool \<Rightarrow> string list \<Rightarrow> read_fields reader" where
  "read_struct deny_unknown known j =
     (case j of
        JObj kvs \<Rightarrow>
          if deny_unknown \<and> \<not> list_all (\<lambda>k. k \<in> set known) (map fst kvs) then Err ''unknown field''
          else if \<not> distinct (filter (\<lambda>k. k \<in> set known) (map fst kvs)) then Err ''duplicate field''
          else Ok (map_of kvs)
      | JArr xs \<Rightarrow> if length known < length xs then Err ''invalid length'' else Ok (map_of (zip known xs))
      | _ \<Rightarrow> Err ''invalid type'')"

definition field :: "'a reader \<Rightarrow> string \<Rightarrow> read_fields \<Rightarrow> ('a, string) result" where
  "field f k fs = (case fs k of None \<Rightarrow> Err (''missing field '' @ k) | Some j \<Rightarrow> f j)"

definition field_or_none :: "'a reader \<Rightarrow> string \<Rightarrow> read_fields \<Rightarrow> ('a option, string) result" where
  "field_or_none f k fs =
     (case fs k of None \<Rightarrow> Ok None | Some j \<Rightarrow> if j = JNull then Ok None else map_ok Some (f j))"

text \<open>The tag of an externally tagged enum with its content.\<close>

definition read_tag :: "(string \<times> Json option) reader" where
  "read_tag j =
     (case j of
        JStr tag \<Rightarrow> Ok (tag, None)
      | JObj [(tag, content)] \<Rightarrow> Ok (tag, Some content)
      | _ \<Rightarrow> Err ''expected an externally tagged enum'')"

definition unit_variant :: "'a \<Rightarrow> Json option \<Rightarrow> ('a, string) result" where
  "unit_variant x content = (if content = None \<or> content = Some JNull then Ok x else Err ''expected unit'')"

definition data_variant :: "'a reader \<Rightarrow> Json option \<Rightarrow> ('a, string) result" where
  "data_variant f content = (case content of None \<Rightarrow> Err ''expected content'' | Some j \<Rightarrow> f j)"

definition read_string :: "string reader" where
  "read_string j = (case j of JStr s \<Rightarrow> Ok s | _ \<Rightarrow> Err ''expected a string'')"

definition read_uint :: "nat \<Rightarrow> nat reader" where
  "read_uint w j = (case j of JNum n \<Rightarrow> if n < 2 ^ w then Ok n else Err ''out of range'' | _ \<Rightarrow> Err ''expected an integer'')"

definition read_word :: "'w::len word reader" where
  "read_word j = map_ok of_nat (read_uint LENGTH('w) j)"

fun read_all :: "'a reader \<Rightarrow> Json list \<Rightarrow> ('a list, string) result" where
  "read_all f [] = Ok []"
| "read_all f (j # js) = and_then (f j) (\<lambda>x. map_ok (\<lambda>xs. x # xs) (read_all f js))"

definition read_vec :: "'a reader \<Rightarrow> 'a list reader" where
  "read_vec f j = (case j of JArr js \<Rightarrow> read_all f js | _ \<Rightarrow> Err ''expected a sequence'')"

end
