(* ===== verification/Handshake.thy ===== *)
theory Handshake imports Registry Serde_Model
begin

text \<open>
  \<^verbatim>\<open>videre-host/src/handshake.rs\<close>: the body-version handshake over the \<^verbatim>\<open>[venue]\<close> manifest
  section. How a section is read into the struct is the argument \<open>try_into\<close>;
  \<open>KeeperSection_deserialize\<close> is the reader serde derives for it. A hash map is the list of its
  entries in iteration order.
\<close>

definition SECTION :: string where "SECTION = ''venue''"

definition SECTIONS :: "string list" where "SECTIONS = [SECTION]"

record KeeperSection =
  ks_body_version :: u32

definition KeeperSection_deserialize :: "KeeperSection reader" where
  "KeeperSection_deserialize j =
     and_then (read_struct True [''body_version''] j) (\<lambda>fs.
     map_ok (\<lambda>v. \<lparr>ks_body_version = v\<rparr>) (field read_word ''body_version'' fs))"

text \<open>The section's table reads exactly when it is the one key with a 32-bit number.\<close>

lemma KeeperSection_reads:
  "KeeperSection_deserialize (JObj kvs) = Ok ks \<longleftrightarrow> kvs = [(''body_version'', JNum (unat (ks_body_version ks)))]"
proof (cases kvs)
  case (Cons kv rest)
  have word: "(read_word j = Ok (v :: u32)) \<longleftrightarrow> j = JNum (unat v)" for j v
    using unsigned_less [of v, where ?'a = nat] by (cases j) (auto simp: read_word_def read_uint_def unat_of_nat)
  show ?thesis
    by (cases kv; cases rest; cases ks)
      (auto simp: Cons KeeperSection_deserialize_def read_struct_def field_def and_then_eq_Ok map_ok_eq_Ok word)
qed (simp add: KeeperSection_deserialize_def read_struct_def field_def)

definition parse_section ::
  "('v \<Rightarrow> ('s, string) result) \<Rightarrow> string \<Rightarrow> 'v \<Rightarrow> ('s, string) result" where
  "parse_section try_into owner v = map_err (\<lambda>e. owner @ '' [venue]: '' @ e) (try_into v)"

text \<open>The \<^verbatim>\<open>Debug\<close> form of a \<^verbatim>\<open>BTreeSet\<close>, ascending.\<close>

fun comma_separated :: "string list \<Rightarrow> string" where
  "comma_separated [] = []"
| "comma_separated [s] = s"
| "comma_separated (s # t # ss) = s @ '', '' @ comma_separated (t # ss)"

definition show_versions :: "u32 set \<Rightarrow> string" where
  "show_versions versions =
     ''{'' @ comma_separated (map (\<lambda>v. show_nat (unat v)) (sorted_list_of_set versions)) @ ''}''"

definition refuse :: "string \<Rightarrow> u32 \<Rightarrow> string \<Rightarrow> string" where
  "refuse worker version decoded =
     ''keeper '' @ worker @ '' encodes body version '' @ show_nat (unat version) @ ''; '' @ decoded"

fun all_decode :: "string \<Rightarrow> u32 \<Rightarrow> (VenueId \<times> u32 set) list \<Rightarrow> (unit, string) result" where
  "all_decode worker version [] = Ok ()"
| "all_decode worker version ((venue, versions) # declaring) =
     (if version \<notin> versions
      then Err (refuse worker version (as_str venue @ '' decodes '' @ show_versions versions))
      else all_decode worker version declaring)"

definition admit_worker ::
  "('v \<Rightarrow> (KeeperSection, string) result) \<Rightarrow> string \<Rightarrow> (string \<Rightarrow> 'v option)
    \<Rightarrow> (VenueId \<times> u32 set) list \<Rightarrow> (unit, string) result" where
  "admit_worker try_into worker sections registered =
     (case sections SECTION of
        None \<Rightarrow> Ok ()
      | Some v \<Rightarrow>
          and_then (parse_section try_into worker v) (\<lambda>ks.
            let declaring = filter (\<lambda>(_, versions). versions \<noteq> {}) registered
            in if declaring = []
               then Err (refuse worker (ks_body_version ks)
                      ''no registered venue declares [venue] body_versions'')
               else all_decode worker (ks_body_version ks) declaring))"

section \<open>The decision\<close>

lemma all_decode_iff:
  "all_decode worker version ds = Ok () \<longleftrightarrow> (\<forall>(venue, versions)\<in>set ds. version \<in> versions)"
  by (induction worker version ds rule: all_decode.induct) auto

text \<open>The refusal names the first venue, in iteration order, that does not decode the version.\<close>

lemma all_decode_names_the_first:
  assumes "\<forall>(venue, versions)\<in>set before. version \<in> versions" and "version \<notin> vs"
  shows "all_decode worker version (before @ (v, vs) # after) =
     Err (refuse worker version (as_str v @ '' decodes '' @ show_versions vs))"
  using assms by (induction before) auto

definition declares :: "(VenueId \<times> u32 set) list \<Rightarrow> (VenueId \<times> u32 set) list" where
  "declares registered = filter (\<lambda>(_, versions). versions \<noteq> {}) registered"

lemma admit_worker_simps:
  "sections SECTION = None \<Longrightarrow> admit_worker try_into worker sections registered = Ok ()"
  "sections SECTION = Some v \<Longrightarrow> try_into v = Err e \<Longrightarrow>
     admit_worker try_into worker sections registered = Err (worker @ '' [venue]: '' @ e)"
  "sections SECTION = Some v \<Longrightarrow> try_into v = Ok ks \<Longrightarrow>
     admit_worker try_into worker sections registered =
       (if declares registered = []
        then Err (refuse worker (ks_body_version ks)
               ''no registered venue declares [venue] body_versions'')
        else all_decode worker (ks_body_version ks) (declares registered))"
  by (simp_all add: admit_worker_def parse_section_def declares_def Let_def)

text \<open>
  C28: what the handshake admits. A worker without the section is admitted; one whose section
  does not read is refused, by name; one declaring a body version is admitted exactly when
  some registered venue declares versions and every venue that declares any decodes it.
  The answer does not depend on the order the venues are visited in, and a venue that
  declares no version neither admits nor refuses anybody.
\<close>

theorem handshake_admits_what_every_declaring_venue_decodes:
  assumes "sections SECTION = Some v" and "try_into v = Ok ks"
  shows "(admit_worker try_into worker sections registered = Ok () \<longleftrightarrow>
        (\<exists>(venue, versions)\<in>set registered. versions \<noteq> {})
        \<and> (\<forall>(venue, versions)\<in>set registered. versions \<noteq> {} \<longrightarrow> ks_body_version ks \<in> versions))
     \<and> admit_worker try_into worker sections ((venue, {}) # registered) =
         admit_worker try_into worker sections registered
     \<and> (\<forall>again. set again = set registered \<longrightarrow>
          (admit_worker try_into worker sections again = Ok () \<longleftrightarrow>
           admit_worker try_into worker sections registered = Ok ()))
     \<and> admit_worker try_into worker (sections(SECTION := None)) registered = Ok ()
     \<and> admit_worker (\<lambda>_. Err e) worker sections registered =
         Err (worker @ '' [venue]: '' @ e)"
proof -
  have decision: "admit_worker try_into worker sections rs = Ok () \<longleftrightarrow>
      (\<exists>(venue, versions)\<in>set rs. versions \<noteq> {})
      \<and> (\<forall>(venue, versions)\<in>set rs. versions \<noteq> {} \<longrightarrow> ks_body_version ks \<in> versions)" for rs
    unfolding admit_worker_simps(3) [where sections = sections and v = v and try_into = try_into, OF assms]
    by (auto simp: all_decode_iff declares_def filter_empty_conv)
  have opted: "admit_worker try_into worker sections ((venue, {}) # registered) =
      admit_worker try_into worker sections registered" for venue
    unfolding admit_worker_simps(3) [where sections = sections and v = v and try_into = try_into, OF assms]
    by (simp add: declares_def)
  show ?thesis
    unfolding decision opted
    using assms(1) by (simp add: admit_worker_simps)
qed

theorem handshake_admits_what_every_declaring_venue_decodes_witness:
  "admit_worker (\<lambda>n. Ok \<lparr>ks_body_version = n\<rparr>) ''keeper'' [''venue'' \<mapsto> (2 :: u32)]
       [(VenueId ''cow'', {1, 2}), (VenueId ''old'', {}), (VenueId ''uni'', {2, 3})] = Ok ()
   \<and> admit_worker (\<lambda>n. Ok \<lparr>ks_body_version = n\<rparr>) ''keeper'' [''venue'' \<mapsto> (2 :: u32)]
       [(VenueId ''old'', {}), (VenueId ''uni'', {1})] \<noteq> Ok ()"
proof -
  let ?s = "[''venue'' \<mapsto> (2 :: u32)]" and ?t = "\<lambda>n. Ok \<lparr>ks_body_version = n\<rparr>"
  have s: "?s SECTION = Some 2" by (simp add: SECTION_def)
  note h = handshake_admits_what_every_declaring_venue_decodes
    [of ?s 2 ?t "\<lparr>ks_body_version = 2\<rparr>" "''keeper''", OF s refl, THEN conjunct1]
  show ?thesis by (simp add: h)
qed

end
