(* ===== verification/Task_Loop.thy ===== *)
theory Task_Loop imports Main
begin

text \<open>
  A task's \<^verbatim>\<open>loop\<close> whose body may return: the body says whether to go on, and the loop has
  a value only when some turn stops it.
\<close>

partial_function (option) forever :: "('s \<Rightarrow> bool \<times> 's) \<Rightarrow> 's \<Rightarrow> 's option" where
  "forever turn s = (case turn s of (continue, s') \<Rightarrow> if continue then forever turn s' else Some s')"

text \<open>
  The state after a number of turns, and the turn, counted from \<open>0\<close>, that stops the loop.
\<close>

fun after_turns :: "('s \<Rightarrow> bool \<times> 's) \<Rightarrow> nat \<Rightarrow> 's \<Rightarrow> 's" where
  "after_turns turn 0 s = s"
| "after_turns turn (Suc n) s = after_turns turn n (snd (turn s))"

fun stops_at :: "('s \<Rightarrow> bool \<times> 's) \<Rightarrow> 's \<Rightarrow> nat \<Rightarrow> bool" where
  "stops_at turn s 0 \<longleftrightarrow> \<not> fst (turn s)"
| "stops_at turn s (Suc n) \<longleftrightarrow> fst (turn s) \<and> stops_at turn (snd (turn s)) n"

lemma stops_at_forever:
  "stops_at turn s n \<Longrightarrow> forever turn s = Some (after_turns turn (Suc n) s)"
  by (induction n arbitrary: s; subst forever.simps) (simp_all add: case_prod_unfold)

lemma forever_stops_at:
  "forever turn s = Some s' \<Longrightarrow> \<exists>n. stops_at turn s n \<and> s' = after_turns turn (Suc n) s"
proof (rule forever.raw_induct [where P = "\<lambda>turn s s'. \<exists>n. stops_at turn s n \<and> s' = after_turns turn (Suc n) s"])
  fix rec and turn :: "'a \<Rightarrow> bool \<times> 'a" and s s'
  assume 1: "\<And>turn s s'. rec turn s = Some s' \<Longrightarrow>
        \<exists>n. stops_at turn s n \<and> s' = after_turns turn (Suc n) s"
    "(case turn s of (continue, s') \<Rightarrow> if continue then rec turn s' else Some s') = Some s'"
  show "\<exists>n. stops_at turn s n \<and> s' = after_turns turn (Suc n) s"
  proof (cases "fst (turn s)")
    case False
    with 1(2) have "stops_at turn s 0 \<and> s' = after_turns turn (Suc 0) s"
      by (simp add: case_prod_unfold)
    then show ?thesis by blast
  next
    case True
    with 1(2) have "rec turn (snd (turn s)) = Some s'" by (simp add: case_prod_unfold)
    from 1(1) [OF this] obtain n where
      "stops_at turn (snd (turn s)) n \<and> s' = after_turns turn (Suc n) (snd (turn s))" by blast
    with True have "stops_at turn s (Suc n) \<and> s' = after_turns turn (Suc (Suc n)) s" by simp
    then show ?thesis by blast
  qed
qed

lemma forever_iff:
  "forever turn s = Some s' \<longleftrightarrow> (\<exists>n. stops_at turn s n \<and> s' = after_turns turn (Suc n) s)"
  using forever_stops_at [of turn s s'] stops_at_forever [of turn s] by auto

text \<open>A stopping turn is stopped at only after all earlier turns went on, and only one is.\<close>

lemma stops_at_iff:
  "stops_at turn s n \<longleftrightarrow> (\<forall>k<n. fst (turn (after_turns turn k s))) \<and> \<not> fst (turn (after_turns turn n s))"
  by (induction n arbitrary: s) (auto simp: less_Suc_eq_0_disj)

end
