(* ===== verification/Platform.thy ===== *)
theory Platform imports Handshake Sdk_Client Task_Loop
begin

text \<open>
  \<^verbatim>\<open>videre-host/src/client.rs\<close> and \<^verbatim>\<open>videre-host/src/lib.rs\<close>: the keeper-facing import over
  the process-wide registry slot, and the platform extension with its status-poll task.
  A shared registry is an address in the process; a call on it runs on the process's one
  world. The runtime's linker, its source context and the tokio channel and timer are
  arguments or plain records; parsing a module id is the argument \<open>parse\<close>.
\<close>

section \<open>The process\<close>

type_synonym registry_ref = nat

record 'x process =
  registries :: "registry_ref \<Rightarrow> 'x VenueRegistry"
  next_registry :: registry_ref
  REGISTRY :: "registry_ref option"
  pr_world :: "'x world"

definition with_registry ::
  "registry_ref \<Rightarrow> ('x VenueRegistry \<Rightarrow> 'a \<times> 'x VenueRegistry) \<Rightarrow> 'x process \<Rightarrow> 'a \<times> 'x process" where
  "with_registry a m p =
     (let (x, r) = m ((registries p a)\<lparr>env := pr_world p\<rparr>)
      in (x, p\<lparr>registries := (registries p)(a := r), pr_world := env r\<rparr>))"

section \<open>The client import\<close>

definition publish_registry :: "registry_ref \<Rightarrow> 'x process \<Rightarrow> 'x process" where
  "publish_registry a p = (case REGISTRY p of None \<Rightarrow> p\<lparr>REGISTRY := Some a\<rparr> | Some _ \<Rightarrow> p)"

definition the_registry :: "'x process \<Rightarrow> (registry_ref, VenueError) result" where
  "the_registry p = (case REGISTRY p of None \<Rightarrow> Err UnknownVenue | Some a \<Rightarrow> Ok a)"

type_synonym module_ids = "string \<Rightarrow> (string, string) result"

definition venue_id :: "module_ids \<Rightarrow> string \<Rightarrow> (VenueId, VenueError) result" where
  "venue_id parse venue = map_err (\<lambda>_. UnknownVenue) (VenueId_new parse venue)"

text \<open>\<open>registry()?\<close>, then \<open>venue_id(venue)?\<close>, then the call on the registry.\<close>

definition delegate ::
  "module_ids \<Rightarrow> string \<Rightarrow> (VenueId \<Rightarrow> 'x VenueRegistry \<Rightarrow> ('a, VenueError) result \<times> 'x VenueRegistry)
    \<Rightarrow> 'x process \<Rightarrow> ('a, VenueError) result \<times> 'x process" where
  "delegate parse venue m p =
     (case the_registry p of
        Err e \<Rightarrow> (Err e, p)
      | Ok a \<Rightarrow>
          (case venue_id parse venue of
             Err e \<Rightarrow> (Err e, p)
           | Ok v \<Rightarrow> with_registry a (m v) p))"

definition host_quote :: "module_ids \<Rightarrow> string \<Rightarrow> string \<Rightarrow> bytes \<Rightarrow> 'x process
    \<Rightarrow> (Quotation, VenueError) result \<times> 'x process" where
  "host_quote parse module venue body = delegate parse venue (\<lambda>v. quote module v body)"

definition host_submit :: "module_ids \<Rightarrow> string \<Rightarrow> string \<Rightarrow> bytes \<Rightarrow> 'x process
    \<Rightarrow> (SubmitOutcome, VenueError) result \<times> 'x process" where
  "host_submit parse module venue body = delegate parse venue (\<lambda>v. submit module v body)"

definition host_observe :: "module_ids \<Rightarrow> string \<Rightarrow> bytes \<Rightarrow> 'x process
    \<Rightarrow> (unit, VenueError) result \<times> 'x process" where
  "host_observe parse venue receipt = delegate parse venue (\<lambda>v. observe v receipt)"

definition host_status :: "module_ids \<Rightarrow> string \<Rightarrow> bytes \<Rightarrow> 'x process
    \<Rightarrow> (IntentStatus, VenueError) result \<times> 'x process" where
  "host_status parse venue receipt = delegate parse venue (\<lambda>v. status v receipt)"

definition host_cancel :: "module_ids \<Rightarrow> string \<Rightarrow> bytes \<Rightarrow> 'x process
    \<Rightarrow> (unit, VenueError) result \<times> 'x process" where
  "host_cancel parse venue receipt = delegate parse venue (\<lambda>v. cancel v receipt)"

text \<open>The import as one module's instance sees it.\<close>

definition client_of :: "module_ids \<Rightarrow> string \<Rightarrow> 'x process client_import" where
  "client_of parse module =
     \<lparr>shim_quote = host_quote parse module, shim_submit = host_submit parse module,
      shim_observe = host_observe parse, shim_status = host_status parse,
      shim_cancel = host_cancel parse\<rparr>"

section \<open>The platform\<close>

definition STATUS_CHANNEL_BUF :: nat where "STATUS_CHANNEL_BUF = 64"

definition DEFAULT_STATUS_POLL_INTERVAL :: Duration where
  "DEFAULT_STATUS_POLL_INTERVAL = from_secs 5"

record Videre =
  vd_registry :: registry_ref
  status_poll_interval :: Duration

definition from_registry :: "'x VenueRegistry \<Rightarrow> 'x process \<Rightarrow> Videre \<times> 'x process" where
  "from_registry r p =
     (let a = next_registry p
      in (\<lparr>vd_registry = a, status_poll_interval = DEFAULT_STATUS_POLL_INTERVAL\<rparr>,
          p\<lparr>registries := (registries p)(a := r), next_registry := Suc a\<rparr>))"

definition platform :: "'x process \<Rightarrow> Videre \<times> 'x process" where
  "platform p =
     from_registry (build (VenueRegistryBuilder_new SubmitQuota_default) (pr_world p)) p"

definition with_status_poll_interval :: "Duration \<Rightarrow> Videre \<Rightarrow> Videre" where
  "with_status_poll_interval interval v = v\<lparr>status_poll_interval := interval\<rparr>"

record NamespaceCaps =
  nc_prefix :: string
  nc_ifaces :: "string list"

definition capabilities :: NamespaceCaps where
  "capabilities = \<lparr>nc_prefix = ''videre:venue/'', nc_ifaces = [''client'']\<rparr>"

datatype ExtensionError = ELink string string | EAdmit string string

definition link ::
  "('l \<Rightarrow> ('l, string) result) \<Rightarrow> Videre \<Rightarrow> 'l \<Rightarrow> 'x process
    \<Rightarrow> ('l, ExtensionError) result \<times> 'x process" where
  "link add_to_linker v linker p =
     (map_err (ELink NAMESPACE) (add_to_linker linker), publish_registry (vd_registry v) p)"

definition manifest_sections :: "string list" where "manifest_sections = SECTIONS"

definition emits_trigger_kinds :: "string list" where "emits_trigger_kinds = [INTENT_STATUS_KIND]"

text \<open>\<open>entries\<close> lists the registered venues in the iteration order of the map.\<close>

definition platform_admit ::
  "('v \<Rightarrow> (KeeperSection, string) result) \<Rightarrow> ((VenueId \<rightharpoonup> u32 set) \<Rightarrow> (VenueId \<times> u32 set) list)
    \<Rightarrow> Videre \<Rightarrow> string \<Rightarrow> (string \<Rightarrow> 'v option) \<Rightarrow> 'x process \<Rightarrow> (unit, ExtensionError) result" where
  "platform_admit try_into entries v worker sections p =
     map_err (EAdmit worker)
       (admit_worker try_into worker sections (entries (body_versions (registries p (vd_registry v)))))"

section \<open>The status source\<close>

record ExtensionDelivery =
  dl_kind :: string
  dl_attrs :: "(string \<times> string) list"
  dl_trigger_kind :: string
  dl_payload :: bytes

text \<open>What the source context holds: the demanded kinds, and the tasks spawned with their channels.\<close>

record SourceContext =
  demanded_extension_kinds :: "string set"
  next_channel :: nat
  spawned :: "(string \<times> registry_ref \<times> Duration \<times> nat) list"

definition open_sources ::
  "Videre \<Rightarrow> SourceContext \<Rightarrow> 'x process \<Rightarrow> (nat list, ExtensionError) result \<times> SourceContext" where
  "open_sources v sources p =
     (if INTENT_STATUS_KIND \<notin> demanded_extension_kinds sources then (Ok [], sources)
      else if venue_count (registries p (vd_registry v)) = 0 then (Ok [], sources)
      else let ch = next_channel sources
           in (Ok [ch], sources\<lparr>next_channel := Suc ch,
                 spawned := spawned sources @
                   [(INTENT_STATUS_KIND, vd_registry v, status_poll_interval v, ch)]\<rparr>))"

definition delivery_of :: "IntentStatusUpdate \<Rightarrow> bytes \<Rightarrow> ExtensionDelivery" where
  "delivery_of update payload =
     \<lparr>dl_kind = INTENT_STATUS_KIND, dl_attrs = [(''venue'', upd_venue update)],
      dl_trigger_kind = INTENT_STATUS_KIND, dl_payload = payload\<rparr>"

type_synonym 'c send = "ExtensionDelivery \<Rightarrow> 'c \<Rightarrow> (unit, unit) result \<times> 'c"

text \<open>The inner loop: false when the receiver is gone and the task returns.\<close>

fun deliver_updates ::
  "'c send \<Rightarrow> IntentStatusUpdate ser \<Rightarrow> IntentStatusUpdate list \<Rightarrow> 'c \<Rightarrow> bool \<times> 'c" where
  "deliver_updates send ser [] c = (True, c)"
| "deliver_updates send ser (update # updates) c =
     (case IntentStatusUpdate_encode ser update of
        Err _ \<Rightarrow> deliver_updates send ser updates c
      | Ok payload \<Rightarrow>
          (case send (delivery_of update payload) c of
             (Err _, c') \<Rightarrow> (False, c')
           | (Ok _, c') \<Rightarrow> deliver_updates send ser updates c'))"

text \<open>
  One turn of the task. \<open>sleep\<close> is the timer: meanwhile the rest of the process runs, so it
  may change the process and the channel in any way.
\<close>

definition status_poll_turn ::
  "(Duration \<Rightarrow> 'x process \<times> 'c \<Rightarrow> 'x process \<times> 'c) \<Rightarrow> 'c send \<Rightarrow> StatusBody ser
    \<Rightarrow> IntentStatusUpdate ser \<Rightarrow> registry_ref \<Rightarrow> Duration \<Rightarrow> 'x process \<times> 'c
    \<Rightarrow> bool \<times> 'x process \<times> 'c" where
  "status_poll_turn sleep send ser_body ser_update a cadence pc =
     (let (p1, c1) = sleep cadence pc;
          (updates, p2) = with_registry a (poll_status_transitions ser_body) p1;
          (continue, c2) = deliver_updates send ser_update updates c1
      in (continue, p2, c2))"

definition status_poll_task ::
  "(Duration \<Rightarrow> 'x process \<times> 'c \<Rightarrow> 'x process \<times> 'c) \<Rightarrow> 'c send \<Rightarrow> StatusBody ser
    \<Rightarrow> IntentStatusUpdate ser \<Rightarrow> registry_ref \<Rightarrow> Duration \<Rightarrow> 'x process \<times> 'c
    \<Rightarrow> ('x process \<times> 'c) option" where
  "status_poll_task sleep send ser_body ser_update a cadence =
     forever (status_poll_turn sleep send ser_body ser_update a cadence)"

end
