(* ===== verification/Host_Tests.thy ===== *)
theory Host_Tests imports Platform Test_Assertions
begin

text \<open>
  The unit tests of \<^verbatim>\<open>videre-host\<close> outside its registry: the policies of \<^verbatim>\<open>policy.rs\<close>,
  the handshake of \<^verbatim>\<open>handshake.rs\<close>, the published slot of \<^verbatim>\<open>client.rs\<close> and the rendered
  venue error of \<^verbatim>\<open>bindings.rs\<close>. One definition per test. A section of a manifest is the value
  its toml text denotes, read as serde reads it; the table of registered venues is a hash
  map, so a test holds in every order of its entries. The test that two clones of a liveness
  share its flag is not replayed: a liveness is an address here, so there is nothing to test.
\<close>

section \<open>\<^verbatim>\<open>policy.rs\<close>\<close>

definition a_fresh_flag_is_alive :: "'x world \<Rightarrow> bool" where
  "a_fresh_flag_is_alive w =
     (let (liveness, w1) = Liveness_new w in is_alive w1 liveness \<and> dead_since w1 liveness = None)"

definition marking_dead_is_idempotent_and_reversible :: "'x world \<Rightarrow> bool" where
  "marking_dead_is_idempotent_and_reversible w =
     (let (liveness, w1) = Liveness_new w; w2 = mark_dead liveness w1 in
      case dead_since w2 liveness of
        None \<Rightarrow> False
      | Some first \<Rightarrow>
          (let w3 = mark_dead liveness w2; w4 = mark_alive liveness w3
           in dead_since w3 liveness = Some first \<and> \<not> is_alive w3 liveness \<and> is_alive w4 liveness))"

definition derived_grace_is_two_expiries_capped_at_the_ceiling :: "'x world \<Rightarrow> bool" where
  "derived_grace_is_two_expiries_capped_at_the_ceiling w =
     (grace (WatchLimit_new 8 (from_secs 30)) = from_secs 60
      \<and> grace (WatchLimit_new 8 (from_secs 86400)) = WATCH_GRACE_MAX)"

definition defaults_match_the_documented_constants :: "'x world \<Rightarrow> bool" where
  "defaults_match_the_documented_constants w =
     (max_charges SubmitQuota_default = 256 \<and> window SubmitQuota_default = from_secs 60
      \<and> max_entries WatchLimit_default = 1024)"

definition host_policy_tests :: "('x world \<Rightarrow> bool) list" where
  "host_policy_tests =
     [a_fresh_flag_is_alive, marking_dead_is_idempotent_and_reversible,
      derived_grace_is_two_expiries_capped_at_the_ceiling, defaults_match_the_documented_constants]"

lemma host_policy_tests_pass: "list_all (\<lambda>test. test w) host_policy_tests"
  by (simp add: host_policy_tests_def a_fresh_flag_is_alive_def Liveness_new_def
      marking_dead_is_idempotent_and_reversible_def
      derived_grace_is_two_expiries_capped_at_the_ceiling_def
      defaults_match_the_documented_constants_def WatchLimit_new_def WatchLimit_with_grace_def
      WatchLimit_default_def SubmitQuota_default_def SubmitQuota_new_def
      DEFAULT_QUOTA_MAX_CHARGES_def DEFAULT_QUOTA_WINDOW_def DEFAULT_WATCH_MAX_ENTRIES_def
      derive_grace_def from_secs_def WATCH_GRACE_MAX_def WATCH_GRACE_MULTIPLIER_def
      u64_saturating_mul_def is_alive_def dead_since_def mark_dead_def mark_alive_def instant_now_def
      Let_def)

section \<open>\<^verbatim>\<open>handshake.rs\<close>\<close>

text \<open>The document of a manifest whose \<^verbatim>\<open>[venue]\<close> section holds one key.\<close>

definition venue_section :: "string \<Rightarrow> Json \<Rightarrow> string \<Rightarrow> Json option" where
  "venue_section key value = [SECTION \<mapsto> JObj [(key, value)]]"

definition keeper_v :: "nat \<Rightarrow> string \<Rightarrow> Json option" where
  "keeper_v version = venue_section ''body_version'' (JNum version)"

definition registered :: "(string \<times> u32 list) list \<Rightarrow> (VenueId \<times> u32 set) list" where
  "registered venues = map (\<lambda>(i, versions). (VenueId i, set versions)) venues"

abbreviation admit_keeper ::
  "(string \<Rightarrow> Json option) \<Rightarrow> (string \<times> u32 list) list \<Rightarrow> (unit, string) result" where
  "admit_keeper sections venues \<equiv>
     admit_worker KeeperSection_deserialize ''keeper'' sections (registered venues)"

definition refused_with :: "string list \<Rightarrow> (unit, string) result \<Rightarrow> bool" where
  "refused_with parts r =
     (case r of Ok _ \<Rightarrow> False | Err msg \<Rightarrow> list_all (\<lambda>part. str_contains part msg) parts)"

definition in_either_order :: "('a list \<Rightarrow> bool) \<Rightarrow> 'a list \<Rightarrow> bool" where
  "in_either_order test xs = (test xs \<and> test (rev xs))"

definition matching_pair_is_admitted :: bool where
  "matching_pair_is_admitted =
     in_either_order (\<lambda>venues. admit_keeper (keeper_v 2) venues = Ok ())
       [(''cow'', [1, 2]), (''uni'', [2, 3])]"

definition mismatched_pair_is_refused :: bool where
  "mismatched_pair_is_refused =
     refused_with [''body version 2'', ''cow decodes {1}''] (admit_keeper (keeper_v 2) [(''cow'', [1])])"

definition one_non_decoding_venue_refuses_the_keeper :: bool where
  "one_non_decoding_venue_refuses_the_keeper =
     in_either_order (\<lambda>venues. refused_with [''body version 2'', ''uni decodes {1}'']
         (admit_keeper (keeper_v 2) venues))
       [(''cow'', [1, 2]), (''uni'', [1])]"

definition no_registered_venue_refuses_a_declaring_keeper :: bool where
  "no_registered_venue_refuses_a_declaring_keeper =
     refused_with [''no registered venue declares''] (admit_keeper (keeper_v 1) [])"

definition an_opted_out_venue_never_satisfies_a_declaring_keeper :: bool where
  "an_opted_out_venue_never_satisfies_a_declaring_keeper =
     refused_with [''no registered venue declares''] (admit_keeper (keeper_v 1) [(''cow'', [])])"

definition an_opted_out_venue_never_refuses_a_keeper :: bool where
  "an_opted_out_venue_never_refuses_a_keeper =
     in_either_order (\<lambda>venues. admit_keeper (keeper_v 2) venues = Ok ()) [(''cow'', []), (''uni'', [2])]"

definition undeclared_sections_are_admitted :: bool where
  "undeclared_sections_are_admitted = (admit_keeper Map.empty [] = Ok ())"

definition wrong_side_spelling_is_refused :: bool where
  "wrong_side_spelling_is_refused =
     refused_with [''keeper [venue]'']
       (admit_keeper (venue_section ''body_versions'' (JArr [JNum 1])) [])"

section \<open>\<^verbatim>\<open>client.rs\<close> and \<^verbatim>\<open>bindings.rs\<close>\<close>

text \<open>Two fresh registries are two addresses; the slot of a new process is empty.\<close>

definition the_first_published_registry_wins :: "'x process \<Rightarrow> bool" where
  "the_first_published_registry_wins p =
     (the_registry p = Err UnknownVenue
      \<and> (let first = next_registry p; second = Suc first;
             p2 = publish_registry second (publish_registry first p)
         in expected (the_registry p2) (\<lambda>resolved. resolved = first)))"

lemma first_publish_test_passes: "REGISTRY p = None \<Longrightarrow> the_first_published_registry_wins p"
  by (simp add: the_first_published_registry_wins_def the_registry_def publish_registry_def Let_def)

definition venue_error_message_keeps_the_rate_limit_hint :: bool where
  "venue_error_message_keeps_the_rate_limit_hint =
     (venue_error_message (RateLimited \<lparr>retry_after_ms = Some 250\<rparr>) = ''rate limited, retry after 250 ms''
      \<and> venue_error_message (RateLimited \<lparr>retry_after_ms = None\<rparr>) = ''rate limited'')"

definition host_tests :: "bool list" where
  "host_tests =
     [matching_pair_is_admitted, mismatched_pair_is_refused,
      one_non_decoding_venue_refuses_the_keeper, no_registered_venue_refuses_a_declaring_keeper,
      an_opted_out_venue_never_satisfies_a_declaring_keeper,
      an_opted_out_venue_never_refuses_a_keeper, undeclared_sections_are_admitted,
      wrong_side_spelling_is_refused, venue_error_message_keeps_the_rate_limit_hint]"

lemma small_digits: "show_nat (Suc 0) = ''1''" "show_nat 2 = ''2''" "show_nat 250 = ''250''"
  by code_simp+

lemmas handshake_eval = KeeperSection_deserialize_def read_struct_def field_def read_word_def
  read_uint_def admit_worker_def parse_section_def keeper_v_def venue_section_def
  registered_def refused_with_def in_either_order_def refuse_def show_versions_def small_digits Let_def

lemma host_tests_pass: "list_all id host_tests"
  by (simp add: host_tests_def handshake_eval
      matching_pair_is_admitted_def mismatched_pair_is_refused_def
      one_non_decoding_venue_refuses_the_keeper_def no_registered_venue_refuses_a_declaring_keeper_def
      an_opted_out_venue_never_satisfies_a_declaring_keeper_def
      an_opted_out_venue_never_refuses_a_keeper_def undeclared_sections_are_admitted_def
      wrong_side_spelling_is_refused_def venue_error_message_keeps_the_rate_limit_hint_def)

end
