(* ===== verification/Conformance_Contract.thy ===== *)
theory Conformance_Contract imports Conformance
begin

text \<open>
  The contract behind the codec vectors: what the \<^verbatim>\<open>IntentBody\<close> trait promises of the two
  functions of a body type with a given number of published versions, and what a codec check
  says of any type that keeps the promise. The derive of \<^verbatim>\<open>intent_body.rs\<close> keeps it, for
  every declaration it accepts.
\<close>

section \<open>The trait's promise\<close>

locale intent_body =
  fixes B :: "'b intent_body_impl" and versions :: nat
  assumes decodes: "ib_from_bytes B bs = Ok b \<Longrightarrow> ib_to_bytes B b = Ok bs"
    and no_tag: "ib_from_bytes B [] = Err BodyEmpty"
    and unknown: "versions \<le> unat v \<Longrightarrow> ib_from_bytes B (v # p) = Err (BodyUnknownVersion v)"
    and known: "unat v < versions \<Longrightarrow>
      (\<exists>b. ib_from_bytes B (v # p) = Ok b) \<or> (\<exists>e. ib_from_bytes B (v # p) = Err (BodyMalformed v e))"

text \<open>
  What a vector says of the bytes: they are a body's, or there is no version tag, or the tag
  is not published, or it is and the payload is no body's.
\<close>

definition vector_holds :: "'b intent_body_impl \<Rightarrow> nat \<Rightarrow> CodecVector \<Rightarrow> bool" where
  "vector_holds B versions v =
     (case cv_expect v of
        ExRoundTrip \<Rightarrow> is_ok (ib_from_bytes B (cv_bytes v))
      | ExEmpty \<Rightarrow> cv_bytes v = []
      | ExUnknownVersion n \<Rightarrow> versions \<le> unat n \<and> take 1 (cv_bytes v) = [n]
      | ExMalformed n \<Rightarrow> unat n < versions \<and> take 1 (cv_bytes v) = [n]
          \<and> \<not> is_ok (ib_from_bytes B (cv_bytes v)))"

definition failing_vectors :: "'b intent_body_impl \<Rightarrow> nat \<Rightarrow> CodecVectors \<Rightarrow> string list" where
  "failing_vectors B versions s =
     (if cs_vectors s = [] then [''<set>'']
      else map cv_name (filter (\<lambda>v. \<not> vector_holds B versions v) (cs_vectors s)))"

context intent_body begin

lemma from_bytes_cases:
  obtains (bare) "bs = []" "ib_from_bytes B bs = Err BodyEmpty"
  | (unpublished) v p where "bs = v # p" "versions \<le> unat v"
      "ib_from_bytes B bs = Err (BodyUnknownVersion v)"
  | (body) v p b where "bs = v # p" "unat v < versions" "ib_from_bytes B bs = Ok b"
      "ib_to_bytes B b = Ok bs"
  | (broken) v p e where "bs = v # p" "unat v < versions"
      "ib_from_bytes B bs = Err (BodyMalformed v e)"
proof (cases bs)
  case Nil
  then show ?thesis using no_tag bare by simp
next
  case (Cons v p)
  show ?thesis
  proof (cases "versions \<le> unat v")
    case True
    show ?thesis by (rule unpublished [OF Cons True]) (simp add: Cons unknown True)
  next
    case False
    then have v: "unat v < versions" by simp
    show ?thesis
    proof (cases "ib_from_bytes B bs")
      case (Ok b)
      show ?thesis by (rule body [OF Cons v Ok decodes [OF Ok]])
    next
      case (Err e)
      then obtain e' where "ib_from_bytes B bs = Err (BodyMalformed v e')"
        using known [OF v, of p] Cons by auto
      then show ?thesis by (rule broken [OF Cons v])
    qed
  qed
qed

lemma vector_check: "codec_vector_check hex_encode B v = Ok () \<longleftrightarrow> vector_holds B versions v"
  by (cases "cv_bytes v" rule: from_bytes_cases; cases "cv_expect v")
    (auto simp: codec_vector_check_def vector_holds_def)

lemma codec_check:
  "(codec_check hex_encode B s = Ok () \<longleftrightarrow> failing_vectors B versions s = [])
   \<and> (\<forall>r. codec_check hex_encode B s = Err r \<longrightarrow>
        map vi_vector (violations r) = failing_vectors B versions s)"
proof -
  define vs where "vs = check_loop (codec_vector_check hex_encode B) cv_name (cs_vectors s)
       (if cs_vectors s = []
        then [\<lparr>vi_vector = ''<set>'', vi_detail = ''published vector set is empty''\<rparr>] else [])"
  have "map vi_vector vs = failing_vectors B versions s"
    by (simp add: vs_def check_loop_names failing_vectors_def vector_check)
  moreover from this have "vs = [] \<longleftrightarrow> failing_vectors B versions s = []"
    by (metis map_is_Nil_conv)
  ultimately show ?thesis
    by (simp add: codec_check_def flip: vs_def)
qed

text \<open>A round trip pushed from a body holds, as long as decoding reads back what is encoded.\<close>

lemma pushed_round_trip:
  assumes "push_round_trip B name b s = Ok s'" "\<And>bs. ib_to_bytes B b = Ok bs \<Longrightarrow> is_ok (ib_from_bytes B bs)"
  shows "failing_vectors B versions s' = (if cs_vectors s = [] then [] else failing_vectors B versions s)"
  using assms
  by (auto simp: push_round_trip_def push_vector_def failing_vectors_def vector_holds_def map_ok_eq_Ok)

end

section \<open>The derive keeps the promise\<close>

text \<open>
  The two emitted functions as a trait impl. A value of the version enum is one of its
  variants, so encoding is only read where an arm exists.
\<close>

definition derived_body ::
  "('ty \<Rightarrow> 'p ser) \<Rightarrow> ('ty \<Rightarrow> 'p de) \<Rightarrow> 'ty Arm list \<Rightarrow> 'p Body intent_body_impl" where
  "derived_body ser de arms =
     \<lparr>ib_to_bytes = (\<lambda>b. the (IntentBody_to_bytes ser arms b)),
      ib_from_bytes = IntentBody_from_bytes de arms\<rparr>"

lemma find_tag:
  assumes "expand_arms 0 vs = Ok arms" "length vs \<le> 256"
  shows "find (\<lambda>a. arm_tag a = v) arms = None \<longleftrightarrow> length arms \<le> unat v"
proof -
  have tags: "map arm_tag arms = map of_nat [0 ..< length vs]"
    using expand_arms_Ok [OF assms(1)] by simp
  then have len: "length arms = length vs"
    by (metis length_map length_upt minus_nat.diff_0)
  have "find (\<lambda>a. arm_tag a = v) arms = None \<longleftrightarrow> v \<notin> set (map arm_tag arms)"
    by (auto simp: find_None_iff)
  also have "\<dots> \<longleftrightarrow> (\<forall>k<length vs. of_nat k \<noteq> v)"
    unfolding tags by auto
  also have "\<dots> \<longleftrightarrow> length vs \<le> unat v"
  proof
    assume "\<forall>k<length vs. of_nat k \<noteq> v"
    then show "length vs \<le> unat v"
      by (metis not_less of_nat_unat ucast_id)
  next
    assume "length vs \<le> unat v"
    then show "\<forall>k<length vs. of_nat k \<noteq> v"
      using assms(2) by (metis less_le_trans mod_less not_less unat_of_nat_mod_256)
  qed
  finally show ?thesis by (simp add: len)
qed

lemma derived_intent_body:
  assumes "expand_derive i = Ok arms" "distinct (map arm_ident arms)"
    "\<And>ty. borsh_codec (ser ty) (de ty)"
  shows "intent_body (derived_body ser de arms) (length arms)"
proof -
  obtain vs where vs: "expand_arms 0 vs = Ok arms" "length vs \<le> 256"
    using expand_derive_Ok [OF assms(1)] by blast
  have ser: "de ty p = Ok x \<Longrightarrow> ser ty x = Ok p" for ty p x
    using borsh_codec.de_iff_ser [OF assms(3)] by simp
  show ?thesis
  proof unfold_locales
    fix bs b
    assume "ib_from_bytes (derived_body ser de arms) bs = Ok b"
    then have "IntentBody_to_bytes ser arms b = Some (Ok bs)"
      unfolding to_bytes_eq_Ok [OF assms(2)] derived_body_def intent_body_impl.simps
        from_bytes_eq_Ok [OF expand_tags_distinct [OF vs]]
      using ser by blast
    then show "ib_to_bytes (derived_body ser de arms) b = Ok bs"
      by (simp add: derived_body_def)
  next
    fix v p
    show "length arms \<le> unat v \<Longrightarrow>
        ib_from_bytes (derived_body ser de arms) (v # p) = Err (BodyUnknownVersion v)"
      by (simp add: derived_body_def find_tag [OF vs, THEN iffD2])
    assume "unat v < length arms"
    then obtain a where "find (\<lambda>a. arm_tag a = v) arms = Some a"
      using find_tag [OF vs, of v] by (cases "find (\<lambda>a. arm_tag a = v) arms") auto
    then show "(\<exists>b. ib_from_bytes (derived_body ser de arms) (v # p) = Ok b)
        \<or> (\<exists>e. ib_from_bytes (derived_body ser de arms) (v # p) = Err (BodyMalformed v e))"
      by (cases "de (arm_payload a) p") (auto simp: derived_body_def dest: find_SomeD)
  qed (simp add: derived_body_def)
qed

text \<open>Appending versions changes nothing below the new tags.\<close>

lemma appended_arms:
  assumes "expand_derive \<lparr>di_generics = [], di_data = DataEnum vs\<rparr> = Ok arms"
    and "expand_derive \<lparr>di_generics = [], di_data = DataEnum (vs @ ws)\<rparr> = Ok arms'"
  obtains more where "arms' = arms @ more" "length arms' = length vs + length ws" "length arms = length vs"
proof -
  have e: "expand_arms 0 vs = Ok arms" "expand_arms 0 (vs @ ws) = Ok arms'"
    using assms by (auto simp: expand_derive_def split: if_splits)
  obtain more where m: "arms' = arms @ more"
    using expand_arms_append [OF e(2)] e(1) by auto
  have "length arms = length vs" "length arms' = length (vs @ ws)"
    using expand_arms_Ok [OF e(1)] expand_arms_Ok [OF e(2)] by (metis length_map)+
  then show ?thesis using that m by simp
qed

lemma appended_from_bytes:
  assumes "expand_derive \<lparr>di_generics = [], di_data = DataEnum vs\<rparr> = Ok arms"
    and "expand_derive \<lparr>di_generics = [], di_data = DataEnum (vs @ ws)\<rparr> = Ok arms'"
    and "bs = [] \<or> unat (hd bs) < length arms"
  shows "IntentBody_from_bytes de arms' bs = IntentBody_from_bytes de arms bs"
proof (cases bs)
  case (Cons v p)
  obtain more where arms': "arms' = arms @ more"
    using appended_arms [OF assms(1,2)] by blast
  obtain ds where ds: "expand_arms 0 ds = Ok arms" "length ds \<le> 256"
    using expand_derive_Ok [OF assms(1)] by blast
  obtain a where "find (\<lambda>a. arm_tag a = v) arms = Some a"
    using find_tag [OF ds, of v] assms(3) Cons by (cases "find (\<lambda>a. arm_tag a = v) arms") auto
  moreover from this have "find (\<lambda>a. arm_tag a = v) (arms @ more) = Some a"
    by (induction arms) (auto split: if_splits)
  ultimately show ?thesis
    unfolding arms' Cons by simp
qed simp

text \<open>What a vector that held says of the type with versions appended.\<close>

lemma appended_vector_holds:
  assumes "expand_derive \<lparr>di_generics = [], di_data = DataEnum vs\<rparr> = Ok arms"
    and "expand_derive \<lparr>di_generics = [], di_data = DataEnum (vs @ ws)\<rparr> = Ok arms'"
    and old: "intent_body (derived_body ser de arms) (length arms)"
    and holds: "vector_holds (derived_body ser de arms) (length arms) v"
  shows "vector_holds (derived_body ser de arms') (length arms') v
     \<longleftrightarrow> \<not> (\<exists>n. cv_expect v = ExUnknownVersion n \<and> unat n < length arms')"
proof -
  have len: "length arms \<le> length arms'"
    using appended_arms [OF assms(1,2)] by (metis le_add1)
  have same: "ib_from_bytes (derived_body ser de arms') bs = ib_from_bytes (derived_body ser de arms) bs"
    if "bs = [] \<or> unat (hd bs) < length arms" for bs
    using appended_from_bytes [OF assms(1,2) that] by (simp add: derived_body_def)
  have tag: "unat (hd bs) < length arms" if "is_ok (ib_from_bytes (derived_body ser de arms) bs)" for bs
    using that by (cases bs rule: intent_body.from_bytes_cases [OF old]) auto
  show ?thesis
  proof (cases "cv_expect v")
    case ExRoundTrip
    then show ?thesis using holds same tag by (simp add: vector_holds_def)
  next
    case (ExMalformed n)
    then have "cv_bytes v \<noteq> [] \<and> hd (cv_bytes v) = n"
      using holds by (cases "cv_bytes v") (auto simp: vector_holds_def)
    then show ?thesis using holds same ExMalformed len by (simp add: vector_holds_def)
  qed (use holds in \<open>auto simp: vector_holds_def\<close>)
qed

end
