(* ===== verification/Reference_Venue.thy ===== *)
theory Reference_Venue imports Conformance_Contract
begin

text \<open>
  The kit's reference venue, \<^verbatim>\<open>videre-test/src/reference.rs\<close>: the two published payloads, the
  version enum the derive is applied to, the header derivation, and the two fixture sets as
  their regeneration builds them. Each payload's borsh codec follows the documented layout
  of its fields.
\<close>

section \<open>The body schema\<close>

record ReferenceV1 =
  v1_amount_wei :: u64
  v1_memo :: string

record ReferenceV2 =
  v2_amount_wei :: u64
  v2_memo :: string
  v2_valid_until_ms :: "u64 option"
  v2_recipient :: bytes
  v2_urgent :: bool

datatype RefPayload = RefV1 ReferenceV1 | RefV2 ReferenceV2

definition ReferenceBody :: "string DeriveInput" where
  "ReferenceBody =
     \<lparr>di_generics = [],
      di_data = DataEnum
        [\<lparr>v_ident = ''V1'', v_discriminant = None, v_fields = FieldsUnnamed [''ReferenceV1'']\<rparr>,
         \<lparr>v_ident = ''V2'', v_discriminant = None, v_fields = FieldsUnnamed [''ReferenceV2'']\<rparr>]\<rparr>"

definition put_ReferenceV1 :: "ReferenceV1 ser" where
  "put_ReferenceV1 = put_conv (\<lambda>r. (v1_amount_wei r, v1_memo r)) (put_pair put_u64 put_string)"

definition get_ReferenceV1 :: "bytes \<Rightarrow> (ReferenceV1 \<times> bytes, string) result" where
  "get_ReferenceV1 =
     get_conv (\<lambda>(a, m). \<lparr>v1_amount_wei = a, v1_memo = m\<rparr>) (get_pair get_u64 get_string)"

definition put_ReferenceV2 :: "ReferenceV2 ser" where
  "put_ReferenceV2 =
     put_conv (\<lambda>r. (v2_amount_wei r, v2_memo r, v2_valid_until_ms r, v2_recipient r, v2_urgent r))
       (put_pair put_u64 (put_pair put_string (put_pair (put_option put_u64)
         (put_pair put_vec put_bool))))"

definition get_ReferenceV2 :: "bytes \<Rightarrow> (ReferenceV2 \<times> bytes, string) result" where
  "get_ReferenceV2 =
     get_conv (\<lambda>(a, m, u, r, b). \<lparr>v2_amount_wei = a, v2_memo = m, v2_valid_until_ms = u,
         v2_recipient = r, v2_urgent = b\<rparr>)
       (get_pair get_u64 (get_pair get_string (get_pair (get_option get_u64)
         (get_pair get_vec get_bool))))"

interpretation reference_v1: wire_format put_ReferenceV1 get_ReferenceV1
  unfolding put_ReferenceV1_def get_ReferenceV1_def
  by (intro wire_format_conv wire_format_pair wire_format_u64 wire_format_string) auto

interpretation reference_v2: wire_format put_ReferenceV2 get_ReferenceV2
  unfolding put_ReferenceV2_def get_ReferenceV2_def
  by (intro wire_format_conv wire_format_pair wire_format_u64 wire_format_string
      wire_format_option wire_format_vec wire_format_bool) auto

text \<open>The codec of each payload type, over the sum of the payloads.\<close>

definition reference_ser :: "string \<Rightarrow> RefPayload ser" where
  "reference_ser ty p =
     (case p of
        RefV1 r \<Rightarrow> if ty = ''ReferenceV1'' then put_ReferenceV1 r else Err ''another type''
      | RefV2 r \<Rightarrow> if ty = ''ReferenceV2'' then put_ReferenceV2 r else Err ''another type'')"

definition reference_de :: "string \<Rightarrow> RefPayload de" where
  "reference_de ty bs =
     (if ty = ''ReferenceV1'' then map_ok RefV1 (from_slice get_ReferenceV1 bs)
      else if ty = ''ReferenceV2'' then map_ok RefV2 (from_slice get_ReferenceV2 bs)
      else Err ''another type'')"

lemma reference_codec: "borsh_codec (reference_ser ty) (reference_de ty)"
proof unfold_locales
  fix x bs
  show "reference_ser ty x = Ok bs \<Longrightarrow> reference_de ty bs = Ok x"
    by (cases x) (auto simp: reference_ser_def reference_de_def map_ok_eq_Ok
        reference_v1.closed.de_ser reference_v2.closed.de_ser split: if_splits)
  show "reference_de ty bs = Ok x \<Longrightarrow> reference_ser ty x = Ok bs"
    by (auto simp: reference_ser_def reference_de_def map_ok_eq_Ok
        reference_v1.closed.de_iff_ser reference_v2.closed.de_iff_ser split: if_splits)
qed

definition reference_arms :: "string Arm list" where
  "reference_arms =
     [\<lparr>arm_ident = ''V1'', arm_tag = 0, arm_payload = ''ReferenceV1''\<rparr>,
      \<lparr>arm_ident = ''V2'', arm_tag = 1, arm_payload = ''ReferenceV2''\<rparr>]"

lemma expand_reference: "expand_derive ReferenceBody = Ok reference_arms"
  by (simp add: expand_derive_def ReferenceBody_def reference_arms_def)

lemma distinct_reference: "distinct (map arm_ident reference_arms)" "length reference_arms = 2"
  by (simp_all add: reference_arms_def)

definition reference_body :: "RefPayload Body intent_body_impl" where
  "reference_body = derived_body reference_ser reference_de reference_arms"

interpretation reference: intent_body reference_body 2
  unfolding reference_body_def
  using derived_intent_body [OF expand_reference distinct_reference(1) reference_codec]
  by (simp add: distinct_reference)

section \<open>The header derivation\<close>

text \<open>
  \<open>trimmed\<close> is the 256-bit integer's byte conversion, \<open>from_bytes\<close> the decoder the derive
  emits for the body.
\<close>

definition derive_reference_header ::
  "(u256 \<Rightarrow> bytes) \<Rightarrow> (bytes \<Rightarrow> (RefPayload Body, BodyError) result) \<Rightarrow> bytes
    \<Rightarrow> (IntentHeader, VenueError) result" where
  "derive_reference_header trimmed from_bytes body =
     and_then (map_err VenueError_from_BodyError (from_bytes body)) (\<lambda>decoded.
       let (amount_wei, wanted) =
         (case body_payload decoded of
            RefV1 quote \<Rightarrow> (v1_amount_wei quote, \<lparr>asset = Native, amount = []\<rparr>)
          | RefV2 quote \<Rightarrow>
              (v2_amount_wei quote,
               \<lparr>asset = AErc20 \<lparr>token = v2_recipient quote\<rparr>,
                amount = encode_uint trimmed (ucast (v2_amount_wei quote))\<rparr>))
       in Ok \<lparr>gives = \<lparr>asset = Native, amount = encode_uint trimmed (ucast amount_wei)\<rparr>,
              wants = wanted, settlement = \<lparr>chain = 1\<rparr>, authorisation = Eip712\<rparr>)"

section \<open>The published fixtures\<close>

definition v1_body :: "u64 \<Rightarrow> string \<Rightarrow> RefPayload Body" where
  "v1_body wei memo =
     \<lparr>body_version = ''V1'', body_payload = RefV1 \<lparr>v1_amount_wei = wei, v1_memo = memo\<rparr>\<rparr>"

definition v2_body :: "u64 \<Rightarrow> string \<Rightarrow> u64 option \<Rightarrow> bytes \<Rightarrow> bool \<Rightarrow> RefPayload Body" where
  "v2_body wei memo until recipient urgent =
     \<lparr>body_version = ''V2'', body_payload = RefV2 \<lparr>v2_amount_wei = wei, v2_memo = memo,
        v2_valid_until_ms = until, v2_recipient = recipient, v2_urgent = urgent\<rparr>\<rparr>"

definition v1_small :: "RefPayload Body" where "v1_small = v1_body 1 ''gm''"

definition v2_full :: "RefPayload Body" where
  "v2_full = v2_body 1000000 ''two coffees'' (Some 1700000000000) (map of_nat [1..<21]) True"

text \<open>Setting the notes of the entry just pushed, through the reference a push returns.\<close>

definition note_last :: "string \<Rightarrow> CodecVectors \<Rightarrow> CodecVectors" where
  "note_last notes s =
     s\<lparr>cs_vectors := butlast (cs_vectors s) @ [last (cs_vectors s)\<lparr>cv_notes := Some notes\<rparr>]\<rparr>"

text \<open>An unwrap of a failed push, and a failure push of a round trip, panic: \<^term>\<open>None\<close>.\<close>

definition unwrap :: "('a, 'e) result \<Rightarrow> 'a option" where
  "unwrap r = (case r of Ok x \<Rightarrow> Some x | Err _ \<Rightarrow> None)"

definition add_round_trip :: "string \<times> RefPayload Body \<times> string \<Rightarrow> CodecVectors \<Rightarrow> CodecVectors option" where
  "add_round_trip entry s =
     (case entry of (name, body, notes) \<Rightarrow>
        map_option (note_last notes) (unwrap (push_round_trip reference_body name body s)))"

definition add_failure :: "string \<times> bytes \<times> Expectation \<times> string \<Rightarrow> CodecVectors \<Rightarrow> CodecVectors option" where
  "add_failure entry s =
     (case entry of (name, bs, expect, notes) \<Rightarrow>
        map_option (note_last notes) (push_failure name bs expect s))"

fun each :: "('x \<Rightarrow> 's \<Rightarrow> 's option) \<Rightarrow> 'x list \<Rightarrow> 's \<Rightarrow> 's option" where
  "each f [] s = Some s"
| "each f (x # xs) s = (case f x s of None \<Rightarrow> None | Some s' \<Rightarrow> each f xs s')"

definition build_codec_vectors :: "CodecVectors option" where
  "build_codec_vectors =
     (case (unwrap (ib_to_bytes reference_body v1_small), unwrap (ib_to_bytes reference_body v2_full)) of
        (Some small, Some full) \<Rightarrow>
          Option.bind
            (each add_round_trip
              [(''v1-small'', v1_small, ''tag 0x00, amount_wei 1 as 8 little-endian bytes, memo as u32 little-endian length then utf-8 bytes''),
               (''v1-zero-and-empty'', v1_body 0 [], ''zero integer and zero-length string''),
               (''v1-max-amount'', v1_body (- 1) ''max'', ''endianness proof: u64::MAX is eight 0xff bytes''),
               (''v2-full'', v2_full, ''tag 0x01; option present is 0x01 then the payload, vec is u32 little-endian element count then bytes, bool true is 0x01''),
               (''v2-no-expiry'', v2_body 5 ''later'' None (replicate 20 0xAA) False,
                ''option absent is a bare 0x00, bool false is 0x00'')]
              (CodecVectors_new ''videre-test/reference-body''))
            (each add_failure
              [(''empty-body'', [], ExEmpty, ''no version tag at all''),
               (''unknown-version'', small[0 := 9], ExUnknownVersion 9, ''tag 0x09 names no published version''),
               (''truncated-payload'', take (length full - 1) full, ExMalformed 1,
                ''known tag, payload cut one byte short''),
               (''trailing-bytes'', small @ [0], ExMalformed 0,
                ''decoding must consume the payload exactly'')])
      | _ \<Rightarrow> None)"

definition add_golden ::
  "(u256 \<Rightarrow> bytes) \<Rightarrow> string \<times> RefPayload Body \<times> string \<Rightarrow> HeaderGoldens \<Rightarrow> HeaderGoldens option" where
  "add_golden trimmed entry s =
     (case entry of (name, body, notes) \<Rightarrow>
        Option.bind (unwrap (ib_to_bytes reference_body body)) (\<lambda>bs.
        map_option (\<lambda>s'. s'\<lparr>hs_goldens := butlast (hs_goldens s')
              @ [last (hs_goldens s')\<lparr>hg_notes := Some notes\<rparr>]\<rparr>)
          (unwrap (fst (golden_record GoldenHeader_from name bs
             (pure_derive (derive_reference_header trimmed (ib_from_bytes reference_body))) s ())))))"

definition build_header_goldens :: "(u256 \<Rightarrow> bytes) \<Rightarrow> HeaderGoldens option" where
  "build_header_goldens trimmed =
     each (add_golden trimmed)
       [(''v1-small'', v1_small, ''gives chain-1 native token, minimal big-endian amount''),
        (''v2-full'', v2_full, ''v2 adds an erc20 want at the recipient token address'')]
       (HeaderGoldens_new ''videre-test/reference'')"

end
