(* ===== verification/Mock_Transport.thy ===== *)
theory Mock_Transport imports Keeper
begin

text \<open>
  \<^verbatim>\<open>videre-test/src/transport.rs\<close>, the in-memory transports with the manifest's host grant,
  and \<^verbatim>\<open>videre-test/src/reconcile.rs\<close>, the compliance suite an adapter runs over them. The
  cells a mock mutates through a shared reference are its state, passed along. The request is
  read through what the HTTP library answers of it; the chain mock belongs to the runtime's
  test kit. A failed assertion and a panic are \<^term>\<open>None\<close>.
\<close>

section \<open>The mock fetch\<close>

record ('m) Request =
  rq_method :: 'm
  rq_uri :: string
  rq_host :: "string option"
  rq_body :: bytes

record 'm RecordedRequest =
  rr_method :: 'm
  rr_uri :: string
  rr_body :: bytes
  rr_options :: FetchOptions

record StoredResponse =
  sr_status :: "16 word"
  sr_body :: bytes

record ('m, 'o) MockFetch =
  mf_responses :: "'m \<times> string \<Rightarrow> (StoredResponse, 'o FetchError) result option"
  mf_requests :: "'m RecordedRequest list"
  mf_scope :: "string list option"

definition MockFetch_default :: "('m, 'o) MockFetch" where
  "MockFetch_default = \<lparr>mf_responses = (\<lambda>_. None), mf_requests = [], mf_scope = None\<rparr>"

definition scope_hosts :: "string list \<Rightarrow> ('m, 'o) MockFetch \<Rightarrow> ('m, 'o) MockFetch" where
  "scope_hosts hosts f = f\<lparr>mf_scope := Some hosts\<rparr>"

definition respond_to ::
  "(16 word \<Rightarrow> bool) \<Rightarrow> 'm \<Rightarrow> string \<Rightarrow> 16 word \<Rightarrow> bytes \<Rightarrow> ('m, 'o) MockFetch
    \<Rightarrow> ('m, 'o) MockFetch option" where
  "respond_to valid_status method uri status body f =
     (if \<not> valid_status status then None
      else Some (f\<lparr>mf_responses := (mf_responses f)((method, uri) \<mapsto>
             Ok \<lparr>sr_status = status, sr_body = body\<rparr>)\<rparr>))"

definition fail_with :: "'m \<Rightarrow> string \<Rightarrow> 'o FetchError \<Rightarrow> ('m, 'o) MockFetch \<Rightarrow> ('m, 'o) MockFetch" where
  "fail_with method uri error f = f\<lparr>mf_responses := (mf_responses f)((method, uri) \<mapsto> Err error)\<rparr>"

definition last_request :: "('m, 'o) MockFetch \<Rightarrow> 'm RecordedRequest option" where
  "last_request f = (if mf_requests f = [] then None else Some (last (mf_requests f)))"

definition request_count :: "('m, 'o) MockFetch \<Rightarrow> nat" where
  "request_count f = length (mf_requests f)"

text \<open>An entry admits its exact hostname or, as a wildcard, any strict subdomain.\<close>

definition host_allowed :: "string \<Rightarrow> string list \<Rightarrow> bool" where
  "host_allowed host allowlist =
     (let host = to_ascii_lowercase host in
      list_ex (\<lambda>pat.
        let pat = to_ascii_lowercase pat in
        if prefix ''*.'' pat then suffix (''.'' @ drop 2 pat) host else host = pat) allowlist)"

definition mock_fetch_with ::
  "('m \<Rightarrow> string) \<Rightarrow> (string \<Rightarrow> 'o FetchError) \<Rightarrow> 'm Request \<Rightarrow> FetchOptions \<Rightarrow> ('m, 'o) MockFetch
    \<Rightarrow> (StoredResponse, 'o FetchError) result \<times> ('m, 'o) MockFetch" where
  "mock_fetch_with show_method transport request options f =
     (let f1 = f\<lparr>mf_requests := mf_requests f @ [\<lparr>rr_method = rq_method request,
            rr_uri = rq_uri request, rr_body = rq_body request, rr_options = options\<rparr>]\<rparr>;
          refused = (case mf_scope f1 of
              None \<Rightarrow> False
            | Some scope \<Rightarrow> \<not> (case rq_host request of None \<Rightarrow> False | Some host \<Rightarrow> host_allowed host scope))
      in if refused then (Err FetchDenied, f1)
         else (case mf_responses f1 (rq_method request, rq_uri request) of
             Some (Ok stored) \<Rightarrow> Ok \<lparr>sr_status = sr_status stored, sr_body = sr_body stored\<rparr>
           | Some (Err err) \<Rightarrow> Err err
           | None \<Rightarrow> Err (transport (''MockFetch: no response configured for ''
                @ show_method (rq_method request) @ '' '' @ rq_uri request)), f1))"

text \<open>The composed transport: each seam goes to its own mock.\<close>

record ('k, 'm, 'o) MockTransport =
  mt_chain :: 'k
  mt_http :: "('m, 'o) MockFetch"

definition mock_chain_request ::
  "(u64 \<Rightarrow> string \<Rightarrow> string \<Rightarrow> 'k \<Rightarrow> 'r \<times> 'k) \<Rightarrow> u64 \<Rightarrow> string \<Rightarrow> string
    \<Rightarrow> ('k, 'm, 'o) MockTransport \<Rightarrow> 'r \<times> ('k, 'm, 'o) MockTransport" where
  "mock_chain_request chain_request chain_id method params t =
     (case chain_request chain_id method params (mt_chain t) of (r, k) \<Rightarrow> (r, t\<lparr>mt_chain := k\<rparr>))"

definition mock_transport_fetch_with ::
  "('m \<Rightarrow> string) \<Rightarrow> (string \<Rightarrow> 'o FetchError) \<Rightarrow> 'm Request \<Rightarrow> FetchOptions
    \<Rightarrow> ('k, 'm, 'o) MockTransport
    \<Rightarrow> (StoredResponse, 'o FetchError) result \<times> ('k, 'm, 'o) MockTransport" where
  "mock_transport_fetch_with show_method transport request options t =
     (case mock_fetch_with show_method transport request options (mt_http t) of
        (r, f) \<Rightarrow> (r, t\<lparr>mt_http := f\<rparr>))"

section \<open>The reconcile compliance suite\<close>

record ('m, 'o) ReconcileFixture =
  rf_signed_body :: bytes
  rf_presign_body :: bytes
  rf_receipt :: bytes
  rf_program_accept :: "('m, 'o) MockFetch \<Rightarrow> ('m, 'o) MockFetch"
  rf_program_already_held :: "('m, 'o) MockFetch \<Rightarrow> ('m, 'o) MockFetch"
  rf_program_absent :: "('m, 'o) MockFetch \<Rightarrow> ('m, 'o) MockFetch"
  rf_submit :: "bytes \<Rightarrow> ('m, 'o) MockFetch \<Rightarrow> (SubmitOutcome, VenueFault) result \<times> ('m, 'o) MockFetch"
  rf_status :: "bytes \<Rightarrow> ('m, 'o) MockFetch \<Rightarrow> (IntentStatus, VenueFault) result \<times> ('m, 'o) MockFetch"

definition assert_re_post_idempotent :: "('m, 'o) ReconcileFixture \<Rightarrow> bytes \<Rightarrow> unit option" where
  "assert_re_post_idempotent F body =
     (case fst (rf_submit F body (rf_program_accept F MockFetch_default)) of
        Err _ \<Rightarrow> None
      | Ok first \<Rightarrow>
          (case fst (rf_submit F body (rf_program_already_held F MockFetch_default)) of
             Err _ \<Rightarrow> None
           | Ok again \<Rightarrow> if first = again then Some () else None))"

definition assert_held_never_faults :: "('m, 'o) ReconcileFixture \<Rightarrow> unit option" where
  "assert_held_never_faults F =
     (if list_all (\<lambda>body. is_ok (fst (rf_submit F body (rf_program_already_held F MockFetch_default))))
           [rf_signed_body F, rf_presign_body F]
      then Some () else None)"

definition assert_status_absent_is_retryable :: "('m, 'o) ReconcileFixture \<Rightarrow> unit option" where
  "assert_status_absent_is_retryable F =
     (case fst (rf_status F (rf_receipt F) (rf_program_absent F MockFetch_default)) of
        Err (VUnavailable _) \<Rightarrow> Some ()
      | _ \<Rightarrow> None)"

definition venue_reconcile_compliance :: "('m, 'o) ReconcileFixture \<Rightarrow> unit option list" where
  "venue_reconcile_compliance F =
     [assert_re_post_idempotent F (rf_signed_body F),
      assert_re_post_idempotent F (rf_presign_body F),
      assert_held_never_faults F,
      assert_status_absent_is_retryable F]"

section \<open>What the mocks and the suite promise\<close>

text \<open>
  Every request is recorded, granted or not; outside the grant nothing programmed is read; and
  an unscoped mock, or a granted host, answers what was programmed last.
\<close>

lemma mock_fetch_records:
  "map rr_uri (mf_requests (snd (mock_fetch_with sm tr request options f))) =
     map rr_uri (mf_requests f) @ [rq_uri request]"
  by (simp add: mock_fetch_with_def Let_def)

lemma mock_fetch_denies:
  assumes "mf_scope f = Some scope" "\<And>host. rq_host request = Some host \<Longrightarrow> \<not> host_allowed host scope"
  shows "fst (mock_fetch_with sm tr request options f) = Err FetchDenied"
  using assms by (auto simp: mock_fetch_with_def Let_def split: option.splits)

lemma mock_fetch_answers:
  assumes "respond_to valid (rq_method request) (rq_uri request) status body f = Some f'"
    and "\<And>scope. mf_scope f = Some scope \<Longrightarrow>
           \<exists>host. rq_host request = Some host \<and> host_allowed host scope"
  shows "fst (mock_fetch_with sm tr request options f') = Ok \<lparr>sr_status = status, sr_body = body\<rparr>"
  using assms by (auto simp: respond_to_def mock_fetch_with_def Let_def split: option.splits if_splits)

lemma host_allowed_strict:
  assumes "host_allowed host [''*.'' @ suf]"
  shows "length suf < length host"
proof -
  have two: "prefix ''*.'' (to_ascii_lowercase (''*.'' @ suf))"
    by (simp add: to_ascii_lowercase_def ascii_lower_def Let_def)
  have "suffix (''.'' @ to_ascii_lowercase suf) (to_ascii_lowercase host)"
    using assms two by (simp add: host_allowed_def Let_def to_ascii_lowercase_def)
  then have "length (''.'' @ to_ascii_lowercase suf) \<le> length (to_ascii_lowercase host)"
    by (rule suffix_length_le)
  then show ?thesis by (simp add: to_ascii_lowercase_def)
qed

text \<open>
  A fixture that passes the suite gives the keeper what its reconcile pass relies on: reposting
  either body resolves as the first post did, and a receipt the venue does not know yet is
  never a terminal fault under the default policy.
\<close>

lemma compliant_fixture:
  assumes "venue_reconcile_compliance F = replicate 4 (Some ())"
    and "body \<in> {rf_signed_body F, rf_presign_body F}"
  shows "\<exists>outcome. fst (rf_submit F body (rf_program_accept F MockFetch_default)) = Ok outcome
      \<and> fst (rf_submit F body (rf_program_already_held F MockFetch_default)) = Ok outcome"
    and "\<exists>fault. fst (rf_status F (rf_receipt F) (rf_program_absent F MockFetch_default)) = Err fault
      \<and> \<not> fp_is_terminal DefaultFaultPolicy fault"
proof -
  have all: "assert_re_post_idempotent F (rf_signed_body F) = Some ()"
    "assert_re_post_idempotent F (rf_presign_body F) = Some ()"
    "assert_status_absent_is_retryable F = Some ()"
    using assms(1) by (simp_all add: venue_reconcile_compliance_def numeral_eq_Suc)
  have "assert_re_post_idempotent F body = Some ()"
    using assms(2) all by auto
  then show "\<exists>outcome. fst (rf_submit F body (rf_program_accept F MockFetch_default)) = Ok outcome
      \<and> fst (rf_submit F body (rf_program_already_held F MockFetch_default)) = Ok outcome"
    by (auto simp: assert_re_post_idempotent_def split: result.splits if_splits)
  show "\<exists>fault. fst (rf_status F (rf_receipt F) (rf_program_absent F MockFetch_default)) = Err fault
      \<and> \<not> fp_is_terminal DefaultFaultPolicy fault"
    using all(3)
    by (auto simp: assert_status_absent_is_retryable_def DefaultFaultPolicy_def is_terminal_of_def
        split: result.splits VenueFault.splits)
qed

end
