(* ===== verification/Kit_Tests.thy ===== *)
theory Kit_Tests imports Reference_Venue Mock_Transport Sdk_Tests
begin

text \<open>
  The unit tests of the conformance kit \<^verbatim>\<open>videre-test\<close> that do not read or write JSON: the
  codec vectors of \<^verbatim>\<open>codec.rs\<close>, the uint vectors of \<^verbatim>\<open>uint.rs\<close>, the header goldens of
  \<^verbatim>\<open>header.rs\<close> and the mock fetch of \<^verbatim>\<open>transport.rs\<close>. One definition per test. What a
  foreign crate renders or encodes is an argument of the test; an expected panic is a
  \<^term>\<open>None\<close>.
\<close>

definition panics :: "'a option \<Rightarrow> bool" where
  "panics r = (r = None)"

definition unwrapped :: "'a option \<Rightarrow> ('a \<Rightarrow> bool) \<Rightarrow> bool" where
  "unwrapped r k = (case r of None \<Rightarrow> False | Some x \<Rightarrow> k x)"

definition fails :: "(unit, ConformanceReport) result \<Rightarrow> (Violation list \<Rightarrow> bool) \<Rightarrow> bool" where
  "fails r k = (case r of Ok _ \<Rightarrow> False | Err report \<Rightarrow> k (violations report))"

section \<open>\<^verbatim>\<open>codec.rs\<close>\<close>

text \<open>The test's own body, and the one whose payload lays the amount out in four bytes.\<close>

type_synonym hex_encoder = "bytes \<Rightarrow> string"

definition TestBody :: "string DeriveInput" where
  "TestBody =
     \<lparr>di_generics = [], di_data = DataEnum
        [\<lparr>v_ident = ''V1'', v_discriminant = None, v_fields = FieldsUnnamed [''PayloadV1'']\<rparr>]\<rparr>"

definition test_arms :: "string Arm list" where
  "test_arms = [\<lparr>arm_ident = ''V1'', arm_tag = 0, arm_payload = ''PayloadV1''\<rparr>]"

lemma expand_TestBody: "expand_derive TestBody = Ok test_arms"
  by (simp add: expand_derive_def TestBody_def test_arms_def)

definition test_body :: "(u64 \<times> string) Body intent_body_impl" where
  "test_body = derived_body (\<lambda>_. put_pair put_u64 put_string) (\<lambda>_. from_slice (get_pair get_u64 get_string)) test_arms"

definition narrow_body :: "(nat \<times> string) Body intent_body_impl" where
  "narrow_body = derived_body (\<lambda>_. put_pair (put_int 4) put_string)
     (\<lambda>_. from_slice (get_pair (get_int 4) get_string)) test_arms"

definition test_vectors :: "CodecVectors option" where
  "test_vectors =
     Option.bind
       (unwrap (push_round_trip test_body ''v1'' \<lparr>body_version = ''V1'', body_payload = (7, ''gm'')\<rparr>
          (CodecVectors_new ''test/body'')))
       (each (\<lambda>(name, bs, expect). push_failure name bs expect)
          [(''empty'', [], ExEmpty), (''unknown-version'', [9, 0, 0], ExUnknownVersion 9),
           (''truncated'', [0, 7], ExMalformed 0)])"

definition conforming_codec_passes_every_vector :: "hex_encoder \<Rightarrow> bool" where
  "conforming_codec_passes_every_vector hex = unwrapped test_vectors (\<lambda>s. codec_check hex test_body s = Ok ())"

definition diverging_codec_fails_with_named_vectors :: "hex_encoder \<Rightarrow> bool" where
  "diverging_codec_fails_with_named_vectors hex = unwrapped test_vectors (\<lambda>s.
     fails (codec_check hex narrow_body s) (\<lambda>vs.
       length vs = 1 \<and> vi_vector (hd vs) = ''v1'' \<and> str_contains ''decode failed'' (vi_detail (hd vs))))"

definition codec_assert_conforms_panics_with_the_report :: "hex_encoder \<Rightarrow> bool" where
  "codec_assert_conforms_panics_with_the_report hex = unwrapped test_vectors (\<lambda>s.
     panics (codec_assert_conforms hex narrow_body s))"

definition push_failure_rejects_round_trip :: "hex_encoder \<Rightarrow> bool" where
  "push_failure_rejects_round_trip hex =
     panics (push_failure ''bad'' [] ExRoundTrip (CodecVectors_new ''test/body''))"

definition empty_codec_set_fails_the_check :: "hex_encoder \<Rightarrow> bool" where
  "empty_codec_set_fails_the_check hex =
     fails (codec_check hex test_body (CodecVectors_new ''test/body'')) (\<lambda>vs.
       length vs = 1 \<and> vi_vector (hd vs) = ''<set>'' \<and> str_contains ''empty'' (vi_detail (hd vs)))"

definition codec_assert_conforms_rejects_an_empty_set :: "hex_encoder \<Rightarrow> bool" where
  "codec_assert_conforms_rejects_an_empty_set hex =
     panics (codec_assert_conforms hex test_body (CodecVectors_new ''test/body''))"

definition codec_tests :: "(hex_encoder \<Rightarrow> bool) list" where
  "codec_tests =
     [conforming_codec_passes_every_vector, diverging_codec_fails_with_named_vectors,
      codec_assert_conforms_panics_with_the_report, push_failure_rejects_round_trip,
      empty_codec_set_fails_the_check, codec_assert_conforms_rejects_an_empty_set]"

text \<open>What the test builds, written out.\<close>

definition built_vectors :: CodecVectors where
  "built_vectors =
     \<lparr>cs_version = FormatVersion, cs_schema = ''test/body'', cs_vectors =
       [\<lparr>cv_name = ''v1'', cv_bytes = [0, 7, 0, 0, 0, 0, 0, 0, 0, 2, 0, 0, 0, 103, 109],
         cv_expect = ExRoundTrip, cv_notes = None\<rparr>,
        \<lparr>cv_name = ''empty'', cv_bytes = [], cv_expect = ExEmpty, cv_notes = None\<rparr>,
        \<lparr>cv_name = ''unknown-version'', cv_bytes = [9, 0, 0], cv_expect = ExUnknownVersion 9, cv_notes = None\<rparr>,
        \<lparr>cv_name = ''truncated'', cv_bytes = [0, 7], cv_expect = ExMalformed 0, cv_notes = None\<rparr>]\<rparr>"

lemma test_vectors_eq: "test_vectors = Some built_vectors"
  by (simp add: test_vectors_def push_round_trip_def test_body_def derived_body_def
      IntentBody_to_bytes_def test_arms_def put_u64_def layout_eval unwrap_def push_failure_def
      push_vector_def CodecVectors_new_def built_vectors_def)

lemmas codec_eval = codec_check_def codec_vector_check_def derived_body_def IntentBody_to_bytes_def
  test_arms_def settle_def read_eval put_u64_def get_u64_def

lemma test_body_check:
  "codec_check hex test_body built_vectors = Ok ()"
  by (simp add: built_vectors_def test_body_def codec_eval)

lemma narrow_body_check:
  "\<exists>why. codec_check hex narrow_body built_vectors =
     Err \<lparr>violations = [\<lparr>vi_vector = ''v1'', vi_detail = ''expected a round trip, decode failed: '' @ why\<rparr>]\<rparr>"
  by (simp add: built_vectors_def narrow_body_def codec_eval)

lemma codec_tests_pass: "list_all (\<lambda>test. test hex) codec_tests"
  using test_body_check [of hex] narrow_body_check [of hex]
  by (auto simp: codec_tests_def conforming_codec_passes_every_vector_def
      diverging_codec_fails_with_named_vectors_def codec_assert_conforms_panics_with_the_report_def
      push_failure_rejects_round_trip_def empty_codec_set_fails_the_check_def
      codec_assert_conforms_rejects_an_empty_set_def unwrapped_def panics_def fails_def
      test_vectors_eq codec_assert_conforms_def push_failure_def CodecVectors_new_def
      codec_check_def settle_def)

section \<open>\<^verbatim>\<open>uint.rs\<close>\<close>

definition show_u256 :: "u256 \<Rightarrow> string" where
  "show_u256 v = show_nat (unat v)"

definition diverging_value_is_named :: uint_test where
  "diverging_value_is_named trimmed from_be =
     fails (uint_check show_u256 (\<lambda>e. e) (\<lambda>_. Ok 7) (build_uint_vectors trimmed show_u256)) (\<lambda>vs.
       list_ex (\<lambda>v. vi_vector v = ''zero'' \<and> str_contains ''expected value 0, decoded 7'' (vi_detail v)) vs)"

definition uint_assert_conforms_panics_with_the_report :: uint_test where
  "uint_assert_conforms_panics_with_the_report trimmed from_be =
     panics (uint_assert_conforms show_u256 (\<lambda>e. e) (tolerant from_be) (build_uint_vectors trimmed show_u256))"

definition empty_uint_set_fails_the_check :: uint_test where
  "empty_uint_set_fails_the_check trimmed from_be =
     fails (uint_check show_u256 (\<lambda>_. []) (decode_uint from_be) \<lparr>us_version = FormatVersion, us_vectors = []\<rparr>)
       (\<lambda>vs. length vs = 1 \<and> vi_vector (hd vs) = ''<set>'')"

definition uint_kit_tests :: "uint_test list" where
  "uint_kit_tests =
     [diverging_value_is_named, uint_assert_conforms_panics_with_the_report, empty_uint_set_fails_the_check]"

lemma check_loop_keeps: "set vs \<subseteq> set (check_loop check name vectors vs)"
  by (induction check name vectors vs rule: check_loop.induct) (force split: result.splits)+

text \<open>Every failing vector is reported, with its reason.\<close>

lemma check_loop_reports:
  assumes "v \<in> set vectors" and "check v = Err why"
  shows "\<lparr>vi_vector = name v, vi_detail = why\<rparr> \<in> set (check_loop check name vectors vs)"
  using assms
proof (induction check name vectors vs rule: check_loop.induct)
  case (2 check name vector rest vs)
  show ?case
  proof (cases "v = vector")
    case True
    then show ?thesis
      using 2(3) check_loop_keeps [of "vs @ [\<lparr>vi_vector = name v, vi_detail = why\<rparr>]" check name rest]
      by auto
  qed (use 2 in simp)
qed simp

lemma uint_check_fails:
  assumes "v \<in> set (us_vectors s)" and "uint_vector_check show_v show_e d v = Err why"
  obtains vs where "uint_check show_v show_e d s = Err \<lparr>violations = vs\<rparr>"
    and "\<lparr>vi_vector = uv_name v, vi_detail = why\<rparr> \<in> set vs"
proof -
  let ?vs = "check_loop (uint_vector_check show_v show_e d) uv_name (us_vectors s) []"
  have "\<lparr>vi_vector = uv_name v, vi_detail = why\<rparr> \<in> set ?vs"
    using assms by (rule check_loop_reports)
  moreover have "us_vectors s \<noteq> []" "?vs \<noteq> []"
    using assms(1) calculation by auto
  ultimately show thesis
    by (intro that [of ?vs]) (simp_all add: uint_check_def settle_def)
qed

lemma built_uint_vectors:
  "uint_value trimmed sh ''zero'' 0 ''zero is the empty list'' \<in> set (us_vectors (build_uint_vectors trimmed sh))"
  "uint_entry ''non-minimal-zero'' [0] UxReject ''zero is the empty list, never 0x00''
     \<in> set (us_vectors (build_uint_vectors trimmed sh))"
  by (simp_all add: build_uint_vectors_def)

lemma diverging_value_passes: "diverging_value_is_named trimmed from_be"
proof -
  let ?zero = "uint_value trimmed show_u256 ''zero'' 0 ''zero is the empty list''"
  let ?why = "''expected value 0, decoded 7''"
  have "show_nat 0 = ''0''" "show_nat 7 = ''7''" by code_simp+
  then have "uint_vector_check show_u256 (\<lambda>e. e) (\<lambda>_. Ok 7) ?zero = Err ?why"
    by (simp add: uint_value_def uint_entry_def show_u256_def)
  then obtain vs where
    "uint_check show_u256 (\<lambda>e. e) (\<lambda>_. Ok 7) (build_uint_vectors trimmed show_u256) = Err \<lparr>violations = vs\<rparr>"
    "\<lparr>vi_vector = uv_name ?zero, vi_detail = ?why\<rparr> \<in> set vs"
    by (rule uint_check_fails [OF built_uint_vectors(1)])
  moreover have "uv_name ?zero = ''zero''" by (simp add: uint_value_def uint_entry_def)
  moreover have "str_contains ''expected value 0, decoded 7'' ?why" by simp
  ultimately show ?thesis
    by (auto simp: diverging_value_is_named_def fails_def list_ex_iff simp del: str_contains.simps
        intro!: bexI [of _ "\<lparr>vi_vector = ''zero'', vi_detail = ?why\<rparr>"])
qed

lemma tolerant_panics: "uint_assert_conforms_panics_with_the_report trimmed from_be"
proof -
  let ?v = "uint_entry ''non-minimal-zero'' [0] UxReject ''zero is the empty list, never 0x00''"
  have "uint_vector_check show_u256 (\<lambda>e. e) (tolerant from_be) ?v =
      Err (''expected a rejection, decoded '' @ show_u256 (from_be [0]))"
    by (simp add: uint_entry_def tolerant_def)
  then obtain vs where
    "uint_check show_u256 (\<lambda>e. e) (tolerant from_be) (build_uint_vectors trimmed show_u256)
       = Err \<lparr>violations = vs\<rparr>"
    by (rule uint_check_fails [OF built_uint_vectors(2)])
  then show ?thesis
    by (simp add: uint_assert_conforms_panics_with_the_report_def panics_def uint_assert_conforms_def)
qed

lemma uint_kit_tests_pass: "list_all (\<lambda>test. test trimmed from_be) uint_kit_tests"
  by (simp add: uint_kit_tests_def diverging_value_passes tolerant_panics
      empty_uint_set_fails_the_check_def fails_def uint_check_def settle_def)

section \<open>\<^verbatim>\<open>header.rs\<close>\<close>

text \<open>\<open>dbg\<close> and \<open>dbg_e\<close> are the derived \<^verbatim>\<open>Debug\<close> of a header and of the venue's error.\<close>

type_synonym golden_test = "(GoldenHeader \<Rightarrow> string) \<Rightarrow> (VenueError \<Rightarrow> string) \<Rightarrow> bool"

definition wire_header :: IntentHeader where
  "wire_header =
     \<lparr>gives = \<lparr>asset = Native, amount = [0x0d, 0xe0, 0xb6]\<rparr>,
      wants = \<lparr>asset = AErc20 \<lparr>token = replicate 20 0xAA\<rparr>, amount = [1, 0]\<rparr>,
      settlement = \<lparr>chain = 100\<rparr>, authorisation = Eip1271\<rparr>"

abbreviation record_golden ::
  "string \<Rightarrow> bytes \<Rightarrow> HeaderGoldens \<Rightarrow> (HeaderGoldens, VenueError) result" where
  "record_golden name body s \<equiv>
     fst (golden_record GoldenHeader_from name body (pure_derive (\<lambda>_. Ok wire_header)) s ())"

definition conforming_derivation_passes :: golden_test where
  "conforming_derivation_passes dbg dbg_e =
     expected (record_golden ''kitchen-sink'' [1, 2, 3] (HeaderGoldens_new ''acme'')) (\<lambda>s.
       fst (golden_check dbg dbg_e GoldenHeader_from (pure_derive (\<lambda>_. Ok wire_header)) s ()) = Ok ())"

text \<open>The derivation counts its calls: the first diverges, the second fails.\<close>

definition counting_derive :: "bytes \<Rightarrow> nat \<Rightarrow> (IntentHeader, VenueError) result \<times> nat" where
  "counting_derive body calls =
     (if calls + 1 = 1 then Ok (wire_header\<lparr>authorisation := Eip712\<rparr>)
      else Err (InvalidBody ''nope''), calls + 1)"

definition diverging_derivation_and_failure_are_both_violations :: golden_test where
  "diverging_derivation_and_failure_are_both_violations dbg dbg_e =
     expected (and_then (record_golden ''a'' [1] (HeaderGoldens_new ''acme'')) (record_golden ''b'' [2])) (\<lambda>s.
       fails (fst (golden_check dbg dbg_e GoldenHeader_from counting_derive s 0)) (\<lambda>vs.
         map vi_vector vs = [''a'', ''b''] \<and> str_contains ''diverges'' (vi_detail (vs ! 0))
         \<and> str_contains ''derive-header failed'' (vi_detail (vs ! 1))))"

definition golden_assert_conforms_panics_with_the_report :: golden_test where
  "golden_assert_conforms_panics_with_the_report dbg dbg_e =
     expected (record_golden ''a'' [1] (HeaderGoldens_new ''acme'')) (\<lambda>s.
       panics (fst (golden_assert_conforms dbg dbg_e GoldenHeader_from (pure_derive (\<lambda>_. Err Timeout)) s ())))"

definition empty_golden_set_fails_the_check :: golden_test where
  "empty_golden_set_fails_the_check dbg dbg_e =
     fails (fst (golden_check dbg dbg_e GoldenHeader_from (pure_derive (\<lambda>_. Ok wire_header))
         (HeaderGoldens_new ''acme'') ())) (\<lambda>vs.
       length vs = 1 \<and> vi_vector (hd vs) = ''<set>'' \<and> str_contains ''empty'' (vi_detail (hd vs)))"

definition golden_assert_conforms_rejects_an_empty_set :: golden_test where
  "golden_assert_conforms_rejects_an_empty_set dbg dbg_e =
     panics (fst (golden_assert_conforms dbg dbg_e GoldenHeader_from (pure_derive (\<lambda>_. Ok wire_header))
         (HeaderGoldens_new ''acme'') ()))"

definition golden_tests :: "golden_test list" where
  "golden_tests =
     [conforming_derivation_passes, diverging_derivation_and_failure_are_both_violations,
      golden_assert_conforms_panics_with_the_report, empty_golden_set_fails_the_check,
      golden_assert_conforms_rejects_an_empty_set]"

lemma golden_tests_pass: "list_all (\<lambda>test. test dbg dbg_e) golden_tests"
  by (simp add: golden_tests_def conforming_derivation_passes_def
      diverging_derivation_and_failure_are_both_violations_def
      golden_assert_conforms_panics_with_the_report_def empty_golden_set_fails_the_check_def
      golden_assert_conforms_rejects_an_empty_set_def golden_record_def golden_check_def
      golden_assert_conforms_def HeaderGoldens_new_def counting_derive_def pure_derive_def
      expected_def fails_def panics_def settle_def wire_header_def)

section \<open>\<^verbatim>\<open>transport.rs\<close>\<close>

text \<open>
  Requests as the HTTP library reads them: method, URI, host. \<open>defaults\<close> is the default
  \<^verbatim>\<open>FetchOptions\<close> of the runtime's SDK, \<open>transport\<close> its transport failure, which keeps the
  message it is given.
\<close>

type_synonym mock = "(string, string) MockFetch"

definition http_get :: "string \<Rightarrow> string \<Rightarrow> string Request" where
  "http_get uri host = \<lparr>rq_method = ''GET'', rq_uri = uri, rq_host = Some host, rq_body = []\<rparr>"

definition valid_status :: "16 word \<Rightarrow> bool" where
  "valid_status status = (100 \<le> status \<and> status < 1000)"

definition mock_fetch ::
  "FetchOptions \<Rightarrow> string Request \<Rightarrow> mock \<Rightarrow> (StoredResponse, string FetchError) result \<times> mock" where
  "mock_fetch defaults request = mock_fetch_with (\<lambda>m. m) FetchElse request defaults"

text \<open>The programmed body, \<^verbatim>\<open>{"price":"1"}\<close>.\<close>

definition price_body :: bytes where
  "price_body = [0x7b, 0x22, 0x70, 0x72, 0x69, 0x63, 0x65, 0x22, 0x3a, 0x22, 0x31, 0x22, 0x7d]"

definition fetch_returns_programmed_response_and_records_the_request :: "FetchOptions \<Rightarrow> bool" where
  "fetch_returns_programmed_response_and_records_the_request defaults =
     (let uri = ''https://venue.example/api/v1/quote'' in
      unwrapped (respond_to valid_status ''GET'' uri 200 price_body MockFetch_default) (\<lambda>fetch.
        expect (mock_fetch defaults (http_get uri ''venue.example'') fetch) (\<lambda>response fetch.
          sr_status response = 200 \<and> sr_body response = price_body \<and> request_count fetch = 1
          \<and> unwrapped (last_request fetch) (\<lambda>recorded. rr_method recorded = ''GET''
              \<and> rr_uri recorded = uri \<and> rr_options recorded = defaults))))"

definition fetch_unconfigured_and_programmed_failures :: "FetchOptions \<Rightarrow> bool" where
  "fetch_unconfigured_and_programmed_failures defaults =
     (let orders = ''https://venue.example/api/v1/orders'';
          fetch = fail_with ''POST'' orders FetchDenied MockFetch_default;
          denied = \<lparr>rq_method = ''POST'', rq_uri = orders, rq_host = Some ''venue.example'',
            rq_body = str_bytes ''order''\<rparr>
      in expect_err (mock_fetch defaults denied fetch) (\<lambda>e fetch. e = FetchDenied
        \<and> expect_err (mock_fetch defaults (http_get ''https://nowhere.example/'' ''nowhere.example'') fetch)
             (\<lambda>e fetch. (case e of FetchElse msg \<Rightarrow> str_contains ''MockFetch'' msg | _ \<Rightarrow> False)
                \<and> request_count fetch = 2)))"

text \<open>The fetches of the scope test, in its order: granted, granted, granted, denied, denied.\<close>

definition scoped_mock :: "mock option" where
  "scoped_mock =
     each (\<lambda>uri. respond_to valid_status ''GET'' uri 200 (str_bytes ''ok''))
       [''https://api.acme.example/v1'', ''https://API.ACME.EXAMPLE/v1'', ''https://a.b.discord.com/'']
       (scope_hosts [''api.acme.example'', ''*.discord.com''] MockFetch_default)"

fun fetch_all ::
  "FetchOptions \<Rightarrow> string Request list \<Rightarrow> mock \<Rightarrow> (StoredResponse, string FetchError) result list \<times> mock" where
  "fetch_all defaults [] fetch = ([], fetch)"
| "fetch_all defaults (request # rest) fetch =
     (let (r, fetch1) = mock_fetch defaults request fetch; (rs, fetch2) = fetch_all defaults rest fetch1
      in (r # rs, fetch2))"

definition fetch_scope_matches_the_host_grant :: "FetchOptions \<Rightarrow> bool" where
  "fetch_scope_matches_the_host_grant defaults =
     (unwrapped scoped_mock (\<lambda>fetch.
        let (rs, fetch') = fetch_all defaults
          [http_get ''https://api.acme.example/v1'' ''api.acme.example'',
           http_get ''https://API.ACME.EXAMPLE/v1'' ''API.ACME.EXAMPLE'',
           http_get ''https://a.b.discord.com/'' ''a.b.discord.com'',
           http_get ''https://evil.api.acme.example/'' ''evil.api.acme.example'',
           http_get ''https://discord.com/'' ''discord.com''] fetch
        in map is_ok rs = [True, True, True, False, False]
           \<and> rs ! 3 = Err FetchDenied \<and> rs ! 4 = Err FetchDenied \<and> request_count fetch' = 5)
      \<and> unwrapped (respond_to valid_status ''GET'' ''https://anywhere.example/'' 200 []
            (scope_hosts [] MockFetch_default)) (\<lambda>sealed.
          fst (mock_fetch defaults (http_get ''https://anywhere.example/'' ''anywhere.example'') sealed)
            = Err FetchDenied))"

definition transport_tests :: "(FetchOptions \<Rightarrow> bool) list" where
  "transport_tests =
     [fetch_returns_programmed_response_and_records_the_request,
      fetch_unconfigured_and_programmed_failures, fetch_scope_matches_the_host_grant]"

lemmas fetch_eval = mock_fetch_def mock_fetch_with_def respond_to_def http_get_def MockFetch_default_def
  request_count_def last_request_def valid_status_def unwrapped_def Let_def

lemma hosts_granted:
  "host_allowed ''api.acme.example'' [''api.acme.example'', ''*.discord.com'']"
  "host_allowed ''API.ACME.EXAMPLE'' [''api.acme.example'', ''*.discord.com'']"
  "host_allowed ''a.b.discord.com'' [''api.acme.example'', ''*.discord.com'']"
  "\<not> host_allowed ''evil.api.acme.example'' [''api.acme.example'', ''*.discord.com'']"
  "\<not> host_allowed ''discord.com'' [''api.acme.example'', ''*.discord.com'']"
  by code_simp+

lemma scope_test_passes: "fetch_scope_matches_the_host_grant defaults"
  by (simp add: fetch_scope_matches_the_host_grant_def scoped_mock_def scope_hosts_def fetch_eval
      hosts_granted) (simp add: host_allowed_def)

lemma transport_tests_pass: "list_all (\<lambda>test. test defaults) transport_tests"
  by (simp add: transport_tests_def scope_test_passes
      fetch_returns_programmed_response_and_records_the_request_def
      fetch_unconfigured_and_programmed_failures_def fail_with_def fetch_eval)

end
