(* ===== verification/Adapter_Tests.thy ===== *)
theory Adapter_Tests imports Conformance_Contract Sdk_Tests
begin

text \<open>
  The acceptance tests of the venue SDK, \<^verbatim>\<open>videre-sdk/tests/adapter.rs\<close>: a hand-written
  adapter over a body with two published versions, the in-process transport that routes one
  venue id into it, and the typed client on top. \<open>trimmed\<close> is the byte conversion of the 256-bit
  integer.
\<close>

section \<open>The demo venue's body\<close>

record QuoteV1 =
  q1_amount_wei :: u64
  q1_memo :: string

record QuoteV2 =
  q2_amount_wei :: u64
  q2_memo :: string
  q2_valid_until_ms :: "u64 option"

datatype QuotePayload = PayloadQuoteV1 QuoteV1 | PayloadQuoteV2 QuoteV2

definition QuoteBody :: "string DeriveInput" where
  "QuoteBody =
     \<lparr>di_generics = [],
      di_data = DataEnum
        [\<lparr>v_ident = ''V1'', v_discriminant = None, v_fields = FieldsUnnamed [''QuoteV1'']\<rparr>,
         \<lparr>v_ident = ''V2'', v_discriminant = None, v_fields = FieldsUnnamed [''QuoteV2'']\<rparr>]\<rparr>"

definition put_QuoteV1 :: "QuoteV1 ser" where
  "put_QuoteV1 = put_conv (\<lambda>q. (q1_amount_wei q, q1_memo q)) (put_pair put_u64 put_string)"

definition get_QuoteV1 :: "bytes \<Rightarrow> (QuoteV1 \<times> bytes, string) result" where
  "get_QuoteV1 = get_conv (\<lambda>(a, m). \<lparr>q1_amount_wei = a, q1_memo = m\<rparr>) (get_pair get_u64 get_string)"

definition put_QuoteV2 :: "QuoteV2 ser" where
  "put_QuoteV2 = put_conv (\<lambda>q. (q2_amount_wei q, q2_memo q, q2_valid_until_ms q))
     (put_pair put_u64 (put_pair put_string (put_option put_u64)))"

definition get_QuoteV2 :: "bytes \<Rightarrow> (QuoteV2 \<times> bytes, string) result" where
  "get_QuoteV2 = get_conv (\<lambda>(a, m, u). \<lparr>q2_amount_wei = a, q2_memo = m, q2_valid_until_ms = u\<rparr>)
     (get_pair get_u64 (get_pair get_string (get_option get_u64)))"

definition quote_ser :: "string \<Rightarrow> QuotePayload ser" where
  "quote_ser ty p =
     (case p of
        PayloadQuoteV1 q \<Rightarrow> if ty = ''QuoteV1'' then put_QuoteV1 q else Err ''another type''
      | PayloadQuoteV2 q \<Rightarrow> if ty = ''QuoteV2'' then put_QuoteV2 q else Err ''another type'')"

definition quote_de :: "string \<Rightarrow> QuotePayload de" where
  "quote_de ty bs =
     (if ty = ''QuoteV1'' then map_ok PayloadQuoteV1 (from_slice get_QuoteV1 bs)
      else if ty = ''QuoteV2'' then map_ok PayloadQuoteV2 (from_slice get_QuoteV2 bs)
      else Err ''another type'')"

definition quote_arms :: "string Arm list" where
  "quote_arms =
     [\<lparr>arm_ident = ''V1'', arm_tag = 0, arm_payload = ''QuoteV1''\<rparr>,
      \<lparr>arm_ident = ''V2'', arm_tag = 1, arm_payload = ''QuoteV2''\<rparr>]"

lemma expand_QuoteBody: "expand_derive QuoteBody = Ok quote_arms"
  by (simp add: expand_derive_def QuoteBody_def quote_arms_def)

definition quote_body :: "QuotePayload Body intent_body_impl" where
  "quote_body = derived_body quote_ser quote_de quote_arms"

section \<open>The adapter and its transport\<close>

definition RECEIPT :: bytes where "RECEIPT = [0xA5, 0x5A, 0xC3, 0x3C]"

definition DemoAdapter_decode :: "bytes \<Rightarrow> (u64 \<times> u64 option, VenueError) result" where
  "DemoAdapter_decode body =
     map_ok (\<lambda>decoded. case body_payload decoded of
         PayloadQuoteV1 q \<Rightarrow> (q1_amount_wei q, None)
       | PayloadQuoteV2 q \<Rightarrow> (q2_amount_wei q, q2_valid_until_ms q))
       (map_err VenueError_from_BodyError (ib_from_bytes quote_body body))"

definition demo_derive_header :: "(u256 \<Rightarrow> bytes) \<Rightarrow> bytes \<Rightarrow> (IntentHeader, VenueError) result" where
  "demo_derive_header trimmed body =
     map_ok (\<lambda>(amount_wei, _).
         \<lparr>gives = \<lparr>asset = Native, amount = encode_uint trimmed (ucast amount_wei)\<rparr>,
          wants = \<lparr>asset = Native, amount = []\<rparr>, settlement = \<lparr>chain = 1\<rparr>, authorisation = Eip712\<rparr>)
       (DemoAdapter_decode body)"

definition demo_quote :: "(u256 \<Rightarrow> bytes) \<Rightarrow> bytes \<Rightarrow> (Quotation, VenueError) result" where
  "demo_quote trimmed body =
     map_ok (\<lambda>(amount_wei, valid_until_ms).
         \<lparr>q_gives = \<lparr>asset = Native, amount = encode_uint trimmed (ucast amount_wei)\<rparr>,
          q_wants = \<lparr>asset = Native, amount = []\<rparr>, q_fee = \<lparr>asset = Native, amount = []\<rparr>,
          q_valid_until_ms = (case valid_until_ms of None \<Rightarrow> - 1 | Some ms \<Rightarrow> ms)\<rparr>)
       (DemoAdapter_decode body)"

definition demo_submit :: "bytes \<Rightarrow> (SubmitOutcome, VenueError) result" where
  "demo_submit body = map_ok (\<lambda>_. Accepted RECEIPT) (DemoAdapter_decode body)"

definition demo_status :: "bytes \<Rightarrow> (IntentStatus, VenueError) result" where
  "demo_status receipt =
     (if receipt = RECEIPT then Ok Open else Err (Denied ''receipt not issued by this venue''))"

definition demo_cancel :: "bytes \<Rightarrow> (unit, VenueError) result" where
  "demo_cancel receipt = map_ok (\<lambda>_. ()) (demo_status receipt)"

definition DemoAdapter :: "(u256 \<Rightarrow> bytes) \<Rightarrow> ('s, 'c, 'f) VenueAdapter" where
  "DemoAdapter trimmed =
     \<lparr>va_init = (\<lambda>_ s. (Ok (), s)), va_body_versions = [],
      va_derive_header = (\<lambda>body s. (demo_derive_header trimmed body, s)),
      va_quote = (\<lambda>body s. (demo_quote trimmed body, s)), va_submit = (\<lambda>body s. (demo_submit body, s)),
      va_status = (\<lambda>receipt s. (demo_status receipt, s)),
      va_cancel = (\<lambda>receipt s. (demo_cancel receipt, s))\<rparr>"

text \<open>One route of the in-process transport: the demo id reaches the adapter, no other does.\<close>

definition routed ::
  "SdkVenueId \<Rightarrow> ('s \<Rightarrow> ('a, VenueError) result \<times> 's) \<Rightarrow> ('s, 'a) venue_call" where
  "routed venue call s =
     (if id_str venue \<noteq> ''demo'' then (Err VUnknownVenue, s)
      else (case call s of (r, s') \<Rightarrow> (map_err VenueFault_from_VenueError r, s')))"

definition InProcessClient :: "(u256 \<Rightarrow> bytes) \<Rightarrow> unit VenueTransport" where
  "InProcessClient trimmed =
     (let demo = DemoAdapter trimmed :: (unit, unit, unit) VenueAdapter in
      \<lparr>vt_quote = (\<lambda>venue body. routed venue (va_quote demo body)),
       vt_submit = (\<lambda>venue body. routed venue (va_submit demo body)),
       vt_observe = default_observe,
       vt_status = (\<lambda>venue receipt. routed venue (va_status demo receipt)),
       vt_cancel = (\<lambda>venue receipt. routed venue (va_cancel demo receipt))\<rparr>)"

text \<open>The two venues as a keeper types them: a marker is an id over the same body.\<close>

definition DemoVenue_ID :: SdkVenueId where "DemoVenue_ID = SdkVenueId_from_static ''demo''"
definition NowhereVenue_ID :: SdkVenueId where "NowhereVenue_ID = SdkVenueId_from_static ''nowhere''"

definition client_of_venue ::
  "(u256 \<Rightarrow> bytes) \<Rightarrow> SdkVenueId \<Rightarrow> (unit, QuotePayload Body) VenueClient" where
  "client_of_venue trimmed venue =
     VenueClient_with_transport venue (ib_to_bytes quote_body) (InProcessClient trimmed)"

section \<open>The body tests\<close>

definition quote_v1 :: "u64 \<Rightarrow> string \<Rightarrow> QuotePayload Body" where
  "quote_v1 wei memo =
     \<lparr>body_version = ''V1'', body_payload = PayloadQuoteV1 \<lparr>q1_amount_wei = wei, q1_memo = memo\<rparr>\<rparr>"

definition quote_v2 :: "QuotePayload Body" where
  "quote_v2 = \<lparr>body_version = ''V2'', body_payload = PayloadQuoteV2
     \<lparr>q2_amount_wei = 1000000, q2_memo = ''two coffees'', q2_valid_until_ms = Some 1700000000000\<rparr>\<rparr>"

type_synonym adapter_test = "(u256 \<Rightarrow> bytes) \<Rightarrow> bool"

definition versioned_body_round_trips_through_the_derive :: adapter_test where
  "versioned_body_round_trips_through_the_derive trimmed =
     list_all (\<lambda>body. expected (ib_to_bytes quote_body body) (\<lambda>bs. ib_from_bytes quote_body bs = Ok body))
       [quote_v1 42 ''one'', quote_v2]"

definition wire_tag_is_the_declaration_index :: adapter_test where
  "wire_tag_is_the_declaration_index trimmed =
     expected (ib_to_bytes quote_body (quote_v1 1 [])) (\<lambda>v1.
     expected (ib_to_bytes quote_body quote_v2) (\<lambda>v2. take 1 v1 = [0] \<and> take 1 v2 = [1]))"

definition unknown_version_fails_typedly :: adapter_test where
  "unknown_version_fails_typedly trimmed =
     expected (ib_to_bytes quote_body quote_v2) (\<lambda>bs.
       ib_from_bytes quote_body (bs[0 := 9]) = Err (BodyUnknownVersion 9))"

definition malformed_v2 :: "bytes \<Rightarrow> bool" where
  "malformed_v2 bs = (case ib_from_bytes quote_body bs of Err (BodyMalformed v _) \<Rightarrow> v = 1 | _ \<Rightarrow> False)"

definition empty_and_malformed_bodies_fail_typedly :: adapter_test where
  "empty_and_malformed_bodies_fail_typedly trimmed =
     (ib_from_bytes quote_body [] = Err BodyEmpty
      \<and> expected (ib_to_bytes quote_body quote_v2) (\<lambda>bs. malformed_v2 (take (length bs - 1) bs))
      \<and> expected (ib_to_bytes quote_body quote_v2) (\<lambda>bs. malformed_v2 (bs @ [0])))"

definition adapter_projects_the_header_from_a_versioned_body :: adapter_test where
  "adapter_projects_the_header_from_a_versioned_body trimmed =
     expected (ib_to_bytes quote_body quote_v2) (\<lambda>bs. expected (demo_derive_header trimmed bs) (\<lambda>header.
       asset (gives header) = Native \<and> amount (gives header) = [0x0f, 0x42, 0x40]
       \<and> settlement header = \<lparr>chain = 1\<rparr> \<and> authorisation header = Eip712))"

definition adapter_reports_an_unknown_version_as_invalid_body :: adapter_test where
  "adapter_reports_an_unknown_version_as_invalid_body trimmed =
     expected (ib_to_bytes quote_body quote_v2) (\<lambda>bs.
       case demo_derive_header trimmed (bs[0 := 7]) of
         Err (InvalidBody why) \<Rightarrow> str_contains ''unknown body version 7'' why
       | _ \<Rightarrow> False)"

section \<open>The client tests\<close>

definition typed_client_round_trips_through_the_transport_seam :: adapter_test where
  "typed_client_round_trips_through_the_transport_seam trimmed =
     (let client = client_of_venue trimmed DemoVenue_ID in
      client_venue client = DemoVenue_ID
      \<and> expect (client_submit client quote_v2 ()) (\<lambda>outcome s.
          case outcome of
            Accepted receipt \<Rightarrow>
              receipt = RECEIPT
              \<and> expect (client_status client receipt s) (\<lambda>st s. st = Open
                  \<and> expect (client_cancel client receipt s) (\<lambda>_ s.
                      expect_err (client_status client [0, 1] s) (\<lambda>e s.
                        case e of ClientVenue (VDenied _) \<Rightarrow> True | _ \<Rightarrow> False)))
          | _ \<Rightarrow> False))"

definition quote_typestate_prices_then_submits_the_quoted_body :: adapter_test where
  "quote_typestate_prices_then_submits_the_quoted_body trimmed =
     (let client = client_of_venue trimmed DemoVenue_ID in
      expect (client_quote client quote_v2 ()) (\<lambda>quoted s.
        amount (q_gives (qd_quotation quoted)) = [0x0f, 0x42, 0x40]
        \<and> q_valid_until_ms (qd_quotation quoted) = 1700000000000
        \<and> expect (client_quote client quote_v2 s) (\<lambda>quoted s.
            expect (Quoted_submit client quoted s) (\<lambda>outcome s.
              case outcome of Accepted r \<Rightarrow> r = RECEIPT | _ \<Rightarrow> False))))"

definition empty_receipt_is_rejected_before_the_transport :: adapter_test where
  "empty_receipt_is_rejected_before_the_transport trimmed =
     (let client = client_of_venue trimmed NowhereVenue_ID in
      expect_err (client_status client [] ()) (\<lambda>e s. e = ClientVenue VInvalidReceipt
        \<and> expect_err (client_cancel client [] s) (\<lambda>e s. e = ClientVenue VInvalidReceipt)))"

definition unbound_venue_is_unknown_at_the_client :: adapter_test where
  "unbound_venue_is_unknown_at_the_client trimmed =
     expect_err (client_submit (client_of_venue trimmed NowhereVenue_ID) quote_v2 ())
       (\<lambda>e s. e = ClientVenue VUnknownVenue)"

definition unbound_venue_quote_is_unknown_at_the_client :: adapter_test where
  "unbound_venue_quote_is_unknown_at_the_client trimmed =
     expect_err (client_quote (client_of_venue trimmed NowhereVenue_ID) quote_v2 ())
       (\<lambda>e s. e = ClientVenue VUnknownVenue)"

definition adapter_tests :: "adapter_test list" where
  "adapter_tests =
     [versioned_body_round_trips_through_the_derive, wire_tag_is_the_declaration_index,
      unknown_version_fails_typedly, empty_and_malformed_bodies_fail_typedly,
      adapter_projects_the_header_from_a_versioned_body,
      adapter_reports_an_unknown_version_as_invalid_body,
      typed_client_round_trips_through_the_transport_seam,
      quote_typestate_prices_then_submits_the_quoted_body,
      empty_receipt_is_rejected_before_the_transport, unbound_venue_is_unknown_at_the_client,
      unbound_venue_quote_is_unknown_at_the_client]"

section \<open>They pass\<close>

definition v2_wire :: bytes where
  "v2_wire = 1 # [64, 66, 15, 0, 0, 0, 0, 0] @ [11, 0, 0, 0] @ str_bytes ''two coffees''
     @ 1 # [0, 104, 229, 207, 139, 1, 0, 0]"

lemmas quote_eval = quote_body_def derived_body_def IntentBody_to_bytes_def quote_arms_def
  quote_ser_def quote_de_def put_QuoteV1_def put_QuoteV2_def get_QuoteV1_def get_QuoteV2_def
  put_u64_def get_u64_def read_eval

lemma quote_v2_bytes: "ib_to_bytes quote_body quote_v2 = Ok v2_wire"
  by (simp add: quote_v2_def v2_wire_def quote_eval)

lemma v2_wire_reads: "ib_from_bytes quote_body v2_wire = Ok quote_v2"
  by (simp add: quote_v2_def v2_wire_def quote_eval)

lemma demo_decode_v2: "DemoAdapter_decode v2_wire = Ok (1000000, Some 1700000000000)"
  by (simp add: DemoAdapter_decode_def v2_wire_reads) (simp add: quote_v2_def)

lemma million: "u256_bytes trimmed from_be \<Longrightarrow> trimmed 1000000 = [0x0f, 0x42, 0x40]"
  by (rule trimmed_is) (simp_all add: minimal_def be_value_Cons be_value_Nil)

lemma body_test_group:
  "versioned_body_round_trips_through_the_derive trimmed"
  "wire_tag_is_the_declaration_index trimmed" "unknown_version_fails_typedly trimmed"
  "empty_and_malformed_bodies_fail_typedly trimmed"
  by (simp_all add: versioned_body_round_trips_through_the_derive_def quote_v2_bytes v2_wire_reads
      wire_tag_is_the_declaration_index_def unknown_version_fails_typedly_def
      empty_and_malformed_bodies_fail_typedly_def malformed_v2_def)
    (simp_all add: quote_v1_def v2_wire_def quote_eval)

lemmas client_eval = client_of_venue_def InProcessClient_def DemoAdapter_def routed_def
  DemoVenue_ID_def NowhereVenue_ID_def SdkVenueId_from_static_def client_submit_def client_quote_def
  client_status_def client_cancel_def Quoted_submit_def guard_receipt_def demo_quote_def
  demo_submit_def demo_status_def demo_cancel_def demo_derive_header_def encode_uint_def Let_def

lemma adapter_tests_pass:
  assumes "u256_bytes trimmed from_be"
  shows "list_all (\<lambda>test. test trimmed) adapter_tests"
proof -
  have "adapter_reports_an_unknown_version_as_invalid_body trimmed"
  proof -
    have "show_nat 7 = ''7''" by code_simp
    moreover have "ib_from_bytes quote_body (v2_wire[0 := 7]) = Err (BodyUnknownVersion 7)"
      by (simp add: v2_wire_def quote_eval)
    ultimately show ?thesis
      by (simp add: adapter_reports_an_unknown_version_as_invalid_body_def quote_v2_bytes
          demo_derive_header_def DemoAdapter_decode_def)
  qed
  then show ?thesis
    by (simp add: adapter_tests_def body_test_group quote_v2_bytes demo_decode_v2 client_eval
        million [OF assms] RECEIPT_def
        adapter_projects_the_header_from_a_versioned_body_def
        typed_client_round_trips_through_the_transport_seam_def
        quote_typestate_prices_then_submits_the_quoted_body_def
        empty_receipt_is_rejected_before_the_transport_def
        unbound_venue_is_unknown_at_the_client_def unbound_venue_quote_is_unknown_at_the_client_def)
qed

end
