(* ===== verification/Platform_Tests.thy ===== *)
theory Platform_Tests imports Venue_Tests Host_Tests Status_Body_Tests
begin

text \<open>
  The platform's acceptance tests, \<^verbatim>\<open>videre-host/tests/platform.rs\<close>: a native venue with a
  script of statuses, registered and driven through the registry, the handshake, the status
  source and the client import. A venue's fields are what it owns in the process. One turn
  of the polling task stands for the stretch of time the delivery test waits.
\<close>

section \<open>The scripted venue\<close>

record scripted =
  statuses :: "IntentStatus list"
  cancelled :: bool

definition platform_header :: IntentHeader where
  "platform_header = \<lparr>gives = native [1], wants = native [], settlement = \<lparr>chain = 1\<rparr>,
     authorisation = Eip712\<rparr>"

definition platform_quotation :: Quotation where
  "platform_quotation = \<lparr>q_gives = native [1], q_wants = native [], q_fee = native [],
     q_valid_until_ms = 1700000000000\<rparr>"

definition scripted_status :: "scripted world \<Rightarrow> (IntentStatus, VenueError) result \<times> scripted world" where
  "scripted_status w =
     (case statuses (ext w) of
        [] \<Rightarrow> (Ok Open, w)
      | st # rest \<Rightarrow> (Ok st, w\<lparr>ext := (ext w)\<lparr>statuses := rest\<rparr>\<rparr>))"

definition ScriptedVenue :: "scripted VenueInvoker" where
  "ScriptedVenue =
     \<lparr>inv_derive_header = (\<lambda>_ w. (Ok platform_header, w)),
      inv_quote = (\<lambda>_ w. (Ok platform_quotation, w)),
      inv_submit = (\<lambda>body w. (Ok (Accepted body), w)),
      inv_status = (\<lambda>_ w. scripted_status w),
      inv_cancel = (\<lambda>_ w. (Ok (), w\<lparr>ext := (ext w)\<lparr>cancelled := True\<rparr>\<rparr>))\<rparr>"

interpretation scripted: venue_invoker ScriptedVenue
  by unfold_locales
    (auto simp: lawful_call_def ScriptedVenue_def scripted_status_def split: list.split)

text \<open>\<^verbatim>\<open>ScriptedVenue::new\<close> puts the script in place; registering moves it into the registry.\<close>

definition install_scripted ::
  "live_ref \<Rightarrow> u32 set \<Rightarrow> IntentStatus list \<Rightarrow> scripted VenueRegistry
    \<Rightarrow> (unit, DuplicateVenue) result \<times> scripted VenueRegistry" where
  "install_scripted live versions script r =
     register cow live versions ScriptedVenue
       (meanwhile (\<lambda>w. w\<lparr>ext := \<lparr>statuses = script, cancelled = False\<rparr>\<rparr>) r)"

text \<open>A registry built as told, with one scripted venue under the id \<open>cow\<close>.\<close>

definition scripted_registry ::
  "scripted VenueRegistryBuilder \<Rightarrow> u32 set \<Rightarrow> IntentStatus list \<Rightarrow> scripted world
    \<Rightarrow> (live_ref, DuplicateVenue) result \<times> scripted VenueRegistry" where
  "scripted_registry b versions script w =
     (let (live, r) = on_env Liveness_new (build b w)
      in case install_scripted live versions script r of (x, r) \<Rightarrow> (map_ok (\<lambda>_. live) x, r))"

abbreviation default_builder :: "scripted VenueRegistryBuilder" where
  "default_builder \<equiv> VenueRegistryBuilder_new SubmitQuota_default"

text \<open>\<^verbatim>\<open>Videre::from_registry\<close> in a process of its own, whose one clock the registry reads.\<close>

definition hosted :: "'x VenueRegistry \<Rightarrow> Videre \<times> 'x process" where
  "hosted r = from_registry r
     \<lparr>registries = (\<lambda>_. r), next_registry = 0, REGISTRY = None, pr_world = env r\<rparr>"

section \<open>The registry tests\<close>

type_synonym platform_test = "scripted world \<Rightarrow> bool"

definition every_verb_reaches_the_registered_native_venue :: platform_test where
  "every_verb_reaches_the_registered_native_venue w =
     expect (scripted_registry default_builder {1} [Pending] w) (\<lambda>_ r.
     expect (quote ''mod-a'' cow (str_bytes ''body'') r) (\<lambda>quoted r.
     quoted = platform_quotation
     \<and> expect (submit ''mod-a'' cow (str_bytes ''body'') r) (\<lambda>outcome r.
     outcome = Accepted (str_bytes ''body'') \<and> watched_count r = 1
     \<and> expect (observe cow (str_bytes ''onchain'') r) (\<lambda>_ r.
     watched_count r = 2
     \<and> expect (status cow (str_bytes ''body'') r) (\<lambda>st r.
     st = Pending
     \<and> expect (cancel cow (str_bytes ''body'') r) (\<lambda>_ r. cancelled (ext (env r))))))))"

definition an_unregistered_venue_is_unknown_and_a_dead_one_unavailable :: platform_test where
  "an_unregistered_venue_is_unknown_and_a_dead_one_unavailable w =
     expect (scripted_registry default_builder {} [] w) (\<lambda>liveness r.
     expect_err (submit ''mod-a'' unlisted (str_bytes ''b'') r) (\<lambda>e r.
     e = UnknownVenue
     \<and> expect_err (submit ''mod-a'' cow (str_bytes ''b'') (meanwhile (mark_dead liveness) r))
         (\<lambda>e _. is_unavailable e)))"

definition the_submit_quota_rate_limits_the_spending_caller_only :: platform_test where
  "the_submit_quota_rate_limits_the_spending_caller_only w =
     expect (scripted_registry (VenueRegistryBuilder_new (SubmitQuota_new 1 (from_secs 3600))) {} [] w)
       (\<lambda>_ r.
     expect (submit ''mod-a'' cow (str_bytes ''b'') r) (\<lambda>_ r.
     expect_err (submit ''mod-a'' cow (str_bytes ''b'') r) (\<lambda>e r.
     e = RateLimited \<lparr>retry_after_ms = Some 3600000\<rparr>
     \<and> expect (submit ''mod-b'' cow (str_bytes ''b'') r) (\<lambda>_ _. True))))"

definition the_watch_limit_bounds_the_status_watch_set :: platform_test where
  "the_watch_limit_bounds_the_status_watch_set w =
     expect (scripted_registry (with_watch_limit (WatchLimit_new 1 (from_secs 3600)) default_builder) {} [] w)
       (\<lambda>_ r.
     expect (submit ''mod-a'' cow (str_bytes ''first'') r) (\<lambda>_ r.
     expect (submit ''mod-a'' cow (str_bytes ''second'') r) (\<lambda>_ r.
     watched_count r = 1
     \<and> expect_err (observe cow (str_bytes ''third'') r) (\<lambda>e _. is_unavailable e))))"

section \<open>The handshake and the extension\<close>

text \<open>The registered venues in iteration order, of a table with the one id.\<close>

definition sole_entry :: "(VenueId \<rightharpoonup> u32 set) \<Rightarrow> (VenueId \<times> u32 set) list" where
  "sole_entry m = (case m cow of None \<Rightarrow> [] | Some versions \<Rightarrow> [(cow, versions)])"

definition admits ::
  "Videre \<times> 'x process \<Rightarrow> (string \<Rightarrow> Json option) \<Rightarrow> (unit, ExtensionError) result" where
  "admits vp sections = platform_admit KeeperSection_deserialize sole_entry (fst vp) ''keeper'' sections (snd vp)"

definition refused_admission :: "string list \<Rightarrow> (unit, ExtensionError) result \<Rightarrow> bool" where
  "refused_admission parts r =
     (case r of Err (EAdmit _ why) \<Rightarrow> list_all (\<lambda>part. str_contains part why) parts | _ \<Rightarrow> False)"

definition the_body_version_handshake_gates_a_keeper_on_the_registered_venues :: platform_test where
  "the_body_version_handshake_gates_a_keeper_on_the_registered_venues w =
     expect (scripted_registry default_builder {1, 2} [] w) (\<lambda>_ r.
       let videre = hosted r in
       admits videre (keeper_v 2) = Ok ()
       \<and> refused_admission [''body version 3'', ''cow decodes {1, 2}''] (admits videre (keeper_v 3)))"

definition a_venue_that_declares_no_versions_never_satisfies_a_declaring_keeper :: platform_test where
  "a_venue_that_declares_no_versions_never_satisfies_a_declaring_keeper w =
     expect (scripted_registry default_builder {} [] w) (\<lambda>_ r.
       let videre = hosted r in
       refused_admission [''no registered venue declares''] (admits videre (keeper_v 1))
       \<and> admits videre Map.empty = Ok ())"

definition no_sources :: "string set \<Rightarrow> SourceContext" where
  "no_sources kinds = \<lparr>demanded_extension_kinds = kinds, next_channel = 0, spawned = []\<rparr>"

definition opened :: "Videre \<times> 'x process \<Rightarrow> string set \<Rightarrow> nat option" where
  "opened vp kinds =
     (case fst (open_sources (fst vp) (no_sources kinds) (snd vp)) of
        Ok streams \<Rightarrow> Some (length streams) | Err _ \<Rightarrow> None)"

text \<open>The receiving end: what was sent, in order. The timer only lets the interval pass.\<close>

definition receive :: "ExtensionDelivery list send" where
  "receive d log = (Ok (), log @ [d])"

definition pass_time :: "Duration \<Rightarrow> 'x process \<times> 'c \<Rightarrow> 'x process \<times> 'c" where
  "pass_time interval pc = pc"

definition the_status_poll_source_delivers_a_polled_transition :: platform_test where
  "the_status_poll_source_delivers_a_polled_transition w =
     (let (live, r) = on_env Liveness_new (build default_builder w);
          r = meanwhile (\<lambda>w. w\<lparr>ext := \<lparr>statuses = [Fulfilled], cancelled = False\<rparr>\<rparr>) r in
      expect (install_for_test cow live ScriptedVenue r) (\<lambda>_ r.
      expect (submit ''mod-a'' cow (str_bytes ''receipt'') r) (\<lambda>_ r.
        let (videre, p) = hosted r;
            videre = with_status_poll_interval \<lparr>secs = 0, subsec_nanos = 5000000\<rparr> videre;
            (_, p', deliveries) = status_poll_turn pass_time receive put_StatusBody put_IntentStatusUpdate
              (vd_registry videre) (status_poll_interval videre) (p, []) in
        opened (videre, p) {INTENT_STATUS_KIND} = Some 1
        \<and> (case deliveries of
             [d] \<Rightarrow> dl_kind d = INTENT_STATUS_KIND \<and> dl_attrs d = [(''venue'', ''cow'')]
               \<and> dl_trigger_kind d = INTENT_STATUS_KIND
               \<and> expected (IntentStatusUpdate_decode borsh_IntentStatusUpdate (dl_payload d)) (\<lambda>u.
                   upd_venue u = ''cow'' \<and> upd_receipt u = str_bytes ''receipt''
                   \<and> expected (StatusBody_decode borsh_StatusBody (upd_status u)) (\<lambda>b. sb_status b = LFulfilled))
           | _ \<Rightarrow> False)
        \<and> watched_count (registries p' (vd_registry videre)) = 0)))"

definition the_status_poll_source_stays_closed_without_demand_or_a_venue :: platform_test where
  "the_status_poll_source_stays_closed_without_demand_or_a_venue w =
     expect (scripted_registry default_builder {1} [] w) (\<lambda>_ r.
       opened (hosted r) {} = Some 0
       \<and> opened (platform (snd (hosted r))) {INTENT_STATUS_KIND} = Some 0)"

text \<open>The linker counts what was added to it.\<close>

definition the_client_import_links_into_a_worker_linker :: platform_test where
  "the_client_import_links_into_a_worker_linker w =
     expect (scripted_registry default_builder {1} [] w) (\<lambda>_ r.
       let (videre, p) = hosted r in
       expect (link (\<lambda>added. Ok (Suc added)) videre 0 p) (\<lambda>linker p.
         linker = 1 \<and> the_registry p = Ok (vd_registry videre))
       \<and> nc_prefix capabilities = ''videre:venue/'' \<and> nc_ifaces capabilities = [''client'']
       \<and> emits_trigger_kinds = [INTENT_STATUS_KIND])"

definition the_platform_is_wired_as_one_generic_extension :: platform_test where
  "the_platform_is_wired_as_one_generic_extension w =
     (NAMESPACE = ''videre'' \<and> manifest_sections = [''venue''])"

definition platform_tests :: "platform_test list" where
  "platform_tests =
     [every_verb_reaches_the_registered_native_venue,
      an_unregistered_venue_is_unknown_and_a_dead_one_unavailable,
      the_submit_quota_rate_limits_the_spending_caller_only,
      the_watch_limit_bounds_the_status_watch_set,
      the_body_version_handshake_gates_a_keeper_on_the_registered_venues,
      a_venue_that_declares_no_versions_never_satisfies_a_declaring_keeper,
      the_status_poll_source_delivers_a_polled_transition,
      the_status_poll_source_stays_closed_without_demand_or_a_venue,
      the_client_import_links_into_a_worker_linker,
      the_platform_is_wired_as_one_generic_extension]"

section \<open>They pass\<close>

lemmas scripted_eval = replay unused_eq meanwhile_def scripted_registry_def install_scripted_def
  ScriptedVenue_def scripted_status_def platform_header_def platform_quotation_def native_def

lemma registry_verb_tests:
  assumes "steady w"
  shows "every_verb_reaches_the_registered_native_venue (unused w)"
    and "an_unregistered_venue_is_unknown_and_a_dead_one_unavailable (unused w)"
  using assms
  by (simp_all add: every_verb_reaches_the_registered_native_venue_def
      an_unregistered_venue_is_unknown_and_a_dead_one_unavailable_def scripted_eval)

lemma registry_bound_tests:
  assumes "steady w"
  shows "the_submit_quota_rate_limits_the_spending_caller_only (unused w)"
    and "the_watch_limit_bounds_the_status_watch_set (unused w)"
  using assms
  by (simp_all add: the_submit_quota_rate_limits_the_spending_caller_only_def
      the_watch_limit_bounds_the_status_watch_set_def scripted_eval)

lemmas hosted_eval = hosted_def from_registry_def admits_def platform_admit_def sole_entry_def
  refused_admission_def opened_def no_sources_def open_sources_def handshake_eval

lemma three: "show_nat 3 = ''3''" by code_simp

lemma handshake_tests:
  shows "the_body_version_handshake_gates_a_keeper_on_the_registered_venues (unused w)"
    and "a_venue_that_declares_no_versions_never_satisfies_a_declaring_keeper (unused w)"
  by (simp_all add: the_body_version_handshake_gates_a_keeper_on_the_registered_venues_def
      a_venue_that_declares_no_versions_never_satisfies_a_declaring_keeper_def scripted_eval hosted_eval
      three)

lemma extension_tests:
  shows "the_status_poll_source_stays_closed_without_demand_or_a_venue (unused w)"
    and "the_client_import_links_into_a_worker_linker (unused w)"
    and "the_platform_is_wired_as_one_generic_extension (unused w)"
  by (simp_all add: the_status_poll_source_stays_closed_without_demand_or_a_venue_def
      the_client_import_links_into_a_worker_linker_def the_platform_is_wired_as_one_generic_extension_def
      scripted_eval hosted_eval platform_def link_def the_registry_def publish_registry_def
      capabilities_def emits_trigger_kinds_def manifest_sections_def SECTIONS_def SECTION_def NAMESPACE_def)

lemma delivery_test:
  assumes "steady w"
  shows "the_status_poll_source_delivers_a_polled_transition (unused w)"
  using assms
  by (simp add: the_status_poll_source_delivers_a_polled_transition_def scripted_eval hosted_eval
      install_for_test_def with_status_poll_interval_def status_poll_turn_def pass_time_def
      receive_def with_registry_def delivery_of_def read_eval)

lemma platform_tests_pass: "steady w \<Longrightarrow> list_all (\<lambda>test. test (unused w)) platform_tests"
  by (simp add: platform_tests_def registry_verb_tests registry_bound_tests handshake_tests
      extension_tests delivery_test)

end
