(* ===== verification/Fixture_Json.thy ===== *)
theory Fixture_Json imports Conformance Serde_Model
begin

text \<open>
  The JSON form of the fixture files: what the \<^verbatim>\<open>serde\<close> derives and attributes of
  \<^verbatim>\<open>codec.rs\<close>, \<^verbatim>\<open>uint.rs\<close> and \<^verbatim>\<open>header.rs\<close> spell for each type, between the typed sets of
  \<open>Conformance\<close> and a JSON document, read as \<open>Serde_Model\<close> says. The text of a document is the
  JSON library's affair.
\<close>

section \<open>Fields the fixtures share\<close>

text \<open>\<open>enc\<close> and \<open>dec\<close> are the hex library.\<close>

type_synonym hex_decoder = "string \<Rightarrow> (bytes, string) result"

definition hex_json :: "(bytes \<Rightarrow> string) \<Rightarrow> bytes \<Rightarrow> Json" where
  "hex_json enc bs = JStr (hex_serialize enc bs)"

definition read_hex :: "hex_decoder \<Rightarrow> bytes reader" where
  "read_hex dec j = hex_deserialize dec (read_string j)"

definition version_json :: "FormatVersion \<Rightarrow> Json" where
  "version_json v = JNum (unat (FormatVersion_serialize v))"

definition read_version :: "FormatVersion reader" where
  "read_version j = FormatVersion_deserialize (read_word j)"

definition notes_json :: "string option \<Rightarrow> (string \<times> Json) list" where
  "notes_json notes = (case notes of None \<Rightarrow> [] | Some text \<Rightarrow> [(''notes'', JStr text)])"

definition read_non_empty :: "'a reader \<Rightarrow> 'a list reader" where
  "read_non_empty f j = non_empty (read_vec f j)"

section \<open>Codec vectors\<close>

fun expectation_json :: "Expectation \<Rightarrow> Json" where
  "expectation_json ExRoundTrip = JStr ''round-trip''"
| "expectation_json ExEmpty = JStr ''empty''"
| "expectation_json (ExUnknownVersion v) =
     JObj [(''unknown-version'', JObj [(''version'', JNum (unat v))])]"
| "expectation_json (ExMalformed v) = JObj [(''malformed'', JObj [(''version'', JNum (unat v))])]"

definition read_tagged_version :: "u8 reader" where
  "read_tagged_version j = and_then (read_struct False [''version''] j) (field read_word ''version'')"

definition read_expectation :: "Expectation reader" where
  "read_expectation j =
     and_then (read_tag j) (\<lambda>(tag, content).
       if tag = ''round-trip'' then unit_variant ExRoundTrip content
       else if tag = ''empty'' then unit_variant ExEmpty content
       else if tag = ''unknown-version'' then
         map_ok ExUnknownVersion (data_variant read_tagged_version content)
       else if tag = ''malformed'' then map_ok ExMalformed (data_variant read_tagged_version content)
       else Err ''unknown variant'')"

definition codec_vector_json :: "(bytes \<Rightarrow> string) \<Rightarrow> CodecVector \<Rightarrow> Json" where
  "codec_vector_json enc v =
     JObj ([(''name'', JStr (cv_name v)), (''bytes'', hex_json enc (cv_bytes v)),
       (''expect'', expectation_json (cv_expect v))] @ notes_json (cv_notes v))"

definition read_codec_vector :: "hex_decoder \<Rightarrow> CodecVector reader" where
  "read_codec_vector dec j =
     and_then (read_struct True [''name'', ''bytes'', ''expect'', ''notes''] j) (\<lambda>fs.
     and_then (field read_string ''name'' fs) (\<lambda>n.
     and_then (field (read_hex dec) ''bytes'' fs) (\<lambda>bs.
     and_then (field read_expectation ''expect'' fs) (\<lambda>ex.
     map_ok (\<lambda>notes. \<lparr>cv_name = n, cv_bytes = bs, cv_expect = ex, cv_notes = notes\<rparr>)
       (field_or_none read_string ''notes'' fs)))))"

definition codec_vectors_json :: "(bytes \<Rightarrow> string) \<Rightarrow> CodecVectors \<Rightarrow> Json" where
  "codec_vectors_json enc s =
     JObj [(''version'', version_json (cs_version s)), (''schema'', JStr (cs_schema s)),
       (''vectors'', JArr (map (codec_vector_json enc) (cs_vectors s)))]"

definition read_codec_vectors :: "hex_decoder \<Rightarrow> CodecVectors reader" where
  "read_codec_vectors dec j =
     and_then (read_struct True [''version'', ''schema'', ''vectors''] j) (\<lambda>fs.
     and_then (field read_version ''version'' fs) (\<lambda>v.
     and_then (field read_string ''schema'' fs) (\<lambda>schema.
     map_ok (\<lambda>vectors. \<lparr>cs_version = v, cs_schema = schema, cs_vectors = vectors\<rparr>)
       (field (read_non_empty (read_codec_vector dec)) ''vectors'' fs))))"

section \<open>Uint vectors\<close>

fun uint_expectation_json :: "UintExpectation \<Rightarrow> Json" where
  "uint_expectation_json (UxValue v) = JObj [(''value'', JStr v)]"
| "uint_expectation_json UxReject = JStr ''reject''"

definition read_uint_expectation :: "UintExpectation reader" where
  "read_uint_expectation j =
     and_then (read_tag j) (\<lambda>(tag, content).
       if tag = ''value'' then map_ok UxValue (data_variant read_string content)
       else if tag = ''reject'' then unit_variant UxReject content
       else Err ''unknown variant'')"

definition uint_vector_json :: "(bytes \<Rightarrow> string) \<Rightarrow> UintVector \<Rightarrow> Json" where
  "uint_vector_json enc v =
     JObj ([(''name'', JStr (uv_name v)), (''bytes'', hex_json enc (uv_bytes v)),
       (''expect'', uint_expectation_json (uv_expect v))] @ notes_json (uv_notes v))"

definition read_uint_vector :: "hex_decoder \<Rightarrow> UintVector reader" where
  "read_uint_vector dec j =
     and_then (read_struct True [''name'', ''bytes'', ''expect'', ''notes''] j) (\<lambda>fs.
     and_then (field read_string ''name'' fs) (\<lambda>n.
     and_then (field (read_hex dec) ''bytes'' fs) (\<lambda>bs.
     and_then (field read_uint_expectation ''expect'' fs) (\<lambda>ex.
     map_ok (\<lambda>notes. \<lparr>uv_name = n, uv_bytes = bs, uv_expect = ex, uv_notes = notes\<rparr>)
       (field_or_none read_string ''notes'' fs)))))"

definition uint_vectors_json :: "(bytes \<Rightarrow> string) \<Rightarrow> UintVectors \<Rightarrow> Json" where
  "uint_vectors_json enc s =
     JObj [(''version'', version_json (us_version s)),
       (''vectors'', JArr (map (uint_vector_json enc) (us_vectors s)))]"

definition read_uint_vectors :: "hex_decoder \<Rightarrow> UintVectors reader" where
  "read_uint_vectors dec j =
     and_then (read_struct True [''version'', ''vectors''] j) (\<lambda>fs.
     and_then (field read_version ''version'' fs) (\<lambda>v.
     map_ok (\<lambda>vectors. \<lparr>us_version = v, us_vectors = vectors\<rparr>)
       (field (read_non_empty (read_uint_vector dec)) ''vectors'' fs)))"

section \<open>Header goldens\<close>

fun golden_asset_json :: "(bytes \<Rightarrow> string) \<Rightarrow> GoldenAsset \<Rightarrow> Json" where
  "golden_asset_json enc GNative = JStr ''native''"
| "golden_asset_json enc (GErc20 tok) = JObj [(''erc20'', JObj [(''token'', hex_json enc tok)])]"

definition read_golden_asset :: "hex_decoder \<Rightarrow> GoldenAsset reader" where
  "read_golden_asset dec j =
     and_then (read_tag j) (\<lambda>(tag, content).
       if tag = ''native'' then unit_variant GNative content
       else if tag = ''erc20'' then map_ok GErc20
         (data_variant (\<lambda>j. and_then (read_struct True [''token''] j) (field (read_hex dec) ''token'')) content)
       else Err ''unknown variant'')"

fun golden_auth_json :: "GoldenAuthScheme \<Rightarrow> Json" where
  "golden_auth_json GEip1271 = JStr ''eip1271''"
| "golden_auth_json GEip712 = JStr ''eip712''"

definition read_golden_auth :: "GoldenAuthScheme reader" where
  "read_golden_auth j =
     and_then (read_tag j) (\<lambda>(tag, content).
       if tag = ''eip1271'' then unit_variant GEip1271 content
       else if tag = ''eip712'' then unit_variant GEip712 content
       else Err ''unknown variant'')"

definition golden_amount_json :: "(bytes \<Rightarrow> string) \<Rightarrow> GoldenAssetAmount \<Rightarrow> Json" where
  "golden_amount_json enc a =
     JObj [(''asset'', golden_asset_json enc (ga_asset a)), (''amount'', hex_json enc (ga_amount a))]"

definition read_golden_amount :: "hex_decoder \<Rightarrow> GoldenAssetAmount reader" where
  "read_golden_amount dec j =
     and_then (read_struct True [''asset'', ''amount''] j) (\<lambda>fs.
     and_then (field (read_golden_asset dec) ''asset'' fs) (\<lambda>a.
     map_ok (\<lambda>n. \<lparr>ga_asset = a, ga_amount = n\<rparr>) (field (read_hex dec) ''amount'' fs)))"

definition golden_settlement_json :: "GoldenSettlement \<Rightarrow> Json" where
  "golden_settlement_json s = JObj [(''chain'', JNum (unat (gs_chain s)))]"

definition read_golden_settlement :: "GoldenSettlement reader" where
  "read_golden_settlement j =
     and_then (read_struct True [''chain''] j) (\<lambda>fs.
     map_ok (\<lambda>c. \<lparr>gs_chain = c\<rparr>) (field read_word ''chain'' fs))"

definition golden_header_json :: "(bytes \<Rightarrow> string) \<Rightarrow> GoldenHeader \<Rightarrow> Json" where
  "golden_header_json enc h =
     JObj [(''gives'', golden_amount_json enc (gh_gives h)), (''wants'', golden_amount_json enc (gh_wants h)),
       (''settlement'', golden_settlement_json (gh_settlement h)),
       (''authorisation'', golden_auth_json (gh_authorisation h))]"

definition read_golden_header :: "hex_decoder \<Rightarrow> GoldenHeader reader" where
  "read_golden_header dec j =
     and_then (read_struct True [''gives'', ''wants'', ''settlement'', ''authorisation''] j) (\<lambda>fs.
     and_then (field (read_golden_amount dec) ''gives'' fs) (\<lambda>g.
     and_then (field (read_golden_amount dec) ''wants'' fs) (\<lambda>w.
     and_then (field read_golden_settlement ''settlement'' fs) (\<lambda>s.
     map_ok (\<lambda>a. \<lparr>gh_gives = g, gh_wants = w, gh_settlement = s, gh_authorisation = a\<rparr>)
       (field read_golden_auth ''authorisation'' fs)))))"

definition header_golden_json :: "(bytes \<Rightarrow> string) \<Rightarrow> HeaderGolden \<Rightarrow> Json" where
  "header_golden_json enc g =
     JObj ([(''name'', JStr (hg_name g)), (''body'', hex_json enc (hg_body g)),
       (''header'', golden_header_json enc (hg_header g))] @ notes_json (hg_notes g))"

definition read_header_golden :: "hex_decoder \<Rightarrow> HeaderGolden reader" where
  "read_header_golden dec j =
     and_then (read_struct True [''name'', ''body'', ''header'', ''notes''] j) (\<lambda>fs.
     and_then (field read_string ''name'' fs) (\<lambda>n.
     and_then (field (read_hex dec) ''body'' fs) (\<lambda>bs.
     and_then (field (read_golden_header dec) ''header'' fs) (\<lambda>h.
     map_ok (\<lambda>notes. \<lparr>hg_name = n, hg_body = bs, hg_header = h, hg_notes = notes\<rparr>)
       (field_or_none read_string ''notes'' fs)))))"

definition header_goldens_json :: "(bytes \<Rightarrow> string) \<Rightarrow> HeaderGoldens \<Rightarrow> Json" where
  "header_goldens_json enc s =
     JObj [(''version'', version_json (hs_version s)), (''venue'', JStr (hs_venue s)),
       (''goldens'', JArr (map (header_golden_json enc) (hs_goldens s)))]"

definition read_header_goldens :: "hex_decoder \<Rightarrow> HeaderGoldens reader" where
  "read_header_goldens dec j =
     and_then (read_struct True [''version'', ''venue'', ''goldens''] j) (\<lambda>fs.
     and_then (field read_version ''version'' fs) (\<lambda>v.
     and_then (field read_string ''venue'' fs) (\<lambda>venue.
     map_ok (\<lambda>goldens. \<lparr>hs_version = v, hs_venue = venue, hs_goldens = goldens\<rparr>)
       (field (read_non_empty (read_header_golden dec)) ''goldens'' fs))))"

section \<open>A document reads back\<close>

text \<open>The contract of the hex library, and of a type whose writer and reader fit.\<close>

locale hex_lib =
  fixes enc :: "bytes \<Rightarrow> string" and dec :: hex_decoder
  assumes dec_enc: "dec (enc bs) = Ok bs"

locale json_form =
  fixes wr :: "'a \<Rightarrow> Json" and rd :: "'a reader"
  assumes rd_wr: "rd (wr x) = Ok x"
begin

lemma read_all_map: "read_all rd (map wr xs) = Ok xs"
  by (induction xs) (simp_all add: rd_wr)

lemma read_vec_map: "read_vec rd (JArr (map wr xs)) = Ok xs"
  by (simp add: read_vec_def read_all_map)

lemma non_empty_map:
  "read_non_empty rd (JArr (map wr xs)) =
     (if xs = [] then Err ''a published fixture set is never empty'' else Ok xs)"
  by (simp add: read_non_empty_def read_vec_map non_empty_def)

end

lemma read_word_unat: "read_word (JNum (unat w)) = Ok w"
  by (simp add: read_word_def read_uint_def)

lemma read_version_json: "read_version (version_json v) = Ok v"
proof -
  have "read_word (JNum 1) = (Ok 1 :: (u32, string) result)"
    using read_word_unat [of "1 :: u32"] by simp
  then show ?thesis
    by (cases v) (simp add: read_version_def version_json_def FormatVersion_serialize_def
        FormatVersion_deserialize_def FORMAT_VERSION_def)
qed

lemmas json_eval = read_struct_def field_def field_or_none_def read_tag_def unit_variant_def
  data_variant_def read_string_def notes_json_def read_word_unat read_version_json

interpretation expectation_form: json_form expectation_json read_expectation
proof
  fix x
  show "read_expectation (expectation_json x) = Ok x"
    by (cases x) (simp_all add: read_expectation_def read_tagged_version_def json_eval)
qed

interpretation uint_expectation_form: json_form uint_expectation_json read_uint_expectation
proof
  fix x
  show "read_uint_expectation (uint_expectation_json x) = Ok x"
    by (cases x) (simp_all add: read_uint_expectation_def json_eval)
qed

interpretation settlement_form: json_form golden_settlement_json read_golden_settlement
  by unfold_locales (simp add: golden_settlement_json_def read_golden_settlement_def json_eval)

interpretation auth_form: json_form golden_auth_json read_golden_auth
proof
  fix x
  show "read_golden_auth (golden_auth_json x) = Ok x"
    by (cases x) (simp_all add: read_golden_auth_def json_eval)
qed

context hex_lib begin

lemma read_hex_json: "read_hex dec (hex_json enc bs) = Ok bs"
  by (simp add: read_hex_def hex_json_def hex_deserialize_def hex_serialize_def read_string_def dec_enc)

lemma codec_vector_form: "json_form (codec_vector_json enc) (read_codec_vector dec)"
  by unfold_locales (simp add: codec_vector_json_def read_codec_vector_def json_eval read_hex_json
      expectation_form.rd_wr split: option.split)

lemma uint_vector_form: "json_form (uint_vector_json enc) (read_uint_vector dec)"
  by unfold_locales (simp add: uint_vector_json_def read_uint_vector_def json_eval read_hex_json
      uint_expectation_form.rd_wr split: option.split)

lemma asset_form: "json_form (golden_asset_json enc) (read_golden_asset dec)"
proof
  fix x
  show "read_golden_asset dec (golden_asset_json enc x) = Ok x"
    by (cases x) (simp_all add: read_golden_asset_def json_eval read_hex_json)
qed

lemma amount_form: "json_form (golden_amount_json enc) (read_golden_amount dec)"
  by unfold_locales (simp add: golden_amount_json_def read_golden_amount_def json_eval read_hex_json
      json_form.rd_wr [OF asset_form])

lemma header_form: "json_form (golden_header_json enc) (read_golden_header dec)"
  by unfold_locales (simp add: golden_header_json_def read_golden_header_def json_eval
      json_form.rd_wr [OF amount_form] settlement_form.rd_wr auth_form.rd_wr)

lemma header_golden_form: "json_form (header_golden_json enc) (read_header_golden dec)"
  by unfold_locales (simp add: header_golden_json_def read_header_golden_def json_eval read_hex_json
      json_form.rd_wr [OF header_form] split: option.split)

end

end
