(* ===== verification/Conformance_Properties.thy ===== *)
theory Conformance_Properties imports Reference_Venue
begin

text \<open>
  What the conformance kit guarantees: a published vector set pins a codec, the uint vectors
  tell a canonical decoder from a tolerant one, and the reference venue keeps its goldens.
\<close>

section \<open>Codec vectors\<close>

text \<open>
  C18: a published vector file pins the derived codec, also across versions. For every body type
  the derive accepts, the check passes exactly when each vector holds of its bytes, and a
  failed check names exactly the vectors that do not, in order; an empty set names itself.
  When versions are appended to a type that passes, the only vectors that fail are the
  unknown-version ones whose tag the new versions take.
\<close>

theorem published_vectors_pin_the_codec:
  assumes "expand_derive \<lparr>di_generics = [], di_data = DataEnum vs\<rparr> = Ok arms"
    and "expand_derive \<lparr>di_generics = [], di_data = DataEnum (vs @ ws)\<rparr> = Ok arms'"
    and "distinct (map arm_ident arms')" and "\<And>ty. borsh_codec (ser ty) (de ty)"
  shows "(codec_check hex_encode (derived_body ser de arms) s = Ok ()
            \<longleftrightarrow> failing_vectors (derived_body ser de arms) (length arms) s = [])
     \<and> (\<forall>r. codec_check hex_encode (derived_body ser de arms) s = Err r \<longrightarrow>
          map vi_vector (violations r) = failing_vectors (derived_body ser de arms) (length arms) s)
     \<and> (codec_check hex_encode (derived_body ser de arms) s = Ok () \<longrightarrow>
          (\<forall>r. codec_check hex_encode (derived_body ser de arms') s = Err r \<longrightarrow>
             map vi_vector (violations r) = map cv_name (filter (\<lambda>v. \<exists>n. cv_expect v = ExUnknownVersion n
               \<and> unat n < length vs + length ws) (cs_vectors s))))"
proof -
  obtain more where more: "arms' = arms @ more" "length arms' = length vs + length ws"
      "length arms = length vs"
    using appended_arms [OF assms(1,2)] by blast
  have old: "intent_body (derived_body ser de arms) (length arms)"
    using assms(3) more(1) by (intro derived_intent_body [OF assms(1) _ assms(4)]) simp
  have new: "intent_body (derived_body ser de arms') (length arms')"
    by (rule derived_intent_body [OF assms(2,3,4)])
  have "map vi_vector (violations r) = map cv_name (filter (\<lambda>v. \<exists>n. cv_expect v = ExUnknownVersion n
               \<and> unat n < length vs + length ws) (cs_vectors s))"
    if ok: "codec_check hex_encode (derived_body ser de arms) s = Ok ()"
      and err: "codec_check hex_encode (derived_body ser de arms') s = Err r" for r
  proof -
    have none: "failing_vectors (derived_body ser de arms) (length arms) s = []"
      using ok intent_body.codec_check [OF old] by simp
    then have "filter (\<lambda>v. \<not> vector_holds (derived_body ser de arms') (length arms') v) (cs_vectors s)
        = filter (\<lambda>v. \<exists>n. cv_expect v = ExUnknownVersion n \<and> unat n < length arms') (cs_vectors s)"
      using appended_vector_holds [OF assms(1,2) old]
      by (intro filter_cong) (auto simp: failing_vectors_def filter_empty_conv split: if_splits)
    moreover have "cs_vectors s \<noteq> []"
      using none by (auto simp: failing_vectors_def)
    ultimately show ?thesis
      using intent_body.codec_check [OF new, of hex_encode s] err
      by (simp add: failing_vectors_def more(2))
  qed
  then show ?thesis
    using intent_body.codec_check [OF old, of hex_encode s] by blast
qed

definition sample_vectors :: CodecVectors where
  "sample_vectors =
     (CodecVectors_new ''sample'')\<lparr>cs_vectors :=
        [\<lparr>cv_name = ''v1'', cv_bytes = [0, 7, 0, 0, 0, 0, 0, 0, 0], cv_expect = ExRoundTrip, cv_notes = None\<rparr>,
         \<lparr>cv_name = ''later'', cv_bytes = [1], cv_expect = ExUnknownVersion 1, cv_notes = None\<rparr>]\<rparr>"

lemma sample_vectors_pass:
  "codec_check hex_encode (derived_body (\<lambda>_. put_u64) (\<lambda>_. from_slice get_u64) v1_arms) sample_vectors = Ok ()"
proof -
  have seven: "put_u64 7 = Ok [7, 0, 0, 0, 0, 0, 0, 0]"
    by (simp add: put_u64_def put_conv_def put_int_def)
  then have "from_slice get_u64 [7, 0, 0, 0, 0, 0, 0, 0] = Ok 7"
    by (rule borsh_codec.de_ser [OF u64_codec])
  with seven show ?thesis
    by (simp add: codec_check_def codec_vector_check_def sample_vectors_def CodecVectors_new_def
        derived_body_def v1_arms_def IntentBody_to_bytes_def)
qed

lemma sample_vectors_fail:
  "\<exists>r. codec_check hex_encode (derived_body (\<lambda>_. put_u64) (\<lambda>_. from_slice get_u64) v2_arms) sample_vectors = Err r"
proof -
  have "from_slice get_u64 [] = (Err ''Unexpected length of input'' :: (u64, string) result)"
    by (simp add: from_slice_def get_u64_def get_int_def)
  then have "codec_vector_check hex_encode (derived_body (\<lambda>_. put_u64) (\<lambda>_. from_slice get_u64) v2_arms)
      (cs_vectors sample_vectors ! 1) \<noteq> Ok ()"
    by (simp add: codec_vector_check_def sample_vectors_def derived_body_def v2_arms_def v1_arms_def)
  then have "filter (\<lambda>v. codec_vector_check hex_encode (derived_body (\<lambda>_. put_u64)
      (\<lambda>_. from_slice get_u64) v2_arms) v \<noteq> Ok ()) (cs_vectors sample_vectors) \<noteq> []"
    by (auto simp: filter_empty_conv sample_vectors_def)
  then have "map vi_vector (check_loop (codec_vector_check hex_encode (derived_body (\<lambda>_. put_u64)
      (\<lambda>_. from_slice get_u64) v2_arms)) cv_name (cs_vectors sample_vectors) []) \<noteq> []"
    by (simp add: check_loop_names)
  then show ?thesis
    by (simp add: codec_check_def settle_def sample_vectors_def)
qed

theorem published_vectors_pin_the_codec_witness:
  "\<exists>r. codec_check (\<lambda>_. []) (derived_body (\<lambda>_. put_u64) (\<lambda>_. from_slice get_u64) v2_arms) sample_vectors = Err r
     \<and> map vi_vector (violations r) = [''later'']"
proof -
  have d: "distinct (map arm_ident v2_arms)"
    by (simp add: v2_arms_def v1_arms_def)
  obtain r where r: "codec_check (\<lambda>_. []) (derived_body (\<lambda>_. put_u64) (\<lambda>_. from_slice get_u64) v2_arms)
      sample_vectors = Err r"
    using sample_vectors_fail by blast
  show ?thesis
    using published_vectors_pin_the_codec [OF expand_versions d u64_codec, of "\<lambda>_. []" sample_vectors]
      sample_vectors_pass [of "\<lambda>_. []"] r
    by (auto simp: sample_vectors_def)
qed

section \<open>Uint vectors\<close>

text \<open>
  The published uint vectors accept every canonical decoder and no tolerant one. Whatever
  the 256-bit integer and its display, a decoder that accepts what the SDK's accepts, with the
  same number shown, and rejects the rest passes the published set; a decoder that normalises
  padding away fails it, on exactly the four padded encodings.
\<close>

lemma uint_vectors_refuse_padding:
  assumes "u256_bytes trimmed from_be"
    and "\<And>bs v. decode_uint from_be bs = Ok v \<Longrightarrow> \<exists>u. d bs = Ok u \<and> show_d u = show_u256 v"
    and "\<And>bs e. decode_uint from_be bs = Err e \<Longrightarrow> \<not> is_ok (d bs)"
  shows "uint_check show_d show_e d (build_uint_vectors trimmed show_u256) = Ok ()
     \<and> (\<exists>r. uint_check show_u256 (\<lambda>e. e) (tolerant from_be) (build_uint_vectors trimmed show_u256) = Err r
          \<and> map vi_vector (violations r) =
              [''non-minimal-zero'', ''non-minimal-one'', ''word-padded-zero'', ''word-padded-one''])"
proof -
  let ?vectors = "us_vectors (build_uint_vectors trimmed show_u256)"
  have accepts: "uint_vector_check show_d show_e d (uint_value trimmed show_u256 name v why) = Ok ()"
      "uint_vector_check show_u256 (\<lambda>e. e) (tolerant from_be) (uint_value trimmed show_u256 name v why) = Ok ()"
    for name v why
    using assms(2) [OF decode_encode_uint [OF assms(1)], of v]
      u256_bytes.length_trimmed [OF assms(1), of v] u256_bytes.from_be_trimmed [OF assms(1), of v]
    by (auto simp: uint_value_def uint_entry_def tolerant_def encode_uint_def)
  have reject: "uint_vector_check show_d show_e d (uint_entry name bs UxReject why) = Ok ()"
    if bad: "\<not> is_ok (decode_uint from_be bs)" for name bs why
  proof -
    obtain e where "decode_uint from_be bs = Err e" using bad by (cases "decode_uint from_be bs") auto
    then show ?thesis
      using assms(3) [of bs e] by (cases "d bs") (auto simp: uint_entry_def)
  qed
  have padded: "uint_vector_check show_u256 (\<lambda>e. e) (tolerant from_be) (uint_entry name bs UxReject why) = Ok ()
      \<longleftrightarrow> 32 < length bs" for name bs why
    by (simp add: uint_entry_def tolerant_def)
  have words: "\<not> is_ok (decode_uint from_be (replicate 32 0))"
      "\<not> is_ok (decode_uint from_be (replicate 31 0 @ [1]))"
    by (simp_all add: decode_uint_def numeral_eq_Suc)
  have "filter (\<lambda>v. uint_vector_check show_d show_e d v \<noteq> Ok ()) ?vectors = []"
    by (simp add: build_uint_vectors_def accepts reject [OF words(1)] reject [OF words(2)] reject
        decode_uint_def del: uint_vector_check.simps)
  then have "map vi_vector (check_loop (uint_vector_check show_d show_e d) uv_name ?vectors []) = []"
    by (simp add: check_loop_names)
  moreover have "map uv_name (filter (\<lambda>v. uint_vector_check show_u256 (\<lambda>e. e) (tolerant from_be) v \<noteq> Ok ())
      ?vectors) = [''non-minimal-zero'', ''non-minimal-one'', ''word-padded-zero'', ''word-padded-one'']"
    by (simp add: build_uint_vectors_def accepts padded del: uint_vector_check.simps)
      (simp add: uint_entry_def)
  moreover have "?vectors \<noteq> []" by (simp add: build_uint_vectors_def)
  ultimately show ?thesis
    using check_loop_names [of "uint_vector_check show_u256 (\<lambda>e. e) (tolerant from_be)" uv_name ?vectors "[]"]
    by (auto simp: uint_check_def settle_def)
qed

lemma uint_vectors_refuse_padding_example:
  "uint_check (\<lambda>v. show_nat (unat v)) (\<lambda>_. []) (decode_uint u256_from_be)
     (build_uint_vectors u256_trimmed (\<lambda>v. show_nat (unat v))) = Ok ()"
  using uint_vectors_refuse_padding [OF u256.u256_bytes_axioms, of "decode_uint u256_from_be"
      "\<lambda>v. show_nat (unat v)" "\<lambda>v. show_nat (unat v)" "\<lambda>_. []"]
  by auto

section \<open>The reference venue\<close>

text \<open>What each version encodes to, and that it is read back.\<close>

lemma reference_v1_bytes:
  assumes "ib_to_bytes reference_body (v1_body wei memo) = Ok bs"
  shows "ib_from_bytes reference_body bs = Ok (v1_body wei memo)"
  using assms
  by (auto simp: reference_body_def derived_body_def IntentBody_to_bytes_def reference_arms_def v1_body_def
      reference_ser_def reference_de_def map_ok_eq_Ok reference_v1.closed.de_ser)

lemma reference_v2_bytes:
  assumes "ib_to_bytes reference_body (v2_body wei memo until recipient urgent) = Ok bs"
  shows "ib_from_bytes reference_body bs = Ok (v2_body wei memo until recipient urgent)"
  using assms
  by (auto simp: reference_body_def derived_body_def IntentBody_to_bytes_def reference_arms_def v2_body_def
      reference_ser_def reference_de_def map_ok_eq_Ok reference_v2.closed.de_ser)

lemma reference_errors:
  "ib_from_bytes reference_body bs = Err e \<Longrightarrow> VenueError_from_BodyError e = InvalidBody (body_error_message e)"
  by (cases bs rule: reference.from_bytes_cases) auto

lemma v1_small_bytes: "ib_to_bytes reference_body v1_small = Ok [0, 1, 0, 0, 0, 0, 0, 0, 0, 2, 0, 0, 0, 103, 109]"
  by (simp add: reference_body_def derived_body_def IntentBody_to_bytes_def reference_arms_def v1_small_def
      v1_body_def reference_ser_def put_ReferenceV1_def layout_eval put_u64_def)

lemma v2_full_bytes: "\<exists>bs. ib_to_bytes reference_body v2_full = Ok bs"
  by (simp add: reference_body_def derived_body_def IntentBody_to_bytes_def reference_arms_def v2_full_def
      v2_body_def reference_ser_def put_ReferenceV2_def layout_eval put_u64_def put_bool_def)

text \<open>The two goldens, and what it takes to pass them.\<close>

lemma golden_check_pure:
  assumes "hs_goldens s \<noteq> []"
  shows "golden_check dbg dbg_e into (pure_derive f) s w = (Ok (), w)
     \<longleftrightarrow> (\<forall>g\<in>set (hs_goldens s). map_ok into (f (hg_body g)) = Ok (hg_header g))"
proof -
  let ?vs = "fst (golden_loop dbg dbg_e into (pure_derive f) (hs_goldens s) [] w)"
  note found = golden_loop_pure [of dbg dbg_e into f "hs_goldens s" "[]" w]
  have "?vs = [] \<longleftrightarrow> filter (\<lambda>g. map_ok into (f (hg_body g)) \<noteq> Ok (hg_header g)) (hs_goldens s) = []"
    using arg_cong [OF conjunct2 [OF found], of "\<lambda>xs. xs = []"] by simp
  then show ?thesis
    using assms conjunct1 [OF found] by (simp add: golden_check_def filter_empty_conv split_beta)
qed

lemma derive_reference_v1:
  assumes "ib_to_bytes reference_body (v1_body wei memo) = Ok bs"
  shows "derive_reference_header trimmed (ib_from_bytes reference_body) bs =
     Ok \<lparr>gives = AssetAmount_native trimmed (ucast wei), wants = \<lparr>asset = Native, amount = []\<rparr>,
         settlement = \<lparr>chain = 1\<rparr>, authorisation = Eip712\<rparr>"
  using reference_v1_bytes [OF assms]
  by (simp add: derive_reference_header_def v1_body_def AssetAmount_native_def)

lemma derive_reference_v2:
  assumes "ib_to_bytes reference_body (v2_body wei memo until recipient urgent) = Ok bs"
  shows "derive_reference_header trimmed (ib_from_bytes reference_body) bs =
     Ok \<lparr>gives = AssetAmount_native trimmed (ucast wei),
         wants = AssetAmount_erc20 trimmed recipient (ucast wei),
         settlement = \<lparr>chain = 1\<rparr>, authorisation = Eip712\<rparr>"
  using reference_v2_bytes [OF assms]
  by (simp add: derive_reference_header_def v2_body_def AssetAmount_native_def AssetAmount_erc20_def)

lemma built_goldens:
  obtains goldens where "build_header_goldens trimmed = Some goldens" "length (hs_goldens goldens) = 2"
    "\<forall>g\<in>set (hs_goldens goldens). map_ok GoldenHeader_from
        (derive_reference_header trimmed (ib_from_bytes reference_body) (hg_body g)) = Ok (hg_header g)"
proof -
  obtain full where full: "ib_to_bytes reference_body v2_full = Ok full"
    using v2_full_bytes by blast
  let ?derive = "derive_reference_header trimmed (ib_from_bytes reference_body)"
  let ?small = "[0, 1, 0, 0, 0, 0, 0, 0, 0, 2, 0, 0, 0, 103, 109]"
  obtain h1 where h1: "?derive ?small = Ok h1"
    using derive_reference_v1 [OF v1_small_bytes [unfolded v1_small_def]] by blast
  obtain h2 where h2: "?derive full = Ok h2"
    using derive_reference_v2 [OF full [unfolded v2_full_def]] by blast
  have "\<exists>n1 n2. build_header_goldens trimmed =
      Some \<lparr>hs_version = FormatVersion, hs_venue = ''videre-test/reference'', hs_goldens =
        [\<lparr>hg_name = ''v1-small'', hg_body = ?small, hg_header = GoldenHeader_from h1, hg_notes = n1\<rparr>,
         \<lparr>hg_name = ''v2-full'', hg_body = full, hg_header = GoldenHeader_from h2, hg_notes = n2\<rparr>]\<rparr>"
    by (simp add: build_header_goldens_def add_golden_def v1_small_bytes full unwrap_def golden_record_def
        HeaderGoldens_new_def try_bind_def pure_derive_def h1 h2)
  then obtain goldens where "build_header_goldens trimmed = Some goldens" "length (hs_goldens goldens) = 2"
    "\<forall>g\<in>set (hs_goldens goldens). map_ok GoldenHeader_from (?derive (hg_body g)) = Ok (hg_header g)"
    using h1 h2 by fastforce
  then show ?thesis using that by blast
qed

text \<open>
  C40: the reference venue is what its fixtures say. The amount of every encodable body reads
  back from the header it derives, as native value given and, for the second version, as the
  recipient's token wanted; a body fails exactly when its bytes are no body's, and then as an
  invalid body; and a derivation passes the recorded goldens exactly when it derives the same
  headers from their bodies.
\<close>

theorem reference_header_reads_back:
  assumes "u256_bytes trimmed from_be"
  shows "let derive = derive_reference_header trimmed (ib_from_bytes reference_body) in
     (ib_to_bytes reference_body (v1_body wei memo) = Ok bs \<longrightarrow>
        (\<exists>h. derive bs = Ok h \<and> asset (gives h) = Native
          \<and> AssetAmount_value from_be (gives h) = Ok (ucast wei)
          \<and> AssetAmount_value from_be (wants h) = Ok 0 \<and> authorisation h = Eip712))
     \<and> (ib_to_bytes reference_body (v2_body wei memo until recipient urgent) = Ok bs \<longrightarrow>
        (\<exists>h. derive bs = Ok h \<and> AssetAmount_value from_be (gives h) = Ok (ucast wei)
          \<and> asset (wants h) = AErc20 \<lparr>token = recipient\<rparr>
          \<and> AssetAmount_value from_be (wants h) = Ok (ucast wei)))
     \<and> ((\<exists>why. derive bs = Err (InvalidBody why)) \<longleftrightarrow> \<not> is_ok (ib_from_bytes reference_body bs))
     \<and> (\<exists>goldens. build_header_goldens trimmed = Some goldens \<and> length (hs_goldens goldens) = 2
        \<and> (\<forall>f w. golden_check dbg dbg_e GoldenHeader_from (pure_derive f) goldens w = (Ok (), w)
             \<longleftrightarrow> (\<forall>g\<in>set (hs_goldens goldens). f (hg_body g) = derive (hg_body g))))"
proof -
  let ?derive = "derive_reference_header trimmed (ib_from_bytes reference_body)"
  have amount: "decode_uint from_be (encode_uint trimmed v) = Ok v" for v
    by (rule decode_encode_uint [OF assms])
  have zero: "decode_uint from_be [] = Ok 0"
    using u256_bytes.from_be_value [OF assms, of "[]"]
    by (simp add: decode_uint_def be_value_Nil unsigned_eq_0_iff)
  note amounts = AssetAmount_value_def AssetAmount_native_def AssetAmount_erc20_def amount zero
  have errors: "(\<exists>why. ?derive bs = Err (InvalidBody why)) \<longleftrightarrow> \<not> is_ok (ib_from_bytes reference_body bs)"
    by (cases "ib_from_bytes reference_body bs")
      (auto simp: derive_reference_header_def reference_errors Let_def split: prod.splits)
  obtain goldens where g: "build_header_goldens trimmed = Some goldens" "length (hs_goldens goldens) = 2"
    "\<forall>g\<in>set (hs_goldens goldens). map_ok GoldenHeader_from (?derive (hg_body g)) = Ok (hg_header g)"
    by (rule built_goldens)
  have ne: "hs_goldens goldens \<noteq> []" using g(2) by auto
  have same: "map_ok GoldenHeader_from r = map_ok GoldenHeader_from r' \<longleftrightarrow> r = r'"
    for r r' :: "(IntentHeader, VenueError) result"
    by (cases r; cases r') auto
  have pass: "golden_check dbg dbg_e GoldenHeader_from (pure_derive f) goldens w = (Ok (), w)
       \<longleftrightarrow> (\<forall>g\<in>set (hs_goldens goldens). f (hg_body g) = ?derive (hg_body g))" for f w
    unfolding golden_check_pure [OF ne] using g(3) by (metis same)
  have first: "\<exists>h. ?derive bs = Ok h \<and> asset (gives h) = Native
        \<and> AssetAmount_value from_be (gives h) = Ok (ucast wei)
        \<and> AssetAmount_value from_be (wants h) = Ok 0 \<and> authorisation h = Eip712"
    if "ib_to_bytes reference_body (v1_body wei memo) = Ok bs"
    using derive_reference_v1 [OF that, of trimmed] by (simp add: amounts)
  have second: "\<exists>h. ?derive bs = Ok h \<and> AssetAmount_value from_be (gives h) = Ok (ucast wei)
        \<and> asset (wants h) = AErc20 \<lparr>token = recipient\<rparr>
        \<and> AssetAmount_value from_be (wants h) = Ok (ucast wei)"
    if "ib_to_bytes reference_body (v2_body wei memo until recipient urgent) = Ok bs"
    using derive_reference_v2 [OF that, of trimmed] by (simp add: amounts)
  show ?thesis
    unfolding Let_def using first second errors g(1,2) pass by blast
qed

theorem reference_header_reads_back_witness:
  "\<exists>h. derive_reference_header u256_trimmed (ib_from_bytes reference_body)
       [0, 1, 0, 0, 0, 0, 0, 0, 0, 2, 0, 0, 0, 103, 109] = Ok h
     \<and> AssetAmount_value u256_from_be (gives h) = Ok 1"
proof -
  show ?thesis
    using conjunct1 [OF reference_header_reads_back [OF u256.u256_bytes_axioms, unfolded Let_def,
        of 1 "''gm''" "[0, 1, 0, 0, 0, 0, 0, 0, 0, 2, 0, 0, 0, 103, 109]"]]
      v1_small_bytes [unfolded v1_small_def] by auto
qed

end
