(* ===== verification/Fixture_Files.thy ===== *)
theory Fixture_Files imports Fixture_Json Conformance_Properties Sdk_Tests
begin

text \<open>
  The fixture files the kit publishes, \<^verbatim>\<open>videre-test/vectors\<close> and \<^verbatim>\<open>goldens\<close>, as the
  documents they hold, with a hex library that writes lowercase and reads either case. The
  files are the documents of the sets the kit's regeneration tests build.
\<close>

section \<open>Hex\<close>

definition hex_digit :: "nat \<Rightarrow> char" where
  "hex_digit n = ''0123456789abcdef'' ! n"

definition hex_value :: "char \<Rightarrow> nat option" where
  "hex_value c =
     (let n = of_char c :: nat in
      if 48 \<le> n \<and> n \<le> 57 then Some (n - 48)
      else if 97 \<le> n \<and> n \<le> 102 then Some (n - 87)
      else if 65 \<le> n \<and> n \<le> 70 then Some (n - 55) else None)"

definition hex_encode :: "bytes \<Rightarrow> string" where
  "hex_encode bs = concat (map (\<lambda>b. [hex_digit (unat b div 16), hex_digit (unat b mod 16)]) bs)"

fun hex_decode :: hex_decoder where
  "hex_decode [] = Ok []"
| "hex_decode [c] = Err ''Odd number of digits''"
| "hex_decode (c # d # cs) =
     (case (hex_value c, hex_value d) of
        (Some x, Some y) \<Rightarrow> map_ok (\<lambda>bs. of_nat (16 * x + y) # bs) (hex_decode cs)
      | _ \<Rightarrow> Err ''Invalid character'')"

lemma hex_value_digit:
  assumes "n < 16"
  shows "hex_value (hex_digit n) = Some n"
proof -
  have "\<forall>n\<in>{0..<16}. hex_value (hex_digit n) = Some n" by code_simp
  with assms show ?thesis by simp
qed

interpretation hex: hex_lib hex_encode hex_decode
proof
  fix bs
  show "hex_decode (hex_encode bs) = Ok bs"
  proof (induction bs)
    case (Cons b bs)
    have "unat b div 16 < 16" using unat_u8_lt [of b] by simp
    moreover have "of_nat (16 * (unat b div 16) + unat b mod 16) = b"
      by (simp add: mult_div_mod_eq)
    ultimately show ?case
      using Cons by (simp add: hex_encode_def hex_value_digit)
  qed (simp add: hex_encode_def)
qed

section \<open>The files\<close>

definition CODEC_VECTORS_JSON :: Json where
  "CODEC_VECTORS_JSON =
     JObj
      [(''version'', JNum 1),
       (''schema'', JStr ''videre-test/reference-body''),
       (''vectors'', JArr
        [JObj
          [(''name'', JStr ''v1-small''),
           (''bytes'', JStr ''00010000000000000002000000676d''),
           (''expect'', JStr ''round-trip''),
           (''notes'', JStr ''tag 0x00, amount_wei 1 as 8 little-endian bytes, memo as u32 little-endian length then utf-8 bytes'')],
         JObj
          [(''name'', JStr ''v1-zero-and-empty''),
           (''bytes'', JStr ''00000000000000000000000000''),
           (''expect'', JStr ''round-trip''),
           (''notes'', JStr ''zero integer and zero-length string'')],
         JObj
          [(''name'', JStr ''v1-max-amount''),
           (''bytes'', JStr ''00ffffffffffffffff030000006d6178''),
           (''expect'', JStr ''round-trip''),
           (''notes'', JStr ''endianness proof: u64::MAX is eight 0xff bytes'')],
         JObj
          [(''name'', JStr ''v2-full''),
           (''bytes'', JStr ''0140420f00000000000b00000074776f20636f6666656573010068e5cf8b010000140000000102030405060708090a0b0c0d0e0f101112131401''),
           (''expect'', JStr ''round-trip''),
           (''notes'', JStr ''tag 0x01; option present is 0x01 then the payload, vec is u32 little-endian element count then bytes, bool true is 0x01'')],
         JObj
          [(''name'', JStr ''v2-no-expiry''),
           (''bytes'', JStr ''010500000000000000050000006c617465720014000000aaaaaaaaaaaaaaaaaaaaaaaaaaaaaaaaaaaaaaaa00''),
           (''expect'', JStr ''round-trip''),
           (''notes'', JStr ''option absent is a bare 0x00, bool false is 0x00'')],
         JObj
          [(''name'', JStr ''empty-body''),
           (''bytes'', JStr []),
           (''expect'', JStr ''empty''),
           (''notes'', JStr ''no version tag at all'')],
         JObj
          [(''name'', JStr ''unknown-version''),
           (''bytes'', JStr ''09010000000000000002000000676d''),
           (''expect'', JObj [(''unknown-version'', JObj [(''version'', JNum 9)])]),
           (''notes'', JStr ''tag 0x09 names no published version'')],
         JObj
          [(''name'', JStr ''truncated-payload''),
           (''bytes'', JStr ''0140420f00000000000b00000074776f20636f6666656573010068e5cf8b010000140000000102030405060708090a0b0c0d0e0f1011121314''),
           (''expect'', JObj [(''malformed'', JObj [(''version'', JNum 1)])]),
           (''notes'', JStr ''known tag, payload cut one byte short'')],
         JObj
          [(''name'', JStr ''trailing-bytes''),
           (''bytes'', JStr ''00010000000000000002000000676d00''),
           (''expect'', JObj [(''malformed'', JObj [(''version'', JNum 0)])]),
           (''notes'', JStr ''decoding must consume the payload exactly'')]])]"

definition UINT_VECTORS_JSON :: Json where
  "UINT_VECTORS_JSON =
     JObj
      [(''version'', JNum 1),
       (''vectors'', JArr
        [JObj
          [(''name'', JStr ''zero''),
           (''bytes'', JStr []),
           (''expect'', JObj [(''value'', JStr ''0'')]),
           (''notes'', JStr ''zero is the empty list'')],
         JObj
          [(''name'', JStr ''one''),
           (''bytes'', JStr ''01''),
           (''expect'', JObj [(''value'', JStr ''1'')]),
           (''notes'', JStr ''one byte, no padding'')],
         JObj
          [(''name'', JStr ''byte-max''),
           (''bytes'', JStr ''ff''),
           (''expect'', JObj [(''value'', JStr ''255'')]),
           (''notes'', JStr ''0xff alone is 255'')],
         JObj
          [(''name'', JStr ''two-byte-boundary''),
           (''bytes'', JStr ''0100''),
           (''expect'', JObj [(''value'', JStr ''256'')]),
           (''notes'', JStr ''256 is 0x0100: the minimal form keeps an interior zero'')],
         JObj
          [(''name'', JStr ''word-max''),
           (''bytes'', JStr ''ffffffffffffffffffffffffffffffffffffffffffffffffffffffffffffffff''),
           (''expect'', JObj
            [(''value'', JStr ''115792089237316195423570985008687907853269984665640564039457584007913129639935'')]),
           (''notes'', JStr ''the largest EVM word: 32 0xff bytes'')],
         JObj
          [(''name'', JStr ''non-minimal-zero''),
           (''bytes'', JStr ''00''),
           (''expect'', JStr ''reject''),
           (''notes'', JStr ''zero is the empty list, never 0x00'')],
         JObj
          [(''name'', JStr ''non-minimal-one''),
           (''bytes'', JStr ''0001''),
           (''expect'', JStr ''reject''),
           (''notes'', JStr ''same integer as 0x01; a conforming decoder rejects the padding instead of normalising it'')],
         JObj
          [(''name'', JStr ''word-padded-zero''),
           (''bytes'', JStr ''0000000000000000000000000000000000000000000000000000000000000000''),
           (''expect'', JStr ''reject''),
           (''notes'', JStr ''the ABI word form of zero; the canonical form is the empty list'')],
         JObj
          [(''name'', JStr ''word-padded-one''),
           (''bytes'', JStr ''0000000000000000000000000000000000000000000000000000000000000001''),
           (''expect'', JStr ''reject''),
           (''notes'', JStr ''the ABI word form of one; a decoder must not exempt the word width from the minimality rule'')],
         JObj
          [(''name'', JStr ''overflow-33-bytes''),
           (''bytes'', JStr ''010000000000000000000000000000000000000000000000000000000000000000''),
           (''expect'', JStr ''reject''),
           (''notes'', JStr ''33 bytes cannot fit the 32-byte EVM word'')]])]"

definition HEADER_GOLDENS_JSON :: Json where
  "HEADER_GOLDENS_JSON =
     JObj
      [(''version'', JNum 1),
       (''venue'', JStr ''videre-test/reference''),
       (''goldens'', JArr
        [JObj
          [(''name'', JStr ''v1-small''),
           (''body'', JStr ''00010000000000000002000000676d''),
           (''header'', JObj
            [(''gives'', JObj [(''asset'', JStr ''native''), (''amount'', JStr ''01'')]),
             (''wants'', JObj [(''asset'', JStr ''native''), (''amount'', JStr [])]),
             (''settlement'', JObj [(''chain'', JNum 1)]),
             (''authorisation'', JStr ''eip712'')]),
           (''notes'', JStr ''gives chain-1 native token, minimal big-endian amount'')],
         JObj
          [(''name'', JStr ''v2-full''),
           (''body'', JStr ''0140420f00000000000b00000074776f20636f6666656573010068e5cf8b010000140000000102030405060708090a0b0c0d0e0f101112131401''),
           (''header'', JObj
            [(''gives'', JObj [(''asset'', JStr ''native''), (''amount'', JStr ''0f4240'')]),
             (''wants'', JObj
              [(''asset'', JObj
                [(''erc20'', JObj [(''token'', JStr ''0102030405060708090a0b0c0d0e0f1011121314'')])]),
               (''amount'', JStr ''0f4240'')]),
             (''settlement'', JObj [(''chain'', JNum 1)]),
             (''authorisation'', JStr ''eip712'')]),
           (''notes'', JStr ''v2 adds an erc20 want at the recipient token address'')]])]"

section \<open>The files are the built sets\<close>

lemmas hex_eval = hex_encode_def hex_digit_def hex_json_def hex_serialize_def

lemmas reference_eval = reference_body_def derived_body_def IntentBody_to_bytes_def reference_arms_def
  reference_ser_def put_ReferenceV1_def put_ReferenceV2_def put_u64_def put_bool_def layout_eval

text \<open>The repeated bytes of the schema, written out.\<close>

lemma runs:
  "replicate 8 255 = ([255, 255, 255, 255, 255, 255, 255, 255] :: bytes)"
  "replicate 13 0 = ([0, 0, 0, 0, 0, 0, 0, 0, 0, 0, 0, 0, 0] :: bytes)"
  "replicate 20 0xAA = ([0xAA, 0xAA, 0xAA, 0xAA, 0xAA, 0xAA, 0xAA, 0xAA, 0xAA, 0xAA,
     0xAA, 0xAA, 0xAA, 0xAA, 0xAA, 0xAA, 0xAA, 0xAA, 0xAA, 0xAA] :: bytes)"
  "map of_nat [1..<21] = ([1, 2, 3, 4, 5, 6, 7, 8, 9, 10,
     11, 12, 13, 14, 15, 16, 17, 18, 19, 20] :: bytes)"
  by code_simp+

lemma unat_max_u64: "unat (- 1 :: u64) = 18446744073709551615"
  by (simp add: unsigned_minus_1_eq_mask mask_eq_exp_minus_1)

lemma v1_bytes:
  "ib_to_bytes reference_body v1_small = Ok [0, 1, 0, 0, 0, 0, 0, 0, 0, 2, 0, 0, 0, 103, 109]"
  "ib_to_bytes reference_body (v1_body 0 []) = Ok [0, 0, 0, 0, 0, 0, 0, 0, 0, 0, 0, 0, 0]"
  "ib_to_bytes reference_body (v1_body (- 1) ''max'') =
     Ok [0, 255, 255, 255, 255, 255, 255, 255, 255, 3, 0, 0, 0, 109, 97, 120]"
  by (simp_all add: v1_small_def v1_body_def reference_eval unat_max_u64)

definition v2_full_wire :: bytes where
  "v2_full_wire = [1, 64, 66, 15, 0, 0, 0, 0, 0, 11, 0, 0, 0,
     116, 119, 111, 32, 99, 111, 102, 102, 101, 101, 115, 1, 0, 104, 229, 207, 139, 1, 0, 0,
     20, 0, 0, 0, 1, 2, 3, 4, 5, 6, 7, 8, 9, 10, 11, 12, 13, 14, 15, 16, 17, 18, 19, 20, 1]"

lemma v2_body_bytes:
  "ib_to_bytes reference_body v2_full = Ok v2_full_wire"
  "ib_to_bytes reference_body (v2_body 5 ''later'' None (replicate 20 0xAA) False) =
     Ok [1, 5, 0, 0, 0, 0, 0, 0, 0, 5, 0, 0, 0, 108, 97, 116, 101, 114, 0, 20, 0, 0, 0,
         0xAA, 0xAA, 0xAA, 0xAA, 0xAA, 0xAA, 0xAA, 0xAA, 0xAA, 0xAA,
         0xAA, 0xAA, 0xAA, 0xAA, 0xAA, 0xAA, 0xAA, 0xAA, 0xAA, 0xAA, 0]"
  by (simp_all add: v2_full_def v2_full_wire_def v2_body_def runs [simplified] runs reference_eval)

definition codec_entry :: "string \<Rightarrow> bytes \<Rightarrow> Expectation \<Rightarrow> string \<Rightarrow> CodecVector" where
  "codec_entry name bs ex notes =
     \<lparr>cv_name = name, cv_bytes = bs, cv_expect = ex, cv_notes = Some notes\<rparr>"

definition reference_vectors :: CodecVectors where
  "reference_vectors =
     \<lparr>cs_version = FormatVersion, cs_schema = ''videre-test/reference-body'', cs_vectors =
       [codec_entry ''v1-small'' [0, 1, 0, 0, 0, 0, 0, 0, 0, 2, 0, 0, 0, 103, 109] ExRoundTrip
          ''tag 0x00, amount_wei 1 as 8 little-endian bytes, memo as u32 little-endian length then utf-8 bytes'',
        codec_entry ''v1-zero-and-empty'' [0, 0, 0, 0, 0, 0, 0, 0, 0, 0, 0, 0, 0] ExRoundTrip
          ''zero integer and zero-length string'',
        codec_entry ''v1-max-amount'' [0, 255, 255, 255, 255, 255, 255, 255, 255, 3, 0, 0, 0, 109, 97, 120]
          ExRoundTrip ''endianness proof: u64::MAX is eight 0xff bytes'',
        codec_entry ''v2-full'' v2_full_wire ExRoundTrip
          ''tag 0x01; option present is 0x01 then the payload, vec is u32 little-endian element count then bytes, bool true is 0x01'',
        codec_entry ''v2-no-expiry''
          [1, 5, 0, 0, 0, 0, 0, 0, 0, 5, 0, 0, 0, 108, 97, 116, 101, 114, 0, 20, 0, 0, 0,
           0xAA, 0xAA, 0xAA, 0xAA, 0xAA, 0xAA, 0xAA, 0xAA, 0xAA, 0xAA,
           0xAA, 0xAA, 0xAA, 0xAA, 0xAA, 0xAA, 0xAA, 0xAA, 0xAA, 0xAA, 0] ExRoundTrip
          ''option absent is a bare 0x00, bool false is 0x00'',
        codec_entry ''empty-body'' [] ExEmpty ''no version tag at all'',
        codec_entry ''unknown-version'' [9, 1, 0, 0, 0, 0, 0, 0, 0, 2, 0, 0, 0, 103, 109] (ExUnknownVersion 9)
          ''tag 0x09 names no published version'',
        codec_entry ''truncated-payload'' (take (length v2_full_wire - 1) v2_full_wire) (ExMalformed 1)
          ''known tag, payload cut one byte short'',
        codec_entry ''trailing-bytes'' [0, 1, 0, 0, 0, 0, 0, 0, 0, 2, 0, 0, 0, 103, 109, 0] (ExMalformed 0)
          ''decoding must consume the payload exactly'']\<rparr>"

lemma built_codec_vectors: "build_codec_vectors = Some reference_vectors"
  by (simp add: build_codec_vectors_def v1_bytes v2_body_bytes unwrap_def add_round_trip_def add_failure_def
      push_round_trip_def push_failure_def push_vector_def note_last_def CodecVectors_new_def
      reference_vectors_def codec_entry_def)

lemma codec_file: "codec_vectors_json hex_encode reference_vectors = CODEC_VECTORS_JSON"
  by (simp add: reference_vectors_def codec_entry_def codec_vectors_json_def codec_vector_json_def
      notes_json_def CODEC_VECTORS_JSON_def hex_eval version_json_def FormatVersion_serialize_def
      FORMAT_VERSION_def v2_full_wire_def)

text \<open>What the kit's body reads of the published bytes.\<close>

lemma malformed_published:
  "\<not> is_ok (ib_from_bytes reference_body (take (length v2_full_wire - 1) v2_full_wire))"
  "\<not> is_ok (ib_from_bytes reference_body [0, 1, 0, 0, 0, 0, 0, 0, 0, 2, 0, 0, 0, 103, 109, 0])"
  by (simp_all add: v2_full_wire_def reference_body_def derived_body_def reference_arms_def reference_de_def
      get_ReferenceV1_def get_ReferenceV2_def get_u64_def read_eval)

lemma reads_published:
  "ib_from_bytes reference_body [0, 1, 0, 0, 0, 0, 0, 0, 0, 2, 0, 0, 0, 103, 109] = Ok v1_small"
  "ib_from_bytes reference_body [0, 0, 0, 0, 0, 0, 0, 0, 0, 0, 0, 0, 0] = Ok (v1_body 0 [])"
  "ib_from_bytes reference_body [0, 255, 255, 255, 255, 255, 255, 255, 255, 3, 0, 0, 0, 109, 97, 120] =
     Ok (v1_body (- 1) ''max'')"
  "ib_from_bytes reference_body v2_full_wire = Ok v2_full"
  "ib_from_bytes reference_body [1, 5, 0, 0, 0, 0, 0, 0, 0, 5, 0, 0, 0, 108, 97, 116, 101, 114, 0, 20, 0, 0, 0,
           0xAA, 0xAA, 0xAA, 0xAA, 0xAA, 0xAA, 0xAA, 0xAA, 0xAA, 0xAA,
           0xAA, 0xAA, 0xAA, 0xAA, 0xAA, 0xAA, 0xAA, 0xAA, 0xAA, 0xAA, 0] =
     Ok (v2_body 5 ''later'' None (replicate 20 0xAA) False)"
  using reference_v1_bytes [OF v1_bytes(1) [unfolded v1_small_def]] reference_v1_bytes [OF v1_bytes(2)]
    reference_v1_bytes [OF v1_bytes(3)] reference_v2_bytes [OF v2_body_bytes(1) [unfolded v2_full_def]]
    reference_v2_bytes [OF v2_body_bytes(2)]
  by (simp_all only: v1_small_def v2_full_def)

lemma reference_vectors_hold: "codec_check hex reference_body reference_vectors = Ok ()"
proof -
  have "failing_vectors reference_body 2 reference_vectors = []"
    by (simp add: failing_vectors_def reference_vectors_def codec_entry_def vector_holds_def
        reads_published malformed_published malformed_published [unfolded One_nat_def])
      (simp add: v2_full_wire_def)
  then show ?thesis using reference.codec_check by blast
qed

text \<open>A number given by its decimal digits shows as them.\<close>

definition from_digits :: "nat list \<Rightarrow> nat" where
  "from_digits ds = foldl (\<lambda>n d. 10 * n + d) 0 ds"

lemma show_nat_from_digits:
  assumes "\<forall>d\<in>set ds. d < 10" and "0 < hd ds" and "ds \<noteq> []"
  shows "show_nat (from_digits ds) = map (\<lambda>d. char_of (48 + d)) ds \<and> 0 < from_digits ds"
  using assms
proof (induction ds rule: rev_induct)
  case (snoc d ds)
  show ?case
  proof (cases "ds = []")
    case True
    with snoc show ?thesis by (simp add: from_digits_def show_nat.simps)
  next
    case False
    let ?n = "from_digits ds"
    have n: "show_nat ?n = map (\<lambda>d. char_of (48 + d)) ds" "0 < ?n"
      using snoc False by auto
    have "d < 10" using snoc.prems by simp
    then have "show_nat (10 * ?n + d) = show_nat ?n @ [char_of (48 + d)]"
      using n(2) by (subst show_nat.simps) auto
    with n show ?thesis by (simp add: from_digits_def)
  qed
qed simp

text \<open>The decimal text of a word.\<close>

definition decimal :: "u256 \<Rightarrow> string" where
  "decimal v = show_nat (unat v)"

lemma decimals:
  "decimal 0 = ''0''" "decimal 1 = ''1''" "decimal 255 = ''255''" "decimal 256 = ''256''"
  "decimal (- 1) = ''115792089237316195423570985008687907853269984665640564039457584007913129639935''"
proof -
  have "unat (- 1 :: u256) = 115792089237316195423570985008687907853269984665640564039457584007913129639935"
    by (simp add: unsigned_minus_1_eq_mask mask_eq_exp_minus_1)
  moreover have
    "show_nat 0 = ''0''" "show_nat 1 = ''1''" "show_nat 255 = ''255''" "show_nat 256 = ''256''"
    by code_simp+
  moreover have
    "show_nat 115792089237316195423570985008687907853269984665640564039457584007913129639935 =
       ''115792089237316195423570985008687907853269984665640564039457584007913129639935''"
    using show_nat_from_digits [of "[1, 1, 5, 7, 9, 2, 0, 8, 9, 2, 3, 7, 3, 1, 6, 1, 9, 5, 4, 2, 3, 5, 7, 0, 9, 8, 5, 0, 0, 8,
      6, 8, 7, 9, 0, 7, 8, 5, 3, 2, 6, 9, 9, 8, 4, 6, 6, 5, 6, 4, 0, 5, 6, 4, 0, 3, 9, 4, 5, 7,
      5, 8, 4, 0, 0, 7, 9, 1, 3, 1, 2, 9, 6, 3, 9, 9, 3, 5]"]
    by (simp add: from_digits_def char_of_def bit_0)
  ultimately show
    "decimal 0 = ''0''" "decimal 1 = ''1''" "decimal 255 = ''255''" "decimal 256 = ''256''"
    "decimal (- 1) = ''115792089237316195423570985008687907853269984665640564039457584007913129639935''"
    by (simp_all add: decimal_def)
qed

lemma small_words:
  assumes "u256_bytes trimmed from_be"
  shows "trimmed 0 = []" "trimmed 1 = [1]" "trimmed 255 = [255]" "trimmed 256 = [1, 0]"
    "trimmed 1000000 = [0x0f, 0x42, 0x40]"
  by (rule trimmed_is [OF assms]; simp add: minimal_def be_value_Cons be_value_Nil)+

lemma long_runs:
  "concat (replicate 32 ''ff'') = ''ffffffffffffffffffffffffffffffffffffffffffffffffffffffffffffffff''"
  "concat (replicate 32 ''00'') = ''0000000000000000000000000000000000000000000000000000000000000000''"
  "concat (replicate 31 ''00'') = ''00000000000000000000000000000000000000000000000000000000000000''"
  by code_simp+

lemma uint_file:
  assumes "u256_bytes trimmed from_be"
  shows "uint_vectors_json hex_encode (build_uint_vectors trimmed decimal) = UINT_VECTORS_JSON"
  by (simp add: build_uint_vectors_def uint_value_def uint_entry_def encode_uint_def small_words [OF assms]
      largest_word [OF assms] decimals)
   (simp add: uint_vectors_json_def uint_vector_json_def notes_json_def UINT_VECTORS_JSON_def hex_eval
      long_runs version_json_def FormatVersion_serialize_def FORMAT_VERSION_def)

lemma derive_published:
  assumes "u256_bytes trimmed from_be"
  shows
    "derive_reference_header trimmed (ib_from_bytes reference_body) [0, 1, 0, 0, 0, 0, 0, 0, 0, 2, 0, 0, 0, 103, 109] =
       Ok \<lparr>gives = \<lparr>asset = Native, amount = [1]\<rparr>, wants = \<lparr>asset = Native, amount = []\<rparr>,
           settlement = \<lparr>chain = 1\<rparr>, authorisation = Eip712\<rparr>"
    "derive_reference_header trimmed (ib_from_bytes reference_body) v2_full_wire =
       Ok \<lparr>gives = \<lparr>asset = Native, amount = [0x0f, 0x42, 0x40]\<rparr>,
           wants = \<lparr>asset = AErc20 \<lparr>token = map of_nat [1..<21]\<rparr>, amount = [0x0f, 0x42, 0x40]\<rparr>,
           settlement = \<lparr>chain = 1\<rparr>, authorisation = Eip712\<rparr>"
  using derive_reference_v1 [OF v1_bytes(1) [unfolded v1_small_def], of trimmed]
    derive_reference_v2 [OF v2_body_bytes(1) [unfolded v2_full_def], of trimmed]
  by (simp_all add: AssetAmount_native_def AssetAmount_erc20_def encode_uint_def small_words [OF assms])

definition golden_of :: "bytes \<Rightarrow> GoldenAssetAmount \<Rightarrow> GoldenHeader" where
  "golden_of gives_amount wanted =
     \<lparr>gh_gives = \<lparr>ga_asset = GNative, ga_amount = gives_amount\<rparr>, gh_wants = wanted,
      gh_settlement = \<lparr>gs_chain = 1\<rparr>, gh_authorisation = GEip712\<rparr>"

definition reference_goldens :: HeaderGoldens where
  "reference_goldens =
     \<lparr>hs_version = FormatVersion, hs_venue = ''videre-test/reference'', hs_goldens =
       [\<lparr>hg_name = ''v1-small'', hg_body = [0, 1, 0, 0, 0, 0, 0, 0, 0, 2, 0, 0, 0, 103, 109],
         hg_header = golden_of [1] \<lparr>ga_asset = GNative, ga_amount = []\<rparr>,
         hg_notes = Some ''gives chain-1 native token, minimal big-endian amount''\<rparr>,
        \<lparr>hg_name = ''v2-full'', hg_body = v2_full_wire,
         hg_header = golden_of [0x0f, 0x42, 0x40]
           \<lparr>ga_asset = GErc20 (map of_nat [1..<21]), ga_amount = [0x0f, 0x42, 0x40]\<rparr>,
         hg_notes = Some ''v2 adds an erc20 want at the recipient token address''\<rparr>]\<rparr>"

lemma built_header_goldens:
  assumes "u256_bytes trimmed from_be"
  shows "build_header_goldens trimmed = Some reference_goldens"
  by (simp add: build_header_goldens_def add_golden_def v1_bytes v2_body_bytes unwrap_def golden_record_def
      pure_derive_def derive_published [OF assms] HeaderGoldens_new_def GoldenHeader_from_def
      GoldenAssetAmount_from_def GoldenSettlement_from_def reference_goldens_def golden_of_def)

lemma goldens_file: "header_goldens_json hex_encode reference_goldens = HEADER_GOLDENS_JSON"
  by (simp add: reference_goldens_def golden_of_def header_goldens_json_def header_golden_json_def
      golden_header_json_def golden_amount_json_def golden_settlement_json_def notes_json_def
      HEADER_GOLDENS_JSON_def hex_eval runs [simplified] runs v2_full_wire_def version_json_def
      FormatVersion_serialize_def FORMAT_VERSION_def)

end
