(* ===== verification/Fixture_Properties.thy ===== *)
theory Fixture_Properties imports Fixture_Files
begin

text \<open>
  What the fixture files guarantee to a reader in any language: a published document reads
  back as the set it was written from, nothing of another format version is read, and the
  committed files are the documents of the sets the kit builds, which the platform's own
  codecs pass.
\<close>

section \<open>Documents\<close>

text \<open>A document with its format version replaced.\<close>

definition with_version :: "nat \<Rightarrow> Json \<Rightarrow> Json" where
  "with_version n j =
     (case j of
        JObj kvs \<Rightarrow> JObj (map (\<lambda>(k, v). if k = ''version'' then (k, JNum n) else (k, v)) kvs)
      | _ \<Rightarrow> j)"

definition unknown_version :: "u32 \<Rightarrow> string" where
  "unknown_version n =
     ''unknown fixture format version '' @ show_nat (unat n) @ ''; this reader speaks 1''"

lemma read_other_version:
  assumes "n \<noteq> 1"
  shows "read_version (JNum (unat n)) = Err (unknown_version n)"
proof -
  have "show_nat 1 = ''1''" by code_simp
  with assms show ?thesis
    by (simp add: read_version_def read_word_unat FormatVersion_deserialize_def FORMAT_VERSION_def
        unknown_version_def)
qed

lemma non_empty_Ok: "read_non_empty f j \<noteq> Ok []"
  by (auto simp: read_non_empty_def non_empty_def and_then_eq_Ok split: if_splits)

lemma documents_read_back:
  assumes "hex_lib enc dec"
  shows "cs_vectors cs \<noteq> [] \<Longrightarrow> read_codec_vectors dec (codec_vectors_json enc cs) = Ok cs"
    and "us_vectors us \<noteq> [] \<Longrightarrow> read_uint_vectors dec (uint_vectors_json enc us) = Ok us"
    and "hs_goldens hs \<noteq> [] \<Longrightarrow> read_header_goldens dec (header_goldens_json enc hs) = Ok hs"
  by (simp_all add: read_codec_vectors_def codec_vectors_json_def read_uint_vectors_def uint_vectors_json_def
      read_header_goldens_def header_goldens_json_def json_eval
      json_form.non_empty_map [OF hex_lib.codec_vector_form [OF assms]]
      json_form.non_empty_map [OF hex_lib.uint_vector_form [OF assms]]
      json_form.non_empty_map [OF hex_lib.header_golden_form [OF assms]])

lemma other_versions_fail:
  assumes "n \<noteq> 1"
  shows "read_codec_vectors dec (with_version (unat n) (codec_vectors_json enc cs)) = Err (unknown_version n)"
    and "read_uint_vectors dec (with_version (unat n) (uint_vectors_json enc us)) = Err (unknown_version n)"
    and "read_header_goldens dec (with_version (unat n) (header_goldens_json enc hs)) = Err (unknown_version n)"
  by (simp_all add: read_codec_vectors_def codec_vectors_json_def read_uint_vectors_def uint_vectors_json_def
      read_header_goldens_def header_goldens_json_def with_version_def read_struct_def field_def
      read_other_version [OF assms])

lemma empty_sets_fail:
  assumes "hex_lib enc dec"
  shows "cs_vectors cs = [] \<Longrightarrow> read_codec_vectors dec (codec_vectors_json enc cs) =
      Err ''a published fixture set is never empty''"
    and "us_vectors us = [] \<Longrightarrow> read_uint_vectors dec (uint_vectors_json enc us) =
      Err ''a published fixture set is never empty''"
    and "hs_goldens hs = [] \<Longrightarrow> read_header_goldens dec (header_goldens_json enc hs) =
      Err ''a published fixture set is never empty''"
  by (simp_all add: read_codec_vectors_def codec_vectors_json_def read_uint_vectors_def uint_vectors_json_def
      read_header_goldens_def header_goldens_json_def json_eval
      json_form.non_empty_map [OF hex_lib.codec_vector_form [OF assms], of "[]", simplified]
      json_form.non_empty_map [OF hex_lib.uint_vector_form [OF assms], of "[]", simplified]
      json_form.non_empty_map [OF hex_lib.header_golden_form [OF assms], of "[]", simplified])

lemma read_sets_are_not_empty:
  shows "read_codec_vectors dec j = Ok cs \<Longrightarrow> cs_vectors cs \<noteq> []"
    and "read_uint_vectors dec j = Ok us \<Longrightarrow> us_vectors us \<noteq> []"
    and "read_header_goldens dec j = Ok hs \<Longrightarrow> hs_goldens hs \<noteq> []"
  by (auto simp: read_codec_vectors_def read_uint_vectors_def read_header_goldens_def and_then_eq_Ok
      map_ok_eq_Ok field_def non_empty_Ok split: option.splits)

text \<open>
  C19: a fixture document reads back as the set it was written from, whichever of the three
  kinds it is and whatever its names, bytes, expectations, headers and notes, as long as the
  set is not empty; an empty set is never read, from any document; and a document of any other
  format version is refused with that version named.
\<close>

theorem fixture_documents_round_trip:
  assumes "hex_lib enc dec"
  shows "(cs_vectors cs \<noteq> [] \<longleftrightarrow> read_codec_vectors dec (codec_vectors_json enc cs) = Ok cs)
     \<and> (us_vectors us \<noteq> [] \<longleftrightarrow> read_uint_vectors dec (uint_vectors_json enc us) = Ok us)
     \<and> (hs_goldens hs \<noteq> [] \<longleftrightarrow> read_header_goldens dec (header_goldens_json enc hs) = Ok hs)
     \<and> (read_codec_vectors dec j = Ok cs' \<longrightarrow> cs_vectors cs' \<noteq> [])
     \<and> (read_uint_vectors dec j = Ok us' \<longrightarrow> us_vectors us' \<noteq> [])
     \<and> (read_header_goldens dec j = Ok hs' \<longrightarrow> hs_goldens hs' \<noteq> [])
     \<and> (n \<noteq> 1 \<longrightarrow>
          read_codec_vectors dec (with_version (unat n) (codec_vectors_json enc cs)) = Err (unknown_version n)
          \<and> read_uint_vectors dec (with_version (unat n) (uint_vectors_json enc us)) = Err (unknown_version n)
          \<and> read_header_goldens dec (with_version (unat n) (header_goldens_json enc hs))
              = Err (unknown_version n))"
  by (auto simp: documents_read_back [OF assms] other_versions_fail dest: read_sets_are_not_empty)

theorem fixture_documents_round_trip_witness:
  "read_codec_vectors hex_decode CODEC_VECTORS_JSON = Ok reference_vectors
   \<and> read_codec_vectors hex_decode (with_version 2 CODEC_VECTORS_JSON) = Err (unknown_version 2)"
proof -
  have "cs_vectors reference_vectors \<noteq> []" by (simp add: reference_vectors_def)
  then show ?thesis
    using fixture_documents_round_trip [OF hex.hex_lib_axioms, of reference_vectors
        "build_uint_vectors u256_trimmed decimal" "HeaderGoldens_new ''acme''" JNull reference_vectors
        "build_uint_vectors u256_trimmed decimal" "HeaderGoldens_new ''acme''" 2]
    by (simp add: codec_file)
qed

section \<open>The committed files\<close>

lemma read_files:
  shows "read_codec_vectors hex_decode CODEC_VECTORS_JSON = Ok reference_vectors"
    and "u256_bytes trimmed from_be \<Longrightarrow>
      read_uint_vectors hex_decode UINT_VECTORS_JSON = Ok (build_uint_vectors trimmed decimal)"
    and "read_header_goldens hex_decode HEADER_GOLDENS_JSON = Ok reference_goldens"
proof -
  note read = documents_read_back [OF hex.hex_lib_axioms]
  have "cs_vectors reference_vectors \<noteq> []" "hs_goldens reference_goldens \<noteq> []"
    by (simp_all add: reference_vectors_def reference_goldens_def)
  then show "read_codec_vectors hex_decode CODEC_VECTORS_JSON = Ok reference_vectors"
      "read_header_goldens hex_decode HEADER_GOLDENS_JSON = Ok reference_goldens"
    using read(1) [of reference_vectors] read(3) [of reference_goldens]
    by (simp_all add: codec_file goldens_file)
  have "us_vectors (build_uint_vectors trimmed decimal) \<noteq> []" by (simp add: build_uint_vectors_def)
  then show "u256_bytes trimmed from_be \<Longrightarrow>
      read_uint_vectors hex_decode UINT_VECTORS_JSON = Ok (build_uint_vectors trimmed decimal)"
    using read(2) [of "build_uint_vectors trimmed decimal"] by (simp add: uint_file)
qed

lemma reference_goldens_hold:
  assumes "u256_bytes trimmed from_be"
  shows "golden_check dbg dbg_e GoldenHeader_from
     (pure_derive (derive_reference_header trimmed (ib_from_bytes reference_body))) reference_goldens w
     = (Ok (), w)"
proof -
  have "hs_goldens reference_goldens \<noteq> []" by (simp add: reference_goldens_def)
  then show ?thesis
    by (simp add: golden_check_pure reference_goldens_def derive_published [OF assms]
        GoldenHeader_from_def GoldenAssetAmount_from_def GoldenSettlement_from_def golden_of_def)
qed

text \<open>
  C20: the committed files are what the kit builds, and they hold. Each is the document of the
  set its regeneration test rebuilds, for every lawful 256-bit integer; read back, the codec
  vectors pass on the reference body, the uint vectors pass on the SDK's decoder and fail on
  exactly the four padded encodings for a decoder that tolerates padding, and the goldens
  pass on the reference derivation.
\<close>

theorem published_files_are_the_built_sets:
  assumes "u256_bytes trimmed from_be"
  shows "map_option (codec_vectors_json hex_encode) build_codec_vectors = Some CODEC_VECTORS_JSON
     \<and> uint_vectors_json hex_encode (build_uint_vectors trimmed decimal) = UINT_VECTORS_JSON
     \<and> map_option (header_goldens_json hex_encode) (build_header_goldens trimmed) = Some HEADER_GOLDENS_JSON
     \<and> (\<exists>s. read_codec_vectors hex_decode CODEC_VECTORS_JSON = Ok s
          \<and> codec_check hex_encode reference_body s = Ok ())
     \<and> (\<exists>s. read_uint_vectors hex_decode UINT_VECTORS_JSON = Ok s
          \<and> uint_check decimal show_e (decode_uint from_be) s = Ok ()
          \<and> (\<exists>r. uint_check decimal (\<lambda>e. e) (tolerant from_be) s = Err r
               \<and> map vi_vector (violations r) =
                   [''non-minimal-zero'', ''non-minimal-one'', ''word-padded-zero'', ''word-padded-one'']))
     \<and> (\<exists>s. read_header_goldens hex_decode HEADER_GOLDENS_JSON = Ok s
          \<and> golden_check dbg dbg_e GoldenHeader_from
              (pure_derive (derive_reference_header trimmed (ib_from_bytes reference_body))) s w = (Ok (), w))"
  using read_files(1,3) read_files(2) [OF assms] reference_vectors_hold [of hex_encode]
    reference_goldens_hold [OF assms, of dbg dbg_e w]
    uint_vectors_refuse_padding [OF assms, of "decode_uint from_be" decimal decimal show_e]
  by (auto simp: built_codec_vectors codec_file uint_file [OF assms] built_header_goldens [OF assms]
      goldens_file)

theorem published_files_are_the_built_sets_witness:
  "uint_vectors_json hex_encode (build_uint_vectors u256_trimmed decimal) = UINT_VECTORS_JSON
   \<and> map_option (header_goldens_json hex_encode) (build_header_goldens u256_trimmed) = Some HEADER_GOLDENS_JSON"
  using published_files_are_the_built_sets [OF u256.u256_bytes_axioms, of "\<lambda>_. []" "\<lambda>_. []" "\<lambda>_. []" "()"]
  by simp

end
