(* ===== verification/Fixture_Tests.thy ===== *)
theory Fixture_Tests imports Fixture_Properties Kit_Tests
begin

text \<open>
  The kit's tests of its JSON form and of the committed files: those of \<^verbatim>\<open>codec.rs\<close>,
  \<^verbatim>\<open>uint.rs\<close>, \<^verbatim>\<open>header.rs\<close> and \<^verbatim>\<open>reference.rs\<close>, and the acceptance tests of
  \<^verbatim>\<open>videre-test/tests/conformance.rs\<close>. What a test looks for in the text is looked for in
  the document. Not replayed: what the JSON text or the file system decides, and the test that
  needs the chain mock of the runtime's kit.
\<close>

section \<open>Looking into a document\<close>

text \<open>\<open>has_field\<close> finds a field with its value, \<open>spells\<close> a string or key, at any depth.\<close>

fun has_field :: "string \<Rightarrow> Json \<Rightarrow> Json \<Rightarrow> bool" where
  "has_field k v (JArr js) = list_ex (\<lambda>j. has_field k v j) js"
| "has_field k v (JObj kvs) = list_ex (\<lambda>kj. kj = (k, v) \<or> has_field k v (snd kj)) kvs"
| "has_field k v _ = False"

fun spells :: "string \<Rightarrow> Json \<Rightarrow> bool" where
  "spells s (JStr t) = (s = t)"
| "spells s (JArr js) = list_ex (\<lambda>j. spells s j) js"
| "spells s (JObj kvs) = list_ex (\<lambda>kj. fst kj = s \<or> spells s (snd kj)) kvs"
| "spells s _ = False"

fun mentions_null :: "Json \<Rightarrow> bool" where
  "mentions_null JNull = True"
| "mentions_null (JArr js) = list_ex (\<lambda>j. mentions_null j) js"
| "mentions_null (JObj kvs) = list_ex (\<lambda>kj. mentions_null (snd kj)) kvs"
| "mentions_null _ = False"

definition refuses :: "string \<Rightarrow> ('a, string) result \<Rightarrow> bool" where
  "refuses part r = (case r of Ok _ \<Rightarrow> False | Err why \<Rightarrow> str_contains part why)"

definition without_version :: "Json \<Rightarrow> Json" where
  "without_version j = (case j of JObj kvs \<Rightarrow> JObj (filter (\<lambda>(k, _). k \<noteq> ''version'') kvs) | _ \<Rightarrow> j)"

section \<open>The tests\<close>

text \<open>
  A test takes the conversions of the 256-bit integer and the two \<^verbatim>\<open>Debug\<close> renderings a
  golden check quotes.
\<close>

type_synonym fixture_test =
  "(u256 \<Rightarrow> bytes) \<Rightarrow> (bytes \<Rightarrow> u256) \<Rightarrow> (GoldenHeader \<Rightarrow> string) \<Rightarrow> (VenueError \<Rightarrow> string) \<Rightarrow> bool"

definition codec_json_form_is_stable_and_round_trips :: fixture_test where
  "codec_json_form_is_stable_and_round_trips trimmed from_be dbg dbg_e = unwrapped test_vectors (\<lambda>s.
     let s = s\<lparr>cs_vectors := (cs_vectors s)[0 := (cs_vectors s ! 0)\<lparr>cv_notes := Some ''first published body''\<rparr>]\<rparr>;
         j = codec_vectors_json hex_encode s
     in read_codec_vectors hex_decode j = Ok s \<and> has_field ''version'' (JNum 1) j
        \<and> spells ''round-trip'' j \<and> spells ''unknown-version'' j
        \<and> has_field ''notes'' (JStr ''first published body'') j \<and> \<not> mentions_null j)"

definition codec_unknown_format_version_fails_closed :: fixture_test where
  "codec_unknown_format_version_fails_closed trimmed from_be dbg dbg_e = unwrapped test_vectors (\<lambda>s.
     refuses ''unknown fixture format version 2''
       (read_codec_vectors hex_decode (with_version 2 (codec_vectors_json hex_encode s))))"

definition missing_format_version_fails :: fixture_test where
  "missing_format_version_fails trimmed from_be dbg dbg_e = unwrapped test_vectors (\<lambda>s.
     is_err (read_codec_vectors hex_decode (without_version (codec_vectors_json hex_encode s))))"

definition empty_codec_set_fails_to_parse :: fixture_test where
  "empty_codec_set_fails_to_parse trimmed from_be dbg dbg_e =
     refuses ''never empty''
       (read_codec_vectors hex_decode (codec_vectors_json hex_encode (CodecVectors_new ''test/body'')))"

definition published_uint_vectors_match_regeneration :: fixture_test where
  "published_uint_vectors_match_regeneration trimmed from_be dbg dbg_e =
     (uint_vectors_json hex_encode (build_uint_vectors trimmed decimal) = UINT_VECTORS_JSON)"

definition shipped_decode_conforms :: fixture_test where
  "shipped_decode_conforms trimmed from_be dbg dbg_e =
     expected (read_uint_vectors hex_decode UINT_VECTORS_JSON) (\<lambda>s.
       \<not> panics (uint_assert_conforms decimal (\<lambda>_. []) (decode_uint from_be) s))"

definition tolerant_decode_fails_exactly_the_non_minimal_vectors :: fixture_test where
  "tolerant_decode_fails_exactly_the_non_minimal_vectors trimmed from_be dbg dbg_e =
     expected (read_uint_vectors hex_decode UINT_VECTORS_JSON) (\<lambda>s.
       fails (uint_check decimal (\<lambda>e. e) (tolerant from_be) s) (\<lambda>vs.
         map vi_vector vs = [''non-minimal-zero'', ''non-minimal-one'', ''word-padded-zero'', ''word-padded-one'']
         \<and> list_all (\<lambda>v. str_contains ''expected a rejection'' (vi_detail v)) vs))"

definition uint_json_form_is_stable_and_round_trips :: fixture_test where
  "uint_json_form_is_stable_and_round_trips trimmed from_be dbg dbg_e =
     (let s = build_uint_vectors trimmed decimal; j = uint_vectors_json hex_encode s
      in read_uint_vectors hex_decode j = Ok s \<and> has_field ''version'' (JNum 1) j
         \<and> has_field ''value'' (JStr ''256'') j \<and> spells ''reject'' j \<and> has_field ''bytes'' (JStr ''0100'') j)"

definition uint_unknown_format_version_fails_closed :: fixture_test where
  "uint_unknown_format_version_fails_closed trimmed from_be dbg dbg_e =
     is_err (read_uint_vectors hex_decode
       (with_version 2 (uint_vectors_json hex_encode (build_uint_vectors trimmed decimal))))"

definition empty_uint_set_fails_to_parse :: fixture_test where
  "empty_uint_set_fails_to_parse trimmed from_be dbg dbg_e =
     refuses ''never empty'' (read_uint_vectors hex_decode
       (uint_vectors_json hex_encode \<lparr>us_version = FormatVersion, us_vectors = []\<rparr>))"

definition golden_mirror_covers_every_wire_case_and_round_trips_as_json :: fixture_test where
  "golden_mirror_covers_every_wire_case_and_round_trips_as_json trimmed from_be dbg dbg_e =
     (let goldens = \<lparr>hs_version = FormatVersion, hs_venue = ''acme'', hs_goldens =
            [\<lparr>hg_name = ''kitchen-sink'', hg_body = [0], hg_header = GoldenHeader_from wire_header,
              hg_notes = None\<rparr>]\<rparr>;
          j = header_goldens_json hex_encode goldens
      in read_header_goldens hex_decode j = Ok goldens \<and> has_field ''version'' (JNum 1) j
         \<and> spells ''native'' j \<and> spells ''erc20'' j \<and> spells ''token'' j \<and> spells ''chain'' j
         \<and> spells ''eip1271'' j)"

definition golden_unknown_format_version_fails_closed :: fixture_test where
  "golden_unknown_format_version_fails_closed trimmed from_be dbg dbg_e =
     expected (record_golden ''a'' [1] (HeaderGoldens_new ''acme'')) (\<lambda>s.
       refuses ''unknown fixture format version 7''
         (read_header_goldens hex_decode (with_version 7 (header_goldens_json hex_encode s))))"

definition empty_golden_set_fails_to_parse :: fixture_test where
  "empty_golden_set_fails_to_parse trimmed from_be dbg dbg_e =
     refuses ''never empty''
       (read_header_goldens hex_decode (header_goldens_json hex_encode (HeaderGoldens_new ''acme'')))"

definition published_codec_vectors_match_regeneration :: fixture_test where
  "published_codec_vectors_match_regeneration trimmed from_be dbg dbg_e =
     unwrapped build_codec_vectors (\<lambda>s. codec_vectors_json hex_encode s = CODEC_VECTORS_JSON)"

definition published_header_goldens_match_regeneration :: fixture_test where
  "published_header_goldens_match_regeneration trimmed from_be dbg dbg_e =
     unwrapped (build_header_goldens trimmed) (\<lambda>s. header_goldens_json hex_encode s = HEADER_GOLDENS_JSON)"

section \<open>The acceptance tests of the kit\<close>

abbreviation reference_derive ::
  "(u256 \<Rightarrow> bytes) \<Rightarrow> bytes \<Rightarrow> (IntentHeader, VenueError) result" where
  "reference_derive trimmed \<equiv> derive_reference_header trimmed (ib_from_bytes reference_body)"

definition adapter_codec_conforms_to_the_published_vectors :: fixture_test where
  "adapter_codec_conforms_to_the_published_vectors trimmed from_be dbg dbg_e =
     expected (read_codec_vectors hex_decode CODEC_VECTORS_JSON) (\<lambda>s.
       \<not> panics (codec_assert_conforms hex_encode reference_body s))"

definition adapter_derive_header_conforms_to_the_published_goldens :: fixture_test where
  "adapter_derive_header_conforms_to_the_published_goldens trimmed from_be dbg dbg_e =
     expected (read_header_goldens hex_decode HEADER_GOLDENS_JSON) (\<lambda>s.
       \<not> panics (fst (golden_assert_conforms dbg dbg_e GoldenHeader_from
           (pure_derive (reference_derive trimmed)) s ())))"

definition little_endian_derive :: "(u256 \<Rightarrow> bytes) \<Rightarrow> bytes \<Rightarrow> (IntentHeader, VenueError) result" where
  "little_endian_derive trimmed body =
     map_ok (\<lambda>h. h\<lparr>gives := (gives h)\<lparr>amount := rev (amount (gives h))\<rparr>\<rparr>) (reference_derive trimmed body)"

definition divergent_derivation_is_caught_by_the_published_goldens :: fixture_test where
  "divergent_derivation_is_caught_by_the_published_goldens trimmed from_be dbg dbg_e =
     expected (read_header_goldens hex_decode HEADER_GOLDENS_JSON) (\<lambda>s.
       fails (fst (golden_check dbg dbg_e GoldenHeader_from (pure_derive (little_endian_derive trimmed)) s ()))
         (\<lambda>vs. vs \<noteq> [] \<and> str_contains ''diverges'' (vi_detail (hd vs))))"

definition a_tolerant_uint_decoder_is_caught_by_the_published_vectors :: fixture_test where
  "a_tolerant_uint_decoder_is_caught_by_the_published_vectors trimmed from_be dbg dbg_e =
     expected (read_uint_vectors hex_decode UINT_VECTORS_JSON) (\<lambda>s.
       fails (uint_check decimal (\<lambda>e. e) (tolerant from_be) s) (\<lambda>vs.
         map vi_vector vs =
           map uv_name (filter (\<lambda>v. uv_expect v = UxReject \<and> length (uv_bytes v) \<le> 32) (us_vectors s))))"

definition published_files_document_the_wire_format_in_hex :: fixture_test where
  "published_files_document_the_wire_format_in_hex trimmed from_be dbg dbg_e =
     expected (read_codec_vectors hex_decode CODEC_VECTORS_JSON) (\<lambda>s.
     list_ex (\<lambda>v. cv_notes v \<noteq> None) (cs_vectors s)
     \<and> expected (read_header_goldens hex_decode HEADER_GOLDENS_JSON) (\<lambda>goldens.
         case hs_goldens goldens of
           [] \<Rightarrow> False
         | golden # _ \<Rightarrow>
             list_ex (\<lambda>v. cv_bytes v = hg_body golden) (cs_vectors s)
             \<and> expected (reference_derive trimmed (hg_body golden)) (\<lambda>derived.
                 asset (gives derived) = Native \<and> authorisation derived = Eip712)))"

definition fixture_tests :: "fixture_test list" where
  "fixture_tests =
     [codec_json_form_is_stable_and_round_trips, codec_unknown_format_version_fails_closed,
      missing_format_version_fails, empty_codec_set_fails_to_parse,
      published_uint_vectors_match_regeneration, shipped_decode_conforms,
      tolerant_decode_fails_exactly_the_non_minimal_vectors, uint_json_form_is_stable_and_round_trips,
      uint_unknown_format_version_fails_closed, empty_uint_set_fails_to_parse,
      golden_mirror_covers_every_wire_case_and_round_trips_as_json,
      golden_unknown_format_version_fails_closed, empty_golden_set_fails_to_parse,
      published_codec_vectors_match_regeneration, published_header_goldens_match_regeneration,
      adapter_codec_conforms_to_the_published_vectors,
      adapter_derive_header_conforms_to_the_published_goldens,
      divergent_derivation_is_caught_by_the_published_goldens,
      a_tolerant_uint_decoder_is_caught_by_the_published_vectors,
      published_files_document_the_wire_format_in_hex]"

section \<open>They pass\<close>

lemmas look = unwrapped_def refuses_def is_err_def expected_def fails_def panics_def

lemmas spelled = codec_vectors_json_def codec_vector_json_def header_goldens_json_def header_golden_json_def
  golden_header_json_def golden_amount_json_def golden_settlement_json_def notes_json_def version_json_def
  FormatVersion_serialize_def FORMAT_VERSION_def hex_json_def

lemmas documents = documents_read_back [OF hex.hex_lib_axioms] empty_sets_fail [OF hex.hex_lib_axioms]

lemma some_digits: "show_nat 2 = ''2''" "show_nat 7 = ''7''" by code_simp+

lemma refused_versions:
  "refuses ''unknown fixture format version 2'' (Err (unknown_version 2))"
  "refuses ''unknown fixture format version 7'' (Err (unknown_version 7))"
  "refuses ''never empty'' (Err ''a published fixture set is never empty'')"
  by (simp_all add: refuses_def unknown_version_def some_digits)

lemmas old_version = other_versions_fail [of "2 :: u32", simplified]
lemmas new_version = other_versions_fail [of "7 :: u32", simplified]

lemma codec_json_test: "codec_json_form_is_stable_and_round_trips trimmed from_be dbg dbg_e"
proof -
  let ?s = "built_vectors\<lparr>cs_vectors := (cs_vectors built_vectors)
      [0 := (cs_vectors built_vectors ! 0)\<lparr>cv_notes := Some ''first published body''\<rparr>]\<rparr>"
  have "cs_vectors ?s \<noteq> []" by (simp add: built_vectors_def)
  then have "read_codec_vectors hex_decode (codec_vectors_json hex_encode ?s) = Ok ?s"
    by (rule documents)
  then show ?thesis
    by (simp add: codec_json_form_is_stable_and_round_trips_def test_vectors_eq unwrapped_def Let_def)
      (simp add: built_vectors_def spelled)
qed

lemma codec_document_tests:
  "codec_unknown_format_version_fails_closed trimmed from_be dbg dbg_e"
  "missing_format_version_fails trimmed from_be dbg dbg_e"
  "empty_codec_set_fails_to_parse trimmed from_be dbg dbg_e"
  by (simp_all add: codec_unknown_format_version_fails_closed_def missing_format_version_fails_def
      empty_codec_set_fails_to_parse_def test_vectors_eq unwrapped_def old_version refused_versions
      documents CodecVectors_new_def)
    (simp add: codec_vectors_json_def without_version_def read_codec_vectors_def read_struct_def
      field_def is_err_def)

lemma uint_document_tests:
  assumes "u256_bytes trimmed from_be"
  shows "published_uint_vectors_match_regeneration trimmed from_be dbg dbg_e"
    "uint_json_form_is_stable_and_round_trips trimmed from_be dbg dbg_e"
    "uint_unknown_format_version_fails_closed trimmed from_be dbg dbg_e"
    "empty_uint_set_fails_to_parse trimmed from_be dbg dbg_e"
proof -
  show "empty_uint_set_fails_to_parse trimmed from_be dbg dbg_e"
    by (simp add: empty_uint_set_fails_to_parse_def documents refused_versions)
  show "uint_unknown_format_version_fails_closed trimmed from_be dbg dbg_e"
    by (simp add: uint_unknown_format_version_fails_closed_def old_version is_err_def)
  show "published_uint_vectors_match_regeneration trimmed from_be dbg dbg_e"
    by (simp add: published_uint_vectors_match_regeneration_def uint_file [OF assms])
  show "uint_json_form_is_stable_and_round_trips trimmed from_be dbg dbg_e"
    using read_files(2) [OF assms]
    by (simp add: uint_json_form_is_stable_and_round_trips_def uint_file [OF assms] Let_def)
      (simp add: UINT_VECTORS_JSON_def)
qed

lemma golden_document_tests:
  "golden_mirror_covers_every_wire_case_and_round_trips_as_json trimmed from_be dbg dbg_e"
  "golden_unknown_format_version_fails_closed trimmed from_be dbg dbg_e"
  "empty_golden_set_fails_to_parse trimmed from_be dbg dbg_e"
  by (simp_all add: golden_mirror_covers_every_wire_case_and_round_trips_as_json_def documents Let_def
      golden_unknown_format_version_fails_closed_def golden_record_def pure_derive_def new_version
      refused_versions empty_golden_set_fails_to_parse_def HeaderGoldens_new_def)
    (simp add: spelled wire_header_def GoldenHeader_from_def GoldenAssetAmount_from_def
      GoldenSettlement_from_def)

text \<open>What a violation says is what its vector's check says.\<close>

lemma check_loop_explains:
  assumes "v \<in> set (check_loop check name vectors vs)"
  shows "v \<in> set vs \<or> (\<exists>u\<in>set vectors. check u = Err (vi_detail v))"
  using assms
  by (induction check name vectors vs rule: check_loop.induct) (auto split: result.splits)

lemma tolerant_rejections:
  assumes "u256_bytes trimmed from_be" and "u \<in> set (us_vectors (build_uint_vectors trimmed sh))"
    and "uint_vector_check sh show_e (tolerant from_be) u = Err why"
  shows "str_contains ''expected a rejection'' why"
proof -
  have accepts: "uint_vector_check sh show_e (tolerant from_be) (uint_value trimmed sh name v why') = Ok ()"
    for name v why'
    using u256_bytes.length_trimmed [OF assms(1), of v] u256_bytes.from_be_trimmed [OF assms(1), of v]
    by (simp add: uint_value_def uint_entry_def tolerant_def encode_uint_def)
  have "(\<exists>name v because. u = uint_value trimmed sh name v because)
      \<or> (\<exists>name bs because. u = uint_entry name bs UxReject because)"
    using assms(2) by (simp add: build_uint_vectors_def) blast
  then consider (accepted) name v because where "u = uint_value trimmed sh name v because"
    | (rejected) name bs because where "u = uint_entry name bs UxReject because" by blast
  then show ?thesis
  proof cases
    case accepted
    then show ?thesis using assms(3) accepts by simp
  next
    case rejected
    then show ?thesis using assms(3) by (auto simp: uint_entry_def tolerant_def split: if_splits)
  qed
qed

lemma published_uint_checks:
  assumes "u256_bytes trimmed from_be"
  shows "uint_check decimal (\<lambda>_. []) (decode_uint from_be) (build_uint_vectors trimmed decimal) = Ok ()"
    and "\<exists>vs. uint_check decimal (\<lambda>e. e) (tolerant from_be) (build_uint_vectors trimmed decimal)
          = Err \<lparr>violations = vs\<rparr>
        \<and> map vi_vector vs = [''non-minimal-zero'', ''non-minimal-one'', ''word-padded-zero'', ''word-padded-one'']
        \<and> list_all (\<lambda>v. str_contains ''expected a rejection'' (vi_detail v)) vs"
proof -
  let ?s = "build_uint_vectors trimmed decimal" and ?d = "tolerant from_be"
  obtain r where ok: "uint_check decimal (\<lambda>_. []) (decode_uint from_be) ?s = Ok ()"
    and r: "uint_check decimal (\<lambda>e. e) ?d ?s = Err r" "map vi_vector (violations r) =
       [''non-minimal-zero'', ''non-minimal-one'', ''word-padded-zero'', ''word-padded-one'']"
    using uint_vectors_refuse_padding [OF assms, of "decode_uint from_be" decimal decimal "\<lambda>_. []"] by auto
  show "uint_check decimal (\<lambda>_. []) (decode_uint from_be) ?s = Ok ()" by (rule ok)
  have "us_vectors ?s \<noteq> []" by (simp add: build_uint_vectors_def)
  then have "violations r = check_loop (uint_vector_check decimal (\<lambda>e. e) ?d) uv_name (us_vectors ?s) []"
    using r(1) by (simp add: uint_check_def)
  then have "list_all (\<lambda>v. str_contains ''expected a rejection'' (vi_detail v)) (violations r)"
    using check_loop_explains [of _ "uint_vector_check decimal (\<lambda>e. e) ?d" uv_name "us_vectors ?s" "[]"]
      tolerant_rejections [OF assms] by (fastforce simp: list_all_iff)
  then show "\<exists>vs. uint_check decimal (\<lambda>e. e) ?d ?s = Err \<lparr>violations = vs\<rparr>
        \<and> map vi_vector vs = [''non-minimal-zero'', ''non-minimal-one'', ''word-padded-zero'', ''word-padded-one'']
        \<and> list_all (\<lambda>v. str_contains ''expected a rejection'' (vi_detail v)) vs"
    using r by (intro exI [of _ "violations r"]) simp
qed

lemma published_uint_tests:
  assumes "u256_bytes trimmed from_be"
  shows "shipped_decode_conforms trimmed from_be dbg dbg_e"
    "tolerant_decode_fails_exactly_the_non_minimal_vectors trimmed from_be dbg dbg_e"
    "a_tolerant_uint_decoder_is_caught_by_the_published_vectors trimmed from_be dbg dbg_e"
proof -
  have rejects: "map uv_name (filter (\<lambda>v. uv_expect v = UxReject \<and> length (uv_bytes v) \<le> 32)
      (us_vectors (build_uint_vectors trimmed decimal)))
    = [''non-minimal-zero'', ''non-minimal-one'', ''word-padded-zero'', ''word-padded-one'']"
    by (simp add: build_uint_vectors_def uint_value_def uint_entry_def)
  show "shipped_decode_conforms trimmed from_be dbg dbg_e"
    "tolerant_decode_fails_exactly_the_non_minimal_vectors trimmed from_be dbg dbg_e"
    "a_tolerant_uint_decoder_is_caught_by_the_published_vectors trimmed from_be dbg dbg_e"
    using published_uint_checks [OF assms]
    by (auto simp: shipped_decode_conforms_def tolerant_decode_fails_exactly_the_non_minimal_vectors_def
        a_tolerant_uint_decoder_is_caught_by_the_published_vectors_def read_files(2) [OF assms]
        uint_assert_conforms_def look rejects)
qed

lemma published_reference_tests:
  assumes "u256_bytes trimmed from_be"
  shows "published_codec_vectors_match_regeneration trimmed from_be dbg dbg_e"
    "published_header_goldens_match_regeneration trimmed from_be dbg dbg_e"
    "adapter_codec_conforms_to_the_published_vectors trimmed from_be dbg dbg_e"
    "adapter_derive_header_conforms_to_the_published_goldens trimmed from_be dbg dbg_e"
    "published_files_document_the_wire_format_in_hex trimmed from_be dbg dbg_e"
  by (simp_all add: published_codec_vectors_match_regeneration_def built_codec_vectors codec_file
      published_header_goldens_match_regeneration_def built_header_goldens [OF assms] goldens_file
      adapter_codec_conforms_to_the_published_vectors_def codec_assert_conforms_def reference_vectors_hold
      adapter_derive_header_conforms_to_the_published_goldens_def golden_assert_conforms_def
      reference_goldens_hold [OF assms] published_files_document_the_wire_format_in_hex_def read_files look)
    (simp add: reference_goldens_def reference_vectors_def codec_entry_def derive_published [OF assms])

lemma divergent_test:
  assumes "u256_bytes trimmed from_be"
  shows "divergent_derivation_is_caught_by_the_published_goldens trimmed from_be dbg dbg_e"
  by (simp add: divergent_derivation_is_caught_by_the_published_goldens_def read_files look)
    (simp add: golden_check_def reference_goldens_def pure_derive_def little_endian_derive_def
      derive_published [OF assms] GoldenHeader_from_def GoldenAssetAmount_from_def GoldenSettlement_from_def
      golden_of_def settle_def)

lemma fixture_tests_pass:
  "u256_bytes trimmed from_be \<Longrightarrow> list_all (\<lambda>test. test trimmed from_be dbg dbg_e) fixture_tests"
  by (simp add: fixture_tests_def codec_json_test codec_document_tests uint_document_tests
      golden_document_tests published_uint_tests published_reference_tests divergent_test)

end
