(* ===== verification/Macros.thy ===== *)
theory Macros imports Platform
begin

text \<open>
  \<^verbatim>\<open>videre-macros\<close>: what the persona macros decide at expansion and how the code they emit
  dispatches. A parsed impl block is a record; the expansion errors carry the data their
  messages interpolate. The shared crate \<^verbatim>\<open>nexum-world\<close>, the file system and the toml
  parser are the fields of the record \<open>expander\<close>. The tokens of the emitted bindings are
  not modelled, only what is computed for them and the functions they dispatch to.
\<close>

section \<open>Impl blocks and the expansion environment\<close>

datatype ImplItem = ImplFn (if_name: string) (if_async: bool) | ImplOther

record ItemImpl =
  ii_self_ty :: string
  ii_trait :: "(bool \<times> string list) option"
  ii_generics :: "string list"
  ii_items :: "ImplItem list"

record ExtensionRow =
  er_name :: string
  er_import :: string
  er_packages :: "string list"

record CapabilityRow =
  cap_name :: string
  cap_import :: "string option"
  cap_packages :: "string list"

record ModuleWorld =
  mw_wit :: string
  mw_packages :: "string list"
  mw_adapters :: "string list"

datatype toml = TomlString string | TomlTable "(string \<times> toml) list" | TomlOther

record expander =
  is_plain_type :: "string \<Rightarrow> bool"
  manifest_dir :: "(string, string) result"
  path_join :: "string \<Rightarrow> string \<Rightarrow> string"
  read_to_string :: "string \<Rightarrow> (string, string) result"
  manifest_capabilities :: "string \<Rightarrow> (string list, string) result"
  find_extensions_manifest :: "string \<Rightarrow> string option"
  manifest_extensions :: "string \<Rightarrow> (ExtensionRow list, string) result"
  synthesize :: "string list \<Rightarrow> ExtensionRow list \<Rightarrow> (ModuleWorld, string) result"
  manifest_wit_packages :: "string list \<Rightarrow> (string list, string) result"
  parse_toml :: "string \<Rightarrow> ((string \<times> toml) list, string) result"
  CORE :: "CapabilityRow list"

datatype MacroError =
    Refused string
  | UnrecognisedHandler string string
  | UnreadableManifest string string
  | AtManifest string string
  | ClientNotDeclared string
  | WrongClientImport string
  | CapabilityRefused string
  | UnknownArgument string
  | PaddedId string
  | IdDisagrees string string string

definition MANIFEST_FILE :: string where "MANIFEST_FILE = ''component.toml''"

section \<open>The keeper macro\<close>

definition HANDLERS :: "string list" where
  "HANDLERS = [''init'', ''on_block'', ''on_event'', ''on_schedule'', ''on_intent_status'']"

definition RETIRED_HANDLERS :: "(string \<times> string) list" where
  "RETIRED_HANDLERS =
     [(''on_chain_logs'', ''on_event, which takes one log and not a batch''),
      (''on_tick'', ''on_schedule''),
      (''on_message'', ''nothing, because the host messaging capability is retired'')]"

definition CLIENT_CAPABILITY :: string where "CLIENT_CAPABILITY = ''client''"

definition CLIENT_IMPORT :: string where "CLIENT_IMPORT = ''videre:venue/client@0.1.0''"

definition CLIENT_PACKAGES :: "string list" where
  "CLIENT_PACKAGES = [''videre-value-flow'', ''videre-types'', ''videre-venue'']"

definition SUSPENDED :: string where
  "SUSPENDED = ''keeper handler suspended: guest futures complete in one poll''"

definition client_row :: ExtensionRow where
  "client_row = \<lparr>er_name = CLIENT_CAPABILITY, er_import = CLIENT_IMPORT, er_packages = CLIENT_PACKAGES\<rparr>"

definition retired_hint :: "string \<Rightarrow> string" where
  "retired_hint name =
     (case find (\<lambda>(retired, _). retired = name) RETIRED_HANDLERS of
        None \<Rightarrow> ''rename helpers so they do not start with `on_`''
      | Some (_, replacement) \<Rightarrow> ''`'' @ name @ ''` is replaced by '' @ replacement)"

fun check_handlers :: "ImplItem list \<Rightarrow> (unit, MacroError) result" where
  "check_handlers [] = Ok ()"
| "check_handlers (ImplFn name is_async # items) =
     (if prefix ''on_'' name \<and> name \<notin> set HANDLERS
      then Err (UnrecognisedHandler name (retired_hint name))
      else check_handlers items)"
| "check_handlers (ImplOther # items) = check_handlers items"

definition present_handlers :: "ImplItem list \<Rightarrow> (string \<times> bool) list" where
  "present_handlers items = List.map_filter
     (\<lambda>item. case item of
        ImplFn name is_async \<Rightarrow> if name \<in> set HANDLERS then Some (name, is_async) else None
      | ImplOther \<Rightarrow> None) items"

definition handler_of :: "(string \<times> bool) list \<Rightarrow> string \<Rightarrow> (string \<times> bool) option" where
  "handler_of present name = find (\<lambda>(h, _). h = name) present"

definition derive_keeper_world ::
  "expander \<Rightarrow> (string list \<times> ModuleWorld, MacroError) result" where
  "derive_keeper_world x =
     and_then (map_err Refused (manifest_dir x)) (\<lambda>crate_dir.
       let manifest_path = path_join x crate_dir MANIFEST_FILE in
       and_then (map_err (UnreadableManifest manifest_path) (read_to_string x manifest_path)) (\<lambda>content.
       and_then (map_err (AtManifest manifest_path) (manifest_capabilities x content)) (\<lambda>declared.
         if CLIENT_CAPABILITY \<notin> set declared then Err (ClientNotDeclared manifest_path)
         else
           and_then
             (case find_extensions_manifest x crate_dir of
                None \<Rightarrow> Ok ([manifest_path], [])
              | Some registry \<Rightarrow>
                  and_then (map_err (UnreadableManifest registry) (read_to_string x registry)) (\<lambda>rows_text.
                  and_then (map_err (AtManifest registry) (manifest_extensions x rows_text)) (\<lambda>rows.
                    Ok ([manifest_path, registry], rows))))
             (\<lambda>(anchors, rows).
               and_then
                 (case find (\<lambda>row. er_name row = CLIENT_CAPABILITY) rows of
                    None \<Rightarrow> Ok (rows @ [client_row])
                  | Some row \<Rightarrow>
                      if er_import row = CLIENT_IMPORT then Ok rows
                      else Err (WrongClientImport (er_import row)))
                 (\<lambda>extensions.
                   map_ok (\<lambda>w. (anchors, w))
                     (map_err (AtManifest manifest_path) (synthesize x declared extensions)))))))"

text \<open>What the emitted code is built from.\<close>

record KeeperGlue =
  kg_anchors :: "string list"
  kg_world :: ModuleWorld
  kg_wit_paths :: "string list"
  kg_present :: "(string \<times> bool) list"

definition keeper_expand :: "expander \<Rightarrow> ItemImpl \<Rightarrow> (KeeperGlue, MacroError) result" where
  "keeper_expand x input =
     (if \<not> is_plain_type x (ii_self_ty input) then
        Err (Refused ''#[videre_sdk::keeper] must be applied to an inherent impl of a named type'')
      else if ii_trait input \<noteq> None then
        Err (Refused ''#[videre_sdk::keeper] must be applied to an inherent impl, not a trait impl'')
      else if ii_generics input \<noteq> [] then
        Err (Refused ''#[videre_sdk::keeper] must be applied to a non-generic impl'')
      else and_then (check_handlers (ii_items input)) (\<lambda>_.
        let present = present_handlers (ii_items input) in
        if present = [] then
          Err (Refused ''#[videre_sdk::keeper] found no recognised handlers on this impl; define at least one of `init`, `on_block`, `on_event`, `on_schedule`, `on_intent_status`'')
        else
          and_then (derive_keeper_world x) (\<lambda>(anchors, module_world).
          and_then (map_err Refused (manifest_wit_packages x (mw_packages module_world))) (\<lambda>wit_paths.
            Ok \<lparr>kg_anchors = anchors, kg_world = module_world, kg_wit_paths = wit_paths,
                kg_present = present\<rparr>))))"

definition keeper_attr :: "expander \<Rightarrow> bool \<Rightarrow> ItemImpl \<Rightarrow> (KeeperGlue, MacroError) result" where
  "keeper_attr x attr_is_empty input =
     (if \<not> attr_is_empty then Err (Refused ''#[videre_sdk::keeper] takes no arguments'')
      else keeper_expand x input)"

section \<open>The emitted dispatch\<close>

datatype ('b, 'e, 't) Trigger =
  TrBlock 'b | TrEvent 'e | TrSchedule 't | TrExtension (tx_kind: string) (tx_payload: bytes)

datatype ('g, 'b, 'e, 't) HandlerArg =
  ArgConfig 'g | ArgBlock 'b | ArgEvent 'e | ArgSchedule 't | ArgUpdate IntentStatusUpdate

text \<open>
  The author's functions by name: a sync one returns its result, an async one a future. They
  run on the state \<open>'s\<close> of the component and everything it imports.
\<close>

record ('s, 'a) Author =
  sync_fn :: "string \<Rightarrow> 'a \<Rightarrow> 's \<Rightarrow> (unit, WireFault) result \<times> 's"
  async_fn :: "string \<Rightarrow> 'a \<Rightarrow> 's \<Rightarrow> (unit, WireFault) result Poll \<times> 's"

definition drive ::
  "('s \<Rightarrow> (unit, WireFault) result Poll \<times> 's) \<Rightarrow> 's \<Rightarrow> (unit, WireFault) result \<times> 's" where
  "drive call s =
     (case poll_once call s of
        (Ready r, s1) \<Rightarrow> (r, s1)
      | (PollPending, s1) \<Rightarrow> (Err (FInternal SUSPENDED), s1))"

definition call_handler ::
  "('s, 'a) Author \<Rightarrow> string \<times> bool \<Rightarrow> 'a \<Rightarrow> 's \<Rightarrow> (unit, WireFault) result \<times> 's" where
  "call_handler author h a =
     (if snd h then drive (async_fn author (fst h) a) else sync_fn author (fst h) a)"

definition dispatch_arm ::
  "('s, 'a) Author \<Rightarrow> (string \<times> bool) list \<Rightarrow> string \<Rightarrow> 'a \<Rightarrow> 's \<Rightarrow> (unit, WireFault) result \<times> 's" where
  "dispatch_arm author present name a s =
     (case handler_of present name of None \<Rightarrow> (Ok (), s) | Some h \<Rightarrow> call_handler author h a s)"

definition keeper_init ::
  "('s, ('g, 'b, 'e, 't) HandlerArg) Author \<Rightarrow> (string \<times> bool) list \<Rightarrow> 'g \<Rightarrow> 's
    \<Rightarrow> (unit, WireFault) result \<times> 's" where
  "keeper_init author present config = dispatch_arm author present ''init'' (ArgConfig config)"

text \<open>The \<^verbatim>\<open>Display\<close> of an envelope error.\<close>

fun envelope_error_message :: "EnvelopeError \<Rightarrow> string" where
  "envelope_error_message EnvEmpty = ''empty intent-status envelope: missing the version tag''"
| "envelope_error_message (EnvUnknownVersion v) =
     ''unknown intent-status envelope version '' @ show_nat (unat v)"
| "envelope_error_message (EnvMalformed v d) =
     ''malformed version '' @ show_nat (unat v) @ '' intent-status envelope: '' @ d"

fun keeper_on_trigger ::
  "IntentStatusUpdate de \<Rightarrow> ('s, ('g, 'b, 'e, 't) HandlerArg) Author \<Rightarrow> (string \<times> bool) list
    \<Rightarrow> ('b, 'e, 't) Trigger \<Rightarrow> 's \<Rightarrow> (unit, WireFault) result \<times> 's" where
  "keeper_on_trigger de author present (TrBlock payload) s =
     dispatch_arm author present ''on_block'' (ArgBlock payload) s"
| "keeper_on_trigger de author present (TrEvent payload) s =
     dispatch_arm author present ''on_event'' (ArgEvent payload) s"
| "keeper_on_trigger de author present (TrSchedule payload) s =
     dispatch_arm author present ''on_schedule'' (ArgSchedule payload) s"
| "keeper_on_trigger de author present (TrExtension kind payload) s =
     (case handler_of present ''on_intent_status'' of
        None \<Rightarrow> (Ok (), s)
      | Some h \<Rightarrow>
          (case intent_status_update de kind payload of
             Some (Ok update) \<Rightarrow> call_handler author h (ArgUpdate update) s
           | Some (Err e) \<Rightarrow> (Err (FInvalidInput (envelope_error_message e)), s)
           | None \<Rightarrow> (Ok (), s)))"

text \<open>The emitted \<^verbatim>\<open>From<ClientError>\<close> for the wire fault, so \<open>?\<close> works in handlers.\<close>

definition keeper_from_ClientError :: "('o HostFault \<Rightarrow> string) \<Rightarrow> ClientError \<Rightarrow> WireFault" where
  "keeper_from_ClientError display e = WireFault_from_HostFault display (HostFault_from_ClientError e)"

section \<open>The venue macro\<close>

definition VENUE_CAPABILITIES :: "string list" where "VENUE_CAPABILITIES = [''chain'', ''http'']"

fun refuse_capabilities :: "string list \<Rightarrow> (unit, MacroError) result" where
  "refuse_capabilities [] = Ok ()"
| "refuse_capabilities (name # declared) =
     (if name \<notin> set VENUE_CAPABILITIES then Err (CapabilityRefused name)
      else refuse_capabilities declared)"

definition import_line :: "string \<Rightarrow> string" where
  "import_line import = ''    import '' @ import @ '';'' @ [CHR 0x0A]"

fun push_packages :: "string list \<Rightarrow> string list \<Rightarrow> string list" where
  "push_packages packages [] = packages"
| "push_packages packages (p # ps) =
     push_packages (if p \<in> set packages then packages else packages @ [p]) ps"

fun venue_imports :: "string list \<Rightarrow> CapabilityRow list \<Rightarrow> string list \<times> string list \<Rightarrow> string list \<times> string list" where
  "venue_imports declared [] acc = acc"
| "venue_imports declared (cap # caps) (imports, packages) =
     (if cap_name cap \<notin> set declared then venue_imports declared caps (imports, packages)
      else venue_imports declared caps
        (imports @ (case cap_import cap of Some i \<Rightarrow> [i] | None \<Rightarrow> []),
         push_packages packages (cap_packages cap)))"

definition newline :: string where "newline = [CHR 0x0A]"

definition synthesize_venue :: "CapabilityRow list \<Rightarrow> string list \<Rightarrow> (ModuleWorld, MacroError) result" where
  "synthesize_venue core declared =
     and_then (refuse_capabilities declared) (\<lambda>_.
       let (imports, packages) = venue_imports declared core
             ([], [''videre-value-flow'', ''videre-types'', ''nexum-host'', ''videre-venue''])
       in Ok \<lparr>mw_wit = ''package nexum:venue-world;'' @ newline @ newline
                @ ''world venue-adapter {'' @ newline
                @ ''    use nexum:host/types@0.1.0.{config, fault};'' @ newline @ newline
                @ concat (map import_line imports)
                @ newline @ ''    export init: func(config: config) -> result<_, fault>;'' @ newline
                @ ''    export videre:venue/adapter@0.1.0;'' @ newline @ ''}'' @ newline,
              mw_packages = packages, mw_adapters = []\<rparr>)"

definition derive_venue_world :: "expander \<Rightarrow> (string \<times> ModuleWorld, MacroError) result" where
  "derive_venue_world x =
     and_then (map_err Refused (manifest_dir x)) (\<lambda>crate_dir.
       let manifest_path = path_join x crate_dir MANIFEST_FILE in
       and_then (map_err (UnreadableManifest manifest_path) (read_to_string x manifest_path)) (\<lambda>content.
       and_then (map_err (AtManifest manifest_path) (manifest_capabilities x content)) (\<lambda>declared.
         map_ok (\<lambda>w. (manifest_path, w)) (synthesize_venue (CORE x) declared))))"

section \<open>The client marker\<close>

datatype 'ty ArgToken = TkIdent string | TkEq | TkComma | TkLit string | TkType 'ty

record 'ty Args =
  arg_id :: string
  arg_body :: 'ty

fun skip_comma :: "'ty ArgToken list \<Rightarrow> 'ty ArgToken list" where
  "skip_comma (TkComma # ts) = ts"
| "skip_comma ts = ts"

lemma length_skip_comma [termination_simp]: "length (skip_comma ts) \<le> length ts"
  by (cases ts rule: skip_comma.cases) simp_all

text \<open>A token the grammar does not expect is refused by the parser library.\<close>

fun parse_args ::
  "string option \<Rightarrow> 'ty option \<Rightarrow> 'ty ArgToken list \<Rightarrow> ('ty Args, MacroError) result" where
  "parse_args i b [] =
     (case i of None \<Rightarrow> Err (Refused ''missing `id = \"...\"`'')
      | Some i' \<Rightarrow> (case b of None \<Rightarrow> Err (Refused ''missing `body = Type`'')
          | Some b' \<Rightarrow> Ok \<lparr>arg_id = i', arg_body = b'\<rparr>))"
| "parse_args i b (TkIdent key # TkEq # ts) =
     (if key = ''id'' then
        (case ts of TkLit l # ts' \<Rightarrow> parse_args (Some l) b (skip_comma ts')
         | _ \<Rightarrow> Err (Refused ''expected string literal''))
      else if key = ''body'' then
        (case ts of TkType t # ts' \<Rightarrow> parse_args i (Some t) (skip_comma ts')
         | _ \<Rightarrow> Err (Refused ''expected type''))
      else Err (UnknownArgument key))"
| "parse_args i b ts = Err (Refused ''unexpected token'')"

definition id_shape_check :: "string \<Rightarrow> (unit, MacroError) result" where
  "id_shape_check v =
     (if v = [] \<or> length (str_trim v) \<noteq> length v then Err (PaddedId v) else Ok ())"

definition manifest_name :: "expander \<Rightarrow> string \<Rightarrow> (string, string) result" where
  "manifest_name x content =
     (case parse_toml x content of
        Err e \<Rightarrow> Err (''not valid TOML: '' @ e)
      | Ok t \<Rightarrow>
          (case map_of t ''component'' of
             None \<Rightarrow> Err ''no [component] table''
           | Some (TomlTable component) \<Rightarrow>
               (case map_of component ''name'' of
                  None \<Rightarrow> Err ''[component] declares no `name`''
                | Some (TomlString name) \<Rightarrow> Ok name
                | Some _ \<Rightarrow> Err ''[component] name must be a string'')
           | Some _ \<Rightarrow> Err ''[component] must be a table''))"

definition manifest_id_check :: "expander \<Rightarrow> string \<Rightarrow> (string, MacroError) result" where
  "manifest_id_check x v =
     and_then (map_err Refused (manifest_dir x)) (\<lambda>crate_dir.
       let manifest_path = path_join x crate_dir MANIFEST_FILE in
       and_then (map_err (UnreadableManifest manifest_path) (read_to_string x manifest_path)) (\<lambda>content.
       and_then (map_err (AtManifest manifest_path) (manifest_name x content)) (\<lambda>name.
         if name \<noteq> v then Err (IdDisagrees manifest_path v name) else Ok manifest_path)))"

text \<open>The emitted marker: the constants of the \<^verbatim>\<open>Venue\<close> impl, and the rebuild anchor.\<close>

record 'ty Marker =
  mk_anchor :: string
  mk_id :: SdkVenueId
  mk_body :: 'ty

text \<open>The path of a trait impl that is not negative, and what its last segment says.\<close>

definition trait_path :: "ItemImpl \<Rightarrow> string list option" where
  "trait_path input = (case ii_trait input of Some (False, segments) \<Rightarrow> Some segments | _ \<Rightarrow> None)"

definition ends_in :: "string \<Rightarrow> string list \<Rightarrow> bool" where
  "ends_in name segments \<longleftrightarrow> segments \<noteq> [] \<and> last segments = name"

definition marker_expand ::
  "expander \<Rightarrow> 'ty ArgToken list \<Rightarrow> ItemImpl \<Rightarrow> ('ty Marker, MacroError) result" where
  "marker_expand x attr input =
     and_then (parse_args None None attr) (\<lambda>args.
       case trait_path input of
         None \<Rightarrow>
           Err (Refused ''#[videre_sdk::venue(id = ..)] must be applied to an `impl Venue for ...` block'')
       | Some path \<Rightarrow>
       if \<not> ends_in ''Venue'' path then
         Err (Refused ''#[videre_sdk::venue(id = ..)] must be applied to an impl of `videre_sdk::client::Venue`'')
       else if ii_items input \<noteq> [] then
         Err (Refused ''#[videre_sdk::venue(id = ..)] fills the impl body; leave it empty'')
       else if ii_generics input \<noteq> [] then
         Err (Refused ''#[videre_sdk::venue(id = ..)] must be applied to a non-generic impl'')
       else and_then (id_shape_check (arg_id args)) (\<lambda>_.
         map_ok (\<lambda>anchor. \<lparr>mk_anchor = anchor, mk_id = SdkVenueId_from_static (arg_id args),
                          mk_body = arg_body args\<rparr>)
           (manifest_id_check x (arg_id args))))"

section \<open>The venue attribute\<close>

record VenueGlue =
  vg_anchor :: string
  vg_world :: ModuleWorld
  vg_wit_paths :: "string list"

definition adapter_expand :: "expander \<Rightarrow> ItemImpl \<Rightarrow> (VenueGlue, MacroError) result" where
  "adapter_expand x input =
     (case trait_path input of
        None \<Rightarrow>
          Err (Refused ''#[videre_sdk::venue] must be applied to an `impl VenueAdapter for ...` block'')
      | Some path \<Rightarrow>
      if \<not> ends_in ''VenueAdapter'' path then
        Err (Refused ''#[videre_sdk::venue] must be applied to an impl of `videre_sdk::VenueAdapter`'')
      else if \<not> is_plain_type x (ii_self_ty input) then
        Err (Refused ''#[videre_sdk::venue] must be applied to an impl on a named type'')
      else if ii_generics input \<noteq> [] then
        Err (Refused ''#[videre_sdk::venue] must be applied to a non-generic impl'')
      else and_then (derive_venue_world x) (\<lambda>(manifest_path, venue_world).
        map_ok (\<lambda>paths. \<lparr>vg_anchor = manifest_path, vg_world = venue_world, vg_wit_paths = paths\<rparr>)
          (map_err Refused (manifest_wit_packages x (mw_packages venue_world)))))"

datatype 'ty VenueExpansion = ClientMarker "'ty Marker" | AdapterGlue VenueGlue

definition venue_attr ::
  "expander \<Rightarrow> 'ty ArgToken list \<Rightarrow> ItemImpl \<Rightarrow> ('ty VenueExpansion, MacroError) result" where
  "venue_attr x attr input =
     (if attr \<noteq> [] then map_ok ClientMarker (marker_expand x attr input)
      else map_ok AdapterGlue (adapter_expand x input))"

end
