(* ===== verification/Platform_Properties.thy ===== *)
theory Platform_Properties imports Platform Registry_Properties
begin

text \<open>
  What holds of the platform as a whole: a typed client call in a module is one call of the
  published registry, the first published registry keeps the import, and the status task
  delivers what the polls report, in order and readable by the SDK, until its receiver
  is gone.
\<close>

section \<open>What a turn owes\<close>

text \<open>The deliveries due for a list of updates: one for each that encodes, in order.\<close>

definition due_deliveries :: "IntentStatusUpdate ser \<Rightarrow> IntentStatusUpdate list \<Rightarrow> ExtensionDelivery list" where
  "due_deliveries ser us = concat (map (\<lambda>u. case ser u of
       Ok bs \<Rightarrow> [delivery_of u (ENVELOPE_VERSION_V1 # bs)] | Err _ \<Rightarrow> []) us)"

text \<open>The channel after sending all of a list, and whether every send of it is accepted.\<close>

fun after_sends :: "'c send \<Rightarrow> ExtensionDelivery list \<Rightarrow> 'c \<Rightarrow> 'c" where
  "after_sends send [] c = c"
| "after_sends send (d # ds) c = after_sends send ds (snd (send d c))"

fun accepts_all :: "'c send \<Rightarrow> ExtensionDelivery list \<Rightarrow> 'c \<Rightarrow> bool" where
  "accepts_all send [] c \<longleftrightarrow> True"
| "accepts_all send (d # ds) c \<longleftrightarrow> is_ok (fst (send d c)) \<and> accepts_all send ds (snd (send d c))"

lemma due_deliveries_simps [simp]:
  "due_deliveries ser [] = []"
  "due_deliveries ser (u # us) = (case ser u of
     Ok bs \<Rightarrow> delivery_of u (ENVELOPE_VERSION_V1 # bs) # due_deliveries ser us
   | Err _ \<Rightarrow> due_deliveries ser us)"
  by (simp_all add: due_deliveries_def split: result.split)

lemma deliver_updates_continue:
  "fst (deliver_updates send ser us c) \<longleftrightarrow> accepts_all send (due_deliveries ser us) c"
  by (induction us arbitrary: c)
    (simp_all add: IntentStatusUpdate_encode_def case_prod_unfold split: result.split)

lemma deliver_updates_accepted:
  "accepts_all send (due_deliveries ser us) c \<Longrightarrow>
     snd (deliver_updates send ser us c) = after_sends send (due_deliveries ser us) c"
  by (induction us arbitrary: c)
    (auto simp: IntentStatusUpdate_encode_def case_prod_unfold split: result.split)

text \<open>A refused send is the last one: \<open>n\<close> deliveries were accepted before it.\<close>

definition refused_at :: "'c send \<Rightarrow> ExtensionDelivery list \<Rightarrow> 'c \<Rightarrow> nat \<Rightarrow> bool" where
  "refused_at send ds c n \<longleftrightarrow> n < length ds \<and> accepts_all send (take n ds) c
     \<and> \<not> is_ok (fst (send (ds ! n) (after_sends send (take n ds) c)))"

lemma refused_at_Cons [simp]:
  "refused_at send (d # ds) c 0 \<longleftrightarrow> \<not> is_ok (fst (send d c))"
  "refused_at send (d # ds) c (Suc n) \<longleftrightarrow> is_ok (fst (send d c)) \<and> refused_at send ds (snd (send d c)) n"
  by (auto simp: refused_at_def)

lemma deliver_updates_refused:
  "\<not> accepts_all send (due_deliveries ser us) c \<Longrightarrow>
   \<exists>n. refused_at send (due_deliveries ser us) c n
     \<and> snd (deliver_updates send ser us c) = after_sends send (take (Suc n) (due_deliveries ser us)) c"
proof (induction us arbitrary: c)
  case (Cons u us)
  show ?case
  proof (cases "ser u")
    case (Err e)
    with Cons show ?thesis by (simp add: IntentStatusUpdate_encode_def)
  next
    case (Ok bs)
    let ?d = "delivery_of u (ENVELOPE_VERSION_V1 # bs)"
    obtain r c1 where s: "send ?d c = (r, c1)" by fastforce
    show ?thesis
    proof (cases r)
      case (Err x)
      with Ok s show ?thesis
        by (intro exI [of _ 0]) (simp add: IntentStatusUpdate_encode_def)
    next
      case ok: (Ok y)
      with Cons.prems Ok s have "\<not> accepts_all send (due_deliveries ser us) c1" by simp
      from Cons.IH [OF this] obtain n where "refused_at send (due_deliveries ser us) c1 n"
        "snd (deliver_updates send ser us c1) = after_sends send (take (Suc n) (due_deliveries ser us)) c1"
        by blast
      with Ok s ok show ?thesis
        by (intro exI [of _ "Suc n"]) (simp add: IntentStatusUpdate_encode_def)
    qed
  qed
qed simp

section \<open>The channel\<close>

text \<open>
  What the sending half of a channel promises: an accepted delivery is appended to what was
  delivered, a refused one is not.
\<close>

locale event_channel =
  fixes send :: "'c send" and delivered :: "'c \<Rightarrow> ExtensionDelivery list"
  assumes send_Ok: "send d c = (Ok u, c') \<Longrightarrow> delivered c' = delivered c @ [d]"
    and send_Err: "send e c = (Err x, c'') \<Longrightarrow> delivered c'' = delivered c"
begin

lemma send_logs:
  "delivered (snd (send d c)) = (if is_ok (fst (send d c)) then delivered c @ [d] else delivered c)"
  using send_Ok [of d c] send_Err [of d c]
  by (cases "fst (send d c)") (metis is_ok.simps prod.collapse)+

lemma accepted_log: "accepts_all send ds c \<Longrightarrow> delivered (after_sends send ds c) = delivered c @ ds"
  by (induction ds arbitrary: c) (simp_all add: send_logs)

lemma refused_log:
  "refused_at send ds c n \<Longrightarrow> delivered (after_sends send (take (Suc n) ds) c) = delivered c @ take n ds"
proof (induction ds arbitrary: c n)
  case (Cons d ds)
  then show ?case by (cases n) (simp_all add: send_logs)
qed (simp add: refused_at_def)

end

text \<open>
  A channel whose receiver keeps everything until it is dropped: \<open>open_for\<close> deliveries from
  now.
\<close>

record bounded_channel =
  bc_delivered :: "ExtensionDelivery list"
  open_for :: nat

definition channel_send :: "bounded_channel send" where
  "channel_send d c =
     (if open_for c = 0 then (Err (), c)
      else (Ok (), \<lparr>bc_delivered = bc_delivered c @ [d], open_for = open_for c - 1\<rparr>))"

interpretation mpsc: event_channel channel_send bc_delivered
  by unfold_locales (auto simp: channel_send_def split: if_splits)

section \<open>The status task\<close>

definition recovered :: "IntentStatusUpdate de \<Rightarrow> ExtensionDelivery
    \<Rightarrow> (IntentStatusUpdate, EnvelopeError) result option" where
  "recovered de d = intent_status_update de (dl_trigger_kind d) (dl_payload d)"

lemma recovered_delivery:
  assumes "borsh_codec ser de" and "ser u = Ok bs"
  shows "recovered de (delivery_of u (ENVELOPE_VERSION_V1 # bs)) = Some (Ok u)"
  using borsh_codec.de_ser [OF assms]
  by (simp add: recovered_def delivery_of_def intent_status_update_def)

lemma delivery_attrs: "dl_attrs (delivery_of u bs) = [(''venue'', upd_venue u)]"
  by (simp add: delivery_of_def)

lemma due_recovered:
  assumes "borsh_codec ser de"
  shows "map (recovered de) (due_deliveries ser us) = map (\<lambda>u. Some (Ok u)) (filter (\<lambda>u. is_ok (ser u)) us)"
    and "map dl_attrs (due_deliveries ser us) =
      map (\<lambda>u. [(''venue'', upd_venue u)]) (filter (\<lambda>u. is_ok (ser u)) us)"
  by (induction us) (simp_all add: recovered_delivery [OF assms] delivery_attrs split: result.split)

text \<open>
  C15: one turn of the status task, end to end. What is due is one delivery for each
  transition the registry's poll reports, in order, dropping only one that does not encode;
  each carries the venue it is about, and a module that hands it to the SDK recovers the
  transition as the registry reported it. The turn sends them one after the other: it goes
  on exactly when every send is accepted, and then exactly the due deliveries have been
  delivered; otherwise it ends the task at the first refused send, the ones before it
  delivered and nothing sent after it.
\<close>

theorem status_turn_delivers_what_the_poll_reports:
  assumes "event_channel send delivered" and "borsh_codec ser de"
    and "status_poll_turn sleep send ser_body ser a cadence pc = (continue, p2, c2)"
    and "sleep cadence pc = (p1, c1)"
  shows "let (us, p) = with_registry a (poll_status_transitions ser_body) p1;
         ds = due_deliveries ser us
     in p2 = p
        \<and> (continue \<longleftrightarrow> accepts_all send ds c1)
        \<and> (continue \<longrightarrow> c2 = after_sends send ds c1 \<and> delivered c2 = delivered c1 @ ds)
        \<and> (\<not> continue \<longrightarrow> (\<exists>n. refused_at send ds c1 n \<and> c2 = after_sends send (take (Suc n) ds) c1
             \<and> delivered c2 = delivered c1 @ take n ds))
        \<and> map (recovered de) ds = map (\<lambda>u. Some (Ok u)) (filter (\<lambda>u. is_ok (ser u)) us)
        \<and> map dl_attrs ds = map (\<lambda>u. [(''venue'', upd_venue u)]) (filter (\<lambda>u. is_ok (ser u)) us)"
proof -
  obtain us p where poll: "with_registry a (poll_status_transitions ser_body) p1 = (us, p)" by fastforce
  have d: "deliver_updates send ser us c1 = (continue, c2)" "p2 = p"
    using assms(3,4) by (simp_all add: status_poll_turn_def poll case_prod_unfold Let_def prod_eq_iff)
  have c: "continue \<longleftrightarrow> accepts_all send (due_deliveries ser us) c1"
    using deliver_updates_continue [of send ser us c1] d(1) by simp
  have gone: "\<exists>n. refused_at send (due_deliveries ser us) c1 n
      \<and> c2 = after_sends send (take (Suc n) (due_deliveries ser us)) c1
      \<and> delivered c2 = delivered c1 @ take n (due_deliveries ser us)" if "\<not> continue"
    using deliver_updates_refused [of send ser us c1] event_channel.refused_log [OF assms(1)] that c d(1)
    by fastforce
  show ?thesis
    unfolding poll Let_def prod.case
    using c d gone deliver_updates_accepted [of send ser us c1]
      event_channel.accepted_log [OF assms(1)] due_recovered [OF assms(2), of us]
    by simp
qed

lemma turn_continues:
  "fst (status_poll_turn sleep send ser_body ser a cadence pc) \<longleftrightarrow>
     accepts_all send (due_deliveries ser
       (fst (with_registry a (poll_status_transitions ser_body) (fst (sleep cadence pc)))))
       (snd (sleep cadence pc))"
  by (simp add: status_poll_turn_def case_prod_unfold Let_def deliver_updates_continue)

definition sample_process :: "chain_heads process" where
  "sample_process = \<lparr>registries = (\<lambda>_. sample_end), next_registry = 1, REGISTRY = Some 0,
     pr_world = env sample_end\<rparr>"

lemma sample_process_poll:
  "fst (with_registry 0 (poll_status_transitions put_StatusBody) sample_process) =
     [update_for echo_id [7] [1, 2, 0, 0]]"
  by (simp add: with_registry_def sample_process_def case_prod_unfold Let_def sample_poll)

lemma sample_update_encodes: "is_ok (put_IntentStatusUpdate (update_for echo_id [7] [1, 2, 0, 0]))"
  by (simp add: layout_eval update_for_def echo_id_def)

theorem status_turn_delivers_what_the_poll_reports_witness:
  "\<exists>d. bc_delivered (snd (snd (status_poll_turn (\<lambda>_ pc. pc) channel_send put_StatusBody
        put_IntentStatusUpdate 0 (from_secs 5) (sample_process, \<lparr>bc_delivered = [], open_for = 8\<rparr>)))) = [d]
     \<and> recovered borsh_IntentStatusUpdate d = Some (Ok (update_for echo_id [7] [1, 2, 0, 0]))"
proof -
  let ?pc = "(sample_process, \<lparr>bc_delivered = [], open_for = 8\<rparr>)"
  let ?turn = "status_poll_turn (\<lambda>_ pc. pc) channel_send put_StatusBody put_IntentStatusUpdate 0
      (from_secs 5) ?pc"
  obtain continue p2 c2 where t: "?turn = (continue, p2, c2)"
    by (metis prod.collapse)
  have "fst ?turn"
    using sample_process_poll sample_update_encodes
    by (auto simp: status_poll_turn_def case_prod_unfold Let_def IntentStatusUpdate_encode_def
        channel_send_def split: result.splits)
  moreover obtain bs where "put_IntentStatusUpdate (update_for echo_id [7] [1, 2, 0, 0]) = Ok bs"
    using sample_update_encodes by (auto simp: is_ok_iff)
  ultimately show ?thesis
    using t status_turn_delivers_what_the_poll_reports [OF mpsc.event_channel_axioms
      status_update.closed.borsh_codec_axioms t refl]
    by (auto simp: Let_def case_prod_unfold sample_process_poll split: result.splits)
qed

text \<open>
  C38: when the status task returns. It returns exactly when in some turn a send of a due
  delivery finds the receiver gone, every send of every earlier turn having been accepted,
  and then with the state that turn left. A transition that does not encode, or a turn with
  nothing to report, does not end it; as long as no send is refused it keeps polling and
  never returns.
\<close>

theorem status_task_ends_with_its_receiver:
  "status_poll_task sleep send ser_body ser a cadence pc = Some pc' \<longleftrightarrow>
     (let turn = status_poll_turn sleep send ser_body ser a cadence;
          woken = (\<lambda>n. sleep cadence (after_turns turn n pc));
          due = (\<lambda>n. due_deliveries ser
            (fst (with_registry a (poll_status_transitions ser_body) (fst (woken n)))))
      in \<exists>n. (\<forall>k<n. accepts_all send (due k) (snd (woken k)))
           \<and> \<not> accepts_all send (due n) (snd (woken n)) \<and> pc' = after_turns turn (Suc n) pc)"
  by (simp add: status_poll_task_def forever_iff stops_at_iff turn_continues Let_def del: after_turns.simps)

text \<open>A receiver that is gone ends the task in its first turn; one that never goes keeps it alive.\<close>

theorem status_task_ends_with_its_receiver_witness:
  "(\<exists>pc'. status_poll_task (\<lambda>_ pc. pc) channel_send put_StatusBody put_IntentStatusUpdate 0 (from_secs 5)
      (sample_process, \<lparr>bc_delivered = [], open_for = 0\<rparr>) = Some pc' \<and> bc_delivered (snd pc') = [])
   \<and> status_poll_task (\<lambda>_ pc. pc) (\<lambda>d c. (Ok (), d # c)) put_StatusBody put_IntentStatusUpdate 0 (from_secs 5)
      (sample_process, []) = None"
proof -
  let ?pc = "(sample_process, \<lparr>bc_delivered = [], open_for = 0\<rparr>)"
  let ?turn = "status_poll_turn (\<lambda>_ pc. pc) channel_send put_StatusBody put_IntentStatusUpdate 0 (from_secs 5)"
  obtain bs where bs: "put_IntentStatusUpdate (update_for echo_id [7] [1, 2, 0, 0]) = Ok bs"
    using sample_update_encodes by (auto simp: is_ok_iff)
  have due: "due_deliveries put_IntentStatusUpdate
      (fst (with_registry 0 (poll_status_transitions put_StatusBody) sample_process)) =
      [delivery_of (update_for echo_id [7] [1, 2, 0, 0]) (ENVELOPE_VERSION_V1 # bs)]"
    by (simp add: sample_process_poll bs)
  have "status_poll_task (\<lambda>_ pc. pc) channel_send put_StatusBody put_IntentStatusUpdate 0 (from_secs 5) ?pc
      = Some (after_turns ?turn (Suc 0) ?pc)"
    unfolding status_task_ends_with_its_receiver
    by (intro exI [of _ 0] | simp add: Let_def due channel_send_def)+
  moreover have "bc_delivered (snd (after_turns ?turn (Suc 0) ?pc)) = []"
    using sample_process_poll bs
    by (simp add: status_poll_turn_def case_prod_unfold Let_def IntentStatusUpdate_encode_def channel_send_def)
  moreover have "accepts_all (\<lambda>d c. (Ok (), d # c)) ds c" for ds c
    by (induction ds arbitrary: c) simp_all
  then have "status_poll_task (\<lambda>_ pc. pc) (\<lambda>d c. (Ok (), d # c)) put_StatusBody put_IntentStatusUpdate 0
      (from_secs 5) (sample_process, []) \<noteq> Some pc'" for pc'
    unfolding status_task_ends_with_its_receiver by (simp add: Let_def)
  ultimately show ?thesis by (metis not_Some_eq)
qed

section \<open>The client import\<close>

text \<open>
  C13: a typed call in a module is one call of the published registry, under the module's
  own name. With the typed client over the module's import and a venue id the host parses,
  quote and submit encode the body and reach the registry with exactly those bytes, status
  and cancel reach it with the receipt, and the answer is the registry's, a refusal in the
  owned mirror with its retry hint kept. Nothing else of the process moves but the
  registry and the world it runs on.
\<close>

theorem typed_calls_reach_the_published_registry:
  assumes "REGISTRY p = Some a" and "parse (id_str v) = Ok m" and "receipt \<noteq> []"
    and "\<And>b. enc b = Ok (bytes_of b)"
  shows "let c = \<lparr>vc_id = v, vc_to_bytes = enc, vc_transport = HostVenues (client_of parse module)\<rparr>;
         refusal = ClientVenue \<circ> VenueFault_from_VenueError
     in client_submit c body p =
          (map_err refusal (fst (with_registry a (submit module (VenueId m) (bytes_of body)) p)),
           snd (with_registry a (submit module (VenueId m) (bytes_of body)) p))
        \<and> snd (client_quote c body p) = snd (with_registry a (quote module (VenueId m) (bytes_of body)) p)
        \<and> map_ok qd_quotation (fst (client_quote c body p)) =
            map_err refusal (fst (with_registry a (quote module (VenueId m) (bytes_of body)) p))
        \<and> client_observe c receipt p =
          (map_err refusal (fst (with_registry a (observe (VenueId m) receipt) p)), snd (with_registry a (observe (VenueId m) receipt) p))
        \<and> client_status c receipt p =
          (map_err refusal (fst (with_registry a (status (VenueId m) receipt) p)), snd (with_registry a (status (VenueId m) receipt) p))
        \<and> client_cancel c receipt p =
          (map_err refusal (fst (with_registry a (cancel (VenueId m) receipt) p)), snd (with_registry a (cancel (VenueId m) receipt) p))"
proof -
  have id: "venue_id parse (id_str v) = Ok (VenueId m)"
    using assms(2) by (simp add: venue_id_def VenueId_new_def)
  have reg: "the_registry p = Ok a"
    using assms(1) by (simp add: the_registry_def)
  have fold: "map_err ClientVenue (map_err VenueFault_from_VenueError r) =
      map_err (ClientVenue \<circ> VenueFault_from_VenueError) r" for r :: "('z, VenueError) result"
    by (cases r) simp_all
  have q: "snd (case r of Err e \<Rightarrow> (Err (ClientVenue e), t)
        | Ok q \<Rightarrow> (Ok \<lparr>qd_bytes = bs, qd_quotation = q\<rparr>, t)) = t"
    "map_ok qd_quotation (fst (case r of Err e \<Rightarrow> (Err (ClientVenue e), t)
        | Ok q \<Rightarrow> (Ok \<lparr>qd_bytes = bs, qd_quotation = q\<rparr>, t))) = map_err ClientVenue r"
    for r :: "(Quotation, VenueFault) result" and t :: "'x process" and bs
    by (cases r; simp)+
  note defs = HostVenues_def client_of_def lift_venue_error_def delegate_def id reg case_prod_unfold
    Let_def fold assms(3,4)
  show ?thesis
    by (simp add: client_submit_def client_quote_def client_observe_def client_status_def
      client_cancel_def host_submit_def host_quote_def host_observe_def host_status_def
      host_cancel_def guard_receipt_def q defs)
qed

definition sample_client :: "(chain_heads process, bytes) VenueClient" where
  "sample_client = \<lparr>vc_id = SdkVenueId ''echo-venue'', vc_to_bytes = Ok,
     vc_transport = HostVenues (client_of Ok ''mod-b'')\<rparr>"

lemma sample_status_answers:
  "fst (with_registry 0 (status echo_id [7]) sample_process) = Ok Fulfilled"
  using config_fields(1) [OF sample_end_config]
  by (simp add: with_registry_def sample_process_def case_prod_unfold Let_def status_def
      sample_end_resolve on_env_def echo_status_def)

theorem typed_calls_reach_the_published_registry_witness:
  "fst (client_status sample_client [7] sample_process) = Ok Fulfilled"
  using typed_calls_reach_the_published_registry [of sample_process 0 Ok "SdkVenueId ''echo-venue''"
      "''echo-venue''" "[7]" Ok "\<lambda>b. b" "''mod-b''"] sample_status_answers
  by (simp add: sample_process_def Let_def sample_client_def echo_id_def)

lemma delegate_unknown:
  "REGISTRY p = None \<or> (\<exists>e. parse venue = Err e) \<Longrightarrow> delegate parse venue m p = (Err UnknownVenue, p)"
  by (auto simp: delegate_def the_registry_def venue_id_def VenueId_new_def split: option.split)

text \<open>
  A call that names no venue of this process touches nothing. Without a published registry,
  or with an id the host does not parse, every typed call answers that the venue is
  unknown and leaves the process exactly as it was.
\<close>

lemma unreachable_venue_touches_nothing:
  assumes "REGISTRY p = None \<or> (\<exists>e. parse (id_str v) = Err e)" and "receipt \<noteq> []"
    and "\<And>b. enc b = Ok (bytes_of b)"
  shows "let c = \<lparr>vc_id = v, vc_to_bytes = enc, vc_transport = HostVenues (client_of parse module)\<rparr>
     in client_submit c body p = (Err (ClientVenue VUnknownVenue), p)
        \<and> client_quote c body p = (Err (ClientVenue VUnknownVenue), p)
        \<and> client_observe c receipt p = (Err (ClientVenue VUnknownVenue), p)
        \<and> client_status c receipt p = (Err (ClientVenue VUnknownVenue), p)
        \<and> client_cancel c receipt p = (Err (ClientVenue VUnknownVenue), p)"
  using assms(2,3)
  by (simp add: Let_def client_submit_def client_quote_def client_observe_def client_status_def
        client_cancel_def host_submit_def host_quote_def host_observe_def host_status_def
        host_cancel_def guard_receipt_def HostVenues_def client_of_def lift_venue_error_def
        delegate_unknown [of p parse "id_str v", OF assms(1)])

lemma unreachable_venue_touches_nothing_example:
  "client_submit sample_client [7] (sample_process\<lparr>REGISTRY := None\<rparr>) =
     (Err (ClientVenue VUnknownVenue), sample_process\<lparr>REGISTRY := None\<rparr>)"
  using unreachable_venue_touches_nothing [of "sample_process\<lparr>REGISTRY := None\<rparr>" Ok
      "SdkVenueId ''echo-venue''" "[7]" Ok "\<lambda>b. b" "''mod-b''" "[7]"]
  by (simp add: Let_def sample_client_def)

section \<open>Two platforms in one process\<close>

lemma with_registry_others: "b \<noteq> a \<Longrightarrow> registries (snd (with_registry a m p)) b = registries p b"
  by (simp add: with_registry_def case_prod_unfold Let_def)

text \<open>
  C37: the first platform linked keeps the client import. Once a platform is linked, linking
  another changes nothing of the process, whatever either linker answers, and none of the
  five calls of the import moves the second platform's registry; and a platform opens its
  status source exactly when the kind is demanded and its own registry holds a venue, with
  one task over its own registry and cadence.
\<close>

theorem first_linked_platform_keeps_the_import:
  assumes "vd_registry v' \<noteq> vd_registry v" and "REGISTRY p = None"
  shows "let p1 = snd (link add v linker p); p2 = snd (link add' v' linker' p1);
         a' = vd_registry v';
         opens = INTENT_STATUS_KIND \<in> demanded_extension_kinds sources \<and> venue_count (registries p2 a') \<noteq> 0
     in p2 = p1 \<and> the_registry p2 = Ok (vd_registry v)
        \<and> registries (snd (host_quote parse module venue body p2)) a' = registries p2 a'
        \<and> registries (snd (host_submit parse module venue body p2)) a' = registries p2 a'
        \<and> registries (snd (host_observe parse venue receipt p2)) a' = registries p2 a'
        \<and> registries (snd (host_status parse venue receipt p2)) a' = registries p2 a'
        \<and> registries (snd (host_cancel parse venue receipt p2)) a' = registries p2 a'
        \<and> fst (open_sources v' sources p2) = Ok (if opens then [next_channel sources] else [])
        \<and> spawned (snd (open_sources v' sources p2)) = spawned sources @
             (if opens then [(INTENT_STATUS_KIND, a', status_poll_interval v', next_channel sources)] else [])"
  using assms
  by (simp add: Let_def link_def publish_registry_def the_registry_def host_submit_def host_quote_def
      host_status_def host_cancel_def host_observe_def delegate_def open_sources_def with_registry_others
      split: result.split)

theorem first_linked_platform_keeps_the_import_witness:
  "let p0 = sample_process\<lparr>REGISTRY := None\<rparr>; (v, p1) = from_registry sample_end p0;
       (v', p2) = platform p1;
       p3 = snd (link Ok v () p2)
   in snd (link Ok v' () p3) = p3"
proof -
  define p2 where "p2 = snd (platform (snd (from_registry sample_end (sample_process\<lparr>REGISTRY := None\<rparr>))))"
  have "REGISTRY p2 = None"
    by (simp add: p2_def platform_def from_registry_def sample_process_def Let_def)
  moreover have "vd_registry (fst (platform (snd (from_registry sample_end (sample_process\<lparr>REGISTRY := None\<rparr>)))))
      \<noteq> vd_registry (fst (from_registry sample_end (sample_process\<lparr>REGISTRY := None\<rparr>)))"
    by (simp add: platform_def from_registry_def Let_def)
  ultimately show ?thesis
    using first_linked_platform_keeps_the_import [of _ _ p2 Ok "()" Ok "()"]
    by (simp add: p2_def case_prod_unfold Let_def)
qed

end
