(* ===== verification/Macro_Properties.thy ===== *)
theory Macro_Properties imports Macros Platform_Properties
begin

text \<open>
  What an accepted expansion guarantees: a marker's id is one the validating constructor
  accepts, a keeper's dispatch reaches every handler it declares, and the synthesized worlds
  grant what they must and no more.
\<close>

section \<open>The client marker\<close>

text \<open>
  C29: the unchecked constructor is only reached with checked ids. Whatever marker the venue
  macro emits, its id is one the validating constructor accepts with the same spelling, and
  it is the name the crate's manifest gives the component; the marker carries the body type
  named in the attribute, and the empty attribute never yields a marker.
\<close>

theorem marker_ids_are_valid_component_names:
  assumes "venue_attr x attr input = Ok (ClientMarker marker)"
  shows "SdkVenueId_new (id_str (mk_id marker)) = Ok (mk_id marker)
     \<and> (\<exists>content. read_to_string x (mk_anchor marker) = Ok content
          \<and> manifest_name x content = Ok (id_str (mk_id marker)))
     \<and> TkType (mk_body marker) \<in> set attr \<and> TkLit (id_str (mk_id marker)) \<in> set attr
     \<and> ii_items input = [] \<and> attr \<noteq> []"
proof -
  have attr: "attr \<noteq> []" and m: "marker_expand x attr input = Ok marker"
    using assms by (auto simp: venue_attr_def map_ok_eq_Ok split: if_splits)
  obtain args where args: "parse_args None None attr = Ok args"
    using m by (auto simp: marker_expand_def and_then_eq_Ok)
  have shape: "id_shape_check (arg_id args) = Ok ()" and items: "ii_items input = []"
    and check: "manifest_id_check x (arg_id args) = Ok (mk_anchor marker)"
    and mk: "mk_id marker = SdkVenueId (arg_id args)" "mk_body marker = arg_body args"
    using m args by (auto simp: marker_expand_def and_then_eq_Ok map_ok_eq_Ok
        SdkVenueId_from_static_def split: option.splits if_splits)
  have "SdkVenueId_new (arg_id args) = Ok (SdkVenueId (arg_id args))"
    using shape str_trim_length_eq [of "arg_id args"]
    by (auto simp: id_shape_check_def SdkVenueId_new_def split: if_splits)
  moreover have "\<exists>content. read_to_string x (mk_anchor marker) = Ok content
      \<and> manifest_name x content = Ok (arg_id args)"
    using check by (auto simp: manifest_id_check_def and_then_eq_Ok Let_def split: if_splits)
  moreover have "(parse_args i b ts = Ok a \<longrightarrow>
      (i = Some (arg_id a) \<or> TkLit (arg_id a) \<in> set ts) \<and> (b = Some (arg_body a) \<or> TkType (arg_body a) \<in> set ts))"
    for i and b :: "'a option" and ts a
  proof (induction i b ts rule: parse_args.induct)
    case (1 i b)
    then show ?case by (auto split: option.splits)
  next
    case (2 i b key ts)
    have skip: "set (skip_comma us) \<subseteq> set us" for us :: "'a ArgToken list"
      by (cases us rule: skip_comma.cases) auto
    show ?case
      using 2 skip by (auto split: list.splits ArgToken.splits if_splits) (blast dest: subsetD)+
  qed auto
  ultimately show ?thesis
    using args attr items by (simp add: mk) blast
qed

text \<open>A crate whose manifest names the component \<open>echo\<close>, as the macro's own tests write it.\<close>

definition sample_expander :: "string list \<Rightarrow> expander" where
  "sample_expander declared =
     \<lparr>is_plain_type = (\<lambda>_. True), manifest_dir = Ok ''crate'', path_join = (\<lambda>d f. d @ ''/'' @ f),
      read_to_string = (\<lambda>path. if path = ''crate/component.toml'' then Ok ''manifest'' else Err ''missing''),
      manifest_capabilities = (\<lambda>_. Ok declared), find_extensions_manifest = (\<lambda>_. None),
      manifest_extensions = (\<lambda>_. Ok []),
      synthesize = (\<lambda>caps rows. Ok \<lparr>mw_wit = concat (map (import_line \<circ> er_import)
          (filter (\<lambda>r. er_name r \<in> set caps) rows)), mw_packages = [], mw_adapters = caps\<rparr>),
      manifest_wit_packages = (\<lambda>packages. Ok packages),
      parse_toml = (\<lambda>_. Ok [(''component'', TomlTable [(''name'', TomlString ''echo'')])]),
      CORE = [\<lparr>cap_name = ''chain'', cap_import = Some ''nexum:host/chain@0.1.0'', cap_packages = []\<rparr>,
              \<lparr>cap_name = ''local-store'', cap_import = Some ''nexum:host/local-store@0.1.0'', cap_packages = []\<rparr>,
              \<lparr>cap_name = ''http'', cap_import = None, cap_packages = []\<rparr>]\<rparr>"

lemma unpadded_literals: "str_trim ''echo'' = ''echo''"
  by (simp add: str_trim_fixpoint starts_with_ws_def ends_with_ws_def whitespace_def byte_str_def
      char_of_def bit_0 suffix_def list_ex_iff)

theorem marker_ids_are_valid_component_names_witness:
  "\<exists>marker. venue_attr (sample_expander []) [TkIdent ''id'', TkEq, TkLit ''echo'', TkComma,
        TkIdent ''body'', TkEq, TkType ''EchoBody'']
      \<lparr>ii_self_ty = ''EchoVenue'', ii_trait = Some (False, [''Venue'']), ii_generics = [], ii_items = []\<rparr>
     = Ok (ClientMarker marker)
   \<and> SdkVenueId_new (id_str (mk_id marker)) = Ok (SdkVenueId ''echo'')"
proof -
  let ?input = "\<lparr>ii_self_ty = ''EchoVenue'', ii_trait = Some (False, [''Venue'']), ii_generics = [],
      ii_items = []\<rparr>"
  let ?attr = "[TkIdent ''id'', TkEq, TkLit ''echo'', TkComma, TkIdent ''body'', TkEq, TkType ''EchoBody'']"
  let ?m = "\<lparr>mk_anchor = ''crate/component.toml'', mk_id = SdkVenueId ''echo'', mk_body = ''EchoBody''\<rparr>"
  have "venue_attr (sample_expander []) ?attr ?input = Ok (ClientMarker ?m)"
    by (simp add: venue_attr_def marker_expand_def trait_path_def ends_in_def id_shape_check_def
        unpadded_literals manifest_id_check_def sample_expander_def MANIFEST_FILE_def manifest_name_def
        SdkVenueId_from_static_def Let_def)
  from marker_ids_are_valid_component_names [OF this] this show ?thesis
    by (intro exI [of _ ?m]) simp
qed

section \<open>The keeper's dispatch\<close>

lemma check_handlers_Ok:
  "check_handlers items = Ok () \<longleftrightarrow>
     (\<forall>name a. ImplFn name a \<in> set items \<longrightarrow> prefix ''on_'' name \<longrightarrow> name \<in> set HANDLERS)"
  by (induction items rule: check_handlers.induct) auto

lemma in_present_handlers:
  "(name, a) \<in> set (present_handlers items) \<longleftrightarrow> ImplFn name a \<in> set items \<and> name \<in> set HANDLERS"
  unfolding present_handlers_def
  by (induction items) (auto simp: map_filter_simps split: ImplItem.splits)

lemma handler_of_eq_None: "handler_of present name = None \<longleftrightarrow> name \<notin> fst ` set present"
  by (force simp: handler_of_def find_None_iff)

lemma handler_of_SomeD: "handler_of present name = Some h \<Longrightarrow> h \<in> set present \<and> fst h = name"
  by (auto simp: handler_of_def find_Some_iff in_set_conv_nth) 

lemma keeper_expand_Ok:
  assumes "keeper_expand x input = Ok glue"
  shows "check_handlers (ii_items input) = Ok ()" "kg_present glue = present_handlers (ii_items input)"
    "kg_present glue \<noteq> []" "derive_keeper_world x = Ok (kg_anchors glue, kg_world glue)"
  using assms by (auto simp: keeper_expand_def and_then_eq_Ok Let_def split: if_splits prod.splits)

text \<open>
  How a trigger is served: by the author's function of one name, called with one argument,
  driven to its end in one poll when the author wrote it async; or, when there is no such
  function, by success without any change.
\<close>

definition served ::
  "('s, 'a) Author \<Rightarrow> (string \<times> bool) list \<Rightarrow> string \<Rightarrow> 'a \<Rightarrow> 's \<Rightarrow> (unit, WireFault) result \<times> 's \<Rightarrow> bool" where
  "served author present name a s r \<longleftrightarrow>
     (case handler_of present name of
        None \<Rightarrow> r = (Ok (), s)
      | Some (h, is_async) \<Rightarrow> h = name
          \<and> r = (if is_async then drive (async_fn author name a) s else sync_fn author name a s))"

lemma served_arm: "served author present name a s (dispatch_arm author present name a s)"
  by (auto simp: served_def dispatch_arm_def call_handler_def dest: handler_of_SomeD split: option.split)

text \<open>
  C27: no handler is silently dead, and a transition reaches its handler intact. In an accepted
  keeper every function with the reserved prefix, and \<open>init\<close>, is one of the dispatched
  handlers. The configuration reaches \<open>init\<close>, a block \<open>on_block\<close>, an event \<open>on_event\<close>, a
  scheduled tick \<open>on_schedule\<close>, each with its own payload, the function called async or not
  as the author wrote it; a trigger without a handler succeeds and changes nothing; and an
  intent-status delivery of the host reaches \<open>on_intent_status\<close> with exactly the transition
  the registry reported, while an extension trigger of another kind is left alone.
\<close>

theorem keeper_dispatch_reaches_every_handler:
  assumes "keeper_expand x input = Ok glue" and "borsh_codec ser de" and "ser update = Ok bs"
  shows "(\<forall>name a. ImplFn name a \<in> set (ii_items input) \<longrightarrow> prefix ''on_'' name \<or> name = ''init'' \<longrightarrow>
        name \<in> {''init'', ''on_block'', ''on_event'', ''on_schedule'', ''on_intent_status''}
        \<and> (\<exists>a'. handler_of (kg_present glue) name = Some (name, a') \<and> ImplFn name a' \<in> set (ii_items input)))
     \<and> served author (kg_present glue) ''init'' (ArgConfig cfg) s (keeper_init author (kg_present glue) cfg s)
     \<and> served author (kg_present glue) ''on_block'' (ArgBlock block) s
          (keeper_on_trigger de author (kg_present glue) (TrBlock block) s)
     \<and> served author (kg_present glue) ''on_event'' (ArgEvent event) s
          (keeper_on_trigger de author (kg_present glue) (TrEvent event) s)
     \<and> served author (kg_present glue) ''on_schedule'' (ArgSchedule due) s
          (keeper_on_trigger de author (kg_present glue) (TrSchedule due) s)
     \<and> (let d = delivery_of update (ENVELOPE_VERSION_V1 # bs) in
          served author (kg_present glue) ''on_intent_status'' (ArgUpdate update) s
            (keeper_on_trigger de author (kg_present glue) (TrExtension (dl_trigger_kind d) (dl_payload d)) s))
     \<and> (\<forall>kind payload. kind \<noteq> INTENT_STATUS_KIND \<longrightarrow>
          keeper_on_trigger de author (kg_present glue) (TrExtension kind payload) s = (Ok (), s))"
proof -
  note k = keeper_expand_Ok [OF assms(1)]
  have rec: "intent_status_update de INTENT_STATUS_KIND (ENVELOPE_VERSION_V1 # bs) = Some (Ok update)"
    using recovered_delivery [OF assms(2,3)] by (simp add: recovered_def delivery_of_def)
  have "name \<in> {''init'', ''on_block'', ''on_event'', ''on_schedule'', ''on_intent_status''}
      \<and> (\<exists>a'. handler_of (kg_present glue) name = Some (name, a') \<and> ImplFn name a' \<in> set (ii_items input))"
    if f: "ImplFn name a \<in> set (ii_items input)" "prefix ''on_'' name \<or> name = ''init''" for name a
  proof -
    have "''init'' \<in> set HANDLERS" by (simp add: HANDLERS_def)
    with f k(1) have h: "name \<in> set HANDLERS" unfolding check_handlers_Ok by blast
    then have "(name, a) \<in> set (kg_present glue)" using f by (simp add: k(2) in_present_handlers)
    then have "handler_of (kg_present glue) name \<noteq> None"
      unfolding handler_of_eq_None by force
    then obtain a' where "handler_of (kg_present glue) name = Some (name, a')"
      "(name, a') \<in> set (kg_present glue)"
      by (metis handler_of_SomeD option.exhaust prod.collapse)
    then have "\<exists>a'. handler_of (kg_present glue) name = Some (name, a') \<and> ImplFn name a' \<in> set (ii_items input)"
      by (auto simp: k(2) in_present_handlers)
    moreover have "name \<in> {''init'', ''on_block'', ''on_event'', ''on_schedule'', ''on_intent_status''}"
      using h by (simp add: HANDLERS_def)
    ultimately show ?thesis by blast
  qed
  moreover have "let d = delivery_of update (ENVELOPE_VERSION_V1 # bs) in
      served author (kg_present glue) ''on_intent_status'' (ArgUpdate update) s
        (keeper_on_trigger de author (kg_present glue) (TrExtension (dl_trigger_kind d) (dl_payload d)) s)"
    using served_arm [of author "kg_present glue" "''on_intent_status''" "ArgUpdate update" s]
    by (cases "handler_of (kg_present glue) ''on_intent_status''")
      (simp_all add: dispatch_arm_def delivery_of_def rec Let_def)
  moreover have "keeper_on_trigger de author (kg_present glue) (TrExtension kind payload) s = (Ok (), s)"
    if "kind \<noteq> INTENT_STATUS_KIND" for kind payload
    using that by (simp add: intent_status_update_def split: option.split)
  ultimately show ?thesis
    by (intro conjI allI impI) (simp_all add: served_arm keeper_init_def)
qed

definition sample_keeper :: ItemImpl where
  "sample_keeper = \<lparr>ii_self_ty = ''EchoKeeper'', ii_trait = None, ii_generics = [],
     ii_items = [ImplFn ''on_block'' True, ImplFn ''on_intent_status'' False, ImplFn ''helper'' False]\<rparr>"

lemma sample_keeper_expands: "\<exists>glue. keeper_expand (sample_expander [''client'']) sample_keeper = Ok glue
    \<and> kg_present glue = [(''on_block'', True), (''on_intent_status'', False)]"
  by (simp add: keeper_expand_def sample_keeper_def HANDLERS_def present_handlers_def map_filter_simps
      derive_keeper_world_def sample_expander_def MANIFEST_FILE_def CLIENT_CAPABILITY_def Let_def)

definition sample_author :: "(nat, (unit, nat, unit, unit) HandlerArg) Author" where
  "sample_author =
     \<lparr>sync_fn = (\<lambda>name a n. (Ok (), n + 1)), async_fn = (\<lambda>name a n. (Ready (Ok ()), n + 10))\<rparr>"

theorem keeper_dispatch_reaches_every_handler_witness:
  "\<exists>glue. keeper_expand (sample_expander [''client'']) sample_keeper = Ok glue
     \<and> keeper_on_trigger borsh_IntentStatusUpdate sample_author (kg_present glue) (TrBlock 7) 0 = (Ok (), 10)"
proof -
  obtain glue where g: "keeper_expand (sample_expander [''client'']) sample_keeper = Ok glue"
    "kg_present glue = [(''on_block'', True), (''on_intent_status'', False)]"
    using sample_keeper_expands by blast
  obtain bs where "put_IntentStatusUpdate (update_for echo_id [7] [1, 2, 0, 0]) = Ok bs"
    using sample_update_encodes by (auto simp: is_ok_iff)
  note all = keeper_dispatch_reaches_every_handler [OF g(1) status_update.closed.borsh_codec_axioms this]
  have "served sample_author (kg_present glue) ''on_block'' (ArgBlock 7) 0
      (keeper_on_trigger borsh_IntentStatusUpdate sample_author (kg_present glue) (TrBlock 7) 0)"
    by (rule all [THEN conjunct2, THEN conjunct2, THEN conjunct1])
  then show ?thesis
    using g by (simp add: served_def handler_of_def drive_def poll_once_def sample_author_def)
qed

section \<open>The worlds\<close>

lemma refuse_capabilities_Ok: "refuse_capabilities declared = Ok () \<longleftrightarrow> set declared \<subseteq> set VENUE_CAPABILITIES"
  by (induction declared) auto

lemma push_packages_set: "set (push_packages ps qs) = set ps \<union> set qs"
  by (induction ps qs rule: push_packages.induct) auto

lemma push_packages_distinct: "distinct ps \<Longrightarrow> distinct (push_packages ps qs)"
  by (induction ps qs rule: push_packages.induct) auto

lemma push_packages_prefix: "prefix ps (push_packages ps qs)"
  by (induction ps qs rule: push_packages.induct) (auto intro: prefix_order.trans prefixI)

lemma venue_imports_acc:
  "venue_imports declared core (is, ps) = (imports, packages) \<Longrightarrow> distinct ps \<Longrightarrow>
     imports = is @ concat (map (\<lambda>c. case cap_import c of Some i \<Rightarrow> [i] | None \<Rightarrow> [])
         (filter (\<lambda>c. cap_name c \<in> set declared) core))
     \<and> prefix ps packages \<and> distinct packages
     \<and> set packages = set ps \<union> (\<Union>c\<in>{c \<in> set core. cap_name c \<in> set declared}. set (cap_packages c))"
proof (induction core arbitrary: "is" ps)
  case (Cons cap core)
  show ?case
  proof (cases "cap_name cap \<in> set declared")
    case True
    let ?ps = "push_packages ps (cap_packages cap)"
    have d: "distinct ?ps" by (rule push_packages_distinct [OF Cons.prems(2)])
    have "{c \<in> set (cap # core). cap_name c \<in> set declared} =
        insert cap {c \<in> set core. cap_name c \<in> set declared}"
      using True by auto
    then show ?thesis
      using True Cons.prems(1)
        Cons.IH [of "is @ (case cap_import cap of Some i \<Rightarrow> [i] | None \<Rightarrow> [])", OF _ d]
        prefix_order.trans [OF push_packages_prefix [of ps "cap_packages cap"], of packages]
      by (simp add: push_packages_set Un_assoc)
  next
    case False
    then have "{c \<in> set (cap # core). cap_name c \<in> set declared} =
        {c \<in> set core. cap_name c \<in> set declared}"
      by auto
    then show ?thesis
      using False Cons.prems Cons.IH [OF _ Cons.prems(2)] by simp
  qed
qed simp

lemma find_snoc_None: "find P xs = None \<Longrightarrow> find P (xs @ [y]) = (if P y then Some y else None)"
  by (induction xs) (auto split: if_splits)

text \<open>The imports a venue world grants: those of the declared rows, in the table's order.\<close>

definition granted_imports :: "CapabilityRow list \<Rightarrow> string list \<Rightarrow> string list" where
  "granted_imports core declared =
     concat (map (\<lambda>c. case cap_import c of Some i \<Rightarrow> [i] | None \<Rightarrow> [])
       (filter (\<lambda>c. cap_name c \<in> set declared) core))"

lemma synthesize_venue_eq:
  "synthesize_venue core declared = Ok w \<longleftrightarrow> refuse_capabilities declared = Ok ()
     \<and> w = \<lparr>mw_wit = (''package nexum:venue-world;'' @ newline @ newline
             @ ''world venue-adapter {'' @ newline
             @ ''    use nexum:host/types@0.1.0.{config, fault};'' @ newline @ newline)
           @ concat (map import_line (granted_imports core declared))
           @ newline @ ''    export init: func(config: config) -> result<_, fault>;'' @ newline
           @ ''    export videre:venue/adapter@0.1.0;'' @ newline @ ''}'' @ newline,
         mw_packages = snd (venue_imports declared core
           ([], [''videre-value-flow'', ''videre-types'', ''nexum-host'', ''videre-venue''])),
         mw_adapters = []\<rparr>"
proof -
  let ?base = "[''videre-value-flow'', ''videre-types'', ''nexum-host'', ''videre-venue'']"
  obtain lines packages where i: "venue_imports declared core ([], ?base) = (lines, packages)"
    by fastforce
  have "lines = granted_imports core declared"
    using venue_imports_acc [OF i] by (simp add: granted_imports_def)
  then show ?thesis
    unfolding synthesize_venue_def i Let_def and_then_eq_Ok by auto
qed

text \<open>The text of a venue world, line by line, for the imports it grants.\<close>

definition venue_world_text :: "string list \<Rightarrow> string" where
  "venue_world_text imports = concat (map (\<lambda>line. line @ [CHR 0x0A])
     ([''package nexum:venue-world;'', [], ''world venue-adapter {'',
       ''    use nexum:host/types@0.1.0.{config, fault};'', []]
      @ map (\<lambda>i. ''    import '' @ i @ '';'') imports
      @ [[], ''    export init: func(config: config) -> result<_, fault>;'',
         ''    export videre:venue/adapter@0.1.0;'', ''}'']))"

lemma venue_world_Ok:
  assumes "synthesize_venue core declared = Ok w"
  shows "set declared \<subseteq> {''chain'', ''http''}" "distinct (mw_packages w)"
    "prefix [''videre-value-flow'', ''videre-types'', ''nexum-host'', ''videre-venue''] (mw_packages w)"
    "set (mw_packages w) = {''videre-value-flow'', ''videre-types'', ''nexum-host'', ''videre-venue''}
       \<union> (\<Union>c\<in>{c \<in> set core. cap_name c \<in> set declared}. set (cap_packages c))"
    "mw_wit w = venue_world_text (granted_imports core declared)"
proof -
  note w = assms [unfolded synthesize_venue_eq]
  show "set declared \<subseteq> {''chain'', ''http''}"
    using w refuse_capabilities_Ok [of declared] by (simp add: VENUE_CAPABILITIES_def)
  obtain lines packages where i: "venue_imports declared core
      ([], [''videre-value-flow'', ''videre-types'', ''nexum-host'', ''videre-venue'']) = (lines, packages)"
    by fastforce
  then have "mw_packages w = packages" using w by simp
  then show "distinct (mw_packages w)"
    "prefix [''videre-value-flow'', ''videre-types'', ''nexum-host'', ''videre-venue''] (mw_packages w)"
    "set (mw_packages w) = {''videre-value-flow'', ''videre-types'', ''nexum-host'', ''videre-venue''}
       \<union> (\<Union>c\<in>{c \<in> set core. cap_name c \<in> set declared}. set (cap_packages c))"
    using venue_imports_acc [OF i] by simp_all
  have "concat (map import_line is) = concat (map (\<lambda>line. line @ [CHR 0x0A]) (map (\<lambda>i. ''    import '' @ i @ '';'') is))"
    for "is" by (induction "is") (simp_all add: import_line_def)
  then show "mw_wit w = venue_world_text (granted_imports core declared)"
    using w by (simp add: venue_world_text_def newline_def)
qed

lemma keeper_world_Ok:
  assumes "derive_keeper_world x = Ok (anchors, w)"
  obtains caps rows row where "synthesize x caps rows = Ok w" "CLIENT_CAPABILITY \<in> set caps"
    "find (\<lambda>r. er_name r = CLIENT_CAPABILITY) rows = Some row" "er_import row = CLIENT_IMPORT"
proof -
  obtain caps rows0 rows where k: "CLIENT_CAPABILITY \<in> set caps" "synthesize x caps rows = Ok w"
    "(case find (\<lambda>row. er_name row = CLIENT_CAPABILITY) rows0 of
        None \<Rightarrow> Ok (rows0 @ [client_row])
      | Some row \<Rightarrow> if er_import row = CLIENT_IMPORT then Ok rows0 else Err (WrongClientImport (er_import row)))
      = Ok rows"
    using assms by (auto simp: derive_keeper_world_def and_then_eq_Ok Let_def map_ok_eq_Ok split: if_splits)
  have "\<exists>row. find (\<lambda>r. er_name r = CLIENT_CAPABILITY) rows = Some row \<and> er_import row = CLIENT_IMPORT"
  proof (cases "find (\<lambda>row. er_name row = CLIENT_CAPABILITY) rows0")
    case None
    moreover from this have "rows = rows0 @ [client_row]" using k(3) by simp
    ultimately show ?thesis by (simp add: find_snoc_None client_row_def)
  next
    case (Some row)
    with k(3) show ?thesis by (auto split: if_splits)
  qed
  then show thesis using k that by blast
qed

text \<open>
  What the shared crate's synthesis is documented to do with the extension rows: the import
  of the row a declared name finds is a line of the world.
\<close>

definition rows_become_imports :: "expander \<Rightarrow> bool" where
  "rows_become_imports x \<longleftrightarrow> (\<forall>caps rows w name row. synthesize x caps rows = Ok w \<longrightarrow> name \<in> set caps \<longrightarrow>
     find (\<lambda>r. er_name r = name) rows = Some row \<longrightarrow> sublist (''import '' @ er_import row @ '';'') (mw_wit w))"

text \<open>
  C39: an adapter's world grants scoped transport and nothing else, a keeper's always grants the
  client. A venue world is synthesized exactly for declared names that are all venue
  capabilities; its text is the fixed face with one import for each declared row of the core
  table that has one, in the table's order, and no other; its packages are the adapter
  face's, then those of the declared rows, without repetition. A keeper whose world derives
  has declared the client, and its world imports the client interface, whether the
  extension registry has a row for it or not.
\<close>

theorem worlds_grant_what_is_declared:
  assumes "rows_become_imports x"
  shows "(\<exists>w. synthesize_venue core declared = Ok w) = (set declared \<subseteq> {''chain'', ''http''})
     \<and> (\<forall>w. synthesize_venue core declared = Ok w \<longrightarrow>
          mw_wit w = venue_world_text (granted_imports core declared)
          \<and> (\<forall>c\<in>set core. cap_name c \<in> set declared \<longrightarrow> cap_name c \<in> {''chain'', ''http''})
          \<and> distinct (mw_packages w)
          \<and> prefix [''videre-value-flow'', ''videre-types'', ''nexum-host'', ''videre-venue''] (mw_packages w)
          \<and> set (mw_packages w) = {''videre-value-flow'', ''videre-types'', ''nexum-host'', ''videre-venue''}
               \<union> (\<Union>c\<in>{c \<in> set core. cap_name c \<in> set declared}. set (cap_packages c)))
     \<and> (\<forall>anchors w. derive_keeper_world x = Ok (anchors, w) \<longrightarrow>
          sublist ''import videre:venue/client@0.1.0;'' (mw_wit w)
          \<and> (\<exists>caps rows row. synthesize x caps rows = Ok w \<and> ''client'' \<in> set caps
             \<and> find (\<lambda>r. er_name r = ''client'') rows = Some row
             \<and> er_import row = ''videre:venue/client@0.1.0''))"
proof (intro conjI allI impI)
  show "(\<exists>w. synthesize_venue core declared = Ok w) = (set declared \<subseteq> {''chain'', ''http''})"
    using refuse_capabilities_Ok [of declared] by (simp add: synthesize_venue_eq VENUE_CAPABILITIES_def)
next
  fix w assume w: "synthesize_venue core declared = Ok w"
  show "mw_wit w = venue_world_text (granted_imports core declared)"
    and "\<forall>c\<in>set core. cap_name c \<in> set declared \<longrightarrow> cap_name c \<in> {''chain'', ''http''}"
    and "distinct (mw_packages w)"
    and "prefix [''videre-value-flow'', ''videre-types'', ''nexum-host'', ''videre-venue''] (mw_packages w)"
    and "set (mw_packages w) = {''videre-value-flow'', ''videre-types'', ''nexum-host'', ''videre-venue''}
       \<union> (\<Union>c\<in>{c \<in> set core. cap_name c \<in> set declared}. set (cap_packages c))"
    using venue_world_Ok [OF w] by blast+
next
  fix anchors w assume "derive_keeper_world x = Ok (anchors, w)"
  then obtain caps rows row where k: "synthesize x caps rows = Ok w" "''client'' \<in> set caps"
    "find (\<lambda>r. er_name r = ''client'') rows = Some row" "er_import row = ''videre:venue/client@0.1.0''"
    by (rule keeper_world_Ok) (unfold CLIENT_CAPABILITY_def CLIENT_IMPORT_def, blast)
  then show "\<exists>caps rows row. synthesize x caps rows = Ok w \<and> ''client'' \<in> set caps
             \<and> find (\<lambda>r. er_name r = ''client'') rows = Some row
             \<and> er_import row = ''videre:venue/client@0.1.0''" by blast
  have "sublist (''import '' @ er_import row @ '';'') (mw_wit w)"
    using assms k(1-3) unfolding rows_become_imports_def by blast
  then show "sublist ''import videre:venue/client@0.1.0;'' (mw_wit w)" by (simp add: k(4))
qed

lemma sample_rows_become_imports: "rows_become_imports (sample_expander declared)"
  unfolding rows_become_imports_def
proof (intro allI impI)
  fix caps rows w name row
  assume w: "synthesize (sample_expander declared) caps rows = Ok w" and n: "name \<in> set caps"
    and f: "find (\<lambda>r. er_name r = name) rows = Some row"
  have "row \<in> set (filter (\<lambda>r. er_name r \<in> set caps) rows)"
    using f n by (auto simp: find_Some_iff in_set_conv_nth)
  then obtain us vs where "filter (\<lambda>r. er_name r \<in> set caps) rows = us @ row # vs"
    using split_list by fast
  then have "sublist (import_line (er_import row))
      (concat (map (import_line \<circ> er_import) (filter (\<lambda>r. er_name r \<in> set caps) rows)))"
    unfolding sublist_def by (intro exI [of _ "concat (map (import_line \<circ> er_import) us)"]
      exI [of _ "concat (map (import_line \<circ> er_import) vs)"]) simp
  moreover have "sublist (''import '' @ er_import row @ '';'') (import_line (er_import row))"
    unfolding sublist_def import_line_def by (intro exI [of _ "''    ''"] exI [of _ "[CHR 0x0A]"]) simp
  ultimately show "sublist (''import '' @ er_import row @ '';'') (mw_wit w)"
    using w by (auto simp: sample_expander_def intro: sublist_order.order.trans)
qed

theorem worlds_grant_what_is_declared_witness:
  "(\<exists>w. synthesize_venue (CORE (sample_expander [])) [''chain'', ''http''] = Ok w
      \<and> mw_wit w = venue_world_text [''nexum:host/chain@0.1.0''])
   \<and> \<not> (\<exists>w. synthesize_venue (CORE (sample_expander [])) [''local-store''] = Ok w)
   \<and> (\<exists>anchors w. derive_keeper_world (sample_expander [''client'']) = Ok (anchors, w)
      \<and> sublist ''import videre:venue/client@0.1.0;'' (mw_wit w))"
proof -
  have g: "granted_imports (CORE (sample_expander [])) [''chain'', ''http''] = [''nexum:host/chain@0.1.0'']"
    by (simp add: granted_imports_def sample_expander_def)
  have "\<exists>anchors w. derive_keeper_world (sample_expander [''client'']) = Ok (anchors, w)"
    by (simp add: derive_keeper_world_def sample_expander_def MANIFEST_FILE_def CLIENT_CAPABILITY_def Let_def)
  then obtain anchors kw where k: "derive_keeper_world (sample_expander [''client'']) = Ok (anchors, kw)"
    by blast
  have client: "sublist ''import videre:venue/client@0.1.0;'' (mw_wit kw)"
    by (rule worlds_grant_what_is_declared [OF sample_rows_become_imports, of "[]" "[]",
          THEN conjunct2, THEN conjunct2, rule_format, OF k, THEN conjunct1])
  note venue = worlds_grant_what_is_declared [OF sample_rows_become_imports [of "[]"],
      of "CORE (sample_expander [])"]
  obtain w where w: "synthesize_venue (CORE (sample_expander [])) [''chain'', ''http''] = Ok w"
    using venue [of "[''chain'', ''http'']", THEN conjunct1] by auto
  have "mw_wit w = venue_world_text [''nexum:host/chain@0.1.0'']"
    using venue [THEN conjunct2, THEN conjunct1, rule_format, OF w, THEN conjunct1] unfolding g .
  moreover have "\<not> (\<exists>w. synthesize_venue (CORE (sample_expander [])) [''local-store''] = Ok w)"
    unfolding venue [of "[''local-store'']", THEN conjunct1] by simp
  ultimately show ?thesis using k w client by blast
qed

end
