(* ===== verification/Macro_Tests.thy ===== *)
theory Macro_Tests imports Macro_Properties Sdk_Tests
begin

text \<open>
  The unit tests of \<^verbatim>\<open>videre-macros\<close>: the handler names of \<^verbatim>\<open>keeper.rs\<close>, the venue world
  and the component name of \<^verbatim>\<open>world.rs\<close>, and the id literal of \<^verbatim>\<open>venue_marker.rs\<close>. The
  capability table, the toml parser and the type test are those of the expander a test runs
  in, and \<open>dbg\<close> is the quoting of a string in a message. The facts on which the tests rest
  about them are the predicate \<open>test_expander\<close>.
\<close>

section \<open>Messages\<close>

abbreviation contains :: "string \<Rightarrow> string \<Rightarrow> bool" where
  "contains s sub \<equiv> str_contains sub s"

fun occurrences :: "string \<Rightarrow> string \<Rightarrow> nat" where
  "occurrences sub [] = 0"
| "occurrences sub (c # s) =
     (if prefix sub (c # s) then Suc (occurrences sub (drop (length sub - 1) s)) else occurrences sub s)"

fun joined :: "string \<Rightarrow> string list \<Rightarrow> string" where
  "joined sep [] = []"
| "joined sep [x] = x"
| "joined sep (x # xs) = x @ sep @ joined sep xs"

text \<open>The messages of the refusals the tests read.\<close>

definition unrecognised_message :: "(string \<Rightarrow> string) \<Rightarrow> string \<Rightarrow> string \<Rightarrow> string" where
  "unrecognised_message dbg name hint =
     ''`'' @ name @ ''` is not a recognised #[videre_sdk::keeper] handler; expected one of [''
       @ joined '', '' (map dbg HANDLERS) @ ''] ('' @ hint @ '')''"

definition capability_message :: "string \<Rightarrow> string" where
  "capability_message name =
     ''capability `'' @ name @ ''` is not available to a venue adapter; a venue may import only scoped transport (''
       @ joined '', '' VENUE_CAPABILITIES @ '') and structurally cannot touch local-store or logging''"

definition padded_id_message :: "(string \<Rightarrow> string) \<Rightarrow> string \<Rightarrow> string" where
  "padded_id_message dbg v = ''venue id '' @ dbg v @ '' must not be empty or whitespace-padded''"

type_synonym macro_test = "expander \<Rightarrow> (string \<Rightarrow> string) \<Rightarrow> bool"

section \<open>\<^verbatim>\<open>keeper.rs\<close>\<close>

definition worker_with :: "string \<Rightarrow> ItemImpl" where
  "worker_with handler =
     \<lparr>ii_self_ty = ''Worker'', ii_trait = None, ii_generics = [], ii_items = [ImplFn handler False]\<rparr>"

definition refusal :: "expander \<Rightarrow> (string \<Rightarrow> string) \<Rightarrow> string \<Rightarrow> string option" where
  "refusal x dbg handler =
     (case keeper_expand x (worker_with handler) of
        Err (UnrecognisedHandler name hint) \<Rightarrow> Some (unrecognised_message dbg name hint)
      | Err (Refused message) \<Rightarrow> Some message
      | _ \<Rightarrow> None)"

definition refusal_contains :: "expander \<Rightarrow> (string \<Rightarrow> string) \<Rightarrow> string \<Rightarrow> string \<Rightarrow> bool" where
  "refusal_contains x dbg handler sub =
     (case refusal x dbg handler of None \<Rightarrow> False | Some message \<Rightarrow> contains message sub)"

definition retired_handlers_are_disjoint_from_the_live_set :: macro_test where
  "retired_handlers_are_disjoint_from_the_live_set x dbg =
     list_all (\<lambda>(retired, _). retired \<notin> set HANDLERS) RETIRED_HANDLERS"

definition a_retired_handler_names_its_replacement :: macro_test where
  "a_retired_handler_names_its_replacement x dbg \<longleftrightarrow>
     refusal_contains x dbg ''on_tick'' ''`on_tick` is replaced by on_schedule''
   \<and> refusal_contains x dbg ''on_chain_logs'' ''replaced by on_event, which takes one log''
   \<and> refusal_contains x dbg ''on_message'' ''host messaging capability is retired''"

definition an_unknown_handler_falls_back_to_the_prefix_advice :: macro_test where
  "an_unknown_handler_falls_back_to_the_prefix_advice x dbg \<longleftrightarrow>
     refusal_contains x dbg ''on_nonesuch'' ''is not a recognised''
   \<and> refusal_contains x dbg ''on_nonesuch'' ''do not start with `on_`''"

section \<open>\<^verbatim>\<open>world.rs\<close>\<close>

definition VENUE_PACKAGES :: "string list" where
  "VENUE_PACKAGES = [''videre-value-flow'', ''videre-types'', ''nexum-host'', ''videre-venue'']"

definition venue_world_exports_the_adapter_face :: macro_test where
  "venue_world_exports_the_adapter_face x dbg =
     expected (synthesize_venue (CORE x) [''chain'']) (\<lambda>w.
       prefix ''package nexum:venue-world;'' (mw_wit w)
     \<and> contains (mw_wit w) ''world venue-adapter {''
     \<and> contains (mw_wit w) ''export init: func(config: config) -> result<_, fault>;''
     \<and> contains (mw_wit w) ''export videre:venue/adapter@0.1.0;''
     \<and> mw_packages w = VENUE_PACKAGES \<and> mw_adapters w = [])"

definition venue_world_imports_only_declared_transport :: macro_test where
  "venue_world_imports_only_declared_transport x dbg \<longleftrightarrow>
     expected (synthesize_venue (CORE x) [''chain'']) (\<lambda>w.
       contains (mw_wit w) ''import nexum:host/chain@0.1.0;''
     \<and> \<not> contains (mw_wit w) ''import nexum:host/local-store''
     \<and> \<not> contains (mw_wit w) ''import nexum:host/logging'')
   \<and> expected (synthesize_venue (CORE x) [''chain'', ''http'']) (\<lambda>both.
       occurrences ''    import '' (mw_wit both) = 1
     \<and> contains (mw_wit both) ''import nexum:host/chain@0.1.0;'')"

definition venue_world_grants_http_without_a_world_import :: macro_test where
  "venue_world_grants_http_without_a_world_import x dbg =
     expected (synthesize_venue (CORE x) [''http'']) (\<lambda>w.
       \<not> contains (mw_wit w) ''import'' \<and> \<not> contains (mw_wit w) ''wasi:http''
     \<and> mw_packages w = VENUE_PACKAGES)"

definition venue_world_with_no_capabilities_imports_nothing :: macro_test where
  "venue_world_with_no_capabilities_imports_nothing x dbg =
     expected (synthesize_venue (CORE x) []) (\<lambda>w.
       \<not> contains (mw_wit w) ''import'' \<and> contains (mw_wit w) ''export videre:venue/adapter@0.1.0;'')"

definition venue_world_refuses_non_transport_capabilities :: macro_test where
  "venue_world_refuses_non_transport_capabilities x dbg =
     list_all (\<lambda>cap.
       case synthesize_venue (CORE x) [cap] of
         Err (CapabilityRefused name) \<Rightarrow>
           (let err = capability_message name
            in contains err cap \<and> contains err ''venue adapter'' \<and> contains err ''chain, http'')
       | _ \<Rightarrow> False)
     [''local-store'', ''logging'', ''messaging'', ''client'']"

text \<open>The manifest texts of the two tests, in lines.\<close>

definition lines_of :: "string list \<Rightarrow> string" where
  "lines_of ls = concat (map (\<lambda>l. l @ newline) ls)"

definition ECHO_MANIFEST :: string where
  "ECHO_MANIFEST = lines_of [''[component]'', ''name = \"echo\"'', [], ''[dependencies]'', ''chain = {}'']"

definition MALFORMED_MANIFESTS :: "(string \<times> string) list" where
  "MALFORMED_MANIFESTS =
     [([], ''no [component] table''),
      (lines_of [''component = 7''], ''[component] must be a table''),
      (lines_of [''[component]''], ''[component] declares no `name`''),
      (lines_of [''[component]'', ''name = 7''], ''[component] name must be a string'')]"

definition manifest_name_reads_the_component_section :: macro_test where
  "manifest_name_reads_the_component_section x dbg \<longleftrightarrow> manifest_name x ECHO_MANIFEST = Ok ''echo''"

definition manifest_name_refuses_a_missing_or_malformed_name :: macro_test where
  "manifest_name_refuses_a_missing_or_malformed_name x dbg \<longleftrightarrow>
     list_all (\<lambda>(content, expected_text). manifest_name x content = Err expected_text) MALFORMED_MANIFESTS
   \<and> (case manifest_name x ''='' of Ok _ \<Rightarrow> False | Err e \<Rightarrow> prefix ''not valid TOML'' e)"

section \<open>\<^verbatim>\<open>venue_marker.rs\<close>\<close>

definition id_error :: "(string \<Rightarrow> string) \<Rightarrow> string \<Rightarrow> string option" where
  "id_error dbg i =
     (case id_shape_check i of Err (PaddedId v) \<Rightarrow> Some (padded_id_message dbg v) | _ \<Rightarrow> None)"

text \<open>The no-break space in UTF-8.\<close>

definition NBSP :: string where "NBSP = [char_of (0xC2 :: nat), char_of (0xA0 :: nat)]"

definition a_padded_or_empty_id_literal_is_rejected :: macro_test where
  "a_padded_or_empty_id_literal_is_rejected x dbg \<longleftrightarrow>
     (case id_error dbg ''demo '' of None \<Rightarrow> False | Some e \<Rightarrow> contains e ''whitespace-padded'')
   \<and> id_error dbg '' demo'' \<noteq> None
   \<and> id_error dbg ([CHR 0x09] @ ''demo'' @ newline) \<noteq> None
   \<and> id_error dbg (''demo'' @ NBSP) \<noteq> None
   \<and> id_error dbg [] \<noteq> None
   \<and> id_error dbg ''demo'' = None
   \<and> id_error dbg ''demo:11155111'' = None
   \<and> id_error dbg ''demo venue'' = None"

definition macro_tests :: "macro_test list" where
  "macro_tests =
     [retired_handlers_are_disjoint_from_the_live_set,
      a_retired_handler_names_its_replacement,
      an_unknown_handler_falls_back_to_the_prefix_advice,
      venue_world_exports_the_adapter_face,
      venue_world_imports_only_declared_transport,
      venue_world_grants_http_without_a_world_import,
      venue_world_with_no_capabilities_imports_nothing,
      venue_world_refuses_non_transport_capabilities,
      manifest_name_reads_the_component_section,
      manifest_name_refuses_a_missing_or_malformed_name,
      a_padded_or_empty_id_literal_is_rejected]"

section \<open>What the tests rest on\<close>

text \<open>
  \<open>Worker\<close> is a plain type; the shared capability table has one row each for \<open>chain\<close> and
  \<open>http\<close>, neither with packages and the second with no import; and the toml parser reads the
  tests' texts as what they spell.
\<close>

definition core_rows :: "CapabilityRow list \<Rightarrow> bool" where
  "core_rows core \<longleftrightarrow>
     filter (\<lambda>c. cap_name c = ''chain'') core
       = [\<lparr>cap_name = ''chain'', cap_import = Some ''nexum:host/chain@0.1.0'', cap_packages = []\<rparr>]
   \<and> filter (\<lambda>c. cap_name c = ''http'') core
       = [\<lparr>cap_name = ''http'', cap_import = None, cap_packages = []\<rparr>]"

definition reads_tests :: "(string \<Rightarrow> ((string \<times> toml) list, string) result) \<Rightarrow> bool" where
  "reads_tests parse \<longleftrightarrow>
     parse ECHO_MANIFEST = Ok [(''component'', TomlTable [(''name'', TomlString ''echo'')]),
                               (''dependencies'', TomlTable [(''chain'', TomlTable [])])]
   \<and> parse [] = Ok []
   \<and> parse (lines_of [''component = 7'']) = Ok [(''component'', TomlOther)]
   \<and> parse (lines_of [''[component]'']) = Ok [(''component'', TomlTable [])]
   \<and> parse (lines_of [''[component]'', ''name = 7'']) = Ok [(''component'', TomlTable [(''name'', TomlOther)])]
   \<and> (\<exists>e. parse ''='' = Err e)"

definition test_expander :: "expander \<Rightarrow> bool" where
  "test_expander x \<longleftrightarrow> is_plain_type x ''Worker'' \<and> core_rows (CORE x) \<and> reads_tests (parse_toml x)"

section \<open>They pass\<close>

lemma str_contains_sublist: "str_contains p s \<longleftrightarrow> sublist p s"
proof (induction p s rule: str_contains.induct)
  case (2 p c s)
  then show ?case using sublist_Cons_right [of p c s] by simp
qed simp

lemma str_contains_append: "str_contains p s \<Longrightarrow> str_contains p (s @ t)"
  unfolding str_contains_sublist sublist_def by (metis append.assoc)

lemma str_contains_after: "str_contains p t \<Longrightarrow> str_contains p (s @ t)"
  unfolding str_contains_sublist sublist_def by (metis append.assoc)

lemma message_contains:
  "contains (''`'' @ name @ ''` is not a recognised #[videre_sdk::keeper] handler; expected one of ['') sub
    \<Longrightarrow> contains (unrecognised_message dbg name hint) sub"
  "contains hint sub \<Longrightarrow> contains (unrecognised_message dbg name hint) sub"
proof -
  let ?head = "''`'' @ name @ ''` is not a recognised #[videre_sdk::keeper] handler; expected one of [''"
  let ?list = "joined '', '' (map dbg HANDLERS) @ ''] (''"
  have message: "unrecognised_message dbg name hint = ?head @ (?list @ (hint @ '')''))"
    by (simp add: unrecognised_message_def)
  show "contains ?head sub \<Longrightarrow> contains (unrecognised_message dbg name hint) sub"
    unfolding message by (rule str_contains_append)
  show "contains hint sub \<Longrightarrow> contains (unrecognised_message dbg name hint) sub"
    unfolding message by (intro str_contains_after str_contains_append)
qed

lemma padded_message_contains: "contains (padded_id_message dbg v) ''whitespace-padded''"
  unfolding padded_id_message_def by (intro str_contains_after) simp

lemma refusal_of:
  assumes "is_plain_type x ''Worker''" and "prefix ''on_'' h" and "h \<notin> set HANDLERS"
  shows "refusal x dbg h = Some (unrecognised_message dbg h (retired_hint h))"
  using assms by (simp add: refusal_def keeper_expand_def worker_with_def)

lemma handler_tests:
  assumes "is_plain_type x ''Worker''"
  shows "retired_handlers_are_disjoint_from_the_live_set x dbg"
    and "a_retired_handler_names_its_replacement x dbg"
    and "an_unknown_handler_falls_back_to_the_prefix_advice x dbg"
proof -
  note named = refusal_contains_def refusal_of [OF assms] HANDLERS_def message_contains
    retired_hint_def RETIRED_HANDLERS_def
  show "retired_handlers_are_disjoint_from_the_live_set x dbg"
    by (simp add: retired_handlers_are_disjoint_from_the_live_set_def HANDLERS_def RETIRED_HANDLERS_def)
  show "a_retired_handler_names_its_replacement x dbg"
    by (simp add: a_retired_handler_names_its_replacement_def named)
  show "an_unknown_handler_falls_back_to_the_prefix_advice x dbg"
    by (simp add: an_unknown_handler_falls_back_to_the_prefix_advice_def named)
qed

text \<open>A row with nothing to import adds nothing, and neither does one that is not declared.\<close>

definition grants :: "CapabilityRow \<Rightarrow> bool" where
  "grants c \<longleftrightarrow> cap_import c \<noteq> None \<or> cap_packages c \<noteq> []"

lemma venue_imports_filter:
  "venue_imports declared core acc =
     venue_imports declared (filter (\<lambda>c. cap_name c \<in> set declared \<and> grants c) core) acc"
  by (induction declared core acc rule: venue_imports.induct) (simp_all add: grants_def)

lemma filter_both: "filter (\<lambda>c. P c \<and> Q c) xs = filter Q (filter P xs)"
  by simp

lemma core_filters:
  assumes "core_rows core"
  shows "filter (\<lambda>c. cap_name c = ''chain'' \<and> grants c) core
      = [\<lparr>cap_name = ''chain'', cap_import = Some ''nexum:host/chain@0.1.0'', cap_packages = []\<rparr>]"
    and "filter (\<lambda>c. cap_name c = ''http'' \<and> grants c) core = []"
    and "filter (\<lambda>c. (cap_name c = ''chain'' \<or> cap_name c = ''http'') \<and> grants c) core
      = [\<lparr>cap_name = ''chain'', cap_import = Some ''nexum:host/chain@0.1.0'', cap_packages = []\<rparr>]"
proof -
  let ?chain = "\<lparr>cap_name = ''chain'', cap_import = Some ''nexum:host/chain@0.1.0'', cap_packages = []\<rparr>"
  show chain: "filter (\<lambda>c. cap_name c = ''chain'' \<and> grants c) core = [?chain]"
    using assms unfolding core_rows_def filter_both by (simp only:) (simp add: grants_def)
  show http: "filter (\<lambda>c. cap_name c = ''http'' \<and> grants c) core = []"
    using assms unfolding core_rows_def filter_both by (simp only:) (simp add: grants_def)
  have "filter (\<lambda>c. (cap_name c = ''chain'' \<or> cap_name c = ''http'') \<and> grants c) core
      = filter (\<lambda>c. cap_name c = ''chain'' \<and> grants c) core"
    using http by (intro filter_cong) (auto simp: filter_empty_conv)
  with chain show "filter (\<lambda>c. (cap_name c = ''chain'' \<or> cap_name c = ''http'') \<and> grants c) core = [?chain]"
    by simp
qed

lemma core_imports:
  assumes "core_rows core"
  shows "venue_imports [''chain''] core ([], ps) = ([''nexum:host/chain@0.1.0''], ps)"
    and "venue_imports [''http''] core ([], ps) = ([], ps)"
    and "venue_imports [''chain'', ''http''] core ([], ps) = ([''nexum:host/chain@0.1.0''], ps)"
    and "venue_imports [] core ([], ps) = ([], ps)"
  using venue_imports_filter [of "[''chain'']" core "([], ps)"]
    venue_imports_filter [of "[''http'']" core "([], ps)"]
    venue_imports_filter [of "[''chain'', ''http'']" core "([], ps)"]
    venue_imports_filter [of "[]" core "([], ps)"]
  by (simp_all add: core_filters [OF assms])

lemma world_tests:
  assumes "core_rows (CORE x)"
  shows "venue_world_exports_the_adapter_face x dbg"
    and "venue_world_imports_only_declared_transport x dbg"
    and "venue_world_grants_http_without_a_world_import x dbg"
    and "venue_world_with_no_capabilities_imports_nothing x dbg"
    and "venue_world_refuses_non_transport_capabilities x dbg"
  by (simp_all add: venue_world_exports_the_adapter_face_def venue_world_imports_only_declared_transport_def
      venue_world_grants_http_without_a_world_import_def venue_world_with_no_capabilities_imports_nothing_def
      venue_world_refuses_non_transport_capabilities_def synthesize_venue_def
      VENUE_CAPABILITIES_def core_imports [OF assms] newline_def import_line_def VENUE_PACKAGES_def
      capability_message_def)

lemma manifest_tests:
  assumes "reads_tests (parse_toml x)"
  shows "manifest_name_reads_the_component_section x dbg"
    and "manifest_name_refuses_a_missing_or_malformed_name x dbg"
  using assms
  by (auto simp: reads_tests_def manifest_name_reads_the_component_section_def
      manifest_name_refuses_a_missing_or_malformed_name_def MALFORMED_MANIFESTS_def manifest_name_def)

lemma id_shape_check_eq:
  "id_shape_check v = (if v = [] \<or> starts_with_ws v \<or> ends_with_ws v then Err (PaddedId v) else Ok ())"
  using str_trim_length_eq [of v] str_trim_fixpoint [of v] by (auto simp: id_shape_check_def)

lemma id_test: "a_padded_or_empty_id_literal_is_rejected x dbg"
  by (simp add: a_padded_or_empty_id_literal_is_rejected_def id_error_def id_shape_check_eq id_eval
      padded_message_contains NBSP_def newline_def char_of_def bit_0)

lemma macro_tests_pass: "test_expander x \<Longrightarrow> list_all (\<lambda>test. test x dbg) macro_tests"
  by (simp add: test_expander_def macro_tests_def handler_tests world_tests manifest_tests id_test)

text \<open>An expander with those facts: its parser knows the five texts and refuses the rest.\<close>

definition read_test_manifest :: "string \<Rightarrow> ((string \<times> toml) list, string) result" where
  "read_test_manifest content =
     (if content = ECHO_MANIFEST then
        Ok [(''component'', TomlTable [(''name'', TomlString ''echo'')]),
            (''dependencies'', TomlTable [(''chain'', TomlTable [])])]
      else if content = [] then Ok []
      else if content = lines_of [''component = 7''] then Ok [(''component'', TomlOther)]
      else if content = lines_of [''[component]''] then Ok [(''component'', TomlTable [])]
      else if content = lines_of [''[component]'', ''name = 7''] then
        Ok [(''component'', TomlTable [(''name'', TomlOther)])]
      else Err ''unexpected input'')"

lemma sample_test_expander: "test_expander ((sample_expander [])\<lparr>parse_toml := read_test_manifest\<rparr>)"
  by (simp add: test_expander_def core_rows_def reads_tests_def sample_expander_def
      read_test_manifest_def lines_of_def ECHO_MANIFEST_def newline_def)

end
