(* ===== verification/Fixture_Disk.thy ===== *)
theory Fixture_Disk imports Fixture_Properties "HOL-Library.Countable"
begin

text \<open>
  The fixture sets as text and as files: \<^verbatim>\<open>from_json\<close>, \<^verbatim>\<open>to_json\<close>, \<^verbatim>\<open>load\<close> and \<^verbatim>\<open>write\<close> of the
  three kinds of set, and the two regenerators. The libraries are arguments: the text of a
  JSON document, hex, and a file system on a state of its own.
\<close>

section \<open>The libraries\<close>

record text_lib =
  print_json :: "Json \<Rightarrow> string"
  parse_json :: "string \<Rightarrow> (Json, string) result"

record fixture_lib =
  hex_enc :: "bytes \<Rightarrow> string"
  hex_dec :: hex_decoder
  json_text :: text_lib

record 'w disk =
  read_file :: "'w \<Rightarrow> files"
  write_file :: "string \<Rightarrow> string \<Rightarrow> 'w \<Rightarrow> (unit, string) result \<times> 'w"

definition lib_of :: "text_lib \<Rightarrow> ('t \<Rightarrow> Json) \<Rightarrow> 't reader \<Rightarrow> 't json_lib" where
  "lib_of tx wr rd =
     \<lparr>to_string_pretty = (\<lambda>v. print_json tx (wr v)), from_str = (\<lambda>s. and_then (parse_json tx s) rd)\<rparr>"

section \<open>The three kinds of set\<close>

definition CodecVectors_lib :: "fixture_lib \<Rightarrow> CodecVectors json_lib" where
  "CodecVectors_lib x = lib_of (json_text x) (codec_vectors_json (hex_enc x)) (read_codec_vectors (hex_dec x))"

definition CodecVectors_from_json :: "fixture_lib \<Rightarrow> string \<Rightarrow> (CodecVectors, FixtureError) result" where
  "CodecVectors_from_json x json = from_json (CodecVectors_lib x) json"

definition CodecVectors_to_json :: "fixture_lib \<Rightarrow> CodecVectors \<Rightarrow> string" where
  "CodecVectors_to_json x s = to_json (CodecVectors_lib x) s"

definition CodecVectors_load ::
  "fixture_lib \<Rightarrow> 'w disk \<Rightarrow> string \<Rightarrow> 'w \<Rightarrow> (CodecVectors, FixtureError) result" where
  "CodecVectors_load x d path w = fixture_load (CodecVectors_lib x) (read_file d w) path"

definition CodecVectors_write ::
  "fixture_lib \<Rightarrow> 'w disk \<Rightarrow> string \<Rightarrow> CodecVectors \<Rightarrow> 'w \<Rightarrow> (unit, FixtureError) result \<times> 'w" where
  "CodecVectors_write x d path s w = fixture_write (CodecVectors_lib x) (write_file d) path s w"

definition UintVectors_lib :: "fixture_lib \<Rightarrow> UintVectors json_lib" where
  "UintVectors_lib x = lib_of (json_text x) (uint_vectors_json (hex_enc x)) (read_uint_vectors (hex_dec x))"

definition UintVectors_from_json :: "fixture_lib \<Rightarrow> string \<Rightarrow> (UintVectors, FixtureError) result" where
  "UintVectors_from_json x json = from_json (UintVectors_lib x) json"

definition UintVectors_to_json :: "fixture_lib \<Rightarrow> UintVectors \<Rightarrow> string" where
  "UintVectors_to_json x s = to_json (UintVectors_lib x) s"

definition UintVectors_load ::
  "fixture_lib \<Rightarrow> 'w disk \<Rightarrow> string \<Rightarrow> 'w \<Rightarrow> (UintVectors, FixtureError) result" where
  "UintVectors_load x d path w = fixture_load (UintVectors_lib x) (read_file d w) path"

definition UintVectors_write ::
  "fixture_lib \<Rightarrow> 'w disk \<Rightarrow> string \<Rightarrow> UintVectors \<Rightarrow> 'w \<Rightarrow> (unit, FixtureError) result \<times> 'w" where
  "UintVectors_write x d path s w = fixture_write (UintVectors_lib x) (write_file d) path s w"

definition HeaderGoldens_lib :: "fixture_lib \<Rightarrow> HeaderGoldens json_lib" where
  "HeaderGoldens_lib x = lib_of (json_text x) (header_goldens_json (hex_enc x)) (read_header_goldens (hex_dec x))"

definition HeaderGoldens_from_json :: "fixture_lib \<Rightarrow> string \<Rightarrow> (HeaderGoldens, FixtureError) result" where
  "HeaderGoldens_from_json x json = from_json (HeaderGoldens_lib x) json"

definition HeaderGoldens_to_json :: "fixture_lib \<Rightarrow> HeaderGoldens \<Rightarrow> string" where
  "HeaderGoldens_to_json x s = to_json (HeaderGoldens_lib x) s"

definition HeaderGoldens_load ::
  "fixture_lib \<Rightarrow> 'w disk \<Rightarrow> string \<Rightarrow> 'w \<Rightarrow> (HeaderGoldens, FixtureError) result" where
  "HeaderGoldens_load x d path w = fixture_load (HeaderGoldens_lib x) (read_file d w) path"

definition HeaderGoldens_write ::
  "fixture_lib \<Rightarrow> 'w disk \<Rightarrow> string \<Rightarrow> HeaderGoldens \<Rightarrow> 'w \<Rightarrow> (unit, FixtureError) result \<times> 'w" where
  "HeaderGoldens_write x d path s w = fixture_write (HeaderGoldens_lib x) (write_file d) path s w"

text \<open>
  The regenerators, as what they leave of a file system: \<open>None\<close> when a write fails, where
  they panic. Their paths are under the crate's root.
\<close>

definition written :: "(unit, FixtureError) result \<times> 'w \<Rightarrow> 'w option" where
  "written r = (case r of (Ok _, w) \<Rightarrow> Some w | (Err _, w) \<Rightarrow> None)"

definition regenerate_uint_vectors ::
  "fixture_lib \<Rightarrow> 'w disk \<Rightarrow> (u256 \<Rightarrow> bytes) \<Rightarrow> string \<Rightarrow> 'w \<Rightarrow> 'w option" where
  "regenerate_uint_vectors x d trimmed root w =
     written (UintVectors_write x d (root @ ''/vectors/uint.json'') (build_uint_vectors trimmed decimal) w)"

definition regenerate_reference_fixtures ::
  "fixture_lib \<Rightarrow> 'w disk \<Rightarrow> (u256 \<Rightarrow> bytes) \<Rightarrow> string \<Rightarrow> 'w \<Rightarrow> 'w option" where
  "regenerate_reference_fixtures x d trimmed root w =
     Option.bind build_codec_vectors (\<lambda>vectors.
     Option.bind (written (CodecVectors_write x d (root @ ''/vectors/reference-body.json'') vectors w)) (\<lambda>w1.
     Option.bind (build_header_goldens trimmed) (\<lambda>goldens.
       written (HeaderGoldens_write x d (root @ ''/goldens/reference-header.json'') goldens w1))))"

lemmas disk_defs = CodecVectors_lib_def CodecVectors_from_json_def CodecVectors_to_json_def
  CodecVectors_load_def CodecVectors_write_def UintVectors_lib_def UintVectors_from_json_def
  UintVectors_to_json_def UintVectors_load_def UintVectors_write_def HeaderGoldens_lib_def
  HeaderGoldens_from_json_def HeaderGoldens_to_json_def HeaderGoldens_load_def
  HeaderGoldens_write_def lib_of_def from_json_def to_json_def fixture_load_def fixture_write_def

section \<open>What the libraries promise\<close>

text \<open>
  A printed document parses to itself, with a newline after it too; and what is written to a
  path is read there, the files at other paths being left alone.
\<close>

definition parses_back :: "text_lib \<Rightarrow> bool" where
  "parses_back tx \<longleftrightarrow> (\<forall>j. parse_json tx (print_json tx j @ [CHR 0x0A]) = Ok j)"

definition keeps_files :: "'w disk \<Rightarrow> bool" where
  "keeps_files d \<longleftrightarrow>
     (\<forall>path s w w'. write_file d path s w = (Ok (), w') \<longrightarrow>
        (\<forall>p. read_file d w' p = (if p = path then Ok s else read_file d w p)))"

definition lawful_libs :: "fixture_lib \<Rightarrow> bool" where
  "lawful_libs x \<longleftrightarrow> hex_lib (hex_enc x) (hex_dec x) \<and> parses_back (json_text x)"

text \<open>Both can be kept: documents are countable, and a map of texts is a file system.\<close>

instance Json :: countable
  by countable_datatype

definition unary_text :: text_lib where
  "unary_text = \<lparr>print_json = (\<lambda>j. replicate (to_nat j) CHR ''x''),
     parse_json = (\<lambda>s. if s \<noteq> [] \<and> last s = CHR 0x0A then Ok (from_nat (length s - 1))
       else Err ''unexpected end'')\<rparr>"

lemma unary_text: "parses_back unary_text"
  by (simp add: parses_back_def unary_text_def)

definition map_disk :: "(string \<rightharpoonup> string) disk" where
  "map_disk = \<lparr>read_file = (\<lambda>w path. case w path of None \<Rightarrow> Err ''no such file'' | Some s \<Rightarrow> Ok s),
     write_file = (\<lambda>path s w. (Ok (), w(path \<mapsto> s)))\<rparr>"

lemma map_disk: "keeps_files map_disk"
  by (simp add: keeps_files_def map_disk_def)

section \<open>Sets as text and as files\<close>

lemma text_reads_back:
  assumes "lawful_libs x"
  shows "cs_vectors cs \<noteq> [] \<Longrightarrow> CodecVectors_from_json x (CodecVectors_to_json x cs) = Ok cs"
    and "us_vectors us \<noteq> [] \<Longrightarrow> UintVectors_from_json x (UintVectors_to_json x us) = Ok us"
    and "hs_goldens hs \<noteq> [] \<Longrightarrow> HeaderGoldens_from_json x (HeaderGoldens_to_json x hs) = Ok hs"
  using assms by (simp_all add: lawful_libs_def parses_back_def disk_defs documents_read_back)

text \<open>A set that was written loads; one that could not be written is an error with the path.\<close>

lemma written_sets_load:
  assumes "lawful_libs x" and "keeps_files d"
  shows "cs_vectors cs \<noteq> [] \<Longrightarrow> CodecVectors_write x d path cs w = (Ok (), w1) \<Longrightarrow>
      CodecVectors_load x d path w1 = Ok cs"
    and "us_vectors us \<noteq> [] \<Longrightarrow> UintVectors_write x d path us w = (Ok (), w1) \<Longrightarrow>
      UintVectors_load x d path w1 = Ok us"
    and "hs_goldens hs \<noteq> [] \<Longrightarrow> HeaderGoldens_write x d path hs w = (Ok (), w1) \<Longrightarrow>
      HeaderGoldens_load x d path w1 = Ok hs"
  using assms text_reads_back [OF assms(1)]
  by (auto simp: lawful_libs_def keeps_files_def disk_defs split: prod.splits)

lemma load_fails_typedly:
  "read_file d w path = Err why \<Longrightarrow> CodecVectors_load x d path w = Err (FxRead path why)"
  "parse_json (json_text x) s = Err why \<Longrightarrow> CodecVectors_from_json x s = Err (FxFormat why)"
  by (simp_all add: disk_defs)

lemma regenerated_uint_vectors_load:
  assumes "lawful_libs x" and "keeps_files d"
    and "regenerate_uint_vectors x d trimmed root w = Some w'"
  shows "UintVectors_load x d (root @ ''/vectors/uint.json'') w' = Ok (build_uint_vectors trimmed decimal)"
proof -
  have "us_vectors (build_uint_vectors trimmed decimal) \<noteq> []" by (simp add: build_uint_vectors_def)
  moreover have "UintVectors_write x d (root @ ''/vectors/uint.json'') (build_uint_vectors trimmed decimal) w
      = (Ok (), w')"
    using assms(3) by (auto simp: regenerate_uint_vectors_def written_def split: prod.splits result.splits)
  ultimately show ?thesis by (rule written_sets_load(2) [OF assms(1,2)])
qed

text \<open>Regenerating writes the committed documents, each with a newline, and nothing else.\<close>

lemma regeneration_writes_the_committed_files:
  assumes "u256_bytes trimmed from_be" and "hex_enc x = hex_encode" and "keeps_files d"
  shows "regenerate_uint_vectors x d trimmed root w = Some w' \<Longrightarrow>
      read_file d w' = (read_file d w)(root @ ''/vectors/uint.json'' :=
        Ok (print_json (json_text x) UINT_VECTORS_JSON @ [CHR 0x0A]))"
    and "regenerate_reference_fixtures x d trimmed root w = Some w' \<Longrightarrow>
      read_file d w' = (read_file d w)
        (root @ ''/vectors/reference-body.json'' := Ok (print_json (json_text x) CODEC_VECTORS_JSON @ [CHR 0x0A]),
         root @ ''/goldens/reference-header.json'' := Ok (print_json (json_text x) HEADER_GOLDENS_JSON @ [CHR 0x0A]))"
proof -
  have kept: "read_file d v' = (read_file d v)(path := Ok s)"
    if "write_file d path s v = (Ok (), v')" for path s v v'
    using assms(3) that by (auto simp: keeps_files_def)
  show "regenerate_uint_vectors x d trimmed root w = Some w' \<Longrightarrow>
      read_file d w' = (read_file d w)(root @ ''/vectors/uint.json'' :=
        Ok (print_json (json_text x) UINT_VECTORS_JSON @ [CHR 0x0A]))"
    by (rule kept) (auto simp: regenerate_uint_vectors_def written_def disk_defs assms(2)
        uint_file [OF assms(1)] split: prod.splits result.splits)
  show "read_file d w' = (read_file d w)
        (root @ ''/vectors/reference-body.json'' := Ok (print_json (json_text x) CODEC_VECTORS_JSON @ [CHR 0x0A]),
         root @ ''/goldens/reference-header.json'' := Ok (print_json (json_text x) HEADER_GOLDENS_JSON @ [CHR 0x0A]))"
    if "regenerate_reference_fixtures x d trimmed root w = Some w'"
  proof -
    from that obtain w1 where
      "write_file d (root @ ''/vectors/reference-body.json'')
        (print_json (json_text x) CODEC_VECTORS_JSON @ [CHR 0x0A]) w = (Ok (), w1)"
      "write_file d (root @ ''/goldens/reference-header.json'')
        (print_json (json_text x) HEADER_GOLDENS_JSON @ [CHR 0x0A]) w1 = (Ok (), w')"
      by (auto simp: regenerate_reference_fixtures_def written_def disk_defs assms(2) built_codec_vectors
          codec_file built_header_goldens [OF assms(1)] goldens_file split: prod.splits result.splits)
    then show ?thesis by (simp add: kept)
  qed
qed

end
