(* ===== verification/Disk_Tests.thy ===== *)
theory Disk_Tests imports Fixture_Disk Kit_Tests
begin

text \<open>
  The tests of the fixture sets that go through text or a file system: those of \<^verbatim>\<open>codec.rs\<close>
  and the one of \<^verbatim>\<open>videre-test/tests/conformance.rs\<close>. A test takes the libraries, the file
  system with the state it finds, and the path it writes in its temporary directory.
\<close>

type_synonym 'w disk_test = "fixture_lib \<Rightarrow> 'w disk \<Rightarrow> string \<Rightarrow> 'w \<Rightarrow> bool"

definition files_round_trip_through_disk :: "'w disk_test" where
  "files_round_trip_through_disk x d path w =
     (case test_vectors of
        None \<Rightarrow> False
      | Some vectors \<Rightarrow>
          expect (CodecVectors_write x d path vectors w) (\<lambda>_ w1.
            CodecVectors_load x d path w1 = Ok vectors))"

definition malformed_file_fails_typedly :: "'w disk_test" where
  "malformed_file_fails_typedly x d path w \<longleftrightarrow>
     (case CodecVectors_from_json x ''{'' of Err (FxFormat _) \<Rightarrow> True | _ \<Rightarrow> False)
   \<and> (case CodecVectors_load x d ''/nonexistent/vectors.json'' w of Err (FxRead _ _) \<Rightarrow> True | _ \<Rightarrow> False)"

text \<open>The committed text is what the kit prints of the committed document.\<close>

definition UINT_VECTORS_TEXT :: "fixture_lib \<Rightarrow> string" where
  "UINT_VECTORS_TEXT x = print_json (json_text x) UINT_VECTORS_JSON @ [CHR 0x0A]"

definition uint_vectors_round_trip_through_disk :: "'w disk_test" where
  "uint_vectors_round_trip_through_disk x d path w =
     expected (UintVectors_from_json x (UINT_VECTORS_TEXT x)) (\<lambda>vectors.
     expect (UintVectors_write x d path vectors w) (\<lambda>_ w1.
       UintVectors_load x d path w1 = Ok vectors))"

definition disk_tests :: "'w disk_test list" where
  "disk_tests =
     [files_round_trip_through_disk, malformed_file_fails_typedly, uint_vectors_round_trip_through_disk]"

text \<open>
  The tests' own circumstances: the temporary path can be written, a brace alone is no
  document, and there is no file at the path that is named for it.
\<close>

definition test_disk :: "'w disk_test" where
  "test_disk x d path w \<longleftrightarrow>
     lawful_libs x \<and> keeps_files d \<and> hex_dec x = hex_decode
   \<and> (\<forall>s. \<exists>w1. write_file d path s w = (Ok (), w1))
   \<and> (\<exists>why. parse_json (json_text x) ''{'' = Err why)
   \<and> (\<exists>why. read_file d w ''/nonexistent/vectors.json'' = Err why)"

lemma disk_tests_pass:
  assumes "test_disk x d path w" and "u256_bytes trimmed from_be"
  shows "list_all (\<lambda>test. test x d path w) disk_tests"
proof -
  have lawful: "lawful_libs x" "keeps_files d" "hex_dec x = hex_decode"
    using assms(1) unfolding test_disk_def by blast+
  have parses: "parse_json (json_text x) (print_json (json_text x) j @ [CHR 0x0A]) = Ok j" for j
    using lawful(1) by (simp add: lawful_libs_def parses_back_def)
  have writes: "\<exists>w1. write_file d path s w = (Ok (), w1)" for s
    using assms(1) by (simp add: test_disk_def)
  obtain vectors where vectors: "test_vectors = Some vectors" "cs_vectors vectors \<noteq> []"
    using test_vectors_eq by (simp add: built_vectors_def)
  have "files_round_trip_through_disk x d path w"
  proof -
    obtain w1 where "write_file d path (to_json (CodecVectors_lib x) vectors) w = (Ok (), w1)"
      using writes by blast
    then have "CodecVectors_write x d path vectors w = (Ok (), w1)"
      by (simp add: CodecVectors_write_def fixture_write_def)
    then show ?thesis
      unfolding files_round_trip_through_disk_def vectors(1)
      by (simp add: written_sets_load(1) [OF lawful(1,2) vectors(2)])
  qed
  moreover have "malformed_file_fails_typedly x d path w"
    using assms(1) load_fails_typedly by (fastforce simp: malformed_file_fails_typedly_def test_disk_def)
  moreover have "uint_vectors_round_trip_through_disk x d path w"
  proof -
    let ?set = "build_uint_vectors trimmed decimal"
    have set: "us_vectors ?set \<noteq> []" by (simp add: build_uint_vectors_def)
    have read: "UintVectors_from_json x (UINT_VECTORS_TEXT x) = Ok ?set"
      using read_files(2) [OF assms(2)] lawful(3) by (simp add: UINT_VECTORS_TEXT_def disk_defs parses)
    obtain w1 where "write_file d path (to_json (UintVectors_lib x) ?set) w = (Ok (), w1)"
      using writes by blast
    then have "UintVectors_write x d path ?set w = (Ok (), w1)"
      by (simp add: UintVectors_write_def fixture_write_def)
    with read written_sets_load(2) [OF lawful(1,2) set] show ?thesis
      by (simp add: uint_vectors_round_trip_through_disk_def)
  qed
  ultimately show ?thesis by (simp add: disk_tests_def)
qed

lemma sample_test_disk:
  "test_disk \<lparr>hex_enc = hex_encode, hex_dec = hex_decode, json_text = unary_text\<rparr> map_disk ''uint.json''
     Map.empty"
  using hex.hex_lib_axioms unary_text map_disk
  by (simp add: test_disk_def lawful_libs_def) (simp add: unary_text_def map_disk_def)

end
