(* ===== verification/Unit_Tests.thy ===== *)
theory Unit_Tests imports Registry_Tests Venue_Tests Keeper_Tests Status_Body_Tests Sdk_Tests Host_Tests
  Kit_Tests Adapter_Tests Platform_Tests Fixture_Tests Macro_Tests Disk_Tests
begin

text \<open>
  The repository's unit and integration tests that are replayed on the model, together: the
  registry's, the two native venues' and the platform's over any steady process, the keeper's
  over any digest that tells bodies apart, the status-body crate's over the borsh layout, the
  other tests of the SDK, of the host and of the macros, those of the conformance kit, and the
  acceptance tests of an adapter and of the published fixtures.
\<close>

section \<open>The lists\<close>

definition registry_unit_tests :: "registry_test list" where
  "registry_unit_tests = quota_tests @ install_tests @ watch_tests @ polling_tests"

definition keeper_unit_tests :: "keeper_test list" where
  "keeper_unit_tests = commitment_tests @ journal_tests @ policy_tests"

definition status_body_unit_tests :: "bool list" where
  "status_body_unit_tests = envelope_tests @ body_tests"

text \<open>
  The tests that take an argument: the conversions of the 256-bit integer, a renderer of a
  foreign fault, and for the kit the hex encoder and the default fetch options.
\<close>

definition plain_unit_tests :: "bool list" where
  "plain_unit_tests = status_body_unit_tests @ client_tests @ event_tests @ host_tests"

definition uint_unit_tests :: "uint_test list" where
  "uint_unit_tests = uint_tests @ uint_kit_tests"

lemma registry_unit_tests_pass:
  "steady w \<Longrightarrow> list_all (\<lambda>test. test (fresh w)) registry_unit_tests"
  by (simp add: registry_unit_tests_def quota_tests_pass install_tests_pass watch_tests_pass
      polling_tests_pass)

lemma keeper_unit_tests_pass: "inj d \<Longrightarrow> list_all (\<lambda>test. test d) keeper_unit_tests"
  by (simp add: keeper_unit_tests_def commitment_tests_pass journal_tests_pass policy_tests_pass)

lemma plain_unit_tests_pass: "list_all (\<lambda>test. test) plain_unit_tests"
  using envelope_tests_pass body_tests_pass client_tests_pass event_tests_pass host_tests_pass
  by (auto simp: plain_unit_tests_def status_body_unit_tests_def list_all_iff)

lemma uint_unit_tests_pass:
  "u256_bytes trimmed from_be \<Longrightarrow> list_all (\<lambda>test. test trimmed from_be) uint_unit_tests"
  by (simp add: uint_unit_tests_def uint_tests_pass uint_kit_tests_pass)

section \<open>They all pass\<close>

text \<open>
  The replayed unit and acceptance tests hold on the model. Whatever the clock reads, as long as it stays
  within a second while a test runs, what the tests of the registry and of the two venues
  assert of answers, counters, watch list and polled updates is what the modelled calls do;
  over any digest that tells bodies apart the keeper's tests hold of the modelled sweep; and
  so do those of the codecs over any lawful 256-bit integer, of the fault folds, the handshake,
  the policies, the vectors and goldens, and the mock fetch, of the macros in an expander that
  reads the tests' manifests, of the fixture sets through any lawful text and file system, and
  the acceptance tests of an adapter, of the platform and of the published fixture files.
\<close>

lemma unit_tests_pass:
  assumes "steady w" and "steady v" and "inj d" and "u256_bytes trimmed from_be"
    and "steady u" and "test_expander x"
    and "test_disk libs dk path st"
  shows "(\<forall>test\<in>set registry_unit_tests. test (fresh w))
     \<and> (\<forall>test\<in>set flaky_tests. test (unused v)) \<and> (\<forall>test\<in>set echo_tests. test (unused v))
     \<and> (\<forall>test\<in>set keeper_unit_tests. test d)
     \<and> (\<forall>test\<in>set plain_unit_tests. test)
     \<and> (\<forall>test\<in>set uint_unit_tests. test trimmed from_be)
     \<and> (\<forall>test\<in>set host_policy_tests. test w) \<and> (\<forall>test\<in>set fold_tests. test display)
     \<and> (\<forall>test\<in>set codec_tests. test hex) \<and> (\<forall>test\<in>set golden_tests. test dbg dbg_e)
     \<and> (\<forall>test\<in>set transport_tests. test defaults)
     \<and> (\<forall>test\<in>set platform_tests. test (unused u))
     \<and> (\<forall>test\<in>set adapter_tests. test trimmed)
     \<and> (\<forall>test\<in>set fixture_tests. test trimmed from_be dbg dbg_e)
     \<and> (\<forall>test\<in>set macro_tests. test x quoted)
     \<and> (\<forall>test\<in>set disk_tests. test libs dk path st)"
  using registry_unit_tests_pass [OF assms(1)] flaky_tests_pass [OF assms(2)]
    echo_tests_pass [OF assms(2)] keeper_unit_tests_pass [OF assms(3)] plain_unit_tests_pass
    uint_unit_tests_pass [OF assms(4)] host_policy_tests_pass [of w] fold_tests_pass [of display]
    codec_tests_pass [of hex] golden_tests_pass [of dbg dbg_e] transport_tests_pass [of defaults]
    platform_tests_pass [OF assms(5)] adapter_tests_pass [OF assms(4)]
    fixture_tests_pass [OF assms(4), of dbg dbg_e] macro_tests_pass [OF assms(6), of quoted]
    disk_tests_pass [OF assms(7,4)]
  unfolding list_all_iff by simp

text \<open>A clock that reads every instant of its first millisecond twice.\<close>

definition ticking :: "'x \<Rightarrow> 'x world" where
  "ticking x = \<lparr>clock = (\<lambda>n. min (n div 2) 1000000), reads = 0, instant_max = 200000000000000,
     deaths = (\<lambda>_. None), allocs = 0, ext = x\<rparr>"

lemma steady_ticking: "steady (ticking x)"
  by (auto simp: steady_def ticking_def mono_def min_def intro: div_le_mono)

lemma unit_tests_pass_example:
  "length registry_unit_tests = 35 \<and> length keeper_unit_tests = 29
   \<and> poll_reports_each_transition_and_prunes_on_terminal
        (fresh (ticking \<lparr>calls = StubCalls_default, status_script = []\<rparr>))
   \<and> a_sweep_over_a_healthy_head_restores_the_venue (unused (ticking \<lparr>head_at = (\<lambda>_. [])\<rparr>))
   \<and> w2_accepted_but_commit_faults_reconciles_without_double_holding plain_digest
   \<and> diverging_value_is_named u256_trimmed u256_from_be
   \<and> the_status_poll_source_delivers_a_polled_transition
        (unused (ticking \<lparr>statuses = [], cancelled = False\<rparr>))
   \<and> quote_typestate_prices_then_submits_the_quoted_body u256_trimmed"
proof -
  have digest: "inj plain_digest" by (rule injI) (rule plain_digest_inj)
  let ?second = "from_secs 1"
  let ?options = "\<lparr>connect_timeout = ?second, first_byte_timeout = ?second, between_bytes_timeout = ?second\<rparr>"
  note all = unit_tests_pass
    [OF steady_ticking [of "\<lparr>calls = StubCalls_default, status_script = []\<rparr>"]
      steady_ticking [of "\<lparr>head_at = (\<lambda>_. [])\<rparr>"] digest u256.u256_bytes_axioms
      steady_ticking [of "\<lparr>statuses = [], cancelled = False\<rparr>"] sample_test_expander sample_test_disk,
     of "\<lambda>_. []" "\<lambda>_. []" "\<lambda>_. []" "\<lambda>_. []" ?options "\<lambda>s. s"]
  from all show ?thesis
    by (simp add: registry_unit_tests_def quota_tests_def install_tests_def watch_tests_def
        polling_tests_def flaky_tests_def keeper_unit_tests_def commitment_tests_def
        journal_tests_def policy_tests_def uint_unit_tests_def
        uint_kit_tests_def platform_tests_def adapter_tests_def)
qed

end
