(* ===== verification/Echo_Modules.thy ===== *)
theory Echo_Modules imports Macros
begin

text \<open>
  The two example modules, \<^verbatim>\<open>modules/examples/echo-client\<close> and
  \<^verbatim>\<open>modules/examples/echo-keeper\<close>: what each does on a block and on an intent-status
  trigger. The first calls the raw client import, the second the typed client through the
  derived body codec. The imports a module is instantiated with, the venue client and the
  log, are a record of arguments; how the generated bindings render a wire status is the
  argument \<open>debug\<close>.
\<close>

section \<open>The imports of a module\<close>

text \<open>The log levels the two modules use.\<close>

datatype Level = LvInfo | LvWarn

record 's module_host =
  mh_client :: "'s client_import"
  mh_log :: "Level \<Rightarrow> string \<Rightarrow> 's \<Rightarrow> 's"

definition ECHO_VENUE :: string where "ECHO_VENUE = ''echo-venue''"

text \<open>\<^verbatim>\<open>to_be_bytes\<close> of a block number.\<close>

definition block_bytes :: "u64 \<Rightarrow> bytes" where
  "block_bytes number = be_bytes 8 (unat number)"

section \<open>echo-client\<close>

definition echo_client_on_block ::
  "'s module_host \<Rightarrow> u64 \<Rightarrow> 's \<Rightarrow> (unit, WireFault) result \<times> 's" where
  "echo_client_on_block h number s =
     (let body = block_bytes number;
          (quoted, s1) = shim_quote (mh_client h) ECHO_VENUE body s;
          s2 = (case quoted of
                  Ok quotation \<Rightarrow>
                    mh_log h LvInfo (''quoted '' @ show_nat (length body) @ '' bytes at '' @ ECHO_VENUE
                      @ '': gives '' @ show_nat (length (amount (q_gives quotation)))
                      @ '' amount bytes'') s1
                | Err _ \<Rightarrow> mh_log h LvWarn (''quote at '' @ ECHO_VENUE @ '' was refused'') s1);
          (submitted, s3) = shim_submit (mh_client h) ECHO_VENUE body s2;
          s4 = (case submitted of
                  Ok (Accepted receipt) \<Rightarrow>
                    mh_log h LvInfo (''submitted '' @ show_nat (length body) @ '' bytes to ''
                      @ ECHO_VENUE @ '', receipt '' @ show_nat (length receipt) @ '' bytes'') s3
                | Ok (RequiresSigning _) \<Rightarrow>
                    mh_log h LvWarn (ECHO_VENUE @ '' unexpectedly asked for a signature'') s3
                | Err _ \<Rightarrow> mh_log h LvWarn (''submit to '' @ ECHO_VENUE @ '' was refused'') s3)
      in (Ok (), s4))"

text \<open>\<^verbatim>\<open>Display\<close> of a decode error, and the derived \<^verbatim>\<open>Debug\<close> of a lifecycle state.\<close>

fun decode_error_message :: "DecodeError \<Rightarrow> string" where
  "decode_error_message DecEmpty = ''empty status body: missing the version tag''"
| "decode_error_message (DecUnknownVersion v) = ''unknown status-body version '' @ show_nat (unat v)"
| "decode_error_message (DecMalformed v d) =
     ''malformed version '' @ show_nat (unat v) @ '' payload: '' @ d"

fun lifecycle_debug :: "Lifecycle \<Rightarrow> string" where
  "lifecycle_debug LPending = ''Pending''"
| "lifecycle_debug LOpen = ''Open''"
| "lifecycle_debug LFulfilled = ''Fulfilled''"
| "lifecycle_debug LCancelled = ''Cancelled''"
| "lifecycle_debug LExpired = ''Expired''"

text \<open>What both modules do with a decoded envelope.\<close>

definition log_transition ::
  "'s module_host \<Rightarrow> StatusBody de \<Rightarrow> IntentStatusUpdate \<Rightarrow> 's \<Rightarrow> (unit, WireFault) result \<times> 's" where
  "log_transition h de_body update s =
     (case map_err (\<lambda>err. FInvalidInput (decode_error_message err))
             (StatusBody_decode de_body (upd_status update)) of
        Err e \<Rightarrow> (Err e, s)
      | Ok body \<Rightarrow>
          (Ok (), mh_log h LvInfo (''intent status from venue '' @ upd_venue update @ '': ''
             @ lifecycle_debug (sb_status body) @ '' ('' @ show_nat (length (upd_receipt update))
             @ '' receipt bytes)'') s))"

definition echo_client_on_extension ::
  "'s module_host \<Rightarrow> IntentStatusUpdate de \<Rightarrow> StatusBody de \<Rightarrow> string \<Rightarrow> bytes \<Rightarrow> 's
    \<Rightarrow> (unit, WireFault) result \<times> 's" where
  "echo_client_on_extension h de_update de_body extension_kind payload s =
     (if extension_kind \<noteq> INTENT_STATUS_KIND then (Ok (), s)
      else case map_err (\<lambda>err. FInvalidInput (envelope_error_message err))
                  (IntentStatusUpdate_decode de_update payload) of
          Err e \<Rightarrow> (Err e, s)
        | Ok update \<Rightarrow> log_transition h de_body update s)"

section \<open>echo-keeper\<close>

definition EchoBody :: "string DeriveInput" where
  "EchoBody = \<lparr>di_generics = [],
     di_data = DataEnum [\<lparr>v_ident = ''V1'', v_discriminant = None, v_fields = FieldsUnnamed [''u64'']\<rparr>]\<rparr>"

definition echo_arms :: "string Arm list" where
  "echo_arms = [\<lparr>arm_ident = ''V1'', arm_tag = 0, arm_payload = ''u64''\<rparr>]"

lemma expand_EchoBody: "expand_derive EchoBody = Ok echo_arms"
  by (simp add: expand_derive_def EchoBody_def echo_arms_def)

definition EchoBody_to_bytes :: "u64 ser \<Rightarrow> u64 Body \<Rightarrow> (bytes, BodyError) result" where
  "EchoBody_to_bytes ser b = the (IntentBody_to_bytes (\<lambda>_. ser) echo_arms b)"

definition EchoBody_V1 :: "u64 \<Rightarrow> u64 Body" where
  "EchoBody_V1 number = \<lparr>body_version = ''V1'', body_payload = number\<rparr>"

definition EchoVenue_ID :: SdkVenueId where
  "EchoVenue_ID = SdkVenueId_from_static ''echo-venue''"

definition echo_keeper_client :: "'s module_host \<Rightarrow> u64 ser \<Rightarrow> ('s, u64 Body) VenueClient" where
  "echo_keeper_client h ser = VenueClient_new EchoVenue_ID (EchoBody_to_bytes ser) (mh_client h)"

text \<open>The handler is async; each of its calls runs to its end at once, so it never suspends.\<close>

definition echo_keeper_on_block ::
  "'s module_host \<Rightarrow> ('o HostFault \<Rightarrow> string) \<Rightarrow> (IntentStatus \<Rightarrow> string) \<Rightarrow> u64 ser \<Rightarrow> u64 \<Rightarrow> 's
    \<Rightarrow> (unit, WireFault) result Poll \<times> 's" where
  "echo_keeper_on_block h display debug ser number s =
     (let venue = echo_keeper_client h ser;
          body = EchoBody_V1 number;
          fail = (\<lambda>e s. (Ready (Err (keeper_from_ClientError display e)), s))
      in case client_quote venue body s of
        (Err e, s1) \<Rightarrow> fail e s1
      | (Ok quoted, s1) \<Rightarrow>
        (let s2 = mh_log h LvInfo (''quoted at '' @ id_str EchoVenue_ID @ '': gives ''
               @ show_nat (length (amount (q_gives (qd_quotation quoted)))) @ '' amount bytes'') s1
         in case Quoted_submit venue quoted s2 of
           (Err e, s3) \<Rightarrow> fail e s3
         | (Ok (RequiresSigning _), s3) \<Rightarrow>
             (Ready (Ok ()),
              mh_log h LvWarn (id_str EchoVenue_ID @ '' unexpectedly asked for a signature'') s3)
         | (Ok (Accepted receipt), s3) \<Rightarrow>
           (let s4 = mh_log h LvInfo (''submitted to '' @ id_str EchoVenue_ID @ '': receipt ''
                  @ show_nat (length receipt) @ '' bytes'') s3
            in case client_status venue receipt s4 of
              (Err e, s5) \<Rightarrow> fail e s5
            | (Ok st, s5) \<Rightarrow>
              (let s6 = mh_log h LvInfo (''status at '' @ id_str EchoVenue_ID @ '': '' @ debug st) s5
               in case client_cancel venue receipt s6 of
                 (Err e, s7) \<Rightarrow> fail e s7
               | (Ok _, s7) \<Rightarrow>
                   (Ready (Ok ()), mh_log h LvInfo (''cancelled at '' @ id_str EchoVenue_ID) s7)))))"

definition echo_keeper_on_intent_status ::
  "'s module_host \<Rightarrow> StatusBody de \<Rightarrow> IntentStatusUpdate \<Rightarrow> 's \<Rightarrow> (unit, WireFault) result \<times> 's" where
  "echo_keeper_on_intent_status h de_body update s = log_transition h de_body update s"

text \<open>The author's two functions under the names the macro dispatches by.\<close>

definition EchoKeeper_items :: "ImplItem list" where
  "EchoKeeper_items = [ImplFn ''on_block'' True, ImplFn ''on_intent_status'' False]"

definition EchoKeeper ::
  "'s module_host \<Rightarrow> ('o HostFault \<Rightarrow> string) \<Rightarrow> (IntentStatus \<Rightarrow> string) \<Rightarrow> u64 ser \<Rightarrow> StatusBody de
    \<Rightarrow> ('s, ('g, u64, 'e, 't) HandlerArg) Author" where
  "EchoKeeper h display debug ser de_body =
     \<lparr>sync_fn = (\<lambda>name a s. case a of
          ArgUpdate update \<Rightarrow> echo_keeper_on_intent_status h de_body update s
        | _ \<Rightarrow> (Ok (), s)),
      async_fn = (\<lambda>name a s. case a of
          ArgBlock number \<Rightarrow> echo_keeper_on_block h display debug ser number s
        | _ \<Rightarrow> (Ready (Ok ()), s))\<rparr>"

definition echo_keeper_on_trigger ::
  "'s module_host \<Rightarrow> ('o HostFault \<Rightarrow> string) \<Rightarrow> (IntentStatus \<Rightarrow> string) \<Rightarrow> u64 ser
    \<Rightarrow> IntentStatusUpdate de \<Rightarrow> StatusBody de \<Rightarrow> (u64, 'e, 't) Trigger \<Rightarrow> 's
    \<Rightarrow> (unit, WireFault) result \<times> 's" where
  "echo_keeper_on_trigger h display debug ser de_update de_body =
     keeper_on_trigger de_update (EchoKeeper h display debug ser de_body :: ('s, (unit, u64, 'e, 't) HandlerArg) Author)
       (present_handlers EchoKeeper_items)"

end
