(* ===== verification/Echo_Properties.thy ===== *)
theory Echo_Properties imports Echo_Modules Platform_Properties
begin

text \<open>
  The example modules end to end: a block handled by either module through its import, the
  published registry and the echo venue, and a transition reported by the registry, through
  the status source, back to a log line of the module.
\<close>

section \<open>Modules on a process\<close>

text \<open>The state a module runs on here: the process, and the lines logged so far.\<close>

type_synonym 'x hosting = "'x process \<times> (Level \<times> string) list"

definition on_process :: "('x process \<Rightarrow> 'a \<times> 'x process) \<Rightarrow> 'x hosting \<Rightarrow> 'a \<times> 'x hosting" where
  "on_process m pl = (let (x, p) = m (fst pl) in (x, p, snd pl))"

definition hosted :: "'x process client_import \<Rightarrow> 'x hosting module_host" where
  "hosted imp =
     \<lparr>mh_client =
        \<lparr>shim_quote = (\<lambda>v b. on_process (shim_quote imp v b)),
         shim_submit = (\<lambda>v b. on_process (shim_submit imp v b)),
         shim_observe = (\<lambda>v rc. on_process (shim_observe imp v rc)),
         shim_status = (\<lambda>v rc. on_process (shim_status imp v rc)),
         shim_cancel = (\<lambda>v rc. on_process (shim_cancel imp v rc))\<rparr>,
      mh_log = (\<lambda>level message pl. (fst pl, snd pl @ [(level, message)]))\<rparr>"

lemma on_process_eq: "m p = (x, p') \<Longrightarrow> on_process m (p, l) = (x, p', l)"
  by (simp add: on_process_def)

text \<open>The registry at an address, as a call on the process finds it.\<close>

definition reg_at :: "registry_ref \<Rightarrow> 'x process \<Rightarrow> 'x VenueRegistry" where
  "reg_at a p = (registries p a)\<lparr>env := pr_world p\<rparr>"

lemma with_registry_at:
  assumes "m (reg_at a p) = (x, r)"
  obtains p' where "with_registry a m p = (x, p')" "reg_at a p' = r" "REGISTRY p' = REGISTRY p"
  using that [of "p\<lparr>registries := (registries p)(a := r), pr_world := env r\<rparr>"] assms
  by (simp add: with_registry_def reg_at_def)

section \<open>The echo venue behind the registry\<close>

text \<open>The venue is installed and alive, and the guard only looks.\<close>

definition serves :: "'x VenueRegistry \<Rightarrow> bool" where
  "serves r \<longleftrightarrow> (\<exists>sl. resolve echo_id r = Ok sl \<and> invoker sl = EchoVenue)
     \<and> (\<forall>ctx w. snd (guard r ctx w) = w)"

definition room :: "string \<Rightarrow> nat \<Rightarrow> 'x VenueRegistry \<Rightarrow> bool" where
  "room c n r \<longleftrightarrow> length (history_of r c) + n \<le> unat (max_charges (quota r))"

lemma serves_cong:
  assumes "config r' = config r" "deaths (env r') = deaths (env r)"
  shows "serves r' = serves r"
  using config_fields [OF assms(1)] assms(2)
  by (simp add: serves_def resolve_def is_alive_def cong: option.case_cong)

lemma deaths_frame [simp]:
  "deaths (env (snd (quota_admits c r))) = deaths (env r)"
  "deaths (env (charge c r)) = deaths (env r)"
  "deaths (env (snd (watch v rc r))) = deaths (env r)"
  by (simp_all add: quota_admits_eq charge_eq watch_def prune_expired_eq case_prod_unfold Let_def)

lemma room_admits:
  assumes "room c (Suc n) r"
  shows "fst (quota_admits c r)"
proof -
  let ?h = "prune_before (next_reading (env r)) (quota_nanos r) (history_of r c)"
  have "length ?h < unat (max_charges (quota r))"
    using assms length_prune_before [of "next_reading (env r)" "quota_nanos r" "history_of r c"]
    by (simp add: room_def)
  moreover from this have "unat (of_nat (length ?h) :: u32) = length ?h"
    using unsigned_less [of "max_charges (quota r)", where ?'a = nat] by (simp add: unat_of_nat)
  ultimately show ?thesis by (simp add: fst_quota_admits word_less_nat_alt)
qed

lemma room_charge:
  assumes "room c (Suc n) r" "history_of r' c = history_of r c \<or> history_of r' c = history_of (snd (quota_admits c r)) c"
    "quota r' = quota r"
  shows "room c n (charge c r')"
proof -
  have "length (history_of r' c) \<le> length (history_of r c)"
    using assms(2) length_prune_before by (auto simp: history_of_quota_admits)
  then have "length (history_of (charge c r') c) \<le> Suc (length (history_of r c))"
    using length_prune_before [of "next_reading (env r')" "quota_nanos r'" "history_of r' c"]
    by (simp add: history_of_charge)
  moreover have "quota (charge c r') = quota r" using assms(3) by simp
  ultimately show ?thesis using assms(1) by (simp add: room_def)
qed

lemma echo_quote_call:
  assumes "serves r" "room c (Suc n) r"
  obtains r' where "quote c echo_id b r = (echo_quote b, r')" "serves r'" "room c n r'"
proof -
  let ?r1 = "snd (quota_admits c r)"
  obtain sl where sl: "resolve echo_id r = Ok sl" "invoker sl = EchoVenue"
    using assms(1) by (auto simp: serves_def)
  have "quote c echo_id b r = (echo_quote b, charge c ?r1)"
    using sl room_admits [OF assms(2)] by (simp add: quote_def case_prod_unfold on_env_def)
  moreover have "serves (charge c ?r1)"
    using assms(1) serves_cong [of "charge c ?r1" r] by simp
  moreover have "room c n (charge c ?r1)"
    by (rule room_charge [OF assms(2)]) simp_all
  ultimately show ?thesis by (rule that)
qed

lemma echo_submit_call:
  assumes "serves r" "room c (Suc n) r"
  obtains r' where "submit c echo_id b r = (Ok (Accepted b), r')" "serves r'" "room c n r'"
    "tracked r' (echo_id, b) \<noteq> None \<or> max_entries (watch_limit r') \<le> length (watched r')"
proof -
  let ?r1 = "snd (quota_admits c r)"
  obtain sl where sl: "resolve echo_id r = Ok sl" "invoker sl = EchoVenue"
    using assms(1) by (auto simp: serves_def)
  obtain header where header: "echo_derive_header b = Ok header"
    by (simp add: echo_derive_header_def)
  let ?ctx = "\<lparr>gc_caller = c, gc_venue = echo_id, gc_header = header\<rparr>"
  let ?r4 = "snd (on_env (guard (charge c ?r1) ?ctx) (charge c ?r1))"
  let ?r' = "snd (watch echo_id b ?r4)"
  have r4: "?r4 = charge c ?r1"
    using assms(1) by (simp add: serves_def on_env_def case_prod_unfold)
  have "submit c echo_id b r = (Ok (Accepted b), ?r')"
    using sl room_admits [OF assms(2)] header
    by (simp add: submit_def submit_in_slot_def case_prod_unfold Let_def on_env_def)
  moreover have "serves ?r'"
    using assms(1) serves_cong [of ?r' r] unfolding r4 by simp
  moreover have "room c n (charge c ?r1)"
    by (rule room_charge [OF assms(2)]) simp_all
  then have "room c n ?r'" unfolding r4 by (simp add: room_def)
  moreover have "tracked ?r' (echo_id, b) \<noteq> None \<or> max_entries (watch_limit ?r') \<le> length (watched ?r')"
    using watch_tracks [of echo_id b ?r4] by simp
  ultimately show ?thesis by (rule that)
qed

lemma echo_read_calls:
  assumes "serves r"
  shows "status echo_id rc r = (Ok Fulfilled, r)" "cancel echo_id rc r = (Ok (), r)"
  using assms
  by (auto simp: serves_def status_def cancel_def on_env_def echo_status_def)

section \<open>Calls through the import\<close>

definition ready :: "registry_ref \<Rightarrow> string \<Rightarrow> nat \<Rightarrow> 'x process \<Rightarrow> bool" where
  "ready a c n p \<longleftrightarrow> REGISTRY p = Some a \<and> serves (reg_at a p) \<and> room c n (reg_at a p)"

lemma delegate_ready:
  assumes "REGISTRY p = Some a" "parse ''echo-venue'' = Ok ''echo-venue''"
  shows "delegate parse ''echo-venue'' m p = with_registry a (m echo_id) p"
  using assms by (simp add: delegate_def the_registry_def venue_id_def VenueId_new_def echo_id_def)

lemma import_quote:
  assumes "parse ''echo-venue'' = Ok ''echo-venue''" "ready a c (Suc n) p"
  obtains p' where "shim_quote (client_of parse c) ''echo-venue'' b p = (echo_quote b, p')" "ready a c n p'"
proof -
  have r: "serves (reg_at a p)" "room c (Suc n) (reg_at a p)" "REGISTRY p = Some a"
    using assms(2) by (simp_all add: ready_def)
  obtain r' where r': "quote c echo_id b (reg_at a p) = (echo_quote b, r')" "serves r'" "room c n r'"
    by (rule echo_quote_call [OF r(1,2)])
  obtain p' where "with_registry a (quote c echo_id b) p = (echo_quote b, p')" "reg_at a p' = r'"
    "REGISTRY p' = REGISTRY p"
    by (rule with_registry_at [where m = "quote c echo_id b", OF r'(1)])
  with r r'(2,3) that [of p'] show ?thesis
    by (simp add: client_of_def host_quote_def delegate_ready [where parse = parse, OF r(3) assms(1)] ready_def)
qed

text \<open>Whether the receipt is under watch, unless the list stands at its cap.\<close>

definition followed :: "registry_ref \<Rightarrow> bytes \<Rightarrow> 'x process \<Rightarrow> bool" where
  "followed a receipt p \<longleftrightarrow> tracked (reg_at a p) (echo_id, receipt) \<noteq> None
     \<or> max_entries (watch_limit (reg_at a p)) \<le> length (watched (reg_at a p))"

lemma import_submit:
  assumes "parse ''echo-venue'' = Ok ''echo-venue''" "ready a c (Suc n) p"
  obtains p' where "shim_submit (client_of parse c) ''echo-venue'' b p = (Ok (Accepted b), p')"
    "ready a c n p'" "followed a b p'"
proof -
  have r: "serves (reg_at a p)" "room c (Suc n) (reg_at a p)" "REGISTRY p = Some a"
    using assms(2) by (simp_all add: ready_def)
  obtain r' where r': "submit c echo_id b (reg_at a p) = (Ok (Accepted b), r')" "serves r'" "room c n r'"
    "tracked r' (echo_id, b) \<noteq> None \<or> max_entries (watch_limit r') \<le> length (watched r')"
    by (rule echo_submit_call [OF r(1,2)])
  obtain p' where p': "with_registry a (submit c echo_id b) p = (Ok (Accepted b), p')" "reg_at a p' = r'"
    "REGISTRY p' = REGISTRY p"
    by (rule with_registry_at [where m = "submit c echo_id b", OF r'(1)])
  show ?thesis
  proof (rule that)
    show "shim_submit (client_of parse c) ''echo-venue'' b p = (Ok (Accepted b), p')"
      using p'(1) by (simp add: client_of_def host_submit_def delegate_ready [where parse = parse, OF r(3) assms(1)])
    show "ready a c n p'" "followed a b p'"
      using p'(2,3) r(3) r'(2-4) by (simp_all add: ready_def followed_def)
  qed
qed

lemma import_status:
  assumes "parse ''echo-venue'' = Ok ''echo-venue''" "ready a c n p"
  obtains p' where "shim_status (client_of parse c) ''echo-venue'' rc p = (Ok Fulfilled, p')"
    "ready a c n p'" "reg_at a p' = reg_at a p"
proof -
  have r: "serves (reg_at a p)" "REGISTRY p = Some a"
    using assms(2) by (simp_all add: ready_def)
  obtain p' where "with_registry a (status echo_id rc) p = (Ok Fulfilled, p')" "reg_at a p' = reg_at a p"
    "REGISTRY p' = REGISTRY p"
    by (rule with_registry_at [where m = "status echo_id rc", OF echo_read_calls(1) [OF r(1), of rc]])
  with assms(2) r(2) that [of p'] show ?thesis
    by (simp add: client_of_def host_status_def delegate_ready [where parse = parse, OF r(2) assms(1)] ready_def)
qed

lemma import_cancel:
  assumes "parse ''echo-venue'' = Ok ''echo-venue''" "ready a c n p"
  obtains p' where "shim_cancel (client_of parse c) ''echo-venue'' rc p = (Ok (), p')"
    "ready a c n p'" "reg_at a p' = reg_at a p"
proof -
  have r: "serves (reg_at a p)" "REGISTRY p = Some a"
    using assms(2) by (simp_all add: ready_def)
  obtain p' where "with_registry a (cancel echo_id rc) p = (Ok (), p')" "reg_at a p' = reg_at a p"
    "REGISTRY p' = REGISTRY p"
    by (rule with_registry_at [where m = "cancel echo_id rc", OF echo_read_calls(2) [OF r(1), of rc]])
  with assms(2) r(2) that [of p'] show ?thesis
    by (simp add: client_of_def host_cancel_def delegate_ready [where parse = parse, OF r(2) assms(1)] ready_def)
qed

section \<open>A block\<close>

lemma minimal_be_digit: "0 < n \<Longrightarrow> n < 256 \<Longrightarrow> minimal_be (of_nat n) = [of_nat n]"
proof (rule minimal_unique [OF minimal_minimal_be])
  assume n: "0 < n" "n < 256"
  then have u: "unat (of_nat n :: u8) = n" by (simp add: unat_of_nat)
  then have "(of_nat n :: u8) \<noteq> 0" using n(1) by (metis unat_0 less_irrefl)
  then show "minimal [of_nat n]" by (simp add: minimal_def)
  have "unat (of_nat n :: u64) = n" using n(2) by (simp add: unat_of_nat)
  with u show "be_value (minimal_be (of_nat n)) = be_value [of_nat n]"
    by (simp add: be_value_minimal_be be_value_Cons)
qed

lemma echo_quote_amount:
  assumes "0 < length b" "length b < 256"
  obtains q where "echo_quote b = Ok q" "length (amount (q_gives q)) = 1"
  using minimal_be_digit [OF assms] by (simp add: echo_quote_def)

lemma EchoBody_bytes: "ser number = Ok bs \<Longrightarrow> EchoBody_to_bytes ser (EchoBody_V1 number) = Ok (0 # bs)"
  by (simp add: EchoBody_to_bytes_def EchoBody_V1_def IntentBody_to_bytes_def echo_arms_def)

lemma show_nat_digit: "show_nat (Suc 0) = ''1''" "show_nat 8 = ''8''"
  by (code_simp, code_simp)

lemma client_block:
  assumes "parse ''echo-venue'' = Ok ''echo-venue''" "ready a module 2 p"
  shows "\<exists>p'. echo_client_on_block (hosted (client_of parse module)) number (p, []) = (Ok (), p',
         [(LvInfo, ''quoted 8 bytes at echo-venue: gives 1 amount bytes''),
          (LvInfo, ''submitted 8 bytes to echo-venue, receipt 8 bytes'')])
       \<and> followed a (block_bytes number) p'"
proof -
  have len: "length (block_bytes number) = 8" by (simp add: block_bytes_def)
  have ready: "ready a module (Suc (Suc 0)) p" using assms(2) by (simp add: numeral_2_eq_2)
  obtain q where q: "echo_quote (block_bytes number) = Ok q" "length (amount (q_gives q)) = 1"
    by (rule echo_quote_amount [of "block_bytes number"]) (simp_all add: len)
  obtain p1 where p1: "shim_quote (client_of parse module) ''echo-venue'' (block_bytes number) p =
      (echo_quote (block_bytes number), p1)" "ready a module (Suc 0) p1"
    by (rule import_quote [where parse = parse, OF assms(1) ready])
  obtain p2 where p2: "shim_submit (client_of parse module) ''echo-venue'' (block_bytes number) p1 =
      (Ok (Accepted (block_bytes number)), p2)" "followed a (block_bytes number) p2"
    by (rule import_submit [where parse = parse, OF assms(1) p1(2)])
  show ?thesis
    using p1(1) p2 q len
    by (simp add: echo_client_on_block_def hosted_def ECHO_VENUE_def on_process_def show_nat_digit)
qed

lemmas keeper_dispatch_defs = echo_keeper_on_trigger_def EchoKeeper_def EchoKeeper_items_def
  present_handlers_def HANDLERS_def handler_of_def dispatch_arm_def call_handler_def drive_def poll_once_def

lemma keeper_block:
  assumes "parse ''echo-venue'' = Ok ''echo-venue''" "ready a module 2 p"
    and "ser number = Ok bs" "length bs < 255"
  shows "\<exists>p'. echo_keeper_on_trigger (hosted (client_of parse module)) display debug ser de_update de_body
         (TrBlock number) (p, []) = (Ok (), p',
         [(LvInfo, ''quoted at echo-venue: gives 1 amount bytes''),
          (LvInfo, ''submitted to echo-venue: receipt '' @ show_nat (Suc (length bs)) @ '' bytes''),
          (LvInfo, ''status at echo-venue: '' @ debug Fulfilled),
          (LvInfo, ''cancelled at echo-venue'')])
       \<and> followed a (0 # bs) p'"
proof -
  have ready: "ready a module (Suc (Suc 0)) p" using assms(2) by (simp add: numeral_2_eq_2)
  obtain q where q: "echo_quote (0 # bs) = Ok q" "length (amount (q_gives q)) = 1"
    by (rule echo_quote_amount [of "0 # bs"]) (use assms(4) in simp_all)
  obtain p1 where p1: "shim_quote (client_of parse module) ''echo-venue'' (0 # bs) p = (echo_quote (0 # bs), p1)"
    "ready a module (Suc 0) p1"
    by (rule import_quote [where parse = parse, OF assms(1) ready])
  obtain p2 where p2: "shim_submit (client_of parse module) ''echo-venue'' (0 # bs) p1 = (Ok (Accepted (0 # bs)), p2)"
    "ready a module 0 p2" "followed a (0 # bs) p2"
    by (rule import_submit [where parse = parse, OF assms(1) p1(2)])
  obtain p3 where p3: "shim_status (client_of parse module) ''echo-venue'' (0 # bs) p2 = (Ok Fulfilled, p3)"
    "ready a module 0 p3" "reg_at a p3 = reg_at a p2"
    by (rule import_status [where parse = parse, OF assms(1) p2(2)])
  obtain p4 where p4: "shim_cancel (client_of parse module) ''echo-venue'' (0 # bs) p3 = (Ok (), p4)"
    "reg_at a p4 = reg_at a p3"
    by (rule import_cancel [where parse = parse, OF assms(1) p3(2)])
  have f: "followed a (0 # bs) p4" using p2(3) p3(3) p4(2) by (simp add: followed_def)
  show ?thesis
    using p1(1) p2(1) p3(1) p4(1) q f EchoBody_bytes [of ser, OF assms(3)]
    by (simp add: keeper_dispatch_defs echo_keeper_on_block_def echo_keeper_client_def EchoVenue_ID_def
        SdkVenueId_from_static_def client_quote_def Quoted_submit_def client_status_def client_cancel_def
        guard_receipt_def HostVenues_def lift_venue_error_def hosted_def on_process_def show_nat_digit Let_def)
qed

text \<open>
  C14: a block reaches the venue and comes back, through either example module. With the echo
  venue alive behind the published registry, a guard that only looks, and two units of quota
  left, echo-client quotes and submits the eight bytes of the block number, echo-keeper the
  encoding of its typed body (at most 255 bytes with its tag), then reads the status and cancels; each answers success, logs
  exactly one line per call with what the venue said, and leaves the receipt, the body itself,
  under watch unless the list stands at its cap.
\<close>

theorem echo_block_reaches_the_venue:
  assumes "parse ''echo-venue'' = Ok ''echo-venue''" and "ready a module 2 p"
    and "ser number = Ok bs" and "length bs < 255"
  shows "(\<exists>p'. echo_client_on_block (hosted (client_of parse module)) number (p, []) = (Ok (), p',
         [(LvInfo, ''quoted 8 bytes at echo-venue: gives 1 amount bytes''),
          (LvInfo, ''submitted 8 bytes to echo-venue, receipt 8 bytes'')])
       \<and> followed a (block_bytes number) p')
     \<and> (\<exists>p'. echo_keeper_on_trigger (hosted (client_of parse module)) display debug ser de_update de_body
         (TrBlock number) (p, []) = (Ok (), p',
         [(LvInfo, ''quoted at echo-venue: gives 1 amount bytes''),
          (LvInfo, ''submitted to echo-venue: receipt '' @ show_nat (Suc (length bs)) @ '' bytes''),
          (LvInfo, ''status at echo-venue: '' @ debug Fulfilled),
          (LvInfo, ''cancelled at echo-venue'')])
       \<and> followed a (0 # bs) p')"
  by (rule conjI [OF client_block [where parse = parse, OF assms(1,2)]
      keeper_block [where parse = parse and ser = ser, OF assms]])

definition sample_hosting :: "chain_heads process" where
  "sample_hosting = \<lparr>registries = (\<lambda>_. sample_registry 2), next_registry = 1, REGISTRY = Some 0,
     pr_world = env (sample_registry 2)\<rparr>"

lemma max_word_2: "max 2 (1 :: u32) = 2"
proof (rule max_absorb1)
  show "(1 :: u32) \<le> 2" by (simp add: word_le_nat_alt)
qed

lemma sample_hosting_ready: "ready 0 ''mod-a'' 2 sample_hosting"
  by (simp add: ready_def reg_at_def sample_hosting_def serves_def room_def resolve_def unit_guard_def
      history_of_def SubmitQuota_new_def max_word_2)

theorem echo_block_reaches_the_venue_witness:
  "\<exists>p'. echo_keeper_on_trigger (hosted (client_of Ok ''mod-a'')) (\<lambda>_. ''fault'') (\<lambda>_. ''Fulfilled'') put_u64
       borsh_IntentStatusUpdate borsh_StatusBody (TrBlock 7) (sample_hosting, []) = (Ok (), p',
       [(LvInfo, ''quoted at echo-venue: gives 1 amount bytes''),
        (LvInfo, ''submitted to echo-venue: receipt 9 bytes''),
        (LvInfo, ''status at echo-venue: Fulfilled''),
        (LvInfo, ''cancelled at echo-venue'')])"
proof -
  have ser: "put_u64 7 = Ok [7, 0, 0, 0, 0, 0, 0, 0]" by (simp add: put_u64_def layout_eval)
  have len: "length ([7, 0, 0, 0, 0, 0, 0, 0] :: bytes) < 255" by simp
  have "show_nat (Suc (length ([7, 0, 0, 0, 0, 0, 0, 0] :: bytes))) = ''9''" by code_simp
  with echo_block_reaches_the_venue [where parse = Ok and ser = put_u64, OF refl sample_hosting_ready ser len,
      where debug = "\<lambda>_. ''Fulfilled''" and display = "\<lambda>_. ''fault''"]
  show ?thesis by (auto simp del: list.size)
qed

section \<open>A transition\<close>

text \<open>
  What the venue answered: some entry of the pruned watch list is this key, and the adapter
  installed for it, asked in the state the poll had reached, answered this status.
\<close>

definition loop_answer ::
  "StatusBody ser \<Rightarrow> (VenueId \<times> bytes) list \<Rightarrow> 'x VenueRegistry \<Rightarrow> VenueId \<Rightarrow> bytes \<Rightarrow> IntentStatus \<Rightarrow> bool" where
  "loop_answer ser keys r v rc st \<longleftrightarrow> (\<exists>k<length keys. keys ! k = (v, rc)
     \<and> (\<exists>sl. resolve v (snd (poll_loop ser (take k keys) r)) = Ok sl
        \<and> fst (on_env (inv_status (invoker sl) rc) (snd (poll_loop ser (take k keys) r))) = Ok st))"

definition answered_in_poll ::
  "StatusBody ser \<Rightarrow> 'x VenueRegistry \<Rightarrow> VenueId \<Rightarrow> bytes \<Rightarrow> IntentStatus \<Rightarrow> bool" where
  "answered_in_poll ser r v rc st \<longleftrightarrow>
     loop_answer ser (map watch_key (watched (snd (prune_expired r)))) (snd (prune_expired r)) v rc st"

text \<open>An update for a key, carrying the encoding of a wire status.\<close>

definition carries :: "StatusBody ser \<Rightarrow> IntentStatusUpdate \<Rightarrow> VenueId \<Rightarrow> bytes \<Rightarrow> IntentStatus \<Rightarrow> bool" where
  "carries ser u v rc st \<longleftrightarrow> upd_venue u = as_str v \<and> upd_receipt u = rc
     \<and> StatusBody_encode ser (status_body st) = Ok (upd_status u)"

lemma poll_one_carries:
  assumes "u \<in> set (fst (poll_one ser v rc r))"
  obtains sl st where "resolve v r = Ok sl" "fst (on_env (inv_status (invoker sl) rc) r) = Ok st"
    "carries ser u v rc st"
proof (cases "resolve v r")
  case (Ok sl)
  obtain a r1 where q: "on_env (inv_status (invoker sl) rc) r = (a, r1)" by fastforce
  then obtain st where st: "a = Ok st"
    using assms Ok by (cases a) (simp_all add: poll_one_def)
  with assms Ok q have "fst (record_polled_status ser v rc st r1) = Some u"
    by (auto simp: poll_one_def case_prod_unfold Let_def split: option.splits)
  then have c: "carries ser u v rc st"
    by (auto simp: carries_def record_polled_status_def case_prod_unfold Let_def
        split: option.splits if_splits result.splits)
  show ?thesis by (rule that [OF Ok _ c]) (simp only: q st fst_conv)
qed (use assms in \<open>simp add: poll_one_def\<close>)

lemma loop_answer_Cons:
  assumes "loop_answer ser ps (snd (poll_one ser x y r)) v rc st"
  shows "loop_answer ser ((x, y) # ps) r v rc st"
proof -
  obtain k sl where k: "k < length ps" "ps ! k = (v, rc)"
    "resolve v (snd (poll_loop ser (take k ps) (snd (poll_one ser x y r)))) = Ok sl"
    "fst (on_env (inv_status (invoker sl) rc) (snd (poll_loop ser (take k ps) (snd (poll_one ser x y r))))) = Ok st"
    using assms unfolding loop_answer_def by blast
  have t: "snd (poll_loop ser (take (Suc k) ((x, y) # ps)) r) =
      snd (poll_loop ser (take k ps) (snd (poll_one ser x y r)))"
    by (simp add: case_prod_unfold Let_def)
  show ?thesis
    unfolding loop_answer_def using k(1,2) k(3,4) [folded t] by (intro exI [of _ "Suc k"]) simp
qed

lemma poll_loop_carries:
  "u \<in> set (fst (poll_loop ser ps r)) \<Longrightarrow> \<exists>v rc st. loop_answer ser ps r v rc st \<and> carries ser u v rc st"
proof (induction ps arbitrary: r)
  case (Cons p ps)
  obtain v rc where p: "p = (v, rc)" by fastforce
  have "u \<in> set (fst (poll_one ser v rc r)) \<or> u \<in> set (fst (poll_loop ser ps (snd (poll_one ser v rc r))))"
    using Cons.prems by (simp add: p case_prod_unfold Let_def)
  then show ?case
  proof
    assume "u \<in> set (fst (poll_one ser v rc r))"
    then obtain sl st where "resolve v r = Ok sl" "fst (on_env (inv_status (invoker sl) rc) r) = Ok st"
      "carries ser u v rc st" by (rule poll_one_carries)
    then show ?thesis unfolding p loop_answer_def by (intro exI conjI) auto
  next
    assume "u \<in> set (fst (poll_loop ser ps (snd (poll_one ser v rc r))))"
    from Cons.IH [OF this] show ?thesis unfolding p using loop_answer_Cons by blast
  qed
qed simp

lemma poll_carries:
  assumes "u \<in> set (fst (poll_status_transitions ser r))"
  obtains v rc st where "answered_in_poll ser r v rc st" "carries ser u v rc st"
proof -
  have k: "(\<lambda>w. (w_venue w, w_receipt w)) = watch_key" by (simp add: watch_key_def fun_eq_iff)
  show ?thesis
    using poll_loop_carries [of u ser _ "snd (prune_expired r)"] assms that
    by (auto simp: poll_status_transitions_def case_prod_unfold Let_def k answered_in_poll_def)
qed

text \<open>The words of the log, by the status the venue answered.\<close>

fun status_word :: "IntentStatus \<Rightarrow> string" where
  "status_word Pending = ''Pending''"
| "status_word Open = ''Open''"
| "status_word Fulfilled = ''Fulfilled''"
| "status_word Cancelled = ''Cancelled''"
| "status_word Expired = ''Expired''"

definition transition_line :: "VenueId \<Rightarrow> bytes \<Rightarrow> IntentStatus \<Rightarrow> string" where
  "transition_line v rc st = ''intent status from venue '' @ as_str v @ '': '' @ status_word st
     @ '' ('' @ show_nat (length rc) @ '' receipt bytes)''"

lemma lifecycle_word: "lifecycle_debug (lower_status st) = status_word st"
  by (cases st) simp_all

lemma log_transition_hosted:
  assumes "borsh_codec ser de" "carries ser u v rc st"
  shows "log_transition (hosted imp) de u (p, l) = (Ok (), p, l @ [(LvInfo, transition_line v rc st)])"
proof -
  have "StatusBody_decode de (upd_status u) = Ok (status_body st)"
    using StatusBody_encode_decode [OF assms(1), of "status_body st" "upd_status u"] assms(2)
    by (simp add: carries_def)
  then show ?thesis
    using assms(2)
    by (simp add: log_transition_def hosted_def transition_line_def status_body_def carries_def lifecycle_word)
qed

text \<open>
  C16: every transition the host delivers ends as one line of the module's log. Whatever a poll
  of a registry reports, its delivery, handed to either module, decodes and logs the venue
  that was asked, the state it answered in that poll and the size of the receipt, and touches
  nothing else; a trigger of another kind is ignored.
\<close>

theorem delivered_transitions_are_logged:
  assumes "borsh_codec ser_body de_body" and "borsh_codec ser_update de_update"
    and "u \<in> set (fst (poll_status_transitions ser_body r))"
    and "IntentStatusUpdate_encode ser_update u = Ok payload"
  shows "let d = delivery_of u payload;
         client = echo_client_on_extension (hosted imp) de_update de_body;
         keeper = \<lambda>kind payload. echo_keeper_on_trigger (hosted imp) display debug ser de_update de_body
                    (TrExtension kind payload)
     in \<exists>v rc st. answered_in_poll ser_body r v rc st
       \<and> client (dl_trigger_kind d) (dl_payload d) (p, l) = (Ok (), p, l @ [(LvInfo, transition_line v rc st)])
       \<and> keeper (dl_trigger_kind d) (dl_payload d) (p, l) = (Ok (), p, l @ [(LvInfo, transition_line v rc st)])
       \<and> (kind = INTENT_STATUS_KIND
          \<or> client kind other (p, l) = (Ok (), p, l) \<and> keeper kind other (p, l) = (Ok (), p, l))"
proof -
  obtain v rc st where st: "answered_in_poll ser_body r v rc st" "carries ser_body u v rc st"
    using poll_carries [OF assms(3)] by blast
  have de: "IntentStatusUpdate_decode de_update payload = Ok u"
    using IntentStatusUpdate_encode_decode [OF assms(2), of u payload] assms(4) by simp
  show ?thesis
    unfolding Let_def
    by (intro exI [of _ v] exI [of _ rc] exI [of _ st] conjI st(1))
      (simp_all add: delivery_of_def echo_client_on_extension_def keeper_dispatch_defs
        echo_keeper_on_intent_status_def intent_status_update_def de log_transition_hosted [OF assms(1) st(2)])
qed

lemma sample_answer:
  assumes "answered_in_poll put_StatusBody sample_end v rc st"
  shows "v = echo_id \<and> rc = [7] \<and> st = Fulfilled"
proof -
  let ?r = "snd (prune_expired sample_end)"
  have w: "map watch_key (watched ?r) = [(echo_id, [7])]"
    by (simp add: prune_expired_eq sample_end_watched expired_at_def watch_key_def
        sample_end_reads [unfolded next_reading_def])
  have q: "quiet_status (\<lambda>_ _. Ok Fulfilled) ?r"
    using quiet_status_cong [of sample_end ?r] sample_end_quiet by simp
  show ?thesis
    using assms q unfolding answered_in_poll_def loop_answer_def w
    by (auto simp: quiet_status_def on_env_def)
qed

theorem delivered_transitions_are_logged_witness:
  "\<exists>payload. IntentStatusUpdate_encode put_IntentStatusUpdate (update_for echo_id [7] [1, 2, 0, 0]) = Ok payload
     \<and> echo_client_on_extension (hosted (client_of Ok ''mod-a'')) borsh_IntentStatusUpdate borsh_StatusBody
         INTENT_STATUS_KIND payload (sample_process, []) =
       (Ok (), sample_process,
        [(LvInfo, ''intent status from venue echo-venue: Fulfilled (1 receipt bytes)'')])"
proof -
  let ?u = "update_for echo_id [7] [1, 2, 0, 0]"
  obtain payload where payload: "IntentStatusUpdate_encode put_IntentStatusUpdate ?u = Ok payload"
    using sample_update_encodes by (auto simp: IntentStatusUpdate_encode_def is_ok_iff)
  have in_poll: "?u \<in> set (fst (poll_status_transitions put_StatusBody sample_end))"
    by (simp add: sample_poll update_for_def)
  from delivered_transitions_are_logged [OF status_body.closed.borsh_codec_axioms
      status_update.closed.borsh_codec_axioms in_poll payload, where imp = "client_of Ok ''mod-a''"
      and p = sample_process and l = "[]" and kind = INTENT_STATUS_KIND and other = "[]"]
  obtain v rc st where st: "answered_in_poll put_StatusBody sample_end v rc st"
    "echo_client_on_extension (hosted (client_of Ok ''mod-a'')) borsh_IntentStatusUpdate borsh_StatusBody
       INTENT_STATUS_KIND payload (sample_process, []) = (Ok (), sample_process, [(LvInfo, transition_line v rc st)])"
    by (simp add: Let_def delivery_of_def) blast
  from sample_answer [OF st(1)] st(2) payload show ?thesis
    by (simp add: transition_line_def echo_id_def show_nat_digit)
qed

end
