(* ===== verification/Keeper_Properties.thy ===== *)
theory Keeper_Properties imports Keeper_Store
begin

text \<open>
  What the keeper promises, over any stores, poller and venue that keep the contract of
  \<open>keeper_env\<close>, with the crate's own test set-ups as the concrete instances.
\<close>

section \<open>One sweep\<close>

text \<open>
  C8: what one sweep may do to the journal and the venue, whatever fails on the way, a fault
  that ends the run included. A committed key stays committed and its body is not posted. The
  posts are first at most the budget, for reservations the sweep found, each once, and
  then bodies whose keys were not committed. The bodies the venue accepted have distinct
  keys, each of which the journal still holds afterwards.
\<close>

theorem sweep_respects_the_journal:
  assumes "keeper_env st J k posts accepted" and "well_filed J digest (kp_venue k) s"
    and "keeper_run k st digest tick s = (r, s')"
  shows "\<exists>reposts fresh new. posts s' = posts s @ reposts @ fresh \<and> accepted s' = accepted s @ new
     \<and> length reposts \<le> kp_max_per_tick k
     \<and> distinct (map (submission_key digest (kp_venue k)) reposts)
     \<and> (\<forall>b\<in>set reposts. \<exists>n b'. J s (submission_key digest (kp_venue k) b) = Some (JReserved n b'))
     \<and> (\<forall>b\<in>set fresh. J s (submission_key digest (kp_venue k) b) \<noteq> Some JCommitted)
     \<and> set new \<subseteq> set reposts \<union> set fresh
     \<and> distinct (map (submission_key digest (kp_venue k)) new)
     \<and> (\<forall>b\<in>set new. J s' (submission_key digest (kp_venue k) b) \<noteq> None)
     \<and> (\<forall>key. J s key = Some JCommitted \<longrightarrow> J s' key = Some JCommitted)
     \<and> well_filed J digest (kp_venue k) s'"
  by (rule keeper_env.run_safe [OF assms(1,3,2)])

lemma interrupted_journalled:
  assumes "idempotent_env st J k posts accepted digest"
    and "interrupted k st digest (idle_step J posts accepted) s0 s"
    and "well_filed J digest (kp_venue k) s0" and "accepted s0 = []"
  shows "(\<forall>b\<in>set (accepted s). J s (submission_key digest (kp_venue k) b) \<noteq> None)
     \<and> well_filed J digest (kp_venue k) s"
proof -
  note env = idempotent_env.axioms(1) [OF assms(1)]
  have "idempotent_env.safe J k accepted digest s"
    using idempotent_env.interrupted_safe [OF assms(1,2)] assms(3,4)
    by (simp add: idempotent_env.safe_def [OF assms(1)] idempotent_env.all_journalled_def [OF assms(1)]
        keeper_env.filed_eq [OF env])
  then show ?thesis
    by (simp add: idempotent_env.safe_def [OF assms(1)] idempotent_env.all_journalled_def [OF assms(1)]
        keeper_env.filed_eq [OF env] keeper_env.skey_def [OF env])
qed

text \<open>The crate's first test: one commitment, a poller that submits, an accepting venue.\<close>

definition test_world :: "bool \<Rightarrow> keeper_world" where
  "test_world arm =
     \<lparr>kw_journal = [], kw_commitments = [(''commitment'', [1])], kw_next_block = (\<lambda>_. 0),
      kw_next_epoch = (\<lambda>_. 0), kw_refused = [], kw_arm = arm, kw_script = [],
      cv_outcome = Ok (Accepted [0xAB]), cv_posts = [], cv_preloaded = [], cv_accepted = []\<rparr>"

abbreviation test_keeper :: "(keeper_world, string) Keeper" where
  "test_keeper \<equiv> counting_keeper (StubSource (OSubmit [7])) DEFAULT_RECONCILE_BUDGET DefaultFaultPolicy"

abbreviation test_key :: string where
  "test_key \<equiv> submission_key plain_digest (SdkVenueId STUB) [7]"

definition after_test :: "bool \<Rightarrow> keeper_world" where
  "after_test arm = snd (keeper_run test_keeper (FlakyCommit mem_stores) plain_digest TICK (test_world arm))"

lemma test_tick [simp]: "tk_block TICK = 100" "tk_epoch_s TICK = 1000"
  by (simp_all add: TICK_def)

lemmas test_run_eval = keeper_run_def reconcile_def FlakyCommit_def mem_stores_def
  test_world_def reservations_of_def map_filter_simps run_commitment_def poll_commitment_def
  StubSource_def submit_arm_def Let_def kw_map_def put_journal_def CountingVenue_def
  only_submit_def held_def log_answer_def

lemma after_test_eq: "after_test arm = (test_world arm)\<lparr>kw_arm := False, cv_posts := [[7]],
    cv_accepted := [[7]], kw_journal := [(test_key, if arm then JReserved 0 [7] else JCommitted)]\<rparr>"
  by (simp add: after_test_def test_run_eval)

lemma test_filed: "well_filed kw_map plain_digest (SdkVenueId STUB) (test_world arm)"
  by (simp add: well_filed_def kw_map_def test_world_def)

lemma after_test_filed: "well_filed kw_map plain_digest (SdkVenueId STUB) (after_test arm)"
  by (simp add: well_filed_def kw_map_def after_test_eq)

theorem sweep_respects_the_journal_witness:
  "kw_map (after_test False) test_key = Some JCommitted
   \<and> kw_map (snd (keeper_run test_keeper (FlakyCommit mem_stores) plain_digest TICK (after_test False)))
        test_key = Some JCommitted"
proof -
  obtain r s' where run: "keeper_run test_keeper (FlakyCommit mem_stores) plain_digest TICK
      (after_test False) = (r, s')" by fastforce
  have "kw_map (after_test False) test_key = Some JCommitted"
    by (simp add: after_test_eq kw_map_def)
  with sweep_respects_the_journal [OF stub_env.keeper_env_axioms _ run] after_test_filed run
  show ?thesis by simp metis
qed

text \<open>
  C12: the venue is asked only under a reservation. Replace the venue by one that answers the
  same wherever the body's own reservation is in the journal and anything at all elsewhere:
  every sweep is unchanged, its report and its final state included. So whenever a sweep is
  stopped while it waits for the venue, the reservation is already there.
\<close>

theorem venue_is_asked_only_under_a_reservation:
  assumes "keeper_env st J k posts accepted" and "well_filed J digest (kp_venue k) s"
    and "\<And>b t n. J t (submission_key digest (kp_venue k) b) = Some (JReserved n b) \<Longrightarrow>
        vt_submit vt (kp_venue k) b t = vt_submit (kp_venues k) (kp_venue k) b t"
  shows "keeper_run (k\<lparr>kp_venues := vt\<rparr>) st digest tick s = keeper_run k st digest tick s"
  using assms keeper_env.run_reserved [OF assms(1), of digest vt s tick]
  by (simp add: keeper_env.agrees_when_reserved_def [OF assms(1)] keeper_env.skey_def [OF assms(1)]
      keeper_env.filed_eq [OF assms(1)])

definition strict_venue :: "keeper_world VenueTransport" where
  "strict_venue = only_submit (\<lambda>venue body s.
     (case kw_map s (submission_key plain_digest venue body) of
        Some (JReserved _ _) \<Rightarrow> vt_submit CountingVenue venue body s
      | _ \<Rightarrow> (Err (VDenied ''not reserved''), s)))"

theorem venue_is_asked_only_under_a_reservation_witness:
  "snd (keeper_run (test_keeper\<lparr>kp_venues := strict_venue\<rparr>) (FlakyCommit mem_stores) plain_digest TICK
     (test_world True)) = after_test True"
proof -
  have "keeper_run (test_keeper\<lparr>kp_venues := strict_venue\<rparr>) (FlakyCommit mem_stores) plain_digest TICK
      (test_world True) = keeper_run test_keeper (FlakyCommit mem_stores) plain_digest TICK (test_world True)"
    by (rule venue_is_asked_only_under_a_reservation [OF stub_env.keeper_env_axioms])
      (simp_all add: test_filed strict_venue_def only_submit_def)
  then show ?thesis by (simp add: after_test_def)
qed

section \<open>Histories\<close>

text \<open>
  C3: exactly once. Over any sequence of sweeps at any ticks, with anything but the journal
  moving in between, if the store never fails a commit then the venue accepts at most one
  body per submission key, and everything it accepted is committed.
\<close>

theorem reliable_sweeps_submit_once:
  assumes "keeper_env st J k posts accepted"
    and "sweeps k st digest (idle_step J posts accepted) s0 s"
    and "well_filed J digest (kp_venue k) s0" and "accepted s0 = []"
    and "\<And>key t. is_ok (fst (st_commit st key t))"
  shows "distinct (map (submission_key digest (kp_venue k)) (accepted s))
     \<and> (\<forall>b\<in>set (accepted s). J s (submission_key digest (kp_venue k) b) = Some JCommitted)"
proof -
  note env = assms(1)
  have "keeper_env.skey k digest = submission_key digest (kp_venue k)"
    by (simp add: keeper_env.skey_def [OF env] fun_eq_iff)
  then show ?thesis
    using keeper_env.sweeps_reliable [OF env assms(2)] assms(3-5)
    by (simp add: keeper_env.reliable_def [OF env] keeper_env.filed_eq [OF env])
qed

lemma two_sweeps: "sweeps test_keeper (FlakyCommit mem_stores) plain_digest
    (idle_step kw_map cv_posts cv_accepted) (test_world arm)
    (snd (keeper_run test_keeper (FlakyCommit mem_stores) plain_digest TICK (after_test arm)))"
proof -
  have "sweeps test_keeper (FlakyCommit mem_stores) plain_digest
      (idle_step kw_map cv_posts cv_accepted) (test_world arm) (after_test arm)"
    unfolding after_test_def
    by (rule sweeps.sweep [OF sweeps.start surjective_pairing])
  then show ?thesis by (rule sweeps.sweep) (rule surjective_pairing)
qed

lemma one_plain_sweep: "sweeps test_keeper mem_stores plain_digest (idle_step kw_map cv_posts cv_accepted)
    (test_world False) (snd (keeper_run test_keeper mem_stores plain_digest TICK (test_world False)))"
  by (rule sweeps.sweep [OF sweeps.start surjective_pairing])

theorem reliable_sweeps_submit_once_witness:
  "let s = snd (keeper_run test_keeper mem_stores plain_digest TICK (test_world False))
   in cv_accepted s = [[7]] \<and> kw_map s test_key = Some JCommitted"
proof -
  have "cv_accepted (snd (keeper_run test_keeper mem_stores plain_digest TICK (test_world False))) = [[7]]"
    by (simp add: keeper_run_def reconcile_def mem_stores_def
      test_world_def reservations_of_def map_filter_simps run_commitment_def poll_commitment_def
      StubSource_def submit_arm_def Let_def kw_map_def put_journal_def CountingVenue_def
      only_submit_def held_def log_answer_def)
  moreover have "keeper_env mem_stores kw_map test_keeper cv_posts cv_accepted"
    by (rule counting_env_plain) (rule quiet_sources)
  from reliable_sweeps_submit_once [OF this one_plain_sweep]
  have "\<forall>b\<in>set (cv_accepted (snd (keeper_run test_keeper mem_stores plain_digest TICK (test_world False)))).
      kw_map (snd (keeper_run test_keeper mem_stores plain_digest TICK (test_world False)))
        (submission_key plain_digest (SdkVenueId STUB) b) = Some JCommitted"
    using test_filed [of False] by (simp add: test_world_def mem_stores_def)
  ultimately show ?thesis by (simp add: Let_def)
qed

text \<open>
  C5: no accepted order is lost. With a venue that accepts again what it already holds, over
  any history of sweeps, whatever store call fails in them and wherever each of them is
  stopped (its future dropped at an await, its process killed between two calls of the
  host), every body the venue ever accepted is still in the journal, reserved or committed,
  under its own key; so a later reconcile pass can settle it, and it is never posted as
  fresh again.
\<close>

theorem accepted_orders_stay_journalled:
  assumes "idempotent_env st J k posts accepted digest"
    and "interrupted k st digest (idle_step J posts accepted) s0 s"
    and "well_filed J digest (kp_venue k) s0" and "accepted s0 = []"
  shows "(\<forall>b\<in>set (accepted s). J s (submission_key digest (kp_venue k) b) \<noteq> None)
     \<and> well_filed J digest (kp_venue k) s"
  using assms interrupted_journalled [OF assms(1,2)] by simp

lemma stopped_after_the_post:
  "(test_world arm)\<lparr>cv_posts := [[7]], cv_accepted := [[7]], kw_journal := [(test_key, JReserved 0 [7])]\<rparr>
     \<in> set (visited test_keeper (FlakyCommit mem_stores) plain_digest TICK (test_world arm))"
  by (simp add: visited_def test_run_eval)

lemma stopped_history: "interrupted test_keeper (FlakyCommit mem_stores) plain_digest
    (idle_step kw_map cv_posts cv_accepted) (test_world arm)
    ((test_world arm)\<lparr>cv_posts := [[7]], cv_accepted := [[7]], kw_journal := [(test_key, JReserved 0 [7])]\<rparr>)"
  by (rule interrupted.stopped [OF interrupted.start stopped_after_the_post])

theorem accepted_orders_stay_journalled_witness:
  "let s = (test_world True)\<lparr>cv_posts := [[7]], cv_accepted := [[7]], kw_journal := [(test_key, JReserved 0 [7])]\<rparr>
   in s \<in> set (visited test_keeper (FlakyCommit mem_stores) plain_digest TICK (test_world True))
      \<and> (\<forall>b\<in>set (cv_accepted s). kw_map s (submission_key plain_digest (SdkVenueId STUB) b) \<noteq> None)"
  using accepted_orders_stay_journalled [OF stub_idempotent.idempotent_env_axioms stopped_history [of True]]
    test_filed [of True] stopped_after_the_post [of True]
  by (simp add: Let_def) (simp add: test_world_def)




section \<open>The books\<close>

text \<open>
  C22: the report of a sweep balances. Every listed key is counted once as polled, gated or
  skipped; every polled commitment ends in one of submitted, duplicate, retried, dropped or
  an unsigned transaction; and the reconcile counts and transactions are those of the
  reconcile pass that ran first, its transactions in front.
\<close>

theorem sweep_books_balance:
  assumes "keeper_run k st digest tick s = (Ok rep, s')"
  shows "\<exists>rc s1 keys s2.
     reconcile (kp_venue k) (kp_venues k) st tick (kp_max_per_tick k) (kp_fault_policy k) s = (Ok rc, s1)
     \<and> st_list st s1 = (Ok keys, s2)
     \<and> rr_polled rep + rr_gated rep + rr_skipped rep = length keys
     \<and> rr_submitted rep + rr_duplicates rep + rr_retried rep + rr_dropped rep + length (rr_unsigned rep)
         = rr_polled rep + length (rc_unsigned rc)
     \<and> rr_reconciled_committed rep = rc_committed rc \<and> rr_reconciled_released rep = rc_released rc
     \<and> rr_reconciled_pending rep = rc_pending rc \<and> rr_reconciled_gated rep = rc_gated rc
     \<and> rr_reconciled_unsigned rep = length (rc_unsigned rc)
     \<and> prefix (rc_unsigned rc) (rr_unsigned rep)"
  by (rule keeper_run_books [OF assms])
    (auto simp: seen_def ended_def carried_def reconciled_report_def RunReport_default_def prefix_def)

theorem sweep_books_balance_witness:
  "\<exists>rep. fst (keeper_run test_keeper (FlakyCommit mem_stores) plain_digest TICK (test_world False)) = Ok rep
     \<and> rr_polled rep + rr_gated rep + rr_skipped rep = 1"
proof -
  obtain rep where run: "keeper_run test_keeper (FlakyCommit mem_stores) plain_digest TICK (test_world False)
      = (Ok rep, after_test False)"
    unfolding after_test_def
    by (simp add: test_run_eval)
  have "st_list (FlakyCommit mem_stores) t = (Ok keys, t') \<Longrightarrow> keys = map fst (kw_commitments t)" for t keys t'
    by (auto simp: FlakyCommit_def mem_stores_def)
  moreover have "kw_commitments t = kw_commitments (test_world False)"
    if "reconcile (kp_venue test_keeper) (kp_venues test_keeper) (FlakyCommit mem_stores) TICK b p
      (test_world False) = (rc, t)" for b p rc t
    using that by (simp add: reconcile_def FlakyCommit_def mem_stores_def test_world_def
        reservations_of_def map_filter_simps)
  ultimately have "rr_polled rep + rr_gated rep + rr_skipped rep = 1"
    using sweep_books_balance [OF run] by (fastforce simp: test_world_def)
  with run show ?thesis by simp
qed

text \<open>
  C21: what a reconcile pass that reports has done, reservation by reservation. It posted
  exactly the eligible ones the store listed, in order, up to its budget, each while its
  reservation was in the journal. After an acceptance the entry is committed, after a
  transaction to sign or a terminal refusal it is gone, after a rate limit with a hint it is
  parked until the hint has passed, and after any other refusal it is as it was; every other
  entry of the journal is untouched. Each answer is counted in the one bucket that names it,
  the transactions are handed back in order, and when the budget covers the eligible ones the
  gated count is the number of the others.
\<close>

theorem reconcile_settles_up_to_its_budget:
  assumes "keeper_env st J k posts accepted"
    and "reconcile (kp_venue k) (kp_venues k) st tick (kp_max_per_tick k) (kp_fault_policy k) s = (Ok rep, s')"
    and "st_pending st s = (Ok rvs, s1)"
  shows "\<exists>as. map fst as = take (kp_max_per_tick k) (filter (eligible tick) rvs)
     \<and> posts s' = posts s @ map (rv_body \<circ> fst) as
     \<and> accepted s' = accepted s @ map (rv_body \<circ> fst) (filter (accepts \<circ> snd) as)
     \<and> (\<forall>i<length as. \<exists>t. posts t = posts s @ map (rv_body \<circ> fst) (take i as)
          \<and> J t (rv_key (fst (as ! i))) =
              Some (JReserved (rv_next_eligible (fst (as ! i))) (rv_body (fst (as ! i))))
          \<and> snd (as ! i) = fst (vt_submit (kp_venues k) (kp_venue k) (rv_body (fst (as ! i))) t))
     \<and> (\<forall>(rv, ro)\<in>set as. J s' (rv_key rv) = settled_entry (kp_fault_policy k) tick rv ro)
     \<and> (\<forall>key. key \<notin> (rv_key \<circ> fst) ` set as \<longrightarrow> J s' key = J s key)
     \<and> rc_committed rep = length (filter accepts (map snd as))
     \<and> rc_released rep = length (filter (refused_for_good (kp_fault_policy k)) (map snd as))
     \<and> rc_pending rep = length (filter (refused_for_now (kp_fault_policy k)) (map snd as))
     \<and> rc_unsigned rep = concat (map handed_back (map snd as))
     \<and> (length (filter (eligible tick) rvs) \<le> kp_max_per_tick k \<longrightarrow>
          rc_gated rep = length (filter (\<lambda>rv. \<not> eligible tick rv) rvs))"
proof -
  note env = assms(1)
  obtain as where as: "map fst as = take (kp_max_per_tick k) (filter (eligible tick) rvs)"
      "keeper_env.passed_over J k posts accepted tick as s s'"
      "counted (kp_fault_policy k) (map snd as) ReconcileReport_default rep"
    using keeper_env.reconcile_answers [OF env assms(2,3)] by blast
  have "rc_gated rep = length (filter (\<lambda>rv. \<not> eligible tick rv) rvs)"
    if "length (filter (eligible tick) rvs) \<le> kp_max_per_tick k"
    using reconcile_loop_gates [of _ _ _ tick _ _ 0 ReconcileReport_default rvs s1 rep s'] assms(2,3) that
    by (simp add: reconcile_def) (simp add: ReconcileReport_default_def)
  with as show ?thesis
    unfolding keeper_env.passed_over_def [OF env] keeper_env.answered_in_order_def [OF env]
    by (intro exI [of _ as]) (simp add: counted_def ReconcileReport_default_def)
qed

theorem reconcile_settles_up_to_its_budget_witness:
  "let w = seed_reserved plain_digest [7] (seed_reserved plain_digest [8] (test_world False))
   in \<exists>rep s'. reconcile (SdkVenueId STUB) CountingVenue mem_stores TICK 1 DefaultFaultPolicy w = (Ok rep, s')
        \<and> cv_posts s' = [[8]] \<and> rc_committed rep + rc_released rep + rc_pending rep + length (rc_unsigned rep) = 1
        \<and> kw_map s' (stub_key plain_digest [7]) = kw_map w (stub_key plain_digest [7])"
proof -
  let ?w = "seed_reserved plain_digest [7] (seed_reserved plain_digest [8] (test_world False))"
  let ?k = "counting_keeper (StubSource (OSubmit [7])) 1 DefaultFaultPolicy"
  have d: "stub_key plain_digest [7] \<noteq> stub_key plain_digest [8]"
    by (auto simp: stub_key_def submission_key_def dest: plain_digest_inj)
  let ?rv = "\<lambda>b. \<lparr>rv_key = stub_key plain_digest b, rv_next_eligible = 0, rv_body = b\<rparr>"
  have p: "st_pending mem_stores ?w = (Ok [?rv [8], ?rv [7]], ?w)"
    using d d [symmetric]
    by (simp add: mem_stores_def seed_reserved_def put_journal_def test_world_def reservations_of_def
        map_filter_simps)
  have "is_ok (fst (reconcile (SdkVenueId STUB) CountingVenue mem_stores TICK 1 DefaultFaultPolicy ?w))"
    unfolding reconcile_def p
    by (simp add: CountingVenue_def only_submit_def Let_def held_def log_answer_def seed_reserved_def
        test_world_def mem_stores_def put_journal_def)
  then obtain rep s' where r: "reconcile (SdkVenueId STUB) CountingVenue mem_stores TICK 1
      DefaultFaultPolicy ?w = (Ok rep, s')"
    by (metis is_ok_iff prod.collapse)
  then have run: "reconcile (kp_venue ?k) (kp_venues ?k) mem_stores TICK (kp_max_per_tick ?k)
      (kp_fault_policy ?k) ?w = (Ok rep, s')" by simp
  have el: "take 1 (filter (eligible TICK) [?rv [8], ?rv [7]]) = [?rv [8]]"
    by (simp add: eligible_def)
  obtain as where as: "map fst as = [?rv [8]]"
      "cv_posts s' = cv_posts ?w @ map (rv_body \<circ> fst) as"
      "\<forall>key. key \<notin> (rv_key \<circ> fst) ` set as \<longrightarrow> kw_map s' key = kw_map ?w key"
      "rc_committed rep = length (filter accepts (map snd as))"
      "rc_released rep = length (filter (refused_for_good DefaultFaultPolicy) (map snd as))"
      "rc_pending rep = length (filter (refused_for_now DefaultFaultPolicy) (map snd as))"
      "rc_unsigned rep = concat (map handed_back (map snd as))"
    using reconcile_settles_up_to_its_budget [OF counting_env_plain [OF quiet_sources(1)] run p,
      unfolded counting_keeper_simps el] by (elim exE conjE) (erule (6) that)
  then obtain ro where one: "as = [(?rv [8], ro)]" by (cases as) auto
  have "cv_posts s' = [[8]]" "kw_map s' (stub_key plain_digest [7]) = kw_map ?w (stub_key plain_digest [7])"
    using as(2,3) d by (simp_all add: one) (simp_all add: seed_reserved_def mem_stores_def
      put_journal_def test_world_def)
  moreover have "rc_committed rep + rc_released rep + rc_pending rep + length (rc_unsigned rep) = 1"
    using one_bucket [of ro DefaultFaultPolicy] unfolding as(4-7) one by simp
  ultimately show ?thesis using r by (simp add: Let_def)
qed

section \<open>Fault policy\<close>

text \<open>
  The default policy retries exactly the transient faults, on the submit path and in the
  reconcile pass alike; a back-off covers the venue's hint and exceeds it by less than a
  second; and overriding the action of a policy moves its notion of terminal with it.
\<close>

lemma default_policy_retries_the_transient:
  "(retry_action fault = RetryDrop \<longleftrightarrow> \<not> transient_error (VenueError_of_VenueFault fault))
   \<and> (fp_is_terminal DefaultFaultPolicy fault \<longleftrightarrow> fp_action DefaultFaultPolicy fault = RetryDrop)
   \<and> (fp_is_terminal Idempotent fault \<longleftrightarrow> fp_action Idempotent fault = RetryDrop)
   \<and> (\<exists>s. retry_action (VRateLimited (Some ms)) = RetryBackoff s
         \<and> unat ms \<le> 1000 * unat s \<and> 1000 * unat s < unat ms + 1000)"
proof -
  have "retry_action fault = RetryDrop \<longleftrightarrow> \<not> transient_error (VenueError_of_VenueFault fault)"
  proof (cases fault)
    case (VRateLimited hint)
    then show ?thesis by (cases hint) simp_all
  qed simp_all
  moreover have u: "unat (u64_div_ceil ms 1000) = (unat ms + 999) div 1000"
    using unat_u64_div_ceil [of 1000 ms] by simp
  moreover have "unat ms \<le> 1000 * ((unat ms + 999) div 1000)
      \<and> 1000 * ((unat ms + 999) div 1000) < unat ms + 1000"
    by linarith
  ultimately show ?thesis
    by (simp add: DefaultFaultPolicy_def is_terminal_of_def Idempotent_def Let_def)
qed

end
