(* ===== verification/Spec2Isabelle.thy ===== *)
theory Spec2Isabelle
  imports Overlap_Properties Unit_Tests Echo_Properties Macro_Properties Keeper_Properties Conformance_Properties Mock_Transport
begin

text \<open>
  Verification development of the videre venue platform.

  The program. A host runs worker modules and venue adapters. A module calls the client
  import; the host delegates to the venue registry, which keeps the adapters by id, a quota
  ledger per calling module, and a list of receipts under status watch. A background task
  polls the watched receipts and delivers each status transition to the modules. On the guest
  side an SDK gives the typed client and the keeper, a sweep that polls conditional
  commitments and submits each order once, with a journal of reservations behind it. Macros
  emit the body codecs, the venue markers and the dispatch of a keeper. A kit of published
  vectors and mocks checks that a venue conforms. Paths below are under
  \<^verbatim>\<open>src/crates\<close>.

  Conventions. A Rust \<^verbatim>\<open>Result\<close> is the datatype \<^typ>\<open>('a, 'e) result\<close>; a machine integer is
  a word; a string is its UTF-8 bytes. An operation takes its state and returns its result
  with the state after it; an \<^verbatim>\<open>Arc\<close> or a shared cell is an address into a record. Code that is
  not in the repository (borsh, the 256-bit integer, the runtime's module ids, linker, stores
  and digests, the toml and JSON texts, hex and files) is an argument of the definitions that use it,
  and a locale states its documented contract: \<open>borsh_codec\<close>, \<open>wire_format\<close>, \<open>u256_bytes\<close>,
  \<open>venue_invoker\<close>, \<open>lawful_registry\<close>, \<open>event_channel\<close>, the journal and environment contracts
  of \<open>Keeper_Contract\<close> and \<open>Keeper_Histories\<close>, \<open>intent_body\<close>, \<open>hex_lib\<close> and \<open>json_form\<close>. Each is interpreted, at the
  borsh layout the sources document, at the echo venue and sample registries, at the
  in-memory stores of the keeper tests, at the reference venue's body, and at the documents of
  the fixtures.

  The parts.
  \<^item> \<open>Videre_Prelude\<close>: results, saturating arithmetic, white space and decimal display.
    \<open>Serde_Model\<close>: how a derived reader takes a document apart.
  \<^item> \<open>Wire_Types\<close>, \<open>Status_Body\<close>, \<open>Byte_Order\<close>, \<open>Borsh_Layout\<close>, \<open>Value_Flow\<close>: the WIT types, the
    versioned status envelope (\<^verbatim>\<open>videre-status-body\<close>), byte orders, the borsh wire layout, and the
    canonical integer codec (\<^verbatim>\<open>videre-sdk/src/value_flow.rs\<close>).
  \<^item> \<open>Policy\<close>, \<open>Registry\<close> (\<^verbatim>\<open>videre-host/src/policy.rs\<close>, \<^verbatim>\<open>registry.rs\<close>): clock and process,
    limits, liveness, and every operation of the registry. \<open>Registry_Frame\<close> says what each
    operation leaves alone, \<open>Registry_Run\<close> the runs of a registry, \<open>Registry_Ledger\<close> the quota
    against a log of all charges, \<open>Registry_Watch\<close> the watch list, \<open>Registry_Poll\<close> what a poll
    reports. \<open>Registry_Concurrent\<close> makes each of the six calls a task that moves from one
    critical section or await to the next, and interleaves the tasks with venues being
    installed, time passing and futures being dropped; \<open>Registry_Overlap\<close> holds the invariant
    of the ledger, \<open>Registry_Reports\<close> that of the reports, \<open>Registry_Progress\<close> the measure of
    the moves left. \<open>Registry_Properties\<close> and \<open>Overlap_Properties\<close> state the properties.
  \<^item> \<open>Echo_Venue\<close>, \<open>Flaky_Venue\<close>: the two adapters of the repository. \<open>Echo_Modules\<close>,
    \<open>Echo_Properties\<close> (\<^verbatim>\<open>modules/examples\<close>, beside \<^verbatim>\<open>crates\<close>): the two example modules and
    their way through client, import, registry and venue.
  \<^item> \<open>Handshake\<close>, \<open>Platform\<close> (\<^verbatim>\<open>videre-host/src/handshake.rs\<close>, \<^verbatim>\<open>client.rs\<close>, \<^verbatim>\<open>lib.rs\<close>), \<open>Task_Loop\<close>: the
    admission of a worker, the process-wide registry behind the client import, the extension
    and its polling task; \<open>Platform_Properties\<close> composes them with the SDK client.
  \<^item> \<open>Body_Codec\<close>, \<open>Sdk_Faults\<close>, \<open>Sdk_Client\<close> (\<^verbatim>\<open>videre-sdk/src/body.rs\<close>, \<^verbatim>\<open>faults.rs\<close>,
    \<^verbatim>\<open>client.rs\<close>, \<^verbatim>\<open>adapter.rs\<close>, \<^verbatim>\<open>event.rs\<close>, \<^verbatim>\<open>transport.rs\<close>): the derived codec, the fault folds, the
    typed client and the adapter face.
  \<^item> \<open>Keeper\<close> (\<^verbatim>\<open>videre-sdk/src/keeper.rs\<close>): the reconcile pass and the run. \<open>Keeper_Contract\<close> is
    what the stores and the venue promise; \<open>Keeper_Safety\<close>, \<open>Keeper_Reserved\<close>, \<open>Keeper_Accounting\<close>
    and \<open>Keeper_Histories\<close> are what one sweep and a history of sweeps keep. \<open>Keeper_Trace\<close> runs
    the sweep over stores and a venue that note every state it passes through, and
    \<open>Keeper_Interrupted\<close> lets a history go on from any of them; \<open>Keeper_Settled\<close> says what a
    reconcile pass does to each reservation. \<open>Keeper_Store\<close> are the in-memory
    instances; \<open>Keeper_Properties\<close> states the properties.
  \<^item> \<open>Macros\<close>, \<open>Macro_Properties\<close> (\<^verbatim>\<open>videre-macros\<close>): what the macros decide at expansion and the
    dispatch they emit.
  \<^item> \<open>Conformance\<close>, \<open>Conformance_Contract\<close>, \<open>Reference_Venue\<close>, \<open>Mock_Transport\<close>,
    \<open>Conformance_Properties\<close> (\<^verbatim>\<open>videre-test\<close>): reports, vectors, goldens, the reference venue, the
    mock transports and the reconcile suite. \<open>Fixture_Json\<close> is the JSON form the serde derives give
    vectors and goldens, \<open>Fixture_Files\<close> the three committed files as documents, \<open>Fixture_Disk\<close>
    the sets as text and files; \<open>Fixture_Properties\<close> states what they guarantee.
  \<^item> \<open>Test_Assertions\<close>, \<open>Stub_Adapter\<close>, \<open>Registry_Tests\<close>, \<open>Venue_Tests\<close>, \<open>Keeper_Tests\<close>,
    \<open>Status_Body_Tests\<close>, \<open>Sdk_Tests\<close>, \<open>Host_Tests\<close>, \<open>Kit_Tests\<close>, \<open>Fixture_Tests\<close>, \<open>Disk_Tests\<close>,
    \<open>Macro_Tests\<close>, \<open>Unit_Tests\<close>: the repository's unit tests, replayed call for call;
    \<open>Adapter_Tests\<close> and \<open>Platform_Tests\<close>: its acceptance tests
    (\<^verbatim>\<open>videre-sdk/tests/adapter.rs\<close>, \<^verbatim>\<open>videre-host/tests/platform.rs\<close>).

  What the lemmas show. Registry: the quota is a sliding-window bound over every run, exact for
  a caller whose calls follow one another and larger by one for each further call in flight;
  the watch list is capped and duplicate free; under one watch a poll reports each transition
  once and nothing after a terminal status, also while other calls and polls overlap it; a
  call run alone is the sequential operation, and calls in flight always finish; dead and
  unknown venues are refused without effect. Keeper: an
  order is posted only under its reservation, a committed key is never posted again, an
  accepted order stays journalled when the venue is idempotent, whatever store call fails and
  wherever a sweep is stopped, one pass over a store and venue that are up recovers from any
  such history, a reconcile pass leaves each entry as the venue's answer calls for, and the
  report of a sweep balances. Codecs: every decoder accepts exactly what its encoder writes,
  and published vectors pin a derived codec across appended versions; a fixture document reads
  back as its set, and the committed files are the sets the kit builds. Platform and macros: a
  typed call is one call of the published registry, a turn of the status task sends exactly
  what is due and the task ends at the first refused send, a delivered transition reaches its
  handler intact, an emitted marker carries a valid id, and a synthesized world imports what
  is declared.

  Bounds and termination. Loops are recursion over the list the source iterates. Only the
  polling task may run forever: it is a partial function whose result is \<^term>\<open>None\<close> exactly when
  no send of any turn is refused. \<open>run_task\<close> takes a number of steps; that enough of them run
  each call to its end is proved. The \<^verbatim>\<open>u32\<close> comparison of a ledger's length is
  kept at its width; below \<^term>\<open>2 ^ 32\<close> entries it is exact, which the bounds assume or derive.

  Not modelled. Log lines of the host; the wasm runtime, its linker and the generated bindings;
  the text of JSON and toml; the two integration tests that run cargo or parse WIT packages, and
  the build files; the order in which waiting tasks are granted a lock. In the sequential
  theories an operation runs to its end. In the interleaving theories a call of an adapter is
  one move, the lock of its slot held from before it until after; what the environment may do
  between two moves is install venues and let the process move on. A replayed unit test leaves
  out what only the runtime's own code decides (the parser of module ids, \<^verbatim>\<open>Journal::guard\<close>,
  paged enumeration, the chain mock) and sleeping; and a test of what holds by the definition of
  a model type (a future polled once, a cloned liveness) is left out altogether.
\<close>

end
